(* ===== verification/Prelude.thy ===== *)
theory Prelude
  imports Complex_Main "HOL-Library.Multiset"
begin

text \<open>
  Shared ground of the development: the part of the ECMAScript standard library that the GUI
  sources call, as executable HOL functions, with the lemmas the component theories rest on.

  \<^item> Strings are lists of Latin-1 code units (\<open>char\<close>). White space, letter case and
    the splitting of lines agree with ECMAScript on that alphabet; code units above 255 are
    outside the model.
  \<^item> A plain object used as a dictionary (\<open>Record<string, T>\<close>) is an association
    list in insertion order: \<open>obj_get\<close>, \<open>obj_set\<close> (which keeps the position
    of a key that is present) and \<open>obj_del\<close> (the \<open>delete\<close> operator on a copy).
    Properties inherited from \<open>Object.prototype\<close> are outside the model.
  \<^item> Numbers are \<open>int\<close> where the code only counts, and \<open>rat\<close> where it divides;
    only numbers read from text are rounded to double precision (in \<open>Schema\<close>).
  \<^item> A promise that settles is a value of \<open>js_error + 'a\<close>: \<open>Inl\<close> is a rejection.
\<close>

named_theorems js_simps \<open>equations that evaluate the modelled standard library\<close>
named_theorems obj_simps \<open>laws of objects used as dictionaries\<close>

section \<open>Strings\<close>

definition is_js_space :: "char \<Rightarrow> bool" where
  "is_js_space c = (of_char c \<in> {9, 10, 11, 12, 13, 32, 160 :: nat})"

definition trim_start :: "string \<Rightarrow> string" where
  "trim_start s = dropWhile is_js_space s"

definition trim_end :: "string \<Rightarrow> string" where
  "trim_end s = rev (dropWhile is_js_space (rev s))"

definition trim :: "string \<Rightarrow> string" where
  "trim s = trim_end (trim_start s)"

definition lower_char :: "char \<Rightarrow> char" where
  "lower_char c = (let n = of_char c :: nat in
     if 65 \<le> n \<and> n \<le> 90 \<or> 192 \<le> n \<and> n \<le> 222 \<and> n \<noteq> 215 then char_of (n + 32) else c)"

definition to_lower :: "string \<Rightarrow> string" where
  "to_lower s = map lower_char s"

definition starts_with :: "string \<Rightarrow> string \<Rightarrow> bool" where
  "starts_with s p = (take (length p) s = p)"

definition ends_with :: "string \<Rightarrow> string \<Rightarrow> bool" where
  "ends_with s p = (length p \<le> length s \<and> drop (length s - length p) s = p)"

fun str_includes :: "string \<Rightarrow> string \<Rightarrow> bool" where
  "str_includes [] p = (p = [])"
| "str_includes (c # s) p = (starts_with (c # s) p \<or> str_includes s p)"

fun split_on :: "char \<Rightarrow> string \<Rightarrow> string list" where
  "split_on d [] = [[]]"
| "split_on d (c # s) =
     (if c = d then [] # split_on d s
      else case split_on d s of [] \<Rightarrow> [[c]] | w # ws \<Rightarrow> (c # w) # ws)"

fun join_with :: "string \<Rightarrow> string list \<Rightarrow> string" where
  "join_with sep [] = []"
| "join_with sep [s] = s"
| "join_with sep (s # t # ts) = s @ sep @ join_with sep (t # ts)"

definition newline :: char where "newline = CHR 0x0A"
definition carriage :: char where "carriage = CHR 0x0D"
definition tabulator :: char where "tabulator = CHR 0x09"

text \<open>\<open>split(/\r?\n/)\<close>: a carriage return right before a line feed belongs to the separator.\<close>

definition drop_cr :: "string \<Rightarrow> string" where
  "drop_cr l = (if l \<noteq> [] \<and> last l = carriage then butlast l else l)"

definition split_lines :: "string \<Rightarrow> string list" where
  "split_lines s = (let ls = split_on newline s in map drop_cr (butlast ls) @ [last ls])"

definition is_digit :: "char \<Rightarrow> bool" where
  "is_digit c = (48 \<le> (of_char c :: nat) \<and> (of_char c :: nat) \<le> 57)"

definition digit_val :: "char \<Rightarrow> nat" where
  "digit_val c = of_char c - 48"

fun show_nat :: "nat \<Rightarrow> string" where
  "show_nat n = (if n < 10 then [char_of (48 + n)] else show_nat (n div 10) @ [char_of (48 + n mod 10)])"

declare show_nat.simps [simp del]

definition show_int :: "int \<Rightarrow> string" where
  "show_int i = (if i < 0 then CHR ''-'' # show_nat (nat (- i)) else show_nat (nat i))"

definition read_nat :: "string \<Rightarrow> nat" where
  "read_nat s = foldl (\<lambda>n c. 10 * n + digit_val c) 0 s"

lemma dropWhile_idem [simp]: "dropWhile P (dropWhile P xs) = dropWhile P xs"
  by (induction xs) auto

lemma trim_end_idem [simp]: "trim_end (trim_end s) = trim_end s"
  by (simp add: trim_end_def)

lemma trim_start_idem [simp]: "trim_start (trim_start s) = trim_start s"
  by (simp add: trim_start_def)

lemma trim_start_head: "trim_start s = c # r \<Longrightarrow> \<not> is_js_space c"
  by (auto simp: trim_start_def dropWhile_eq_Cons_conv)

lemma trim_end_last: "trim_end s \<noteq> [] \<Longrightarrow> \<not> is_js_space (last (trim_end s))"
  by (auto simp: trim_end_def last_rev hd_dropWhile)

lemma trim_end_prefix: "\<exists>r. s = trim_end s @ r"
  unfolding trim_end_def
  by (metis rev_append rev_rev_ident takeWhile_dropWhile_id)

lemma trim_end_keeps_head:
  assumes "\<not> is_js_space c"
  shows "\<exists>r. trim_end (c # s) = c # r"
proof -
  have "dropWhile is_js_space (rev s @ [c]) = dropWhile is_js_space (rev s) @ [c]"
    using assms by (induction "rev s" arbitrary: s) (auto simp: dropWhile_append)
  then show ?thesis by (simp add: trim_end_def)
qed

lemma trim_idem [simp]: "trim (trim s) = trim s"
proof (cases "trim_start s")
  case Nil
  then have "trim s = []" by (simp add: trim_def trim_end_def)
  moreover have "trim [] = []" by (simp add: trim_def trim_start_def trim_end_def)
  ultimately show ?thesis by simp
next
  case (Cons c r)
  then have c: "\<not> is_js_space c" by (rule trim_start_head)
  with Cons obtain r' where "trim s = c # r'"
    unfolding trim_def using trim_end_keeps_head by metis
  moreover from this c have "trim_start (trim s) = trim s"
    by (simp add: trim_start_def)
  moreover have "trim_end (trim s) = trim s" by (simp add: trim_def)
  ultimately show ?thesis by (metis trim_def)
qed

lemma to_lower_length [simp]: "length (to_lower s) = length s"
  by (simp add: to_lower_def)

lemma to_lower_append [simp]: "to_lower (s @ t) = to_lower s @ to_lower t"
  by (simp add: to_lower_def)

lemma to_lower_Nil [simp]: "to_lower [] = []"
  by (simp add: to_lower_def)

lemma lower_char_idem [simp]: "lower_char (lower_char c) = lower_char c"
proof -
  have keep: "lower_char (char_of n) = (char_of n :: char)"
    if "97 \<le> n" "n \<le> 122 \<or> 224 \<le> n" "n < 256" for n :: nat
    using that by (auto simp: lower_char_def Let_def)
  show ?thesis
  proof (cases "65 \<le> (of_char c :: nat) \<and> of_char c \<le> (90 :: nat) \<or>
      192 \<le> (of_char c :: nat) \<and> of_char c \<le> (222 :: nat) \<and> of_char c \<noteq> (215 :: nat)")
    case True
    then have "lower_char c = char_of (of_char c + 32 :: nat)" by (simp add: lower_char_def Let_def)
    moreover from True have "lower_char (char_of (of_char c + 32 :: nat)) = char_of (of_char c + 32 :: nat)"
      by (intro keep) auto
    ultimately show ?thesis by simp
  next
    case False
    then have "lower_char c = c" unfolding lower_char_def Let_def by argo
    then show ?thesis by simp
  qed
qed

lemma to_lower_idem [simp]: "to_lower (to_lower s) = to_lower s"
  by (simp add: to_lower_def)

lemma starts_with_iff: "starts_with s p \<longleftrightarrow> (\<exists>r. s = p @ r)"
  unfolding starts_with_def by (metis append_eq_conv_conj append_take_drop_id)

lemma str_includes_iff: "str_includes s p \<longleftrightarrow> (\<exists>a b. s = a @ p @ b)"
proof (induction s p rule: str_includes.induct)
  case (1 p)
  then show ?case by auto
next
  case (2 c s p)
  have "(\<exists>a b. c # s = a @ p @ b) \<longleftrightarrow> (\<exists>b. c # s = p @ b) \<or> (\<exists>a b. s = a @ p @ b)"
    by (metis append_Cons append_Nil list.exhaust list.inject)
  with 2 show ?case by (simp add: starts_with_iff)
qed

lemma str_includes_Nil [simp]: "str_includes s []"
  unfolding str_includes_iff by (metis append_Nil)

lemma ends_with_iff: "ends_with s p \<longleftrightarrow> (\<exists>r. s = r @ p)"
  unfolding ends_with_def
  by (metis append_eq_append_conv append_take_drop_id diff_diff_cancel le_add2 length_append length_drop)

lemma split_on_nonempty [simp]: "split_on d s \<noteq> []"
  by (induction s) (auto split: list.splits)

lemma split_on_join: "join_with [d] (split_on d s) = s"
proof (induction s)
  case (Cons c s)
  obtain w ws where e: "split_on d s = w # ws"
    using split_on_nonempty list.exhaust by blast
  with Cons show ?case by (cases ws) auto
qed simp

lemma split_on_no_sep: "l \<in> set (split_on d s) \<Longrightarrow> d \<notin> set l"
  by (induction s arbitrary: l) (auto split: list.splits if_splits)


lemma split_on_word: "d \<notin> set w \<Longrightarrow> split_on d w = [w]"
  by (induction w) auto

lemma split_on_append_sep: "d \<notin> set w \<Longrightarrow> split_on d (w @ d # s) = w # split_on d s"
  by (induction w) auto

lemma split_join:
  "ls \<noteq> [] \<Longrightarrow> \<forall>l \<in> set ls. d \<notin> set l \<Longrightarrow> split_on d (join_with [d] ls) = ls"
proof (induction "[d]" ls rule: join_with.induct)
  case (3 s t ts)
  then show ?case by (simp add: split_on_append_sep)
qed (auto simp: split_on_word)

lemma drop_cr_id: "carriage \<notin> set l \<Longrightarrow> drop_cr l = l"
  by (metis drop_cr_def last_in_set)

lemma split_lines_join:
  assumes "ls \<noteq> []" and "\<forall>l \<in> set ls. newline \<notin> set l \<and> carriage \<notin> set l"
  shows "split_lines (join_with [newline] ls) = ls"
proof -
  have "split_on newline (join_with [newline] ls) = ls"
    using assms by (intro split_join) auto
  moreover have "map drop_cr (butlast ls) = butlast ls"
    using assms(2) by (intro map_idI) (auto dest: in_set_butlastD intro: drop_cr_id)
  ultimately show ?thesis using assms(1) by (simp add: split_lines_def)
qed

lemma trim_id: "s = [] \<or> \<not> is_js_space (hd s) \<and> \<not> is_js_space (last s) \<Longrightarrow> trim s = s"
proof -
  assume "s = [] \<or> \<not> is_js_space (hd s) \<and> \<not> is_js_space (last s)"
  then have "dropWhile is_js_space s = s" "dropWhile is_js_space (rev s) = rev s"
    by (auto simp: dropWhile_eq_self_iff hd_rev)
  then show ?thesis by (simp add: trim_def trim_start_def trim_end_def)
qed

lemma trim_no_space: "\<forall>c \<in> set s. \<not> is_js_space c \<Longrightarrow> trim s = s"
  by (rule trim_id) auto

lemma trim_subset: "set (trim s) \<subseteq> set s"
proof -
  have "set (trim_start t) \<subseteq> set t" "set (trim_end t) \<subseteq> set t" for t
    by (auto simp: trim_start_def trim_end_def dest: set_dropWhileD)
  then show ?thesis unfolding trim_def by blast
qed

subsection \<open>Numbers in template literals\<close>

lemma digit_of_char [simp]: "d < 10 \<Longrightarrow> digit_val (char_of (48 + d)) = d"
  by (simp add: digit_val_def)

lemma read_nat_snoc [simp]: "read_nat (s @ [c]) = 10 * read_nat s + digit_val c"
  by (simp add: read_nat_def)

lemma read_show_nat [simp]: "read_nat (show_nat n) = n"
proof (induction n rule: show_nat.induct)
  case (1 n)
  show ?case
  proof (cases "n < 10")
    case True
    then show ?thesis by (simp add: show_nat.simps read_nat_def)
  next
    case False
    with 1 have "read_nat (show_nat (n div 10)) = n div 10" by simp
    with False show ?thesis by (subst show_nat.simps) simp
  qed
qed

lemma show_nat_inject [simp]: "show_nat m = show_nat n \<longleftrightarrow> m = n"
  by (metis read_show_nat)

lemma show_nat_digits: "c \<in> set (show_nat n) \<Longrightarrow> is_digit c"
proof (induction n rule: show_nat.induct)
  case (1 n)
  then show ?case
    by (cases "n < 10") (auto simp: show_nat.simps[of n] is_digit_def)
qed

lemma show_nat_nonempty [simp]: "show_nat n \<noteq> []"
  by (subst show_nat.simps) simp

lemma show_int_inject [simp]: "show_int i = show_int j \<longleftrightarrow> i = j"
proof -
  have "CHR ''-'' \<notin> set (show_nat n)" for n
    using show_nat_digits[of "CHR ''-''" n] by (auto simp: is_digit_def)
  then have "show_nat n \<noteq> CHR ''-'' # r" for n r
    by (metis list.set_intros(1))
  then show ?thesis
    by (auto simp: show_int_def nat_eq_iff2 split: if_splits dest: sym)
qed

section \<open>Rejections and defaults\<close>

text \<open>
  The reason of a rejected promise: an \<open>Error\<close> object with a message, or any other value. The
  handlers show \<open>error instanceof Error ? error.message : "..."\<close>.
\<close>

datatype js_error = ErrorObject string | OtherReason string

definition error_text :: "string \<Rightarrow> js_error \<Rightarrow> string" where
  "error_text fallback e = (case e of ErrorObject m \<Rightarrow> m | OtherReason _ \<Rightarrow> fallback)"

text \<open>\<open>a || b\<close> on strings, and \<open>a ?? b\<close>.\<close>

definition str_or :: "string \<Rightarrow> string \<Rightarrow> string" where
  "str_or a b = (if a \<noteq> [] then a else b)"

definition nullish :: "'a option \<Rightarrow> 'a \<Rightarrow> 'a" where
  "nullish a b = (case a of Some x \<Rightarrow> x | None \<Rightarrow> b)"

lemma nullish_simps [simp]: "nullish (Some x) b = x" "nullish None b = b"
  by (simp_all add: nullish_def)

lemma str_or_simps [simp]: "str_or [] b = b" "a \<noteq> [] \<Longrightarrow> str_or a b = a"
  by (simp_all add: str_or_def)

section \<open>Arrays\<close>

text \<open>\<open>findIndex\<close> with \<open>None\<close> for \<open>-1\<close>, \<open>find\<close>, and \<open>Set\<close>-based filtering.\<close>

fun find_index :: "('a \<Rightarrow> bool) \<Rightarrow> 'a list \<Rightarrow> nat option" where
  "find_index P [] = None"
| "find_index P (x # xs) = (if P x then Some 0 else map_option Suc (find_index P xs))"

definition array_some :: "('a \<Rightarrow> bool) \<Rightarrow> 'a list \<Rightarrow> bool" where
  "array_some P xs = list_ex P xs"

definition nth_opt :: "'a list \<Rightarrow> nat \<Rightarrow> 'a option" where
  "nth_opt xs i = (if i < length xs then Some (xs ! i) else None)"

lemma find_index_None: "find_index P xs = None \<longleftrightarrow> (\<forall>x \<in> set xs. \<not> P x)"
  by (induction xs) auto

lemma find_index_Some:
  "find_index P xs = Some i \<Longrightarrow> i < length xs \<and> P (xs ! i) \<and> (\<forall>j < i. \<not> P (xs ! j))"
proof (induction xs arbitrary: i)
  case (Cons x xs)
  then show ?case
    by (cases i) (auto split: if_splits simp: less_Suc_eq_0_disj)
qed simp

lemma array_some_iff [simp]: "array_some P xs \<longleftrightarrow> (\<exists>x \<in> set xs. P x)"
  by (simp add: array_some_def list_ex_iff)

lemma nth_opt_Some: "nth_opt xs i = Some x \<Longrightarrow> x \<in> set xs"
  by (auto simp: nth_opt_def split: if_splits)

lemma find_SomeD: "List.find P xs = Some x \<Longrightarrow> P x \<and> x \<in> set xs"
  by (auto simp: find_Some_iff)

lemma find_NoneD: "List.find P xs = None \<Longrightarrow> x \<in> set xs \<Longrightarrow> \<not> P x"
  by (auto simp: find_None_iff)

lemma find_append:
  "List.find P (xs @ ys) = (case List.find P xs of Some x \<Rightarrow> Some x | None \<Rightarrow> List.find P ys)"
  by (induction xs) auto

text \<open>The elements of a list, each at its first position only.\<close>

fun first_occurrences :: "'a list \<Rightarrow> 'a list" where
  "first_occurrences [] = []"
| "first_occurrences (x # xs) = x # first_occurrences (filter (\<lambda>y. y \<noteq> x) xs)"

lemma filter_first_occurrences:
  "filter P (first_occurrences xs) = first_occurrences (filter P xs)"
proof (induction xs rule: first_occurrences.induct)
  case (2 x xs)
  have "\<not> P x \<Longrightarrow> filter P (filter (\<lambda>y. y \<noteq> x) xs) = filter P xs"
    by (simp only: filter_filter) (rule filter_cong, auto)
  moreover have "filter P (filter (\<lambda>y. y \<noteq> x) xs) = filter (\<lambda>y. y \<noteq> x) (filter P xs)"
    by (simp add: conj_commute)
  ultimately show ?case using 2 by auto
qed simp

lemma set_first_occurrences [simp]: "set (first_occurrences xs) = set xs"
  by (induction xs rule: first_occurrences.induct) auto

lemma distinct_first_occurrences [simp]: "distinct (first_occurrences xs)"
  by (induction xs rule: first_occurrences.induct) auto

lemma first_occurrences_absorb:
  "distinct xs \<Longrightarrow> set ys \<subseteq> set xs \<Longrightarrow> first_occurrences (xs @ ys) = xs"
proof (induction xs arbitrary: ys)
  case (Cons x xs)
  have "filter (\<lambda>y. y \<noteq> x) xs = xs" using Cons.prems(1) by (intro filter_True) auto
  with Cons.prems Cons.IH[of "filter (\<lambda>y. y \<noteq> x) ys"] show ?case by auto
qed simp

section \<open>Objects used as dictionaries\<close>

type_synonym 'a js_obj = "(string \<times> 'a) list"

definition obj_get :: "'a js_obj \<Rightarrow> string \<Rightarrow> 'a option" where
  "obj_get ob k = map_of ob k"

fun obj_set :: "string \<Rightarrow> 'a \<Rightarrow> 'a js_obj \<Rightarrow> 'a js_obj" where
  "obj_set k v [] = [(k, v)]"
| "obj_set k v (p # ob) = (if fst p = k then (k, v) # ob else p # obj_set k v ob)"

definition obj_del :: "string \<Rightarrow> 'a js_obj \<Rightarrow> 'a js_obj" where
  "obj_del k ob = filter (\<lambda>p. fst p \<noteq> k) ob"

definition obj_keys :: "'a js_obj \<Rightarrow> string list" where
  "obj_keys ob = map fst ob"

definition obj_ok :: "'a js_obj \<Rightarrow> bool" where
  "obj_ok ob = distinct (obj_keys ob)"

lemma obj_get_Nil [simp]: "obj_get [] k = None"
  by (simp add: obj_get_def)

lemma obj_get_set [simp, obj_simps]:
  "obj_get (obj_set k v ob) k' = (if k' = k then Some v else obj_get ob k')"
  by (induction ob) (auto simp: obj_get_def)

lemma obj_get_del [simp, obj_simps]:
  "obj_get (obj_del k ob) k' = (if k' = k then None else obj_get ob k')"
  by (induction ob) (auto simp: obj_get_def obj_del_def)

lemma obj_keys_set [obj_simps]: "set (obj_keys (obj_set k v ob)) = insert k (set (obj_keys ob))"
  by (induction ob) (auto simp: obj_keys_def)

lemma obj_ok_Nil [simp]: "obj_ok []"
  by (simp add: obj_ok_def obj_keys_def)

lemma obj_ok_set [simp, intro]: "obj_ok ob \<Longrightarrow> obj_ok (obj_set k v ob)"
proof (induction ob)
  case (Cons p ob)
  then show ?case
    using obj_keys_set[of k v ob] by (auto simp: obj_ok_def obj_keys_def)
qed (simp add: obj_ok_def obj_keys_def)

lemma obj_ok_del [simp, intro]: "obj_ok ob \<Longrightarrow> obj_ok (obj_del k ob)"
  by (auto simp: obj_ok_def obj_keys_def obj_del_def distinct_map inj_on_def)

lemma obj_get_None_iff: "obj_get ob k = None \<longleftrightarrow> k \<notin> set (obj_keys ob)"
  by (auto simp: obj_get_def obj_keys_def map_of_eq_None_iff)

end
