(* ===== verification/Ordering.thy ===== *)
theory Ordering
  imports Prelude
begin

text \<open>
  \<open>Array.prototype.sort\<close> with a comparator. For a comparator that is consistent in the sense
  of the language standard the result is determined: it is the permutation of the array that is
  sorted and keeps equal elements in their order. \<open>js_sort\<close> computes it by stable insertion.
  The locale states what a consistent comparator promises; sortedness is proved once, inside it.
\<close>

fun sort_insert :: "('a \<Rightarrow> 'a \<Rightarrow> rat) \<Rightarrow> 'a \<Rightarrow> 'a list \<Rightarrow> 'a list" where
  "sort_insert cmp x [] = [x]"
| "sort_insert cmp x (y # ys) = (if cmp x y \<le> 0 then x # y # ys else y # sort_insert cmp x ys)"

definition js_sort :: "('a \<Rightarrow> 'a \<Rightarrow> rat) \<Rightarrow> 'a list \<Rightarrow> 'a list" where
  "js_sort cmp xs = foldr (sort_insert cmp) xs []"

lemma js_sort_Nil [simp]: "js_sort cmp [] = []"
  by (simp add: js_sort_def)

lemma js_sort_Cons [simp]: "js_sort cmp (x # xs) = sort_insert cmp x (js_sort cmp xs)"
  by (simp add: js_sort_def)

lemma mset_sort_insert [simp]: "mset (sort_insert cmp x ys) = add_mset x (mset ys)"
  by (induction ys) auto

lemma mset_js_sort [simp]: "mset (js_sort cmp xs) = mset xs"
  by (induction xs) auto

lemma set_js_sort [simp]: "set (js_sort cmp xs) = set xs"
  by (metis mset_js_sort set_mset_mset)

lemma length_js_sort [simp]: "length (js_sort cmp xs) = length xs"
  by (metis mset_js_sort size_mset)

lemma distinct_js_sort [simp]: "distinct (js_sort cmp xs) = distinct xs"
  by (metis mset_js_sort mset_eq_imp_distinct_iff)

locale comparator =
  fixes cmp :: "'a \<Rightarrow> 'a \<Rightarrow> rat"
  assumes cmp_flip: "cmp x y \<le> 0 \<or> cmp y x \<le> 0"
    and cmp_trans: "cmp x y \<le> 0 \<Longrightarrow> cmp y z \<le> 0 \<Longrightarrow> cmp x z \<le> 0"
begin

lemma sort_insert_ordered:
  "sorted_wrt (\<lambda>x y. cmp x y \<le> 0) ys \<Longrightarrow> sorted_wrt (\<lambda>x y. cmp x y \<le> 0) (sort_insert cmp x ys)"
proof (induction ys)
  case (Cons y ys)
  have "set (sort_insert cmp x ys) = insert x (set ys)"
    by (metis mset_sort_insert set_mset_add_mset_insert set_mset_mset)
  with Cons show ?case using cmp_flip[of x y] by (auto intro: cmp_trans)
qed simp

lemma sort_ordered: "sorted_wrt (\<lambda>x y. cmp x y \<le> 0) (js_sort cmp xs)"
  by (induction xs) (auto intro: sort_insert_ordered)

lemma sort_insert_stable:
  assumes "P x \<Longrightarrow> \<forall>y \<in> set ys. P y \<longrightarrow> cmp x y \<le> 0"
  shows "filter P (sort_insert cmp x ys) = (if P x then x # filter P ys else filter P ys)"
  using assms by (induction ys) auto

lemma sort_stable_wrt:
  "sorted_wrt (\<lambda>x y. P x \<longrightarrow> P y \<longrightarrow> cmp x y \<le> 0) xs \<Longrightarrow> filter P (js_sort cmp xs) = filter P xs"
  by (induction xs) (auto simp: sort_insert_stable)

lemma sort_stable:
  assumes "\<And>x y. P x \<Longrightarrow> P y \<Longrightarrow> cmp x y \<le> 0"
  shows "filter P (js_sort cmp xs) = filter P xs"
  by (induction xs) (auto simp: sort_insert_stable assms)

end

text \<open>Comparing by a numeric key, ascending or descending.\<close>

definition key_cmp :: "('a \<Rightarrow> rat) \<Rightarrow> rat \<Rightarrow> 'a \<Rightarrow> 'a \<Rightarrow> rat" where
  "key_cmp key dir x y = (key x - key y) * dir"

interpretation key_cmp: comparator "key_cmp key dir" for key :: "'a \<Rightarrow> rat" and dir :: rat
proof unfold_locales
  fix x y z :: 'a
  show "key_cmp key dir x y \<le> 0 \<or> key_cmp key dir y x \<le> 0"
    by (simp add: key_cmp_def mult_le_0_iff) linarith
  show "key_cmp key dir x y \<le> 0 \<Longrightarrow> key_cmp key dir y z \<le> 0 \<Longrightarrow> key_cmp key dir x z \<le> 0"
    by (auto simp: key_cmp_def mult_le_0_iff)
qed

lemma sort_insert_cong:
  "(\<And>y. y \<in> set ys \<Longrightarrow> f x y = g x y) \<Longrightarrow> sort_insert f x ys = sort_insert g x ys"
  by (induction ys) auto

lemma js_sort_cong:
  assumes "\<And>x y. x \<in> set xs \<Longrightarrow> y \<in> set xs \<Longrightarrow> f x y = g x y"
  shows "js_sort f xs = js_sort g xs"
  using assms
proof (induction xs)
  case (Cons x xs)
  then have "js_sort f xs = js_sort g xs" by simp
  moreover have "sort_insert f x (js_sort g xs) = sort_insert g x (js_sort g xs)"
    by (rule sort_insert_cong) (simp add: Cons.prems)
  ultimately show ?case by simp
qed simp

end
