(* ===== verification/Dictionary.thy ===== *)
theory Dictionary
  imports Prelude
begin

text \<open>
  The contract of a dictionary as the components use it, stated once as a locale: reading after
  writing or deleting, and the representation invariant every write keeps. The lemmas inside the
  locale are what the component proofs need: a record built by \<open>reduce\<close> over an array holds
  the last entry written for a key, and writes to one key leave the entries of the others alone.
  The interpretation \<open>obj\<close> discharges the laws for the association lists that model plain
  objects.
\<close>

locale dictionary =
  fixes empty :: "'d"
    and get :: "'d \<Rightarrow> 'k \<Rightarrow> 'v option"
    and set_key :: "'k \<Rightarrow> 'v \<Rightarrow> 'd \<Rightarrow> 'd"
    and ok :: "'d \<Rightarrow> bool"
  assumes get_empty: "get empty k = None"
    and get_set_key: "get (set_key k v d) k' = (if k' = k then Some v else get d k')"
    and ok_empty: "ok empty"
    and ok_set_key: "ok d \<Longrightarrow> ok (set_key k v d)"
begin

lemma get_fold:
  "get (fold (\<lambda>x. set_key (key x) (val x)) xs d) k =
     (case List.find (\<lambda>x. key x = k) (rev xs) of Some x \<Rightarrow> Some (val x) | None \<Rightarrow> get d k)"
proof (induction xs arbitrary: d)
  case (Cons x xs)
  then show ?case
    by (auto simp: get_set_key find_append split: option.splits)
qed simp

lemma get_fold_None:
  "get (fold (\<lambda>x. set_key (key x) (val x)) xs empty) k = None \<longleftrightarrow> (\<forall>x \<in> set xs. key x \<noteq> k)"
proof (cases "List.find (\<lambda>x. key x = k) (rev xs)")
  case None
  then have "\<forall>x \<in> set xs. key x \<noteq> k" by (auto simp: find_None_iff)
  with None show ?thesis by (simp add: get_fold get_empty)
next
  case (Some x)
  then have "key x = k" "x \<in> set xs" by (auto dest: find_SomeD)
  with Some show ?thesis by (auto simp: get_fold)
qed

lemma get_fold_distinct:
  assumes "distinct (map key xs)" and "x \<in> set xs"
  shows "get (fold (\<lambda>x. set_key (key x) (val x)) xs d) (key x) = Some (val x)"
proof -
  obtain y where y: "List.find (\<lambda>z. key z = key x) (rev xs) = Some y"
    using assms(2) by (cases "List.find (\<lambda>z. key z = key x) (rev xs)") (auto simp: find_None_iff)
  then have "key y = key x" "y \<in> set xs" by (auto dest: find_SomeD)
  then have "y = x" using assms by (auto simp: distinct_map inj_on_def)
  with y show ?thesis by (simp add: get_fold)
qed

lemma ok_fold: "ok d \<Longrightarrow> ok (fold (\<lambda>x. set_key (key x) (val x)) xs d)"
  by (induction xs arbitrary: d) (auto intro: ok_set_key)

end

text \<open>A dictionary with deletion, as the handlers that remove a cluster use it.\<close>

locale deletable_dictionary = dictionary empty get set_key ok
  for empty :: "'d" and get :: "'d \<Rightarrow> 'k \<Rightarrow> 'v option"
    and set_key :: "'k \<Rightarrow> 'v \<Rightarrow> 'd \<Rightarrow> 'd" and ok :: "'d \<Rightarrow> bool" +
  fixes del_key :: "'k \<Rightarrow> 'd \<Rightarrow> 'd"
  assumes get_del_key: "get (del_key k d) k' = (if k' = k then None else get d k')"
    and ok_del_key: "ok d \<Longrightarrow> ok (del_key k d)"
begin

lemma get_set_del: "get (set_key k v (del_key k d)) k' = get (set_key k v d) k'"
  by (simp add: get_set_key get_del_key)

lemma get_del_set: "get (del_key k (set_key k v d)) k' = get (del_key k d) k'"
  by (simp add: get_set_key get_del_key)

end

section \<open>Plain objects\<close>

definition obj_build :: "('a \<Rightarrow> string) \<Rightarrow> ('a \<Rightarrow> 'b) \<Rightarrow> 'a list \<Rightarrow> 'b js_obj" where
  "obj_build key val xs = fold (\<lambda>x. obj_set (key x) (val x)) xs []"

interpretation obj: deletable_dictionary "[]" obj_get obj_set obj_ok obj_del
  by unfold_locales auto

lemma obj_get_build:
  "obj_get (obj_build key val xs) k =
     (case List.find (\<lambda>x. key x = k) (rev xs) of Some x \<Rightarrow> Some (val x) | None \<Rightarrow> None)"
  unfolding obj_build_def by (simp add: obj.get_fold cong: option.case_cong)

lemma obj_get_build_None [simp]:
  "obj_get (obj_build key val xs) k = None \<longleftrightarrow> (\<forall>x \<in> set xs. key x \<noteq> k)"
  unfolding obj_build_def by (rule obj.get_fold_None)

lemma obj_get_build_distinct:
  "distinct (map key xs) \<Longrightarrow> x \<in> set xs \<Longrightarrow> obj_get (obj_build key val xs) (key x) = Some (val x)"
  unfolding obj_build_def by (rule obj.get_fold_distinct)

lemma obj_ok_build [simp]: "obj_ok (obj_build key val xs)"
  unfolding obj_build_def by (rule obj.ok_fold) simp

end
