(* ===== verification/AppUtils.thy ===== *)
theory AppUtils
  imports Dictionary
begin

text \<open>
  The stateless helpers of the GUI, \<open>modules/app/utils.ts\<close>: relative times, the merging of
  control-plane URLs, the scan of a connection YAML for the user id, and the splitting of
  argument lists; and the constants of \<open>modules/app/constants.ts\<close> the other theories use.
  The platform's \<open>Date.parse\<close> and \<open>Intl.RelativeTimeFormat\<close> are arguments.
\<close>

section \<open>Constants\<close>

definition SETUP_TAB_ID :: string where "SETUP_TAB_ID = ''app:setup-guide''"
definition SETUP_KIND :: string where "SETUP_KIND = ''SetupGuide''"
definition SETTINGS_TAB_ID :: string where "SETTINGS_TAB_ID = ''app:settings''"
definition SETTINGS_KIND :: string where "SETTINGS_KIND = ''Settings''"

definition DEFAULT_CONTROL_PLANE_ARGS :: string where
  "DEFAULT_CONTROL_PLANE_ARGS = join_with [newline]
     [''--node-id'', ''cp-local'', ''--data-dir'', ''/tmp/xenage/cp-local'', ''--endpoint'',
      ''http://127.0.0.1:8734'', ''serve'', ''--host'', ''127.0.0.1'', ''--port'', ''8734'']"

definition DEFAULT_RUNTIME_ARGS :: string where
  "DEFAULT_RUNTIME_ARGS = join_with [newline]
     [''--node-id'', ''rt-local'', ''--data-dir'', ''/tmp/xenage/rt-local'', ''serve'']"

definition DEFAULT_GUI_CONNECTION_YAML :: string where
  "DEFAULT_GUI_CONNECTION_YAML = join_with [newline]
     [''apiVersion: xenage.io/v1alpha1'',
      ''kind: ClusterConnection'',
      ''metadata:'',
      ''  name: demo-admin'',
      ''spec:'',
      ''  clusterName: demo'',
      ''  controlPlaneUrls:'',
      ''    - http://127.0.0.1:8734'',
      ''  user:'',
      ''    id: admin'',
      ''    role: admin'',
      ''    publicKey: REPLACE_WITH_GENERATED_PUBLIC_KEY'',
      ''    privateKey: REPLACE_WITH_GENERATED_PRIVATE_KEY'']"

lemma tab_ids_distinct [simp]: "SETUP_TAB_ID \<noteq> SETTINGS_TAB_ID" "SETTINGS_TAB_ID \<noteq> SETUP_TAB_ID"
  by (simp_all add: SETUP_TAB_ID_def SETTINGS_TAB_ID_def)

section \<open>Relative times\<close>

definition SECOND_MS :: int where "SECOND_MS = 1000"
definition MINUTE_MS :: int where "MINUTE_MS = 60 * SECOND_MS"
definition HOUR_MS :: int where "HOUR_MS = 60 * MINUTE_MS"
definition DAY_MS :: int where "DAY_MS = 24 * HOUR_MS"

lemmas ms_defs = SECOND_MS_def MINUTE_MS_def HOUR_MS_def DAY_MS_def

text \<open>\<open>Math.round(a / b)\<close> rounds half towards plus infinity.\<close>

definition round_div :: "int \<Rightarrow> int \<Rightarrow> int" where
  "round_div a b = (2 * a + b) div (2 * b)"

definition formatTimeAgo ::
  "(string \<Rightarrow> int option) \<Rightarrow> (int \<Rightarrow> string \<Rightarrow> string) \<Rightarrow> string \<Rightarrow> int \<Rightarrow> string" where
  "formatTimeAgo date_parse relative_format rawTimestamp now =
     (let timestamp = trim rawTimestamp in
      if timestamp = [] then ''-''
      else case date_parse timestamp of
        None \<Rightarrow> ''-''
      | Some parsed \<Rightarrow>
          let diff = parsed - now; absDiff = \<bar>diff\<bar> in
          if absDiff < 5 * SECOND_MS then ''just now''
          else if absDiff < MINUTE_MS then relative_format (round_div diff SECOND_MS) ''second''
          else if absDiff < HOUR_MS then relative_format (round_div diff MINUTE_MS) ''minute''
          else if absDiff < DAY_MS then relative_format (round_div diff HOUR_MS) ''hour''
          else relative_format (round_div diff DAY_MS) ''day'')"

section \<open>Control-plane URLs\<close>

definition strip_slashes :: "string \<Rightarrow> string" where
  "strip_slashes s = rev (dropWhile (\<lambda>c. c = CHR ''/'') (rev s))"

definition normalizeUrl :: "string \<Rightarrow> string" where
  "normalizeUrl rawUrl = strip_slashes (trim rawUrl)"

fun uniqueUrlsLoop :: "string list \<Rightarrow> string set \<Rightarrow> string list \<Rightarrow> string list" where
  "uniqueUrlsLoop [] seen merged = merged"
| "uniqueUrlsLoop (rawUrl # urls) seen merged =
     (let normalized = normalizeUrl rawUrl in
      if normalized = [] \<or> normalized \<in> seen then uniqueUrlsLoop urls seen merged
      else uniqueUrlsLoop urls (insert normalized seen) (merged @ [normalized]))"

definition uniqueControlPlaneUrls :: "string list \<Rightarrow> string list" where
  "uniqueControlPlaneUrls urls = uniqueUrlsLoop urls {} []"

section \<open>The user id of a connection YAML\<close>

record yaml_scan =
  inSpec :: bool
  specIndent :: int
  inUser :: bool
  userIndent :: int

definition yaml_scan_init :: yaml_scan where
  "yaml_scan_init = \<lparr>inSpec = False, specIndent = -1, inUser = False, userIndent = -1\<rparr>"

definition expand_tabs :: "string \<Rightarrow> string" where
  "expand_tabs s = concat (map (\<lambda>c. if c = tabulator then ''  '' else [c]) s)"

text \<open>
  \<open>/^id\s*:\s*(.+)\s*$/\<close> on a trimmed line: the captured group is what follows the colon and
  the white space after it; it is not empty and holds no line terminator.
\<close>

definition match_id :: "string \<Rightarrow> string option" where
  "match_id trimmed =
     (if starts_with trimmed ''id'' then
        (case trim_start (drop 2 trimmed) of
          [] \<Rightarrow> None
        | c # rest \<Rightarrow>
            if c = CHR '':'' then
              (let v = trim_start rest in
               if v \<noteq> [] \<and> newline \<notin> set v \<and> carriage \<notin> set v then Some v else None)
            else None)
      else None)"

definition is_quote :: "char \<Rightarrow> bool" where
  "is_quote c = (c = CHR 0x27 \<or> c = CHR 0x22)"

definition unquote :: "string \<Rightarrow> string" where
  "unquote s =
     (let s1 = (if s \<noteq> [] \<and> is_quote (hd s) then tl s else s) in
      if s1 \<noteq> [] \<and> is_quote (last s1) then butlast s1 else s1)"

fun scanUserId :: "string list \<Rightarrow> yaml_scan \<Rightarrow> string option" where
  "scanUserId [] st = None"
| "scanUserId (rawLine # lines) st =
     (let line = expand_tabs rawLine; trimmed = trim line in
      if trimmed = [] \<or> starts_with trimmed ''#'' then scanUserId lines st
      else
        let indent = int (length line) - int (length (trim_start line));
            st1 = (if inUser st \<and> indent \<le> userIndent st then st\<lparr>inUser := False\<rparr> else st);
            st2 = (if inSpec st1 \<and> indent \<le> specIndent st1
                   then st1\<lparr>inSpec := False, inUser := False\<rparr> else st1) in
        if \<not> inSpec st2 \<and> trimmed = ''spec:''
        then scanUserId lines (st2\<lparr>inSpec := True, specIndent := indent\<rparr>)
        else if inSpec st2 \<and> \<not> inUser st2 \<and> trimmed = ''user:''
        then scanUserId lines (st2\<lparr>inUser := True, userIndent := indent\<rparr>)
        else if \<not> inUser st2 then scanUserId lines st2
        else case match_id trimmed of
            None \<Rightarrow> scanUserId lines st2
          | Some g \<Rightarrow> let value = unquote (trim g) in if value \<noteq> [] then Some value else None)"

definition extractClusterUserId :: "string \<Rightarrow> string option" where
  "extractClusterUserId configYaml = scanUserId (split_lines configYaml) yaml_scan_init"

section \<open>Argument lists\<close>

definition parseArgsList :: "string \<Rightarrow> string list" where
  "parseArgsList raw = filter (\<lambda>l. l \<noteq> []) (map trim (split_on newline raw))"

section \<open>Correctness\<close>

lemma round_div_near:
  assumes "0 < b"
  shows "2 * a - b < 2 * (b * round_div a b) \<and> 2 * (b * round_div a b) \<le> 2 * a + b"
proof -
  have "2 * b * ((2 * a + b) div (2 * b)) + (2 * a + b) mod (2 * b) = 2 * a + b" by simp
  moreover have "0 \<le> (2 * a + b) mod (2 * b)" "(2 * a + b) mod (2 * b) < 2 * b"
    using assms by simp_all
  ultimately show ?thesis unfolding round_div_def by (simp add: algebra_simps)
qed

definition time_units :: "(string \<times> int) list" where
  "time_units = [(''second'', SECOND_MS), (''minute'', MINUTE_MS), (''hour'', HOUR_MS), (''day'', DAY_MS)]"

lemma round_div_accurate:
  assumes "0 < b"
  shows "2 * \<bar>round_div a b * b - a\<bar> \<le> b"
  using round_div_near[OF assms, of a] by (simp add: abs_if algebra_simps)

lemma round_div_at_least:
  assumes "0 < b" and "k * b \<le> \<bar>a\<bar>" and "0 < k"
  shows "k \<le> \<bar>round_div a b\<bar> \<and> (0 < round_div a b \<longleftrightarrow> 0 < a)"
proof (cases "0 \<le> a")
  case True
  have "k \<le> round_div a b"
  proof (rule ccontr)
    assume "\<not> k \<le> round_div a b"
    then have "b * round_div a b \<le> b * (k - 1)" using assms(1) by simp
    with True assms round_div_near[OF assms(1), of a] show False by (simp add: algebra_simps)
  qed
  moreover have "0 < a"
  proof -
    have "0 < k * b" using assms(1,3) by simp
    with True assms(2) show ?thesis by linarith
  qed
  ultimately show ?thesis using assms(3) by simp
next
  case False
  have "round_div a b \<le> - k"
  proof (rule ccontr)
    assume "\<not> round_div a b \<le> - k"
    then have "b * (1 - k) \<le> b * round_div a b" using assms(1) by simp
    with False assms round_div_near[OF assms(1), of a] show False by (simp add: algebra_simps)
  qed
  with False assms(3) show ?thesis by simp
qed

lemma round_div_at_most:
  assumes "0 < b" and "\<bar>a\<bar> \<le> k * b"
  shows "\<bar>round_div a b\<bar> \<le> k"
proof (rule ccontr)
  assume *: "\<not> \<bar>round_div a b\<bar> \<le> k"
  consider "k + 1 \<le> round_div a b" | "round_div a b \<le> - k - 1" using * by linarith
  then show False
  proof cases
    case 1
    then have "b * (k + 1) \<le> b * round_div a b" using assms(1) by simp
    with assms round_div_near[OF assms(1), of a] show False by (simp add: algebra_simps abs_if split: if_splits)
  next
    case 2
    then have "b * round_div a b \<le> b * (- k - 1)" using assms(1) by (metis mult_left_mono less_imp_le)
    with assms round_div_near[OF assms(1), of a] show False by (simp add: algebra_simps abs_if split: if_splits)
  qed
qed

text \<open>Which unit a difference falls into, and the number that is printed with it.\<close>

lemma formatTimeAgo_unit:
  assumes "trim raw \<noteq> []" and "date_parse (trim raw) = Some p" and "5 * SECOND_MS \<le> \<bar>p - now\<bar>"
  shows "\<exists>u b k. (u, b) \<in> set time_units \<and> 0 < b \<and> 0 < k \<and> k * b \<le> \<bar>p - now\<bar> \<and>
    (u \<noteq> ''day'' \<longrightarrow> \<bar>p - now\<bar> \<le> 60 * b) \<and>
    formatTimeAgo date_parse fmt raw now = fmt (round_div (p - now) b) u"
proof -
  let ?d = "\<bar>p - now\<bar>"
  consider "?d < MINUTE_MS" | "MINUTE_MS \<le> ?d" "?d < HOUR_MS" | "HOUR_MS \<le> ?d" "?d < DAY_MS" | "DAY_MS \<le> ?d"
    by linarith
  then show ?thesis
  proof cases
    case 1
    with assms show ?thesis
      by (intro exI[of _ "''second''"] exI[of _ SECOND_MS] exI[of _ 5])
        (auto simp: formatTimeAgo_def Let_def time_units_def ms_defs)
  next
    case 2
    with assms show ?thesis
      by (intro exI[of _ "''minute''"] exI[of _ MINUTE_MS] exI[of _ 1])
        (auto simp: formatTimeAgo_def Let_def time_units_def ms_defs)
  next
    case 3
    with assms show ?thesis
      by (intro exI[of _ "''hour''"] exI[of _ HOUR_MS] exI[of _ 1])
        (auto simp: formatTimeAgo_def Let_def time_units_def ms_defs)
  next
    case 4
    with assms show ?thesis
      by (intro exI[of _ "''day''"] exI[of _ DAY_MS] exI[of _ 1])
        (auto simp: formatTimeAgo_def Let_def time_units_def ms_defs)
  qed
qed

text \<open>A time that lies at least five seconds off is printed as a whole number of seconds,
  minutes, hours or days that is within half a unit of the exact difference, is never zero,
  has the sign of the difference (past or future), and is at most 60 in every unit but days.\<close>

theorem formatTimeAgo_accurate:
  assumes "trim raw \<noteq> []" and "date_parse (trim raw) = Some p" and "5 * SECOND_MS \<le> \<bar>p - now\<bar>"
  shows "\<exists>n u b. formatTimeAgo date_parse fmt raw now = fmt n u \<and> (u, b) \<in> set time_units \<and>
    2 * \<bar>n * b - (p - now)\<bar> \<le> b \<and> n \<noteq> 0 \<and> (0 < n \<longleftrightarrow> now < p) \<and> (u = ''day'' \<or> \<bar>n\<bar> \<le> 60)"
proof -
  obtain u b k where u: "(u, b) \<in> set time_units" "0 < b" "0 < k" "k * b \<le> \<bar>p - now\<bar>"
      "u \<noteq> ''day'' \<longrightarrow> \<bar>p - now\<bar> \<le> 60 * b"
      "formatTimeAgo date_parse fmt raw now = fmt (round_div (p - now) b) u"
    using formatTimeAgo_unit[of raw date_parse p now fmt, OF assms] by blast
  have "u = ''day'' \<or> \<bar>round_div (p - now) b\<bar> \<le> 60"
    using round_div_at_most[OF u(2), of "p - now" 60] u(5) by blast
  with u round_div_accurate[OF u(2), of "p - now"] round_div_at_least[OF u(2,4,3)]
  show ?thesis by (intro exI[of _ "round_div (p - now) b"] exI[of _ u] exI[of _ b]) auto
qed

theorem formatTimeAgo_accurate_witness:
  "\<exists>n u b. formatTimeAgo (\<lambda>s. if s = ''t'' then Some 59500 else None) (\<lambda>n u. show_int n @ u) '' t '' 0
      = show_int n @ u \<and> (u, b) \<in> set time_units \<and>
    2 * \<bar>n * b - 59500\<bar> \<le> b \<and> n \<noteq> 0 \<and> (0 < n \<longleftrightarrow> (0::int) < 59500) \<and> (u = ''day'' \<or> \<bar>n\<bar> \<le> 60)"
proof -
  have t: "trim '' t '' = ''t''"
    by (simp add: trim_def trim_start_def trim_end_def is_js_space_def)
  show ?thesis
    using formatTimeAgo_accurate[of "'' t ''" "\<lambda>s. if s = ''t'' then Some 59500 else None" 59500 0
        "\<lambda>n u. show_int n @ u"] t
    by (simp add: ms_defs)
qed


subsection \<open>URLs\<close>

lemma uniqueUrlsLoop_spec:
  "uniqueUrlsLoop urls (set m) m =
     m @ first_occurrences (filter (\<lambda>u. u \<notin> set m) (filter (\<lambda>u. u \<noteq> []) (map normalizeUrl urls)))"
proof (induction urls arbitrary: m)
  case (Cons u urls)
  show ?case
  proof (cases "normalizeUrl u = [] \<or> normalizeUrl u \<in> set m")
    case True
    with Cons show ?thesis by (auto simp: Let_def)
  next
    case False
    have "uniqueUrlsLoop (u # urls) (set m) m = uniqueUrlsLoop urls (set (m @ [normalizeUrl u])) (m @ [normalizeUrl u])"
      using False by (simp add: Let_def)
    moreover have eq: "filter (\<lambda>v. v \<noteq> normalizeUrl u) (filter (\<lambda>v. v \<notin> set m) L) =
        filter (\<lambda>v. v \<notin> set (m @ [normalizeUrl u])) L" for L
      by (induction L) auto
    ultimately show ?thesis
      using Cons.IH[of "m @ [normalizeUrl u]"] False by (simp add: eq Let_def del: filter_filter)
  qed
qed simp

text \<open>Merging control-plane URLs keeps exactly the first occurrence of every non-blank
  normalised URL, in the order of the input: no URL is lost, none appears twice, none is blank.\<close>

theorem uniqueControlPlaneUrls_spec:
  "uniqueControlPlaneUrls urls = first_occurrences (filter (\<lambda>u. u \<noteq> []) (map normalizeUrl urls))
   \<and> distinct (uniqueControlPlaneUrls urls)
   \<and> set (uniqueControlPlaneUrls urls) = normalizeUrl ` set urls - {[]}"
  using uniqueUrlsLoop_spec[of urls "[]"] by (auto simp: uniqueControlPlaneUrls_def)

lemma strip_slashes_end: "strip_slashes s = [] \<or> last (strip_slashes s) \<noteq> CHR ''/''"
  using hd_dropWhile[of "\<lambda>c. c = CHR ''/''" "rev s"] by (auto simp: strip_slashes_def last_rev)

lemma strip_slashes_id: "s = [] \<or> last s \<noteq> CHR ''/'' \<Longrightarrow> strip_slashes s = s"
proof -
  assume "s = [] \<or> last s \<noteq> CHR ''/''"
  then have "dropWhile (\<lambda>c. c = CHR ''/'') (rev s) = rev s"
    by (auto simp: dropWhile_eq_self_iff hd_rev)
  then show ?thesis by (simp add: strip_slashes_def)
qed

lemma strip_slashes_subset: "set (strip_slashes s) \<subseteq> set s"
  by (auto simp: strip_slashes_def dest: set_dropWhileD)

lemma normalizeUrl_idem:
  assumes "\<forall>c \<in> set u. \<not> is_js_space c"
  shows "normalizeUrl (normalizeUrl u) = normalizeUrl u"
proof -
  have "trim (normalizeUrl u) = normalizeUrl u"
    using assms strip_slashes_subset[of "trim u"] trim_subset[of u]
    by (intro trim_no_space) (auto simp: normalizeUrl_def)
  then show ?thesis
    using strip_slashes_end[of "trim u"] by (simp add: normalizeUrl_def strip_slashes_id)
qed

text \<open>Synchronising twice changes nothing: on URLs without white space inside, merging the
  merged list again returns it unchanged, also together with any of the URLs it came from.\<close>

theorem uniqueControlPlaneUrls_stable:
  assumes "\<forall>u \<in> set urls. \<forall>c \<in> set u. \<not> is_js_space c" and "set extra \<subseteq> set urls"
  shows "uniqueControlPlaneUrls (uniqueControlPlaneUrls urls @ extra) = uniqueControlPlaneUrls urls"
proof -
  let ?m = "uniqueControlPlaneUrls urls"
  have spec: "distinct ?m" "set ?m = normalizeUrl ` set urls - {[]}"
    using uniqueUrlsLoop_spec[of urls "[]"] by (auto simp: uniqueControlPlaneUrls_def)
  have id: "map normalizeUrl ?m = ?m"
    using spec(2) assms(1) by (intro map_idI) (auto intro: normalizeUrl_idem)
  have "uniqueControlPlaneUrls (?m @ extra) =
      first_occurrences (?m @ filter (\<lambda>u. u \<noteq> []) (map normalizeUrl extra))"
    using uniqueUrlsLoop_spec[of "?m @ extra" "[]"] id spec(2)
    by (simp add: uniqueControlPlaneUrls_def)
  moreover have "set (filter (\<lambda>u. u \<noteq> []) (map normalizeUrl extra)) \<subseteq> set ?m"
    using spec(2) assms(2) by auto
  ultimately show ?thesis using spec(1) by (simp add: first_occurrences_absorb)
qed

theorem uniqueControlPlaneUrls_stable_witness:
  "uniqueControlPlaneUrls (uniqueControlPlaneUrls [''http://a/'', ''http://b'', ''http://a''] @ [''http://b''])
     = uniqueControlPlaneUrls [''http://a/'', ''http://b'', ''http://a'']"
  by (rule uniqueControlPlaneUrls_stable) (auto simp: is_js_space_def)


subsection \<open>Argument lists\<close>

text \<open>The argument editor is a faithful round trip: a list of arguments that are not blank,
  carry no line break and no white space at their ends comes back unchanged from its
  one-token-per-line text; and whatever text is parsed, every argument is trimmed and not blank.\<close>

theorem parseArgsList_roundtrip:
  assumes "\<forall>a \<in> set args. a \<noteq> [] \<and> trim a = a \<and> newline \<notin> set a"
  shows "parseArgsList (join_with [newline] args) = args \<and>
    (\<forall>a \<in> set (parseArgsList raw). a \<noteq> [] \<and> trim a = a \<and> newline \<notin> set a)"
proof
  have m: "map trim args = args" using assms by (intro map_idI) auto
  show "parseArgsList (join_with [newline] args) = args"
  proof (cases "args = []")
    case True
    have "trim [] = []" by (rule trim_id) simp
    with True show ?thesis by (simp add: parseArgsList_def)
  next
    case False
    then have "split_on newline (join_with [newline] args) = args"
      using assms by (intro split_join) auto
    with m assms show ?thesis by (simp add: parseArgsList_def filter_id_conv)
  qed
  show "\<forall>a \<in> set (parseArgsList raw). a \<noteq> [] \<and> trim a = a \<and> newline \<notin> set a"
    using split_on_no_sep trim_subset by (fastforce simp: parseArgsList_def)
qed

theorem parseArgsList_roundtrip_witness:
  "parseArgsList (join_with [newline] [''serve'', ''--port'', ''8734'']) = [''serve'', ''--port'', ''8734'']"
  by (rule parseArgsList_roundtrip [THEN conjunct1])
     (auto simp: newline_def is_js_space_def intro!: trim_no_space)

subsection \<open>The user id\<close>

definition yaml_line :: "nat \<Rightarrow> string \<Rightarrow> string" where
  "yaml_line n body = replicate n CHR '' '' @ body"

definition printable :: "string \<Rightarrow> bool" where
  "printable s = (s \<noteq> [] \<and> (\<forall>c \<in> set s. \<not> is_js_space c))"

definition body_ok :: "string \<Rightarrow> bool" where
  "body_ok b = (b \<noteq> [] \<and> \<not> is_js_space (hd b) \<and> \<not> is_js_space (last b) \<and> tabulator \<notin> set b \<and> hd b \<noteq> CHR ''#'')"

lemma tab_space [simp]: "is_js_space tabulator" "is_js_space newline" "is_js_space carriage" "is_js_space CHR '' ''"
  by (simp_all add: is_js_space_def tabulator_def newline_def carriage_def)

lemma body_ok_append:
  "body_ok p \<Longrightarrow> printable v \<Longrightarrow> body_ok (p @ CHR '' '' # v)"
  by (auto simp: body_ok_def printable_def dest: hd_in_set last_in_set)
     (auto simp: tabulator_def)

lemma expand_tabs_id: "tabulator \<notin> set l \<Longrightarrow> expand_tabs l = l"
  by (induction l) (auto simp: expand_tabs_def)

lemma dropWhile_spaces: "dropWhile is_js_space (replicate n CHR '' '' @ b) = dropWhile is_js_space b"
  by (induction n) auto

lemma yaml_line_scan:
  assumes "body_ok b"
  shows "expand_tabs (yaml_line n b) = yaml_line n b" and "trim (yaml_line n b) = b"
    and "length (yaml_line n b) = n + length b" and "length (trim_start (yaml_line n b)) = length b"
proof -
  have st: "trim_start (yaml_line n b) = b"
    using assms by (cases b) (auto simp: trim_start_def yaml_line_def dropWhile_spaces body_ok_def)
  have "trim b = b" "trim_start b = b"
    using assms by (auto simp: body_ok_def trim_start_def dropWhile_eq_self_iff intro!: trim_id)
  then show "trim (yaml_line n b) = b" by (metis st trim_def)
  show "expand_tabs (yaml_line n b) = yaml_line n b"
    using assms by (intro expand_tabs_id) (auto simp: body_ok_def yaml_line_def tabulator_def)
  show "length (trim_start (yaml_line n b)) = length b" by (simp add: st)
qed (simp add: yaml_line_def)

lemma starts_hash: "body_ok b \<Longrightarrow> \<not> starts_with b ''#''"
  by (cases b) (auto simp: body_ok_def starts_with_def)

lemma scan_line:
  assumes "body_ok b"
  shows "scanUserId (yaml_line n b # ls) st =
     (let st1 = (if inUser st \<and> int n \<le> userIndent st then st\<lparr>inUser := False\<rparr> else st);
          st2 = (if inSpec st1 \<and> int n \<le> specIndent st1 then st1\<lparr>inSpec := False, inUser := False\<rparr> else st1) in
      if \<not> inSpec st2 \<and> b = ''spec:'' then scanUserId ls (st2\<lparr>inSpec := True, specIndent := int n\<rparr>)
      else if inSpec st2 \<and> \<not> inUser st2 \<and> b = ''user:'' then scanUserId ls (st2\<lparr>inUser := True, userIndent := int n\<rparr>)
      else if \<not> inUser st2 then scanUserId ls st2
      else case match_id b of None \<Rightarrow> scanUserId ls st2
        | Some g \<Rightarrow> let value = unquote (trim g) in if value \<noteq> [] then Some value else None)"
proof -
  have ne: "b \<noteq> []" using assms by (simp add: body_ok_def)
  show ?thesis
    by (simp only: scanUserId.simps Let_def yaml_line_scan[OF assms]) (simp add: starts_hash[OF assms] ne)
qed

lemma match_id_line: "printable v \<Longrightarrow> match_id (''id: '' @ v) = Some v"
  by (cases v) (auto simp: match_id_def printable_def starts_with_def trim_start_def is_js_space_def[of "CHR '':''"] Let_def)

lemma unquote_id: "v \<noteq> [] \<Longrightarrow> \<not> is_quote (hd v) \<Longrightarrow> \<not> is_quote (last v) \<Longrightarrow> unquote v = v"
  by (simp add: unquote_def)

lemma scan_urls:
  assumes "inSpec st" "specIndent st = 0" "\<not> inUser st" "\<forall>u \<in> set urls. printable u"
  shows "scanUserId (map (\<lambda>u. yaml_line 4 (''-'' @ CHR '' '' # u)) urls @ ls) st = scanUserId ls st"
  using assms(4)
proof (induction urls)
  case (Cons u urls)
  have "body_ok (''-'' @ CHR '' '' # u)"
    using Cons.prems by (intro body_ok_append) (auto simp: body_ok_def is_js_space_def tabulator_def)
  from scan_line[OF this] Cons assms show ?case by (simp add: Let_def)
qed simp

text \<open>A connection YAML of the shape of the default one, with the given values.\<close>

definition connection_lines ::
  "string \<Rightarrow> string \<Rightarrow> string list \<Rightarrow> string \<Rightarrow> string list \<Rightarrow> string list" where
  "connection_lines name clusterName urls userId rest =
     [''apiVersion: xenage.io/v1alpha1'', ''kind: ClusterConnection'', ''metadata:'',
      yaml_line 2 (''name:'' @ CHR '' '' # name), ''spec:'',
      yaml_line 2 (''clusterName:'' @ CHR '' '' # clusterName), yaml_line 2 ''controlPlaneUrls:'']
     @ map (\<lambda>u. yaml_line 4 (''-'' @ CHR '' '' # u)) urls
     @ [yaml_line 2 ''user:'', yaml_line 4 (''id:'' @ CHR '' '' # userId)] @ rest"

lemma connection_lines_scan:
  assumes "printable name" "printable clusterName" "\<forall>u \<in> set urls. printable u" "printable userId"
    and "\<not> is_quote (hd userId)" "\<not> is_quote (last userId)"
  shows "scanUserId (connection_lines name clusterName urls userId rest) yaml_scan_init = Some userId"
proof -
  have l0: "l = yaml_line 0 l" for l by (simp add: yaml_line_def)
  have ok: "body_ok ''apiVersion: xenage.io/v1alpha1''" "body_ok ''kind: ClusterConnection''" "body_ok ''metadata:''"
    "body_ok ''spec:''" "body_ok ''user:''" "body_ok ''controlPlaneUrls:''"
    "body_ok ''name:''" "body_ok ''clusterName:''" "body_ok ''id:''"
    by (simp_all add: body_ok_def is_js_space_def tabulator_def)
  have oks: "body_ok (''name:'' @ CHR '' '' # name)" "body_ok (''clusterName:'' @ CHR '' '' # clusterName)"
    "body_ok (''id:'' @ CHR '' '' # userId)"
    by (intro body_ok_append ok assms)+
  let ?sp = "\<lparr>inSpec = True, specIndent = 0, inUser = False, userIndent = -1\<rparr>"
  let ?us = "\<lparr>inSpec = True, specIndent = 0, inUser = True, userIndent = 2\<rparr>"
  have m: "match_id (''id:'' @ CHR '' '' # userId) = Some userId"
    using match_id_line[OF assms(4)] by simp
  have t: "unquote (trim userId) = userId"
    using assms by (auto simp: printable_def trim_no_space intro: unquote_id)
  have tl: "scanUserId ([yaml_line 2 ''user:'', yaml_line 4 (''id:'' @ CHR '' '' # userId)] @ rest) ?sp = Some userId"
    using scan_line[OF ok(5), of 2] scan_line[OF oks(3), of 4 rest ?us] m t assms(4)
    by (simp add: Let_def printable_def)
  have "scanUserId (connection_lines name clusterName urls userId rest) yaml_scan_init =
    scanUserId (map (\<lambda>u. yaml_line 4 (''-'' @ CHR '' '' # u)) urls
      @ [yaml_line 2 ''user:'', yaml_line 4 (''id:'' @ CHR '' '' # userId)] @ rest) ?sp"
    unfolding connection_lines_def
    using scan_line[OF ok(1), of 0] scan_line[OF ok(2), of 0] scan_line[OF ok(3), of 0]
      scan_line[OF ok(4), of 0] scan_line[OF ok(6), of 2] scan_line[OF oks(1), of 2] scan_line[OF oks(2), of 2]
    by (simp add: Let_def yaml_scan_init_def l0[symmetric])
  also have "\<dots> = Some userId"
    using scan_urls[of ?sp urls] assms(3) tl by simp
  finally show ?thesis .
qed


text \<open>The user id shown in the status bar is the one of the file: from every connection YAML
  of the shape the application writes, whatever its names, URLs and the lines that follow, the
  scan returns exactly the value of \<open>spec.user.id\<close>.\<close>

theorem extractClusterUserId_roundtrip:
  assumes "printable name" "printable clusterName" "\<forall>u \<in> set urls. printable u" "printable userId"
    and "\<not> is_quote (hd userId)" "\<not> is_quote (last userId)"
    and "\<forall>l \<in> set rest. newline \<notin> set l \<and> carriage \<notin> set l"
  shows "extractClusterUserId (join_with [newline] (connection_lines name clusterName urls userId rest))
    = Some userId"
proof -
  have no: "newline \<notin> set v \<and> carriage \<notin> set v" if "printable v" for v
    using that by (auto simp: printable_def)
  have "split_lines (join_with [newline] (connection_lines name clusterName urls userId rest))
    = connection_lines name clusterName urls userId rest"
    using assms no
    by (intro split_lines_join) (auto simp: connection_lines_def yaml_line_def newline_def carriage_def)
  then show ?thesis
    using connection_lines_scan[OF assms(1-6)] by (simp add: extractClusterUserId_def)
qed

theorem extractClusterUserId_roundtrip_witness:
  "DEFAULT_GUI_CONNECTION_YAML = join_with [newline] (connection_lines ''demo-admin'' ''demo''
     [''http://127.0.0.1:8734''] ''admin'' [''    role: admin'',
       ''    publicKey: REPLACE_WITH_GENERATED_PUBLIC_KEY'', ''    privateKey: REPLACE_WITH_GENERATED_PRIVATE_KEY''])
   \<and> extractClusterUserId DEFAULT_GUI_CONNECTION_YAML = Some ''admin''"
proof -
  have e: "DEFAULT_GUI_CONNECTION_YAML = join_with [newline] (connection_lines ''demo-admin'' ''demo''
     [''http://127.0.0.1:8734''] ''admin'' [''    role: admin'',
       ''    publicKey: REPLACE_WITH_GENERATED_PUBLIC_KEY'', ''    privateKey: REPLACE_WITH_GENERATED_PRIVATE_KEY''])"
    by (simp add: DEFAULT_GUI_CONNECTION_YAML_def connection_lines_def yaml_line_def numeral_eq_Suc)
  have "extractClusterUserId (join_with [newline] (connection_lines ''demo-admin'' ''demo''
     [''http://127.0.0.1:8734''] ''admin'' [''    role: admin'',
       ''    publicKey: REPLACE_WITH_GENERATED_PUBLIC_KEY'', ''    privateKey: REPLACE_WITH_GENERATED_PRIVATE_KEY'']))
     = Some ''admin''"
    by (rule extractClusterUserId_roundtrip) (auto simp: printable_def is_js_space_def is_quote_def newline_def carriage_def)
  with e show ?thesis by simp
qed

end
