(* ===== verification/ApiTypes.thy ===== *)
theory ApiTypes
  imports AppUtils
begin

text \<open>
  The data the GUI exchanges with its backend: \<open>types/guiConnection.ts\<close>,
  \<open>services/clusterConnection.ts\<close> and \<open>modules/app/types.ts\<close>. Optional fields are
  \<open>option\<close>; numbers of the protocol (sequences, versions, epochs) are \<open>int\<close>. The
  commands of \<open>ClusterConnectionService\<close> are the constructors of \<open>service_call\<close>: the
  handlers of the other theories are functions of the results these calls settle with.
\<close>

datatype node_role = ControlPlane | RuntimeNode

record ClusterNodeTableRow =
  node_id :: string
  node_role :: node_role
  node_leader :: bool
  node_public_key :: string
  node_endpoints :: "string list option"
  node_status :: "string option"
  node_name :: "string option"
  node_version :: "string option"
  node_age :: "string option"
  node_last_poll_at :: "string option"

record GroupConfigKeyTableRow =
  config_key :: string
  config_value :: string

datatype actor_type = NodeActor | UserActor | SystemActor

record EventLogEntry =
  event_sequence :: int
  happened_at :: string
  actor_id :: string
  event_actor_type :: actor_type
  event_action :: string
  event_details :: "string js_obj"

record UserRecord =
  user_id :: string
  user_public_key :: string
  user_enabled :: bool

record GuiClusterSnapshot =
  group_id :: string
  state_version :: int
  leader_epoch :: int
  snapshot_nodes :: "ClusterNodeTableRow list"
  snapshot_group_config :: "GroupConfigKeyTableRow list"
  snapshot_users :: "UserRecord list"

record GuiEventPage =
  page_items :: "EventLogEntry list"
  page_has_more :: bool
  next_before_sequence :: int

record StoredClusterConnection =
  conn_id :: string
  conn_name :: string
  conn_yaml :: string

record StoredClusterUiPrefs =
  pref_connection_id :: string
  pref_name :: string
  pref_accent :: string

record ClusterEntry =
  cluster_id :: string
  cluster_name :: string
  cluster_accent :: string

record ClusterUiPrefs =
  ui_name :: string
  ui_accent :: string

record ClusterEventCache =
  cache_has_more :: bool
  cache_items :: "EventLogEntry list"
  cache_loading :: bool
  oldest_sequence :: "int option"

datatype EventFetchMode = Initial | Older | Refresh

text \<open>The commands of the backend, with their arguments.\<close>

datatype service_call =
    FetchSnapshotFromYaml string
  | FetchEventPageFromYaml string "int option" int
  | SaveConnectionYaml string
  | SyncControlPlaneUrls string "string list"
  | ListConnectionYamls
  | ListClusterUiPrefs
  | SaveClusterUiPrefsEntry string string string
  | DeleteClusterConnection string
  | ListRbacYamlResources string string
  | ApplyRbacYamlResource string string bool

text \<open>The URLs a snapshot announces: \<open>controlPlaneUrlsFromSnapshot\<close> of \<open>utils.ts\<close>.\<close>

definition controlPlaneUrlsFromSnapshot :: "GuiClusterSnapshot \<Rightarrow> string list" where
  "controlPlaneUrlsFromSnapshot snapshot =
     uniqueControlPlaneUrls
       (concat (map (\<lambda>node. nullish (node_endpoints node) [])
         (filter (\<lambda>node. node_role node = ControlPlane) (snapshot_nodes snapshot))))"

end
