(* ===== verification/Connections.thy ===== *)
theory Connections
  imports ApiTypes
begin

text \<open>
  The stored cluster connections, \<open>modules/app/hooks/useClusterConnections.ts\<close>. The hook's
  React state is the record \<open>conn_state\<close>; every callback is a function on it. An asynchronous
  callback is split at its awaits: the part before the first await, and the continuation as a
  function of what the awaited service calls settle with. The record is extensible: the theories of
  the tabs and of the cluster data add their own state to it, as the component \<open>App\<close> does.
\<close>

record conn_state =
  guiConnectionYaml :: string
  connectionConfigs :: "StoredClusterConnection list"
  clusterUiPrefs :: "ClusterUiPrefs js_obj"
  activeClusterId :: string
  expandedClusters :: "bool js_obj"
  guiConnectionStatus :: "string option"
  connectingGui :: bool
  editingClusterId :: "string option"
  clusterDraftName :: string
  clusterDraftAccent :: string
  shareCopyNotice :: "string option"

definition DEFAULT_ACCENT :: string where "DEFAULT_ACCENT = ''#22c55e''"

definition useClusterConnections_init :: "string \<Rightarrow> conn_state" where
  "useClusterConnections_init initialClusterId =
     \<lparr>guiConnectionYaml = DEFAULT_GUI_CONNECTION_YAML, connectionConfigs = [], clusterUiPrefs = [],
      activeClusterId = initialClusterId, expandedClusters = [], guiConnectionStatus = None,
      connectingGui = False, editingClusterId = None, clusterDraftName = [],
      clusterDraftAccent = DEFAULT_ACCENT, shareCopyNotice = None\<rparr>"

text \<open>\<open>prefs?.name || fallback\<close>\<close>

definition pref_or :: "ClusterUiPrefs option \<Rightarrow> (ClusterUiPrefs \<Rightarrow> string) \<Rightarrow> string \<Rightarrow> string" where
  "pref_or prefs field fallback = (case prefs of None \<Rightarrow> fallback | Some q \<Rightarrow> str_or (field q) fallback)"

definition clusters :: "'a conn_state_scheme \<Rightarrow> ClusterEntry list" where
  "clusters s = map (\<lambda>item.
     \<lparr>cluster_id = conn_id item,
      cluster_name = pref_or (obj_get (clusterUiPrefs s) (conn_id item)) ui_name (conn_name item),
      cluster_accent = pref_or (obj_get (clusterUiPrefs s) (conn_id item)) ui_accent DEFAULT_ACCENT\<rparr>)
     (connectionConfigs s)"

section \<open>Loading the stored connections\<close>

definition prefs_record :: "StoredClusterUiPrefs list \<Rightarrow> ClusterUiPrefs js_obj" where
  "prefs_record prefs =
     obj_build pref_connection_id (\<lambda>item. \<lparr>ui_name = pref_name item, ui_accent = pref_accent item\<rparr>) prefs"

fun expand_first :: "StoredClusterConnection list \<Rightarrow> bool js_obj" where
  "expand_first [] = []"
| "expand_first (c # cs) = fold (\<lambda>item. obj_set (conn_id item) False) cs [(conn_id c, True)]"

definition loadConnections ::
  "js_error + (StoredClusterConnection list \<times> StoredClusterUiPrefs list) \<Rightarrow> 'a conn_state_scheme \<Rightarrow> 'a conn_state_scheme" where
  "loadConnections settled s =
     (case settled of
       Inl e \<Rightarrow> s
     | Inr (saved, prefs) \<Rightarrow>
         let s1 = s\<lparr>connectionConfigs := saved, clusterUiPrefs := prefs_record prefs\<rparr> in
         (case saved of
           [] \<Rightarrow> s1\<lparr>activeClusterId := []\<rparr>
         | first # _ \<Rightarrow> s1\<lparr>
             activeClusterId := (if array_some (\<lambda>item. conn_id item = activeClusterId s) saved
                                 then activeClusterId s else conn_id first),
             expandedClusters := (if obj_keys (expandedClusters s) \<noteq> [] then expandedClusters s
                                  else expand_first saved),
             guiConnectionYaml := (if guiConnectionYaml s = DEFAULT_GUI_CONNECTION_YAML
                                   then conn_yaml first else guiConnectionYaml s)\<rparr>))"

section \<open>Connecting\<close>

text \<open>
  The three awaits of \<open>connectGui\<close>: the first rejection ends the block. The second component
  is the list of the service calls made, in order.
\<close>

definition connect_calls ::
  "string \<Rightarrow> js_error + GuiClusterSnapshot \<Rightarrow> js_error + StoredClusterConnection \<Rightarrow>
   js_error + StoredClusterConnection list \<Rightarrow>
   (js_error + (GuiClusterSnapshot \<times> StoredClusterConnection \<times> StoredClusterConnection list)) \<times> service_call list" where
  "connect_calls yaml fetched savedR listed =
     (case fetched of
       Inl e \<Rightarrow> (Inl e, [FetchSnapshotFromYaml yaml])
     | Inr snapshot \<Rightarrow>
         (case savedR of
           Inl e \<Rightarrow> (Inl e, [FetchSnapshotFromYaml yaml, SaveConnectionYaml yaml])
         | Inr saved \<Rightarrow>
             (case listed of
               Inl e \<Rightarrow> (Inl e, [FetchSnapshotFromYaml yaml, SaveConnectionYaml yaml, ListConnectionYamls])
             | Inr allSaved \<Rightarrow> (Inr (snapshot, saved, allSaved),
                 [FetchSnapshotFromYaml yaml, SaveConnectionYaml yaml, ListConnectionYamls]))))"

definition connectGui_begin :: "'a conn_state_scheme \<Rightarrow> 'a conn_state_scheme" where
  "connectGui_begin s = s\<lparr>connectingGui := True, guiConnectionStatus := Some ''Connecting to control-plane...''\<rparr>"

definition connected_status :: "GuiClusterSnapshot \<Rightarrow> string" where
  "connected_status snapshot = ''Connected to '' @ group_id snapshot @ '' (state '' @
     show_int (state_version snapshot) @ '', epoch '' @ show_int (leader_epoch snapshot) @ '').''"

definition connectGui_end ::
  "js_error + (GuiClusterSnapshot \<times> StoredClusterConnection \<times> StoredClusterConnection list) \<Rightarrow>
   'a conn_state_scheme \<Rightarrow> 'a conn_state_scheme \<times> (StoredClusterConnection \<times> GuiClusterSnapshot) option" where
  "connectGui_end settled s =
     (case settled of
       Inr (snapshot, saved, allSaved) \<Rightarrow>
         (s\<lparr>connectionConfigs := allSaved, activeClusterId := conn_id saved,
            expandedClusters := obj_set (conn_id saved) True (expandedClusters s),
            guiConnectionStatus := Some (connected_status snapshot),
            connectingGui := False\<rparr>, Some (saved, snapshot))
     | Inl e \<Rightarrow>
         (s\<lparr>guiConnectionStatus := Some (error_text ''Failed to connect using provided YAML config.'' e),
            connectingGui := False\<rparr>, None))"

section \<open>The cluster editor\<close>

definition openClusterConfigEditor :: "string \<Rightarrow> 'a conn_state_scheme \<Rightarrow> 'a conn_state_scheme" where
  "openClusterConfigEditor clusterId s =
     (case List.find (\<lambda>item. conn_id item = clusterId) (connectionConfigs s) of
       None \<Rightarrow> s
     | Some connection \<Rightarrow>
         let prefs = obj_get (clusterUiPrefs s) clusterId in
         s\<lparr>clusterDraftName := pref_or prefs ui_name (conn_name connection),
           clusterDraftAccent := pref_or prefs ui_accent DEFAULT_ACCENT,
           shareCopyNotice := None,
           editingClusterId := Some clusterId\<rparr>)"

text \<open>An empty editing id is falsy, as a missing one is.\<close>

definition editing :: "'a conn_state_scheme \<Rightarrow> string option" where
  "editing s = (case editingClusterId s of Some i \<Rightarrow> if i \<noteq> [] then Some i else None | None \<Rightarrow> None)"

definition saveClusterConfigEditor_call :: "'a conn_state_scheme \<Rightarrow> service_call option" where
  "saveClusterConfigEditor_call s = (case editing s of None \<Rightarrow> None
     | Some i \<Rightarrow> Some (SaveClusterUiPrefsEntry i (clusterDraftName s) (clusterDraftAccent s)))"

definition saveClusterConfigEditor_end ::
  "js_error + StoredClusterUiPrefs \<Rightarrow> 'a conn_state_scheme \<Rightarrow> 'a conn_state_scheme" where
  "saveClusterConfigEditor_end settled s =
     (case settled of
       Inl e \<Rightarrow> s
     | Inr saved \<Rightarrow> s\<lparr>clusterUiPrefs := obj_set (pref_connection_id saved)
           \<lparr>ui_name = pref_name saved, ui_accent = pref_accent saved\<rparr> (clusterUiPrefs s),
         editingClusterId := None\<rparr>)"

text \<open>
  \<open>deleteClusterFromEditor\<close> runs for the id captured when the callback was created; the
  continuation after the delete call clears the entries and reloads.
\<close>

definition forget_cluster :: "string \<Rightarrow> 'a conn_state_scheme \<Rightarrow> 'a conn_state_scheme" where
  "forget_cluster i s = s\<lparr>
     connectionConfigs := filter (\<lambda>item. conn_id item \<noteq> i) (connectionConfigs s),
     clusterUiPrefs := obj_del i (clusterUiPrefs s),
     expandedClusters := obj_del i (expandedClusters s),
     editingClusterId := None\<rparr>"

definition deleteClusterFromEditor ::
  "js_error + unit \<Rightarrow> js_error + (StoredClusterConnection list \<times> StoredClusterUiPrefs list) \<Rightarrow>
   'a conn_state_scheme \<Rightarrow> 'a conn_state_scheme \<times> string option" where
  "deleteClusterFromEditor deleted reloaded s =
     (case editing s of
       None \<Rightarrow> (s, None)
     | Some i \<Rightarrow>
         (case deleted of
           Inl e \<Rightarrow> (s, None)
         | Inr _ \<Rightarrow> (loadConnections reloaded (forget_cluster i s), Some i)))"

definition shareClusterConfigFromEditor :: "js_error + unit \<Rightarrow> 'a conn_state_scheme \<Rightarrow> 'a conn_state_scheme" where
  "shareClusterConfigFromEditor copied s =
     (case editing s of
       None \<Rightarrow> s
     | Some i \<Rightarrow>
         (case List.find (\<lambda>item. conn_id item = i) (connectionConfigs s) of
           None \<Rightarrow> s
         | Some config \<Rightarrow>
             (case copied of
               Inr _ \<Rightarrow> s\<lparr>shareCopyNotice := Some ''Config copied''\<rparr>
             | Inl e \<Rightarrow> s\<lparr>guiConnectionStatus := Some ''Failed to copy cluster config to clipboard.''\<rparr>)))"

definition shareNotice_timeout :: "'a conn_state_scheme \<Rightarrow> 'a conn_state_scheme" where
  "shareNotice_timeout s =
     s\<lparr>shareCopyNotice := (if shareCopyNotice s = Some ''Config copied'' then None else shareCopyNotice s)\<rparr>"


section \<open>Correctness\<close>

text \<open>A connection attempt always ends: however the three service calls settle, the busy flag
  is cleared and a status is shown. Only if all three succeed do the configurations change, and then
  the saved connection is the active one, its node is expanded, and the caller is told to open it;
  a connection is never saved before a snapshot was fetched with it.\<close>

theorem connectGui_outcome:
  "let r = connect_calls yaml fetched savedR listed; s' = fst (connectGui_end (fst r) (connectGui_begin s));
       opened = snd (connectGui_end (fst r) (connectGui_begin s)) in
    \<not> connectingGui s' \<and> guiConnectionStatus s' \<noteq> None \<and>
    (SaveConnectionYaml yaml \<in> set (snd r) \<longleftrightarrow> (\<exists>snapshot. fetched = Inr snapshot)) \<and>
    (case (fetched, savedR, listed) of
      (Inr snapshot, Inr saved, Inr allSaved) \<Rightarrow>
        connectionConfigs s' = allSaved \<and> activeClusterId s' = conn_id saved \<and>
        obj_get (expandedClusters s') (conn_id saved) = Some True \<and> opened = Some (saved, snapshot)
    | _ \<Rightarrow> connectionConfigs s' = connectionConfigs s \<and> activeClusterId s' = activeClusterId s \<and>
        expandedClusters s' = expandedClusters s \<and> opened = None)"
  by (cases fetched; cases savedR; cases listed)
     (simp_all add: connect_calls_def connectGui_end_def connectGui_begin_def Let_def)

text \<open>The list of the configurations determines which cluster may be active.\<close>

definition active_ok :: "'a conn_state_scheme \<Rightarrow> bool" where
  "active_ok s = (if connectionConfigs s = [] then activeClusterId s = []
                  else activeClusterId s \<in> set (map conn_id (connectionConfigs s)))"

lemma expand_first_other:
  "obj_get (fold (\<lambda>item. obj_set (conn_id item) False) cs ob) k =
     (if k \<in> set (map conn_id cs) then Some False else obj_get ob k)"
  by (induction cs arbitrary: ob) auto

lemma loadConnections_lists:
  "connectionConfigs (loadConnections (Inr (saved, prefs)) s) = saved \<and> active_ok (loadConnections (Inr (saved, prefs)) s)"
proof -
  have "array_some (\<lambda>item. conn_id item = activeClusterId s) saved \<longleftrightarrow> activeClusterId s \<in> conn_id ` set saved"
    by (auto simp: array_some_def image_iff) metis
  then show ?thesis
    by (cases saved) (simp_all add: loadConnections_def Let_def active_ok_def)
qed

text \<open>Loading the stored connections repairs the selection: whenever the load succeeds, the
  active cluster is one of the stored ones (none if there are none), a selection that is still valid
  is kept, the connection text the user has edited is kept, and a failed load changes nothing.\<close>

theorem loadConnections_repairs:
  "let s' = loadConnections settled s in
    (case settled of
      Inl e \<Rightarrow> s' = s
    | Inr (saved, prefs) \<Rightarrow>
        connectionConfigs s' = saved \<and> active_ok s' \<and>
        (activeClusterId s \<in> set (map conn_id saved) \<longrightarrow> activeClusterId s' = activeClusterId s) \<and>
        (guiConnectionYaml s \<noteq> DEFAULT_GUI_CONNECTION_YAML \<longrightarrow> guiConnectionYaml s' = guiConnectionYaml s) \<and>
        (obj_keys (expandedClusters s) \<noteq> [] \<longrightarrow> expandedClusters s' = expandedClusters s))"
proof (cases settled)
  case (Inl e)
  then show ?thesis by (simp add: loadConnections_def)
next
  case (Inr p)
  obtain saved prefs where p: "p = (saved, prefs)" by (cases p)
  have "connectionConfigs (loadConnections settled s) = saved \<and> active_ok (loadConnections settled s)"
    by (simp add: Inr p loadConnections_lists)
  then show ?thesis
    by (cases saved) (auto simp: Inr p loadConnections_def Let_def)
qed

theorem loadConnections_repairs_witness:
  "active_ok (loadConnections (Inr ([\<lparr>conn_id = ''a'', conn_name = ''A'', conn_yaml = ''y''\<rparr>], []))
     (useClusterConnections_init ''gone''))"
  using loadConnections_repairs[of "Inr ([\<lparr>conn_id = ''a'', conn_name = ''A'', conn_yaml = ''y''\<rparr>], [])"
    "useClusterConnections_init ''gone''"] by (simp add: Let_def)

text \<open>Deleting a cluster forgets it everywhere: after the backend has deleted the cluster being
  edited, and whether the reload that follows fails or returns lists it is absent from, no
  configuration, preference or expansion of it is left, the editor is closed and the callback learns
  which cluster went; if the delete fails nothing changes and the editor stays open.\<close>

theorem deleteCluster_forgets:
  assumes "editing s = Some i"
    and "\<forall>saved prefs. reloaded = Inr (saved, prefs) \<longrightarrow> i \<notin> set (map conn_id saved) \<and> i \<notin> set (map pref_connection_id prefs)"
  shows "let (s', r) = deleteClusterFromEditor deleted reloaded s in
    (case deleted of
      Inl e \<Rightarrow> s' = s \<and> r = None
    | Inr _ \<Rightarrow> r = Some i \<and> i \<notin> set (map cluster_id (clusters s')) \<and>
        obj_get (clusterUiPrefs s') i = None \<and> obj_get (expandedClusters s') i = None \<and> editingClusterId s' = None)"
proof (cases deleted)
  case (Inl e)
  then show ?thesis using assms(1) by (simp add: deleteClusterFromEditor_def)
next
  case (Inr u)
  show ?thesis
  proof (cases reloaded)
    case (Inl e)
    then show ?thesis using assms(1) Inr
      by (auto simp: deleteClusterFromEditor_def loadConnections_def forget_cluster_def clusters_def)
  next
    case (Inr p)
    obtain saved prefs where p: "p = (saved, prefs)" by (cases p)
    with Inr assms(2) have gone: "i \<notin> set (map conn_id saved)" "i \<notin> set (map pref_connection_id prefs)" by auto
    have "obj_get (prefs_record prefs) i = None" using gone(2) by (auto simp: prefs_record_def)
    with gone(1) Inr p \<open>deleted = Inr u\<close> assms(1) show ?thesis
      by (cases saved) (auto simp: deleteClusterFromEditor_def loadConnections_def forget_cluster_def clusters_def
          Let_def expand_first_other obj_get_def[of "[(_, _)]"])
  qed
qed


theorem deleteCluster_forgets_witness:
  "let c = \<lparr>conn_id = ''a'', conn_name = ''A'', conn_yaml = ''y''\<rparr>;
       s = (useClusterConnections_init ''a'')\<lparr>connectionConfigs := [c], editingClusterId := Some ''a''\<rparr> in
    clusters (fst (deleteClusterFromEditor (Inr ()) (Inr ([], [])) s)) = []"
proof -
  define s where "s = (useClusterConnections_init ''a'')
    \<lparr>connectionConfigs := [\<lparr>conn_id = ''a'', conn_name = ''A'', conn_yaml = ''y''\<rparr>], editingClusterId := Some ''a''\<rparr>"
  have "let (s', r) = deleteClusterFromEditor (Inr ()) (Inr ([], [])) s in r = Some ''a'' \<and> ''a'' \<notin> set (map cluster_id (clusters s')) \<and>
        obj_get (clusterUiPrefs s') ''a'' = None \<and> obj_get (expandedClusters s') ''a'' = None \<and> editingClusterId s' = None"
    using deleteCluster_forgets[of s "''a''" "Inr ([], [])" "Inr ()"] by (simp add: editing_def s_def)
  then show ?thesis
    by (simp add: deleteClusterFromEditor_def editing_def s_def loadConnections_def forget_cluster_def clusters_def Let_def)
qed

end
