(* ===== verification/Shortcuts.thy ===== *)
theory Shortcuts
  imports AppUtils
begin

text \<open>
  Input resolution that keeps no state: \<open>modules/app/keyboardShortcuts.ts\<close> (which shortcut a
  key event means on which platform) and \<open>modules/tabs/dragDetach.ts\<close> (whether the end of a
  drag lies far enough outside the tab bar to detach the tab). Coordinates are \<open>rat\<close>.
\<close>

section \<open>Keyboard shortcuts\<close>

record ShortcutEvent =
  altKey :: bool
  code :: string
  ctrlKey :: bool
  metaKey :: bool
  shiftKey :: bool

datatype KeyboardShortcutAction = ActivateTab int | CloseTab | RefreshData | SwitchTab int

definition isMacLikePlatform :: "string \<Rightarrow> bool" where
  "isMacLikePlatform platform =
     (let l = to_lower platform in
      str_includes l ''mac'' \<or> str_includes l ''iphone'' \<or> str_includes l ''ipad'' \<or> str_includes l ''ipod'')"

text \<open>\<open>userAgentData?.platform ?? navigator.platform ?? ""\<close>\<close>

definition detectMacLikePlatform :: "string option \<Rightarrow> string option \<Rightarrow> bool" where
  "detectMacLikePlatform userAgentPlatform navigatorPlatform =
     isMacLikePlatform (nullish userAgentPlatform (nullish navigatorPlatform []))"

definition hasPrimaryModifier :: "ShortcutEvent \<Rightarrow> bool \<Rightarrow> bool" where
  "hasPrimaryModifier event macLike =
     (if macLike then metaKey event \<and> \<not> ctrlKey event else ctrlKey event \<and> \<not> metaKey event)"

definition hasControlModifierOnly :: "ShortcutEvent \<Rightarrow> bool" where
  "hasControlModifierOnly event = (ctrlKey event \<and> \<not> metaKey event \<and> \<not> altKey event)"

text \<open>\<open>/^Digit[1-9]$/\<close>: the digit of the key.\<close>

definition digit_key :: "string \<Rightarrow> nat option" where
  "digit_key c =
     (if length c = 6 \<and> take 5 c = ''Digit'' \<and> is_digit (last c) \<and> 1 \<le> digit_val (last c)
      then Some (digit_val (last c)) else None)"

definition resolveGlobalShortcut :: "ShortcutEvent \<Rightarrow> bool \<Rightarrow> KeyboardShortcutAction option" where
  "resolveGlobalShortcut event macLike =
     (let primary = hasPrimaryModifier event macLike in
      if primary \<and> \<not> altKey event \<and> \<not> shiftKey event \<and> code event = ''KeyR'' then Some RefreshData
      else if primary \<and> \<not> altKey event \<and> \<not> shiftKey event
          \<and> (code event = ''KeyW'' \<or> \<not> macLike \<and> code event = ''F4'') then Some CloseTab
      else if primary \<and> \<not> altKey event \<and> \<not> shiftKey event \<and> digit_key (code event) \<noteq> None
        then Some (ActivateTab (int (the (digit_key (code event))) - 1))
      else if hasControlModifierOnly event \<and> code event = ''Tab''
        then Some (SwitchTab (if shiftKey event then -1 else 1))
      else if \<not> macLike \<and> hasControlModifierOnly event
          \<and> (code event = ''PageDown'' \<or> code event = ''PageUp'')
        then Some (SwitchTab (if code event = ''PageDown'' then 1 else -1))
      else if primary \<and> \<not> altKey event \<and> shiftKey event
          \<and> (code event = ''BracketRight'' \<or> code event = ''BracketLeft'')
        then Some (SwitchTab (if code event = ''BracketRight'' then 1 else -1))
      else if macLike \<and> primary \<and> altKey event \<and> \<not> shiftKey event
          \<and> (code event = ''ArrowRight'' \<or> code event = ''ArrowLeft'')
        then Some (SwitchTab (if code event = ''ArrowRight'' then 1 else -1))
      else None)"

section \<open>Detaching a tab by dragging\<close>

record rect =
  left :: rat
  top :: rat
  right :: rat
  bottom :: rat

record box =
  box_left :: rat
  box_top :: rat
  box_width :: rat
  box_height :: rat

text \<open>
  The activator event of a drag: a mouse or pointer event with numeric coordinates
  (\<open>None\<close> where \<open>Number(...)\<close> is \<open>NaN\<close>), a touch event with its changed
  touches, or some other event.
\<close>

datatype activator =
    PointerEvent "rat option" "rat option"
  | TouchEvent "(rat \<times> rat) list"
  | OtherEvent

record DragEndEvent =
  activatorEvent :: activator
  delta_x :: rat
  delta_y :: rat
  initial_box :: "box option"
  translated_box :: "box option"
  active_id :: string
  over_id :: "string option"

definition TAB_DETACH_TRIGGER_PX :: rat where "TAB_DETACH_TRIGGER_PX = 28"

fun pointerFromActivatorEvent :: "activator \<Rightarrow> rat \<Rightarrow> rat \<Rightarrow> (rat \<times> rat) option" where
  "pointerFromActivatorEvent (PointerEvent (Some x) (Some y)) dx dy = Some (x + dx, y + dy)"
| "pointerFromActivatorEvent (PointerEvent _ _) dx dy = None"
| "pointerFromActivatorEvent (TouchEvent []) dx dy = None"
| "pointerFromActivatorEvent (TouchEvent ((x, y) # _)) dx dy = Some (x + dx, y + dy)"
| "pointerFromActivatorEvent OtherEvent dx dy = None"

definition outside :: "rat \<Rightarrow> rat \<Rightarrow> rect \<Rightarrow> rat \<Rightarrow> bool" where
  "outside x y bounds threshold =
     ((y < top bounds - threshold \<or> y > bottom bounds + threshold) \<or>
      (x < left bounds - threshold \<or> x > right bounds + threshold))"

definition shouldDetachTabByDrag :: "DragEndEvent \<Rightarrow> rect \<Rightarrow> rat \<Rightarrow> bool" where
  "shouldDetachTabByDrag event bounds threshold =
     (case pointerFromActivatorEvent (activatorEvent event) (delta_x event) (delta_y event) of
       Some (x, y) \<Rightarrow> outside x y bounds threshold
     | None \<Rightarrow>
         (case initial_box event of
           None \<Rightarrow> False
         | Some initial \<Rightarrow>
             let tr = translated_box event;
                 l = (case tr of Some b \<Rightarrow> box_left b | None \<Rightarrow> box_left initial + delta_x event);
                 t = (case tr of Some b \<Rightarrow> box_top b | None \<Rightarrow> box_top initial + delta_y event);
                 w = (case tr of Some b \<Rightarrow> box_width b | None \<Rightarrow> box_width initial);
                 h = (case tr of Some b \<Rightarrow> box_height b | None \<Rightarrow> box_height initial)
             in outside (l + w / 2) (t + h / 2) bounds threshold))"

section \<open>Correctness\<close>

lemma digit_key_range: "digit_key c = Some d \<Longrightarrow> 1 \<le> d \<and> d \<le> 9"
  by (auto simp: digit_key_def is_digit_def digit_val_def split: if_splits)

text \<open>Every shortcut needs a modifier and is well formed: an event without control and meta
  keys means nothing on any platform; a resolved tab index lies between 0 and 8 and a direction is
  1 or -1; with both control and meta pressed nothing is resolved.\<close>

theorem resolveGlobalShortcut_safe:
  assumes "resolveGlobalShortcut event macLike = Some action"
  shows "(ctrlKey event \<noteq> metaKey event) \<and>
    (case action of ActivateTab i \<Rightarrow> 0 \<le> i \<and> i \<le> 8 | SwitchTab d \<Rightarrow> d = 1 \<or> d = -1 | _ \<Rightarrow> \<not> shiftKey event)"
  using assms digit_key_range
  by (fastforce simp: resolveGlobalShortcut_def Let_def hasPrimaryModifier_def hasControlModifierOnly_def
      split: if_splits)

theorem resolveGlobalShortcut_safe_witness:
  "resolveGlobalShortcut \<lparr>altKey = False, code = ''Digit9'', ctrlKey = True, metaKey = False, shiftKey = False\<rparr> False
     = Some (ActivateTab 8) \<and> (0::int) \<le> 8"
proof -
  let ?e = "\<lparr>altKey = False, code = ''Digit9'', ctrlKey = True, metaKey = False, shiftKey = False\<rparr>"
  have r: "resolveGlobalShortcut ?e False = Some (ActivateTab 8)"
    by (simp add: resolveGlobalShortcut_def Let_def hasPrimaryModifier_def digit_key_def is_digit_def digit_val_def)
  from resolveGlobalShortcut_safe[OF this] r show ?thesis by simp
qed

text \<open>The abstract meaning: which keys mean the same action on the two platforms.\<close>

definition swap_platform :: "ShortcutEvent \<Rightarrow> ShortcutEvent" where
  "swap_platform e = e\<lparr>ctrlKey := metaKey e, metaKey := ctrlKey e\<rparr>"

text \<open>The platforms agree: except for the keys that are bound on one platform only (F4, the
  page keys, Control-Tab and the arrow keys), an event on a Mac means what the event with control
  and meta exchanged means elsewhere.\<close>

theorem resolveGlobalShortcut_platforms:
  assumes "code event \<notin> {''F4'', ''PageDown'', ''PageUp'', ''Tab'', ''ArrowRight'', ''ArrowLeft''}"
  shows "resolveGlobalShortcut event True = resolveGlobalShortcut (swap_platform event) False"
  using assms
  by (simp add: resolveGlobalShortcut_def Let_def hasPrimaryModifier_def hasControlModifierOnly_def
      swap_platform_def)

theorem resolveGlobalShortcut_platforms_witness:
  "resolveGlobalShortcut \<lparr>altKey = False, code = ''KeyW'', ctrlKey = False, metaKey = True, shiftKey = False\<rparr> True
   = resolveGlobalShortcut (swap_platform
       \<lparr>altKey = False, code = ''KeyW'', ctrlKey = False, metaKey = True, shiftKey = False\<rparr>) False"
  by (rule resolveGlobalShortcut_platforms) simp

lemma outside_mono: "outside x y b t \<Longrightarrow> t' \<le> t \<Longrightarrow> outside x y b t'"
  by (auto simp: outside_def)

text \<open>A drag detaches only beyond the threshold: releasing the pointer inside the tab bar,
  or within the threshold around it, never detaches the tab, and a smaller threshold detaches
  whenever a larger one does.\<close>

theorem shouldDetachTabByDrag_bounds:
  assumes "pointerFromActivatorEvent (activatorEvent event) (delta_x event) (delta_y event) = Some (x, y)"
  shows "(shouldDetachTabByDrag event b t \<longleftrightarrow>
      \<not> (left b - t \<le> x \<and> x \<le> right b + t \<and> top b - t \<le> y \<and> y \<le> bottom b + t)) \<and>
    (t' \<le> t \<and> shouldDetachTabByDrag event b t \<longrightarrow> shouldDetachTabByDrag event b t')"
  using assms by (auto simp: shouldDetachTabByDrag_def outside_def not_less)

theorem shouldDetachTabByDrag_bounds_witness:
  "shouldDetachTabByDrag \<lparr>activatorEvent = PointerEvent (Some 10) (Some 20), delta_x = 0, delta_y = 49,
      initial_box = None, translated_box = None, active_id = ''a'', over_id = None\<rparr>
      \<lparr>left = 0, top = 0, right = 100, bottom = 40\<rparr> TAB_DETACH_TRIGGER_PX"
proof -
  let ?e = "\<lparr>activatorEvent = PointerEvent (Some 10) (Some 20), delta_x = 0, delta_y = 49,
      initial_box = None, translated_box = None, active_id = ''a'', over_id = None\<rparr>"
  have "pointerFromActivatorEvent (activatorEvent ?e) (delta_x ?e) (delta_y ?e) = Some (10, 69)" by simp
  from shouldDetachTabByDrag_bounds[OF this] show ?thesis by (simp add: TAB_DETACH_TRIGGER_PX_def)
qed

end
