(* ===== verification/TabStrip.thy ===== *)
theory TabStrip
  imports Prelude
begin

text \<open>
  The contract of a strip of tabs, shared by the workspace tabs (\<open>useTabManager.ts\<close>) and the
  tabs of the lower sub-window (\<open>App.tsx\<close>): adding a tab whose id is present changes nothing,
  otherwise it goes to the end; removing an id removes exactly that id. The lemmas of the locale,
  proved once, give both strips that ids stay distinct and what is in the strip afterwards.
\<close>

locale tab_strip =
  fixes key :: "'t \<Rightarrow> string"
    and add :: "'t \<Rightarrow> 't list \<Rightarrow> 't list"
    and remove :: "string \<Rightarrow> 't list \<Rightarrow> 't list"
  assumes keys_add: "map key (add t ts) = (if key t \<in> set (map key ts) then map key ts else map key ts @ [key t])"
    and add_present: "key t \<in> set (map key ts) \<Longrightarrow> add t ts = ts"
    and keys_remove: "map key (remove k ts) = filter (\<lambda>i. i \<noteq> k) (map key ts)"
begin

lemma distinct_add: "distinct (map key ts) \<Longrightarrow> distinct (map key (add t ts))"
  by (simp add: keys_add del: set_map)

lemma distinct_remove: "distinct (map key ts) \<Longrightarrow> distinct (map key (remove k ts))"
  by (simp add: keys_remove)

lemma set_keys_add: "set (map key (add t ts)) = insert (key t) (set (map key ts))"
  by (auto simp add: keys_add simp del: set_map)

lemma set_keys_remove: "set (map key (remove k ts)) = set (map key ts) - {k}"
  by (auto simp add: keys_remove simp del: set_map)

lemma add_idem: "add t (add t ts) = add t ts"
  by (rule add_present) (simp add: set_keys_add del: set_map)

lemma add_nonempty: "add t ts \<noteq> []"
  using set_keys_add[of t ts] by auto

lemma remove_nonempty:
  "distinct (map key ts) \<Longrightarrow> 2 \<le> length ts \<Longrightarrow> remove k ts \<noteq> []"
proof
  assume d: "distinct (map key ts)" and l: "2 \<le> length ts" and e: "remove k ts = []"
  then have "set (map key ts) \<subseteq> {k}" using set_keys_remove[of k ts] by auto
  then have "card (set (map key ts)) \<le> 1" using card_mono[of "{k}"] by simp
  with d l show False by (simp only: distinct_card length_map)
qed

lemma remove_absent: "k \<notin> set (map key ts) \<Longrightarrow> map key (remove k ts) = map key ts"
  unfolding keys_remove filter_id_conv by metis

end

text \<open>The updaters both strips pass to React: \<open>current.some(...) ? current : [...current, t]\<close>
  and \<open>current.filter(...)\<close>.\<close>

definition append_once :: "('t \<Rightarrow> string) \<Rightarrow> 't \<Rightarrow> 't list \<Rightarrow> 't list" where
  "append_once key t ts = (if array_some (\<lambda>u. key u = key t) ts then ts else ts @ [t])"

definition remove_key :: "('t \<Rightarrow> string) \<Rightarrow> string \<Rightarrow> 't list \<Rightarrow> 't list" where
  "remove_key key k ts = filter (\<lambda>u. key u \<noteq> k) ts"

text \<open>
  Reordering. \<open>arrayMove\<close> comes from the package \<open>@dnd-kit/sortable\<close>, which is not part
  of the repository: it is the argument \<open>move\<close>. The code relies on its documented behaviour,
  that for indices of the array it returns the same elements in another order.
\<close>

definition permutes_elements :: "('t list \<Rightarrow> nat \<Rightarrow> nat \<Rightarrow> 't list) \<Rightarrow> bool" where
  "permutes_elements move = (\<forall>xs i j. i < length xs \<longrightarrow> j < length xs \<longrightarrow> mset (move xs i j) = mset xs)"

definition reorder_keys ::
  "('t list \<Rightarrow> nat \<Rightarrow> nat \<Rightarrow> 't list) \<Rightarrow> ('t \<Rightarrow> string) \<Rightarrow> string \<Rightarrow> string \<Rightarrow> 't list \<Rightarrow> 't list" where
  "reorder_keys move key src dst ts =
     (case (find_index (\<lambda>t. key t = src) ts, find_index (\<lambda>t. key t = dst) ts) of
       (Some i, Some j) \<Rightarrow> move ts i j
     | _ \<Rightarrow> ts)"

lemma mset_reorder_keys:
  "permutes_elements move \<Longrightarrow> mset (reorder_keys move key src dst ts) = mset ts"
  by (auto simp: reorder_keys_def permutes_elements_def split: option.splits dest!: find_index_Some)

lemma reorder_keys_keys:
  assumes "permutes_elements move"
  shows "mset (map key (reorder_keys move key src dst ts)) = mset (map key ts)"
    and "length (reorder_keys move key src dst ts) = length ts"
    and "set (reorder_keys move key src dst ts) = set ts"
    and "distinct (map key ts) \<Longrightarrow> distinct (map key (reorder_keys move key src dst ts))"
proof -
  show m: "mset (map key (reorder_keys move key src dst ts)) = mset (map key ts)"
    by (simp add: mset_reorder_keys[OF assms])
  show "length (reorder_keys move key src dst ts) = length ts"
    by (metis mset_reorder_keys[OF assms] size_mset)
  show "set (reorder_keys move key src dst ts) = set ts"
    by (metis mset_reorder_keys[OF assms] set_mset_mset)
  show "distinct (map key ts) \<Longrightarrow> distinct (map key (reorder_keys move key src dst ts))"
    by (metis m mset_eq_imp_distinct_iff)
qed

end
