(* ===== verification/TabManager.thy ===== *)
theory TabManager
  imports Connections Shortcuts TabStrip
begin

text \<open>
  The workspace tabs, \<open>modules/app/hooks/useTabManager.ts\<close>. The state adds the open tabs and
  the id of the active one to the connection state, whose setters the hook receives. Updaters passed
  to one setter run in the order of the calls; the handlers below are their composition.
\<close>

record OpenTab =
  tab_id :: string
  tab_kind :: string
  tab_cluster :: string

record tab_state = conn_state +
  openTabs :: "OpenTab list"
  activeTabId :: string

definition useTabManager_init :: "OpenTab option \<Rightarrow> OpenTab list \<times> string" where
  "useTabManager_init initialWindowTab =
     (case initialWindowTab of
       Some t \<Rightarrow> ([t], tab_id t)
     | None \<Rightarrow> ([\<lparr>tab_id = SETUP_TAB_ID, tab_kind = SETUP_KIND, tab_cluster = []\<rparr>], SETUP_TAB_ID))"

definition activateTab :: "string \<Rightarrow> string \<Rightarrow> 'a tab_state_scheme \<Rightarrow> 'a tab_state_scheme" where
  "activateTab tabId clusterId s = s\<lparr>activeTabId := tabId, activeClusterId := clusterId\<rparr>"

definition resource_tab_id :: "string \<Rightarrow> string \<Rightarrow> string" where
  "resource_tab_id kind clusterId = clusterId @ '':'' @ kind"

definition append_tab :: "OpenTab \<Rightarrow> OpenTab list \<Rightarrow> OpenTab list" where
  "append_tab t ts = append_once tab_id t ts"

definition remove_tab :: "string \<Rightarrow> OpenTab list \<Rightarrow> OpenTab list" where
  "remove_tab k ts = remove_key tab_id k ts"

definition openResource :: "string \<Rightarrow> string \<Rightarrow> 'a tab_state_scheme \<Rightarrow> 'a tab_state_scheme" where
  "openResource kind clusterId s =
     (let i = resource_tab_id kind clusterId in
      activateTab i clusterId
        (s\<lparr>openTabs := append_tab \<lparr>tab_id = i, tab_kind = kind, tab_cluster = clusterId\<rparr> (openTabs s)\<rparr>))"

text \<open>\<open>activeClusterId || clusters[0]?.id || ""\<close>\<close>

definition current_cluster :: "'a conn_state_scheme \<Rightarrow> string" where
  "current_cluster s = str_or (activeClusterId s)
     (case clusters s of c # _ \<Rightarrow> cluster_id c | [] \<Rightarrow> [])"

definition openSetupTab :: "'a tab_state_scheme \<Rightarrow> 'a tab_state_scheme" where
  "openSetupTab s =
     (let clusterId = current_cluster s;
          clusterConfig = (case List.find (\<lambda>item. conn_id item = clusterId) (connectionConfigs s) of
             Some config \<Rightarrow> Some config
           | None \<Rightarrow> nth_opt (connectionConfigs s) 0);
          s1 = (case clusterConfig of
             Some config \<Rightarrow> if conn_yaml config \<noteq> [] then s\<lparr>guiConnectionYaml := conn_yaml config\<rparr> else s
           | None \<Rightarrow> s)
      in activateTab SETUP_TAB_ID clusterId
        (s1\<lparr>openTabs := append_tab \<lparr>tab_id = SETUP_TAB_ID, tab_kind = SETUP_KIND, tab_cluster = clusterId\<rparr> (openTabs s)\<rparr>))"

definition openSettingsTab :: "'a tab_state_scheme \<Rightarrow> 'a tab_state_scheme" where
  "openSettingsTab s =
     (let clusterId = current_cluster s in
      activateTab SETTINGS_TAB_ID clusterId
        (s\<lparr>openTabs := append_tab \<lparr>tab_id = SETTINGS_TAB_ID, tab_kind = SETTINGS_KIND, tab_cluster = clusterId\<rparr> (openTabs s)\<rparr>))"

text \<open>
  \<open>closeTab\<close>: the updater of the tab list also leaves the id of the tab to fall back to
  (\<open>nextActiveTabId\<close>), which the updater of the active id reads after it.
\<close>

definition close_updater :: "string \<Rightarrow> OpenTab list \<Rightarrow> OpenTab list \<times> string option" where
  "close_updater tabId current =
     (case find_index (\<lambda>item. tab_id item = tabId) current of
       None \<Rightarrow> (current, None)
     | Some closingIndex \<Rightarrow>
         if length current = 1 then (current, Some (tab_id (current ! 0)))
         else
           let next = remove_tab tabId current;
               fallbackTab = (case nth_opt next (closingIndex - 1) of Some t \<Rightarrow> Some t | None \<Rightarrow> nth_opt next 0)
           in (next, map_option tab_id fallbackTab))"

definition closeTab :: "string \<Rightarrow> 'a tab_state_scheme \<Rightarrow> 'a tab_state_scheme" where
  "closeTab tabId s =
     (let (tabs, nextActiveTabId) = close_updater tabId (openTabs s) in
      s\<lparr>openTabs := tabs,
        activeTabId := (if activeTabId s \<noteq> tabId then activeTabId s else nullish nextActiveTabId (activeTabId s))\<rparr>)"

section \<open>Detaching and dragging\<close>

record DetachedTabWindowRequest =
  req_tabId :: string
  req_tabKind :: string
  req_clusterId :: string
  req_tabLabel :: string
  req_clusterLabel :: string

definition openTabInWindow :: "OpenTab \<Rightarrow> 'a conn_state_scheme \<Rightarrow> DetachedTabWindowRequest" where
  "openTabInWindow tab s =
     \<lparr>req_tabId = tab_id tab, req_tabKind = tab_kind tab, req_clusterId = tab_cluster tab,
      req_tabLabel = (if tab_id tab = SETTINGS_TAB_ID then SETTINGS_KIND
                      else if tab_id tab = SETUP_TAB_ID then ''Setup Guide'' else tab_kind tab),
      req_clusterLabel = str_or (case List.find (\<lambda>c. cluster_id c = tab_cluster tab) (clusters s) of
                                   Some c \<Rightarrow> cluster_name c | None \<Rightarrow> []) ''xenage''\<rparr>"

text \<open>
  \<open>detachTabToWindow\<close>: the request is built from the tabs of the render the drag belongs to;
  when the window has opened, the tab is closed in the state of that later time.
\<close>

definition detach_request :: "string \<Rightarrow> 'a tab_state_scheme \<Rightarrow> DetachedTabWindowRequest option" where
  "detach_request tabId s =
     map_option (\<lambda>tab. openTabInWindow tab s) (List.find (\<lambda>c. tab_id c = tabId) (openTabs s))"

definition detach_settled :: "string \<Rightarrow> bool \<Rightarrow> 'a tab_state_scheme \<Rightarrow> 'a tab_state_scheme" where
  "detach_settled tabId opened s = (if opened then closeTab tabId s else s)"

datatype drag_outcome = DragNothing | DragDetach string | DragMove string string

definition drag_outcome_of :: "DragEndEvent \<Rightarrow> rect option \<Rightarrow> drag_outcome" where
  "drag_outcome_of event bounds =
     (let sourceId = active_id event in
      if sourceId = [] then DragNothing
      else if (case bounds of None \<Rightarrow> False | Some b \<Rightarrow> shouldDetachTabByDrag event b TAB_DETACH_TRIGGER_PX)
      then DragDetach sourceId
      else let targetId = nullish (over_id event) [] in
        if targetId = [] \<or> sourceId = targetId then DragNothing else DragMove sourceId targetId)"

definition handleTabDragEnd ::
  "(OpenTab list \<Rightarrow> nat \<Rightarrow> nat \<Rightarrow> OpenTab list) \<Rightarrow> DragEndEvent \<Rightarrow> rect option \<Rightarrow>
   'a tab_state_scheme \<Rightarrow> 'a tab_state_scheme \<times> DetachedTabWindowRequest option" where
  "handleTabDragEnd arrayMove event bounds s =
     (case drag_outcome_of event bounds of
       DragNothing \<Rightarrow> (s, None)
     | DragDetach sourceId \<Rightarrow> (s, detach_request sourceId s)
     | DragMove sourceId targetId \<Rightarrow>
         (s\<lparr>openTabs := reorder_keys arrayMove tab_id sourceId targetId (openTabs s)\<rparr>, None))"

definition handleTabWheel :: "rat option \<Rightarrow> rat \<Rightarrow> rat \<Rightarrow> rat option \<times> bool" where
  "handleTabWheel scrollLeft deltaX deltaY =
     (case scrollLeft of
       None \<Rightarrow> (None, False)
     | Some l \<Rightarrow> if \<bar>deltaY\<bar> \<le> \<bar>deltaX\<bar> then (Some l, False) else (Some (l + deltaY), True))"

section \<open>Laws of the strip\<close>

lemma append_once_keys:
  "map key (append_once key t ts) = (if key t \<in> set (map key ts) then map key ts else map key ts @ [key t])"
  by (auto simp: append_once_def image_iff) metis

interpretation tabs: tab_strip tab_id append_tab remove_tab
proof unfold_locales
  fix t :: OpenTab and ts and k
  show "map tab_id (append_tab t ts) = (if tab_id t \<in> set (map tab_id ts) then map tab_id ts else map tab_id ts @ [tab_id t])"
    unfolding append_tab_def by (rule append_once_keys)
  show "tab_id t \<in> set (map tab_id ts) \<Longrightarrow> append_tab t ts = ts"
    by (auto simp: append_tab_def append_once_def)
  show "map tab_id (remove_tab k ts) = filter (\<lambda>i. i \<noteq> k) (map tab_id ts)"
    by (simp add: remove_tab_def remove_key_def filter_map comp_def)
qed

text \<open>
  The invariant of the tab manager: there is a tab, tab ids are distinct (React uses them as keys),
  and the active id is the id of an open tab.
\<close>

definition tabs_ok :: "'a tab_state_scheme \<Rightarrow> bool" where
  "tabs_ok s = (openTabs s \<noteq> [] \<and> distinct (map tab_id (openTabs s)))"

definition tab_inv :: "'a tab_state_scheme \<Rightarrow> bool" where
  "tab_inv s = (tabs_ok s \<and> activeTabId s \<in> set (map tab_id (openTabs s)))"

named_theorems tab_defs \<open>definitions of the tab manager\<close>
lemmas tab_handler_defs [tab_defs] = openResource_def openSetupTab_def openSettingsTab_def activateTab_def Let_def

lemma append_active_inv:
  fixes s s' :: "'a tab_state_scheme"
  assumes "tabs_ok s" and "openTabs s' = append_tab t (openTabs s)"
  shows "tab_inv (activateTab (tab_id t) c s')"
  using assms tabs.set_keys_add[of t "openTabs s"] tabs.distinct_add[of "openTabs s" t] tabs.add_nonempty
  by (simp add: tab_inv_def tabs_ok_def activateTab_def)

lemma openResource_inv: "tabs_ok s \<Longrightarrow> tab_inv (openResource kind clusterId s)"
  using append_active_inv[of s _ "\<lparr>tab_id = resource_tab_id kind clusterId, tab_kind = kind, tab_cluster = clusterId\<rparr>"]
  by (simp add: openResource_def Let_def)

lemma openSetupTab_inv: "tabs_ok s \<Longrightarrow> tab_inv (openSetupTab s)"
  using append_active_inv[of s _ "\<lparr>tab_id = SETUP_TAB_ID, tab_kind = SETUP_KIND, tab_cluster = current_cluster s\<rparr>"]
  by (simp add: openSetupTab_def Let_def split: option.split)

lemma openSettingsTab_inv: "tabs_ok s \<Longrightarrow> tab_inv (openSettingsTab s)"
  using append_active_inv[of s _ "\<lparr>tab_id = SETTINGS_TAB_ID, tab_kind = SETTINGS_KIND, tab_cluster = current_cluster s\<rparr>"]
  by (simp add: openSettingsTab_def Let_def)

text \<open>Closing: the fall-back tab is one of the remaining tabs, the left neighbour where there is one.\<close>

lemma nth_opt_fallback: "xs \<noteq> [] \<Longrightarrow>
    \<exists>t \<in> set xs. (case nth_opt xs i of Some t \<Rightarrow> Some t | None \<Rightarrow> nth_opt xs 0) = Some t"
  by (auto simp: nth_opt_def)

lemma close_updater_cases:
  assumes "close_updater tabId ts = (ts', n)" and "distinct (map tab_id ts)"
  shows "(tabId \<notin> set (map tab_id ts) \<and> ts' = ts \<and> n = None) \<or>
    (length ts = 1 \<and> ts' = ts \<and> n = Some tabId \<and> tabId \<in> set (map tab_id ts)) \<or>
    (2 \<le> length ts \<and> tabId \<in> set (map tab_id ts) \<and> ts' = remove_tab tabId ts \<and> ts' \<noteq> [] \<and>
      (\<exists>f \<in> set ts'. n = Some (tab_id f)))"
proof (cases "find_index (\<lambda>item. tab_id item = tabId) ts")
  case None
  then have "ts' = ts" "n = None" using assms(1) by (simp_all add: close_updater_def)
  with None show ?thesis by (auto simp: find_index_None)
next
  case (Some i)
  then have i: "i < length ts" "tab_id (ts ! i) = tabId" using find_index_Some by fast+
  then have mem: "tabId \<in> set (map tab_id ts)" by force
  show ?thesis
  proof (cases "length ts = 1")
    case True
    with i Some assms(1) mem show ?thesis by (auto simp: close_updater_def)
  next
    case False
    with i have len: "2 \<le> length ts" by simp
    then have ne: "remove_tab tabId ts \<noteq> []" using tabs.remove_nonempty[OF assms(2)] by simp
    from nth_opt_fallback[OF ne, of "i - 1"] Some False assms(1) len mem ne
    show ?thesis by (auto simp: close_updater_def Let_def)
  qed
qed

lemma closeTab_inv:
  assumes "tab_inv s"
  shows "tab_inv (closeTab tabId s)"
proof -
  obtain ts' n where u: "close_updater tabId (openTabs s) = (ts', n)" by fastforce
  have ok: "distinct (map tab_id (openTabs s))" using assms by (simp add: tab_inv_def tabs_ok_def)
  from close_updater_cases[OF u ok] show ?thesis
    using assms u tabs.distinct_remove[OF ok, of tabId] tabs.set_keys_remove[of tabId "openTabs s"]
    by (auto simp: tab_inv_def tabs_ok_def closeTab_def)
qed

lemma handleTabDragEnd_inv:
  assumes "tab_inv s" and "permutes_elements move"
  shows "tab_inv (fst (handleTabDragEnd move event bounds s))"
proof (cases "drag_outcome_of event bounds")
  case (DragMove a b)
  let ?r = "reorder_keys move tab_id a b (openTabs s)"
  have "set ?r = set (openTabs s)" "length ?r = length (openTabs s)"
    "distinct (map tab_id (openTabs s)) \<Longrightarrow> distinct (map tab_id ?r)"
    using reorder_keys_keys[OF assms(2)] by blast+
  with DragMove assms(1) show ?thesis
    by (cases "openTabs s") (auto simp: handleTabDragEnd_def tab_inv_def tabs_ok_def)
qed (use assms in \<open>auto simp: handleTabDragEnd_def\<close>)

section \<open>The tab manager as a state machine\<close>

inductive tab_step :: "(OpenTab list \<Rightarrow> nat \<Rightarrow> nat \<Rightarrow> OpenTab list) \<Rightarrow> tab_state \<Rightarrow> tab_state \<Rightarrow> bool" for move where
  activate: "t \<in> set (openTabs s) \<Longrightarrow> tab_step move s (activateTab (tab_id t) (tab_cluster t) s)"
| open_resource: "tab_step move s (openResource kind clusterId s)"
| open_setup: "tab_step move s (openSetupTab s)"
| open_settings: "tab_step move s (openSettingsTab s)"
| close_tab: "tab_step move s (closeTab tabId s)"
| drag_end: "tab_step move s (fst (handleTabDragEnd move event bounds s))"
| detached: "tab_step move s (detach_settled tabId opened s)"

inductive tab_reachable :: "(OpenTab list \<Rightarrow> nat \<Rightarrow> nat \<Rightarrow> OpenTab list) \<Rightarrow> tab_state \<Rightarrow> bool" for move where
  initial: "openTabs s = fst (useTabManager_init w) \<Longrightarrow> activeTabId s = snd (useTabManager_init w)
     \<Longrightarrow> tab_reachable move s"
| step: "tab_reachable move s \<Longrightarrow> tab_step move s s' \<Longrightarrow> tab_reachable move s'"

lemma tab_init_inv:
  "openTabs s = fst (useTabManager_init w) \<Longrightarrow> activeTabId s = snd (useTabManager_init w) \<Longrightarrow> tab_inv s"
  by (auto simp: useTabManager_init_def tab_inv_def tabs_ok_def split: option.splits)

lemma tab_step_inv:
  assumes "tab_step move s s'" and "permutes_elements move" and "tab_inv s"
  shows "tab_inv s'"
proof -
  have ok: "tabs_ok s" using assms(3) by (simp add: tab_inv_def)
  show ?thesis
    using assms
  proof (cases rule: tab_step.cases)
    case (activate t)
    with assms(3) show ?thesis by (auto simp: tab_inv_def tabs_ok_def activateTab_def)
  next
    case (drag_end event bounds)
    with assms show ?thesis by (simp add: handleTabDragEnd_inv)
  next
    case (detached tabId opened)
    with assms show ?thesis by (simp add: detach_settled_def closeTab_inv)
  qed (use ok assms(3) in \<open>auto intro: openResource_inv openSetupTab_inv openSettingsTab_inv closeTab_inv\<close>)
qed

text \<open>C3: whatever sequence of openings, closings, activations, drags and detachments the user
  makes, in whatever order, there is always an open tab, no two open tabs share an id, and the
  active tab is one of the open tabs; the last tab cannot be closed.\<close>

theorem tab_manager_invariant:
  assumes "tab_reachable move s" and "permutes_elements move"
  shows "tab_inv s"
  using assms(1)
  by (induction rule: tab_reachable.induct) (auto intro: tab_init_inv tab_step_inv assms(2))

definition demo_tabs :: tab_state where
  "demo_tabs = conn_state.extend (useClusterConnections_init [])
     (tab_state.fields (fst (useTabManager_init None)) (snd (useTabManager_init None)))"

theorem tab_manager_invariant_witness:
  "tab_inv (closeTab ''c1:Node'' (openResource ''Node'' ''c1'' demo_tabs))"
proof (rule tab_manager_invariant)
  show "permutes_elements (\<lambda>xs i j. xs :: OpenTab list)" by (simp add: permutes_elements_def)
  have "tab_reachable (\<lambda>xs i j. xs) demo_tabs"
    by (rule tab_reachable.initial[of _ None])
       (simp_all add: demo_tabs_def tab_state.defs conn_state.defs useClusterConnections_init_def)
  from tab_reachable.step[OF this tab_step.open_resource]
  have "tab_reachable (\<lambda>xs i j. xs) (openResource ''Node'' ''c1'' demo_tabs)" .
  from tab_reachable.step[OF this tab_step.close_tab]
  show "tab_reachable (\<lambda>xs i j. xs) (closeTab ''c1:Node'' (openResource ''Node'' ''c1'' demo_tabs))" .
qed

section \<open>What the handlers do\<close>

lemma find_index_middle:
  "\<forall>u \<in> set xs. \<not> P u \<Longrightarrow> P t \<Longrightarrow> find_index P (xs @ t # ys) = Some (length xs)"
  by (induction xs) auto

text \<open>C32: closing one of several tabs removes exactly that tab and keeps the order of the others;
  the active tab changes only if it was the closed one, and then to the left neighbour, or to the
  new first tab when the closed tab was the leftmost.\<close>

theorem closeTab_spec:
  assumes "distinct (map tab_id (openTabs s))" and "openTabs s = xs @ t # ys" and "xs @ ys \<noteq> []"
  shows "openTabs (closeTab (tab_id t) s) = xs @ ys \<and>
    activeTabId (closeTab (tab_id t) s) =
      (if activeTabId s \<noteq> tab_id t then activeTabId s
       else if xs \<noteq> [] then tab_id (last xs) else tab_id (hd ys))"
proof -
  have "tab_id t \<notin> tab_id ` set xs" "tab_id t \<notin> tab_id ` set ys" using assms(1,2) by auto
  then have nin: "\<forall>u \<in> set xs. tab_id u \<noteq> tab_id t" "\<forall>u \<in> set ys. tab_id u \<noteq> tab_id t"
    by (metis image_eqI)+
  have i: "find_index (\<lambda>item. tab_id item = tab_id t) (xs @ t # ys) = Some (length xs)"
    using nin by (intro find_index_middle) auto
  have r: "remove_tab (tab_id t) (xs @ t # ys) = xs @ ys"
    using nin by (simp add: remove_tab_def remove_key_def filter_id_conv)
  have f: "nth_opt (xs @ ys) (length xs - 1) = Some (if xs \<noteq> [] then last xs else hd ys)"
    using assms(3) by (cases xs; cases ys) (auto simp: nth_opt_def nth_append last_conv_nth)
  have l: "length (xs @ t # ys) \<noteq> 1" using assms(3) by auto
  have "close_updater (tab_id t) (openTabs s)
      = (xs @ ys, Some (tab_id (if xs \<noteq> [] then last xs else hd ys)))"
    using i r f l by (simp add: close_updater_def assms(2) Let_def)
  then show ?thesis by (simp add: closeTab_def)
qed

theorem closeTab_spec_witness:
  "openTabs (closeTab ''c1:Node'' (openResource ''Node'' ''c1'' demo_tabs)) = openTabs demo_tabs \<and>
   activeTabId (closeTab ''c1:Node'' (openResource ''Node'' ''c1'' demo_tabs)) = SETUP_TAB_ID"
proof -
  let ?n = "\<lparr>tab_id = ''c1:Node'', tab_kind = ''Node'', tab_cluster = ''c1''\<rparr>"
  let ?u = "\<lparr>tab_id = SETUP_TAB_ID, tab_kind = SETUP_KIND, tab_cluster = []\<rparr>"
  have o: "openTabs (openResource ''Node'' ''c1'' demo_tabs) = [?u] @ ?n # []"
    "activeTabId (openResource ''Node'' ''c1'' demo_tabs) = ''c1:Node''" "openTabs demo_tabs = [?u]"
    by (simp_all add: openResource_def Let_def activateTab_def append_tab_def append_once_def demo_tabs_def
        tab_state.defs conn_state.defs useClusterConnections_init_def useTabManager_init_def resource_tab_id_def SETUP_TAB_ID_def)
  from closeTab_spec[OF _ o(1)] show ?thesis by (simp add: o SETUP_TAB_ID_def)
qed

lemma resource_tab_id_inject:
  assumes "CHR '':'' \<notin> set kind" "CHR '':'' \<notin> set kind'" "resource_tab_id kind c = resource_tab_id kind' c'"
  shows "kind = kind' \<and> c = c'"
proof -
  have "takeWhile (\<lambda>x. x \<noteq> CHR '':'') (rev (c @ '':'' @ kind)) = rev kind" if "CHR '':'' \<notin> set kind" for c kind
    using that by (simp add: takeWhile_append)
  then have "kind = kind'" using assms by (metis resource_tab_id_def rev_is_rev_conv)
  with assms(3) show ?thesis by (simp add: resource_tab_id_def)
qed

text \<open>Opening a resource shows one tab per resource: afterwards the tab of that kind and
  cluster is open and active and the cluster is selected; nothing else is opened or closed; opening
  it again changes nothing; and tabs of different kinds or clusters never share an id.\<close>

theorem openResource_spec:
  assumes "CHR '':'' \<notin> set kind"
  shows "let s' = openResource kind clusterId s in
    activeTabId s' = resource_tab_id kind clusterId \<and> activeClusterId s' = clusterId \<and>
    set (map tab_id (openTabs s')) = insert (resource_tab_id kind clusterId) (set (map tab_id (openTabs s))) \<and>
    openResource kind clusterId s' = s' \<and>
    (CHR '':'' \<notin> set kind' \<and> (kind', c') \<noteq> (kind, clusterId)
       \<longrightarrow> resource_tab_id kind' c' \<noteq> resource_tab_id kind clusterId)"
proof -
  let ?t = "\<lparr>tab_id = resource_tab_id kind clusterId, tab_kind = kind, tab_cluster = clusterId\<rparr>"
  show ?thesis
    using tabs.add_idem[of ?t "openTabs s"] tabs.set_keys_add[of ?t "openTabs s"]
      resource_tab_id_inject[OF _ assms]
    by (auto simp: openResource_def Let_def activateTab_def)
qed

theorem openResource_spec_witness:
  "activeTabId (openResource ''Role'' ''c:1'' demo_tabs) = ''c:1:Role''"
  using openResource_spec[of "''Role''" "''c:1''" demo_tabs] by (simp add: Let_def resource_tab_id_def)

end
