(* ===== verification/FetchIndicator.thy ===== *)
theory FetchIndicator
  imports TabManager
begin

text \<open>
  The fetch indicator, \<open>modules/app/hooks/useDataFetchIndicator.ts\<close>: a counter of pending
  fetches and two flags. Its contract is the locale \<open>fetch_indicator\<close>; the cluster data hook
  uses it through that contract.
\<close>

record fetch_state = tab_state +
  pendingFetchCount :: int
  pendingFetchHadError :: bool
  isDataFetching :: bool
  hasDataFetchError :: bool

definition beginDataFetch :: "'a fetch_state_scheme \<Rightarrow> 'a fetch_state_scheme" where
  "beginDataFetch s = s\<lparr>pendingFetchCount := pendingFetchCount s + 1, isDataFetching := True\<rparr>"

definition markDataFetchError :: "'a fetch_state_scheme \<Rightarrow> 'a fetch_state_scheme" where
  "markDataFetchError s = s\<lparr>pendingFetchHadError := True\<rparr>"

definition endDataFetch :: "'a fetch_state_scheme \<Rightarrow> 'a fetch_state_scheme" where
  "endDataFetch s =
     (let s1 = s\<lparr>pendingFetchCount := max 0 (pendingFetchCount s - 1)\<rparr> in
      if pendingFetchCount s1 \<noteq> 0 then s1
      else s1\<lparr>isDataFetching := False, hasDataFetchError := pendingFetchHadError s1, pendingFetchHadError := False\<rparr>)"

section \<open>The contract\<close>

datatype fetch_event = FetchBegin | FetchError | FetchEnd

text \<open>
  A busy period: from a state with \<open>n\<close> pending fetches, a sequence of events that keeps at
  least one pending until its last end.
\<close>

fun busy_period :: "int \<Rightarrow> fetch_event list \<Rightarrow> bool" where
  "busy_period n [] = (n = 0)"
| "busy_period n (FetchBegin # es) = (0 < n \<and> busy_period (n + 1) es)"
| "busy_period n (FetchError # es) = (0 < n \<and> busy_period n es)"
| "busy_period n (FetchEnd # es) = (0 < n \<and> busy_period (n - 1) es)"

lemma busy_period_zero: "busy_period 0 es \<Longrightarrow> es = []"
  by (cases es) (auto elim: busy_period.elims)

locale fetch_indicator =
  fixes begin_op :: "'s \<Rightarrow> 's" and mark_op :: "'s \<Rightarrow> 's" and end_op :: "'s \<Rightarrow> 's"
    and count :: "'s \<Rightarrow> int" and flag :: "'s \<Rightarrow> bool" and busy :: "'s \<Rightarrow> bool" and failed :: "'s \<Rightarrow> bool"
  assumes begin_laws: "count (begin_op s) = count s + 1" "flag (begin_op s) = flag s"
      "busy (begin_op s)" "failed (begin_op s) = failed s"
    and mark_laws: "count (mark_op s) = count s" "flag (mark_op s)"
      "busy (mark_op s) = busy s" "failed (mark_op s) = failed s"
    and end_count: "count (end_op s) = max 0 (count s - 1)"
    and end_more: "1 < count s \<Longrightarrow> flag (end_op s) = flag s \<and> busy (end_op s) = busy s \<and> failed (end_op s) = failed s"
    and end_last: "count s \<le> 1 \<Longrightarrow> \<not> flag (end_op s) \<and> \<not> busy (end_op s) \<and> failed (end_op s) = flag s"
begin

definition op :: "fetch_event \<Rightarrow> 's \<Rightarrow> 's" where
  "op e = (case e of FetchBegin \<Rightarrow> begin_op | FetchError \<Rightarrow> mark_op | FetchEnd \<Rightarrow> end_op)"

definition inv :: "'s \<Rightarrow> bool" where
  "inv s = (0 \<le> count s \<and> (busy s \<longleftrightarrow> 0 < count s))"

lemma inv_op: "inv s \<Longrightarrow> inv (op e s)"
  using end_more[of s] end_last[of s]
  by (cases e; cases "1 < count s") (auto simp: inv_def op_def begin_laws mark_laws end_count)

lemma inv_begin: "inv s \<Longrightarrow> inv (begin_op s)" and inv_mark: "inv s \<Longrightarrow> inv (mark_op s)"
  and inv_end: "inv s \<Longrightarrow> inv (end_op s)"
  using inv_op[of s FetchBegin] inv_op[of s FetchError] inv_op[of s FetchEnd] by (simp_all add: op_def)

lemma busy_period_result:
  "busy_period (count s) es \<Longrightarrow> 0 < count s \<Longrightarrow>
     failed (fold op es s) = (flag s \<or> FetchError \<in> set es) \<and> \<not> busy (fold op es s) \<and> count (fold op es s) = 0"
proof (induction es arbitrary: s)
  case (Cons e es)
  show ?case
  proof (cases e)
    case FetchBegin
    then show ?thesis using Cons.prems Cons.IH[of "begin_op s"] by (simp add: op_def begin_laws)
  next
    case FetchError
    then show ?thesis using Cons.prems Cons.IH[of "mark_op s"] by (simp add: op_def mark_laws)
  next
    case FetchEnd
    show ?thesis
    proof (cases "1 < count s")
      case True
      with FetchEnd Cons.prems end_more[OF True] Cons.IH[of "end_op s"] show ?thesis
        by (simp add: op_def end_count)
    next
      case False
      with Cons.prems have one: "count s = 1" by simp
      with FetchEnd Cons.prems have "es = []" by (auto dest: busy_period_zero)
      with one FetchEnd end_last[of s] show ?thesis by (simp add: op_def end_count)
    qed
  qed
qed simp

end

interpretation fi: fetch_indicator beginDataFetch markDataFetchError endDataFetch
  pendingFetchCount pendingFetchHadError isDataFetching hasDataFetchError
  by unfold_locales (auto simp: beginDataFetch_def markDataFetchError_def endDataFetch_def Let_def)

lemmas fi_inv_def = fi.inv_def

text \<open>The three callbacks as operations on the component's state.\<close>

definition fetch_op :: "fetch_event \<Rightarrow> 'a fetch_state_scheme \<Rightarrow> 'a fetch_state_scheme" where
  "fetch_op e = (case e of FetchBegin \<Rightarrow> beginDataFetch | FetchError \<Rightarrow> markDataFetchError | FetchEnd \<Rightarrow> endDataFetch)"

lemma fetch_op_eq: "fetch_op = fi.op"
  by (rule ext) (simp add: fetch_op_def fi.op_def)

definition fetch_idle_fields :: "tab_state \<Rightarrow> fetch_state" where
  "fetch_idle_fields s = tab_state.extend s (fetch_state.fields 0 False False False)"

definition demo_fetch :: fetch_state where
  "demo_fetch = fetch_idle_fields demo_tabs"



end
