(* ===== verification/ClusterData.thy ===== *)
theory ClusterData
  imports FetchIndicator
begin

text \<open>
  Snapshots and events of the clusters, \<open>modules/app/hooks/useClusterData.ts\<close>. Every fetch is
  split at its await into a part that starts it (and may refuse to) and a part that runs when the
  service call settles; other handlers run in between, on the state of that time. A request in
  flight is a value of \<open>request\<close>, which holds what the JavaScript closure holds.
\<close>

record data_state = fetch_state +
  clusterEventsRef :: "ClusterEventCache js_obj"
  clusterEventLoadingRef :: "bool js_obj"
  clusterSnapshots :: "GuiClusterSnapshot js_obj"
  clusterEvents :: "ClusterEventCache js_obj"
  clusterSnapshotErrors :: "string js_obj"
  clusterSnapshotLoading :: "bool js_obj"

datatype request =
    SnapshotRequest string
  | EventRequest string EventFetchMode
  | SyncRequest string

text \<open>\<open>Record<string, boolean>\<close> read as a condition: absent is falsy.\<close>

definition is_set :: "bool js_obj \<Rightarrow> string \<Rightarrow> bool" where
  "is_set ob k = (obj_get ob k = Some True)"

definition find_connection :: "string \<Rightarrow> 'a conn_state_scheme \<Rightarrow> StoredClusterConnection option" where
  "find_connection clusterId s = List.find (\<lambda>item. conn_id item = clusterId) (connectionConfigs s)"

section \<open>Synchronising the control-plane URLs\<close>

definition syncClusterControlPlaneUrls_call :: "string \<Rightarrow> GuiClusterSnapshot \<Rightarrow> service_call option" where
  "syncClusterControlPlaneUrls_call clusterId snapshot =
     (let discoveredUrls = controlPlaneUrlsFromSnapshot snapshot in
      if discoveredUrls = [] then None else Some (SyncControlPlaneUrls clusterId discoveredUrls))"

definition sync_updater ::
  "string \<Rightarrow> StoredClusterConnection \<Rightarrow> StoredClusterConnection list \<Rightarrow> StoredClusterConnection list" where
  "sync_updater clusterId updated current =
     map (\<lambda>item. if conn_id item \<noteq> clusterId then item
                  else if conn_yaml item = conn_yaml updated \<and> conn_name item = conn_name updated then item
                  else updated) current"

definition syncClusterControlPlaneUrls_end ::
  "string \<Rightarrow> js_error + StoredClusterConnection \<Rightarrow> 'a data_state_scheme \<Rightarrow> 'a data_state_scheme" where
  "syncClusterControlPlaneUrls_end clusterId settled s =
     (case settled of
       Inl e \<Rightarrow> s
     | Inr updated \<Rightarrow> s\<lparr>connectionConfigs := sync_updater clusterId updated (connectionConfigs s)\<rparr>)"

section \<open>Fetching a snapshot\<close>

definition fetchSnapshot_begin :: "string \<Rightarrow> 'a data_state_scheme \<Rightarrow> 'a data_state_scheme \<times> service_call option" where
  "fetchSnapshot_begin clusterId s =
     (if clusterId = [] then (s, None)
      else case find_connection clusterId s of
        None \<Rightarrow> (s, None)
      | Some connection \<Rightarrow>
          (beginDataFetch (s\<lparr>clusterSnapshotLoading := obj_set clusterId True (clusterSnapshotLoading s),
              clusterSnapshotErrors := obj_set clusterId [] (clusterSnapshotErrors s)\<rparr>),
           Some (FetchSnapshotFromYaml (conn_yaml connection))))"

definition fetchSnapshot_finally :: "string \<Rightarrow> 'a data_state_scheme \<Rightarrow> 'a data_state_scheme" where
  "fetchSnapshot_finally clusterId s =
     endDataFetch (s\<lparr>clusterSnapshotLoading := obj_set clusterId False (clusterSnapshotLoading s)\<rparr>)"

definition fetchSnapshot_end ::
  "string \<Rightarrow> js_error + GuiClusterSnapshot \<Rightarrow> 'a data_state_scheme \<Rightarrow> 'a data_state_scheme \<times> service_call option" where
  "fetchSnapshot_end clusterId settled s =
     (case settled of
       Inr snapshot \<Rightarrow>
         (fetchSnapshot_finally clusterId (s\<lparr>clusterSnapshots := obj_set clusterId snapshot (clusterSnapshots s)\<rparr>),
          syncClusterControlPlaneUrls_call clusterId snapshot)
     | Inl e \<Rightarrow>
         (fetchSnapshot_finally clusterId (markDataFetchError (s\<lparr>clusterSnapshotErrors :=
             obj_set clusterId (error_text ''Failed to fetch cluster snapshot.'' e) (clusterSnapshotErrors s)\<rparr>)),
          None))"

section \<open>Fetching a page of events\<close>

definition cache_field :: "ClusterEventCache option \<Rightarrow> (ClusterEventCache \<Rightarrow> 'b) \<Rightarrow> 'b \<Rightarrow> 'b" where
  "cache_field c f d = (case c of Some x \<Rightarrow> f x | None \<Rightarrow> d)"

text \<open>The entry with only its \<open>loading\<close> flag changed; a missing entry gets its defaults.\<close>

definition cache_with_loading :: "bool \<Rightarrow> ClusterEventCache option \<Rightarrow> ClusterEventCache" where
  "cache_with_loading l c =
     \<lparr>cache_has_more = cache_field c cache_has_more True, cache_items = cache_field c cache_items [],
      cache_loading = l, oldest_sequence = cache_field c oldest_sequence None\<rparr>"

definition set_events :: "string \<Rightarrow> ClusterEventCache \<Rightarrow> 'a data_state_scheme \<Rightarrow> 'a data_state_scheme" where
  "set_events clusterId c s =
     (let next = obj_set clusterId c (clusterEvents s) in s\<lparr>clusterEvents := next, clusterEventsRef := next\<rparr>)"

definition fetchEventPage_begin ::
  "int \<Rightarrow> string \<Rightarrow> EventFetchMode \<Rightarrow> 'a data_state_scheme \<Rightarrow> 'a data_state_scheme \<times> service_call option" where
  "fetchEventPage_begin eventPageSize clusterId mode s =
     (case find_connection clusterId s of
       None \<Rightarrow> (s, None)
     | Some connection \<Rightarrow>
         if is_set (clusterEventLoadingRef s) clusterId then (s, None)
         else
           let currentCache = obj_get (clusterEventsRef s) clusterId;
               beforeSequence = (if mode = Older then cache_field currentCache oldest_sequence None else None) in
           if mode = Older \<and> currentCache \<noteq> None \<and> \<not> cache_field currentCache cache_has_more True then (s, None)
           else
             let s1 = beginDataFetch (s\<lparr>clusterEventLoadingRef := obj_set clusterId True (clusterEventLoadingRef s)\<rparr>)
             in (set_events clusterId (cache_with_loading True (obj_get (clusterEvents s1) clusterId)) s1,
                 Some (FetchEventPageFromYaml (conn_yaml connection) beforeSequence eventPageSize)))"

fun min_sequence :: "EventLogEntry list \<Rightarrow> int option" where
  "min_sequence [] = None"
| "min_sequence (x # xs) = Some (foldl (\<lambda>m item. if event_sequence item < m then event_sequence item else m) (event_sequence x) (x # xs))"

definition incoming_items :: "EventLogEntry list \<Rightarrow> EventLogEntry list \<Rightarrow> EventLogEntry list" where
  "incoming_items existing page = filter (\<lambda>item. event_sequence item \<notin> set (map event_sequence existing)) page"

definition merge_items :: "EventFetchMode \<Rightarrow> EventLogEntry list \<Rightarrow> EventLogEntry list \<Rightarrow> EventLogEntry list" where
  "merge_items mode existing page =
     (if mode = Older then existing @ incoming_items existing page
      else if existing \<noteq> [] then incoming_items existing page @ existing
      else page)"

definition merge_page :: "EventFetchMode \<Rightarrow> ClusterEventCache option \<Rightarrow> GuiEventPage \<Rightarrow> ClusterEventCache" where
  "merge_page mode existing page =
     (let existingItems = cache_field existing cache_items [];
          nextItems = merge_items mode existingItems (page_items page);
          hasMore = (if mode = Older then page_has_more page
                     else if existingItems \<noteq> [] then cache_field existing cache_has_more (page_has_more page)
                     else page_has_more page)
      in \<lparr>cache_has_more = hasMore, cache_items = nextItems, cache_loading = False,
          oldest_sequence = min_sequence nextItems\<rparr>)"

definition fetchEventPage_finally :: "string \<Rightarrow> 'a data_state_scheme \<Rightarrow> 'a data_state_scheme" where
  "fetchEventPage_finally clusterId s =
     endDataFetch (s\<lparr>clusterEventLoadingRef := obj_set clusterId False (clusterEventLoadingRef s)\<rparr>)"

definition fetchEventPage_end ::
  "string \<Rightarrow> EventFetchMode \<Rightarrow> js_error + GuiEventPage \<Rightarrow> 'a data_state_scheme \<Rightarrow> 'a data_state_scheme" where
  "fetchEventPage_end clusterId mode settled s =
     (case settled of
       Inr page \<Rightarrow>
         fetchEventPage_finally clusterId
           (set_events clusterId (merge_page mode (obj_get (clusterEvents s) clusterId) page) s)
     | Inl e \<Rightarrow>
         fetchEventPage_finally clusterId
           (let s1 = markDataFetchError s in
            set_events clusterId (cache_with_loading False (obj_get (clusterEvents s1) clusterId)) s1))"

section \<open>Forgetting a cluster\<close>

definition clearClusterData :: "string \<Rightarrow> 'a data_state_scheme \<Rightarrow> 'a data_state_scheme" where
  "clearClusterData clusterId s =
     (let next = obj_del clusterId (clusterEvents s) in
      s\<lparr>clusterSnapshots := obj_del clusterId (clusterSnapshots s),
        clusterSnapshotErrors := obj_del clusterId (clusterSnapshotErrors s),
        clusterSnapshotLoading := obj_del clusterId (clusterSnapshotLoading s),
        clusterEvents := next, clusterEventsRef := next,
        clusterEventLoadingRef := obj_del clusterId (clusterEventLoadingRef s)\<rparr>)"

text \<open>The effect that runs after a render whose \<open>clusterEvents\<close> changed.\<close>

definition sync_events_ref :: "'a data_state_scheme \<Rightarrow> 'a data_state_scheme" where
  "sync_events_ref s = s\<lparr>clusterEventsRef := clusterEvents s\<rparr>"

section \<open>Merging pages\<close>

lemma min_sequence_fold:
  "foldl (\<lambda>m item. if event_sequence item < m then event_sequence item else m) a xs
     = Min (insert a (event_sequence ` set xs))"
proof (induction xs arbitrary: a)
  case (Cons x xs)
  have "(if event_sequence x < a then event_sequence x else a) = min a (event_sequence x)" by (simp add: min_def)
  moreover have "Min (insert (min a b) F) = Min (insert a (insert b F))" if "finite F" for b and F :: "int set"
    using that by (cases "F = {}") (auto simp: min.assoc min.left_commute)
  ultimately show ?case by (simp add: Cons.IH)
qed simp

lemma min_sequence_Min:
  "min_sequence xs = (if xs = [] then None else Some (Min (event_sequence ` set xs)))"
proof (cases xs)
  case (Cons x ys)
  have "min_sequence xs = Some (Min (insert (event_sequence x) (event_sequence ` set (x # ys))))"
    using min_sequence_fold[of "event_sequence x" "x # ys"] Cons by (simp only: min_sequence.simps)
  then show ?thesis using Cons by (simp add: insert_absorb)
qed simp

lemma merge_items_sequences:
  "event_sequence ` set (merge_items mode existing page) = event_sequence ` set existing \<union> event_sequence ` set page"
  by (auto simp: merge_items_def incoming_items_def)

lemma merge_items_distinct:
  assumes "distinct (map event_sequence existing)" "distinct (map event_sequence page)"
  shows "distinct (map event_sequence (merge_items mode existing page))"
proof -
  have "distinct (map event_sequence (incoming_items existing page))"
    using assms(2) by (auto simp: incoming_items_def distinct_map intro: inj_on_subset)
  moreover have "event_sequence ` set existing \<inter> event_sequence ` set (incoming_items existing page) = {}"
    by (auto simp: incoming_items_def) (metis image_eqI)
  ultimately show ?thesis using assms by (auto simp: merge_items_def)
qed

lemma merge_items_keeps:
  "filter (\<lambda>x. event_sequence x \<in> set (map event_sequence existing)) (merge_items mode existing page) = existing"
  by (auto simp: merge_items_def incoming_items_def filter_empty_conv filter_id_conv)

definition sequences :: "ClusterEventCache \<Rightarrow> int set" where
  "sequences c = event_sequence ` set (cache_items c)"

definition page_sequences :: "GuiEventPage \<Rightarrow> int set" where
  "page_sequences page = event_sequence ` set (page_items page)"

definition cache_ok :: "ClusterEventCache \<Rightarrow> bool" where
  "cache_ok c = (distinct (map event_sequence (cache_items c)) \<and>
     oldest_sequence c = (if cache_items c = [] then None else Some (Min (sequences c))))"

lemma merge_page_sequences:
  "sequences (merge_page mode (Some c) page) = sequences c \<union> page_sequences page"
  "sequences (merge_page mode None page) = page_sequences page"
  by (simp_all add: merge_page_def Let_def sequences_def page_sequences_def merge_items_sequences cache_field_def)

text \<open>C4: merging a page of events loses and invents nothing: in every mode the merged cache holds
  exactly the events of the cache and of the page, by sequence number; the cached events keep their
  entries and their order; no sequence number appears twice if the page has no duplicates; and the
  cursor for the next older page is the smallest sequence number held.\<close>

theorem merge_page_correct:
  assumes "cache_ok c" and "distinct (map event_sequence (page_items page))"
  shows "let m = merge_page mode (Some c) page in
    cache_ok m \<and> sequences m = sequences c \<union> page_sequences page \<and> \<not> cache_loading m \<and>
    filter (\<lambda>x. event_sequence x \<in> sequences c) (cache_items m) = cache_items c"
proof -
  let ?m = "merge_page mode (Some c) page"
  have items: "cache_items ?m = merge_items mode (cache_items c) (page_items page)"
    by (simp add: merge_page_def Let_def cache_field_def)
  have "distinct (map event_sequence (cache_items ?m))"
    using assms merge_items_distinct by (simp add: items cache_ok_def)
  then have "cache_ok ?m"
    by (simp add: cache_ok_def sequences_def merge_page_def Let_def min_sequence_Min)
  moreover have "filter (\<lambda>x. event_sequence x \<in> sequences c) (cache_items ?m) = cache_items c"
    using merge_items_keeps[of "cache_items c" mode "page_items page"] by (simp add: items sequences_def)
  moreover have "\<not> cache_loading ?m" by (simp add: merge_page_def Let_def)
  ultimately show ?thesis by (simp add: Let_def merge_page_sequences)
qed

definition demo_event :: "int \<Rightarrow> EventLogEntry" where
  "demo_event q = \<lparr>event_sequence = q, happened_at = ''t'', actor_id = ''n1'', event_actor_type = NodeActor,
     event_action = ''a'', event_details = []\<rparr>"

definition demo_page :: "int list \<Rightarrow> bool \<Rightarrow> GuiEventPage" where
  "demo_page qs m = \<lparr>page_items = map demo_event qs, page_has_more = m, next_before_sequence = 0\<rparr>"

definition demo_cache :: "int list \<Rightarrow> ClusterEventCache" where
  "demo_cache qs = merge_page Initial None (demo_page qs True)"

lemma demo_event_sequence [simp]: "event_sequence (demo_event q) = q" "event_sequence \<circ> demo_event = id"
  by (simp_all add: demo_event_def fun_eq_iff)

lemma demo_page_sequences [simp]: "page_sequences (demo_page qs m) = set qs"
    "map event_sequence (page_items (demo_page qs m)) = qs"
  by (simp_all add: page_sequences_def demo_page_def image_image)

lemma demo_cache_items [simp]: "cache_items (demo_cache qs) = map demo_event qs"
  by (simp add: demo_cache_def merge_page_def Let_def merge_items_def demo_page_def cache_field_def)

lemma demo_cache_ok: "distinct qs \<Longrightarrow> cache_ok (demo_cache qs)"
  by (simp add: cache_ok_def sequences_def)
     (simp add: demo_cache_def merge_page_def Let_def merge_items_def demo_page_def cache_field_def min_sequence_Min image_image)

theorem merge_page_correct_witness:
  "sequences (merge_page Older (Some (demo_cache [5, 4])) (demo_page [4, 3] False)) = {5, 4} \<union> {4, 3}"
proof -
  have "cache_ok (demo_cache [5, 4])" by (rule demo_cache_ok) simp
  from merge_page_correct[OF this, of "demo_page [4, 3] False" Older]
  show ?thesis by (simp add: Let_def demo_page_def sequences_def page_sequences_def)
qed

section \<open>Completeness of paging\<close>

text \<open>
  The audit log of the server is a set of sequence numbers. A page answers a request with cursor
  \<open>before\<close> if it holds a contiguous piece of the log right below the cursor
  (\<open>docs/control-plane-api.md\<close>; the server returns the newest \<open>limit\<close> entries below it).
\<close>

definition answers :: "int set \<Rightarrow> int option \<Rightarrow> GuiEventPage \<Rightarrow> bool" where
  "answers evlog before page =
     (page_sequences page \<subseteq> {q \<in> evlog. \<forall>b. before = Some b \<longrightarrow> q < b} \<and>
      (\<forall>q \<in> evlog. (\<forall>b. before = Some b \<longrightarrow> q < b) \<and> (\<exists>x \<in> page_sequences page. x \<le> q) \<longrightarrow> q \<in> page_sequences page))"

text \<open>The cache has every event of the log from its oldest entry on.\<close>

definition covers :: "int set \<Rightarrow> ClusterEventCache \<Rightarrow> bool" where
  "covers evlog c = (\<forall>q \<in> evlog. (\<exists>x \<in> sequences c. x \<le> q) \<longrightarrow> q \<in> sequences c)"

lemma cache_ok_oldest: "cache_ok c \<Longrightarrow> oldest_sequence c = Some b \<Longrightarrow> b \<in> sequences c \<and> (\<forall>x \<in> sequences c. b \<le> x)"
  by (auto simp: cache_ok_def sequences_def split: if_splits)

lemma cache_ok_no_oldest: "cache_ok c \<Longrightarrow> oldest_sequence c = None \<Longrightarrow> sequences c = {}"
  by (auto simp: cache_ok_def sequences_def split: if_splits)

text \<open>Scrolling back shows the log without holes: the first page of a cluster, and every older
  page that answers the request for the cache's cursor, leave a cache that holds every event of the
  log from its oldest entry on.\<close>

theorem older_page_covers:
  assumes "cache_ok c" and "covers evlog c" and "answers evlog (oldest_sequence c) page"
  shows "covers evlog (merge_page Older (Some c) page) \<and>
    (answers evlog None first \<longrightarrow> covers evlog (merge_page Initial None first))"
proof
  show "covers evlog (merge_page Older (Some c) page)"
    unfolding covers_def merge_page_sequences
  proof (intro ballI impI)
    fix q assume q: "q \<in> evlog" and ex: "\<exists>x \<in> sequences c \<union> page_sequences page. x \<le> q"
    show "q \<in> sequences c \<union> page_sequences page"
    proof (cases "\<exists>x \<in> sequences c. x \<le> q")
      case True
      with q assms(2) show ?thesis by (auto simp: covers_def)
    next
      case False
      then have "\<forall>b. oldest_sequence c = Some b \<longrightarrow> q < b"
        using cache_ok_oldest[OF assms(1)] by (meson not_le_imp_less)
      with False ex q assms(3) show ?thesis by (auto simp: answers_def)
    qed
  qed
  show "answers evlog None first \<longrightarrow> covers evlog (merge_page Initial None first)"
    by (auto simp: answers_def covers_def merge_page_sequences)
qed

theorem older_page_covers_witness:
  "covers {1..6} (merge_page Older (Some (demo_cache [6, 5])) (demo_page [4, 3] True))"
proof -
  have ok: "cache_ok (demo_cache [6, 5])" by (rule demo_cache_ok) simp
  have seqs: "sequences (demo_cache [6, 5]) = {6, 5}" by (simp add: sequences_def)
  have old: "oldest_sequence (demo_cache [6, 5]) = Some 5"
    using ok seqs by (auto simp: cache_ok_def)
  have cov: "covers {1..6} (demo_cache [6, 5])" by (auto simp: covers_def seqs)
  have ans: "answers {1..6} (oldest_sequence (demo_cache [6, 5])) (demo_page [4, 3] True)"
    by (auto simp: answers_def old page_sequences_def demo_page_def)
  show ?thesis using older_page_covers[OF ok cov ans] by blast
qed

text \<open>A refresh keeps up with a growing log: when newer events were appended and the refreshed
  page reaches back to an event not newer than a cached one, the merged cache again holds every
  event of the log from its oldest entry on.\<close>

theorem refresh_covers:
  assumes "covers old c" and "\<And>q x. q \<in> evlog - old \<Longrightarrow> x \<in> sequences c \<Longrightarrow> x < q"
    and "answers evlog None page" and "\<exists>x \<in> page_sequences page. \<exists>y \<in> sequences c. x \<le> y"
  shows "covers evlog (merge_page Refresh (Some c) page)"
  unfolding covers_def merge_page_sequences
proof (intro ballI impI)
  fix q assume q: "q \<in> evlog" and ex: "\<exists>x \<in> sequences c \<union> page_sequences page. x \<le> q"
  show "q \<in> sequences c \<union> page_sequences page"
  proof (cases "q \<in> old \<and> (\<exists>x \<in> sequences c. x \<le> q)")
    case True
    with assms(1) show ?thesis by (auto simp: covers_def)
  next
    case False
    have "\<exists>x \<in> page_sequences page. x \<le> q"
    proof (cases "q \<in> old")
      case True
      with False ex show ?thesis by auto
    next
      case False
      with q assms(2,4) show ?thesis by (meson DiffI less_imp_le order_trans)
    qed
    with q assms(3) show ?thesis by (auto simp: answers_def)
  qed
qed

theorem refresh_covers_witness:
  "covers {1..6} (merge_page Refresh (Some (demo_cache [4, 3])) (demo_page [6, 5, 4] True))"
proof (rule refresh_covers[where old = "{1..4}"])
  have seqs: "sequences (demo_cache [4, 3]) = {4, 3}" by (simp add: sequences_def)
  show "covers {1..4} (demo_cache [4, 3])" by (auto simp: covers_def seqs)
  show "\<And>q x. q \<in> {1..6} - {1..4} \<Longrightarrow> x \<in> sequences (demo_cache [4, 3]) \<Longrightarrow> x < q" by (auto simp: seqs)
  show "answers {1..6} None (demo_page [6, 5, 4] True)" by (auto simp: answers_def page_sequences_def demo_page_def)
  show "\<exists>x \<in> page_sequences (demo_page [6, 5, 4] True). \<exists>y \<in> sequences (demo_cache [4, 3]). x \<le> y"
    by (simp add: page_sequences_def demo_page_def seqs)
qed

text \<open>Older pages fetched one after the other, each below the cursor of its time.\<close>

fun older_pages :: "ClusterEventCache \<Rightarrow> GuiEventPage list \<Rightarrow> bool" where
  "older_pages c [] = True"
| "older_pages c (page # pages) =
     ((\<forall>b. oldest_sequence c = Some b \<longrightarrow> (\<forall>x \<in> page_sequences page. x < b)) \<and>
      distinct (map event_sequence (page_items page)) \<and>
      older_pages (merge_page Older (Some c) page) pages)"

definition after_pages :: "ClusterEventCache \<Rightarrow> GuiEventPage list \<Rightarrow> ClusterEventCache" where
  "after_pages c pages = fold (\<lambda>page c. merge_page Older (Some c) page) pages c"

text \<open>A hole above the cursor is never closed by scrolling: if an event newer than the oldest
  cached one is missing (as after a refresh whose page does not reach back to the cached events),
  it is still missing after any number of older pages. Concretely, with three cached events and
  five new ones, a refresh page of two leaves such a hole.\<close>

theorem event_gap_stays:
  assumes "cache_ok c" and "oldest_sequence c = Some b" and "b \<le> q" and "q \<notin> sequences c" and "older_pages c pages"
  shows "q \<notin> sequences (after_pages c pages)"
  using assms
proof (induction pages arbitrary: c b)
  case Nil
  then show ?case by (simp add: after_pages_def)
next
  case (Cons page pages)
  let ?m = "merge_page Older (Some c) page"
  have below: "\<forall>x \<in> page_sequences page. x < b" and pages: "older_pages ?m pages"
    and d: "distinct (map event_sequence (page_items page))"
    using Cons.prems(2,5) by auto
  have ok: "cache_ok ?m"
    using merge_items_distinct[of "cache_items c" "page_items page" Older] Cons.prems(1) d
    by (simp add: cache_ok_def sequences_def merge_page_def Let_def min_sequence_Min cache_field_def)
  have nin: "q \<notin> sequences ?m" using below Cons.prems(3,4) by (auto simp: merge_page_sequences)
  have "b \<in> sequences ?m" using cache_ok_oldest[OF Cons.prems(1,2)] by (simp add: merge_page_sequences)
  then obtain b' where b': "oldest_sequence ?m = Some b'" "b' \<le> b"
    using cache_ok_no_oldest[OF ok] cache_ok_oldest[OF ok] by (cases "oldest_sequence ?m") auto
  with Cons.prems(3) Cons.IH[OF ok b'(1) _ nin pages] show ?case by (simp add: after_pages_def)
qed

theorem event_gap_stays_witness:
  "5 \<notin> sequences (after_pages (merge_page Refresh (Some (demo_cache [3, 2])) (demo_page [8, 7] True)) [demo_page [1] False])"
proof -
  let ?c = "merge_page Refresh (Some (demo_cache [3, 2])) (demo_page [8, 7] True)"
  have items: "cache_items ?c = map demo_event [8, 7, 3, 2]"
    by (simp add: merge_page_def Let_def merge_items_def incoming_items_def cache_field_def demo_page_def)
  have old: "oldest_sequence ?c = Some 2"
    by (simp add: merge_page_def Let_def min_sequence_Min merge_items_def incoming_items_def cache_field_def demo_page_def)
  have "cache_ok ?c" by (simp add: cache_ok_def items sequences_def old)
  moreover have "5 \<notin> sequences ?c" by (simp add: items sequences_def)
  moreover have "older_pages ?c [demo_page [1] False]" by (simp add: old)
  ultimately show ?thesis by (intro event_gap_stays[OF _ old]) simp_all
qed

end
