(* ===== verification/FetchSystem.thy ===== *)
theory FetchSystem
  imports ClusterData
begin

text \<open>
  The fetches of \<open>useClusterData.ts\<close> running side by side: a state of the hook together with the
  multiset of requests in flight. A step starts a fetch, lets a request in flight settle with any
  result, forgets a cluster, or is a step of another hook, which does not touch the fetch control.
  Any interleaving of any number of fetches for any clusters is a sequence of such steps.
\<close>

type_synonym fetch_sys = "data_state \<times> request multiset"

definition fetch_control :: "data_state \<Rightarrow> int \<times> bool \<times> bool \<times> bool \<times> bool js_obj" where
  "fetch_control s = (pendingFetchCount s, pendingFetchHadError s, isDataFetching s, hasDataFetchError s,
     clusterEventLoadingRef s)"

fun is_fetch :: "request \<Rightarrow> bool" where
  "is_fetch (SyncRequest _) = False"
| "is_fetch _ = True"

fun is_event_for :: "string \<Rightarrow> request \<Rightarrow> bool" where
  "is_event_for cid (EventRequest c _) = (c = cid)"
| "is_event_for cid _ = False"

inductive fetch_step :: "int \<Rightarrow> bool \<Rightarrow> fetch_sys \<Rightarrow> fetch_sys \<Rightarrow> bool" for pageSize clears where
  snapshot_starts: "fetchSnapshot_begin cid s = (s', Some call) \<Longrightarrow>
     fetch_step pageSize clears (s, M) (s', add_mset (SnapshotRequest cid) M)"
| events_start: "fetchEventPage_begin pageSize cid mode s = (s', Some call) \<Longrightarrow>
     fetch_step pageSize clears (s, M) (s', add_mset (EventRequest cid mode) M)"
| snapshot_settles: "fetchSnapshot_end cid r s = (s', call) \<Longrightarrow>
     fetch_step pageSize clears (s, add_mset (SnapshotRequest cid) M)
       (s', if call = None then M else add_mset (SyncRequest cid) M)"
| events_settle: "fetch_step pageSize clears (s, add_mset (EventRequest cid mode) M) (fetchEventPage_end cid mode r s, M)"
| sync_settles: "fetch_step pageSize clears (s, add_mset (SyncRequest cid) M) (syncClusterControlPlaneUrls_end cid u s, M)"
| clear: "clears \<Longrightarrow> fetch_step pageSize clears (s, M) (clearClusterData cid s, M)"
| other: "fetch_control s' = fetch_control s \<Longrightarrow> fetch_step pageSize clears (s, M) (s', M)"

inductive fetch_reachable :: "int \<Rightarrow> bool \<Rightarrow> fetch_sys \<Rightarrow> bool" for pageSize clears where
  initial: "fetch_control s = (0, False, False, False, []) \<Longrightarrow> fetch_reachable pageSize clears (s, {#})"
| step: "fetch_reachable pageSize clears x \<Longrightarrow> fetch_step pageSize clears x y \<Longrightarrow> fetch_reachable pageSize clears y"

inductive_cases fetch_stepE: "fetch_step pageSize clears x y"

section \<open>What each part does to the control\<close>

named_theorems control_simps \<open>effect of the parts of a fetch on the fetch control\<close>

lemma fetch_control_set_events [control_simps]: "fetch_control (set_events c e s) = fetch_control s"
  by (simp add: fetch_control_def set_events_def Let_def)

lemma snapshot_begin_control:
  assumes "fetchSnapshot_begin cid s = (s', Some call)"
  shows "fi.inv s \<Longrightarrow> fi.inv s'" and "pendingFetchCount s' = pendingFetchCount s + 1"
    and "clusterEventLoadingRef s' = clusterEventLoadingRef s"
proof -
  obtain t where t: "s' = beginDataFetch t" "pendingFetchCount t = pendingFetchCount s"
      "isDataFetching t = isDataFetching s" "clusterEventLoadingRef t = clusterEventLoadingRef s"
    using assms by (auto simp: fetchSnapshot_begin_def split: if_splits option.splits)
  show "fi.inv s \<Longrightarrow> fi.inv s'" using t fi.inv_begin[of t] by (simp add: fi.inv_def)
  show "pendingFetchCount s' = pendingFetchCount s + 1" "clusterEventLoadingRef s' = clusterEventLoadingRef s"
    using t by (simp_all add: beginDataFetch_def)
qed

lemma events_begin_control:
  assumes "fetchEventPage_begin n cid mode s = (s', Some call)"
  shows "fi.inv s \<Longrightarrow> fi.inv s'" and "pendingFetchCount s' = pendingFetchCount s + 1"
    and "clusterEventLoadingRef s' = obj_set cid True (clusterEventLoadingRef s)"
    and "\<not> is_set (clusterEventLoadingRef s) cid"
proof -
  obtain t c where t: "s' = set_events cid c (beginDataFetch t)" "pendingFetchCount t = pendingFetchCount s"
      "isDataFetching t = isDataFetching s" "clusterEventLoadingRef t = obj_set cid True (clusterEventLoadingRef s)"
    and free: "\<not> is_set (clusterEventLoadingRef s) cid"
    using assms by (auto simp: fetchEventPage_begin_def Let_def split: if_splits option.splits)
  show "fi.inv s \<Longrightarrow> fi.inv s'" using t fi.inv_begin[of t] by (simp add: fi.inv_def set_events_def Let_def)
  show "pendingFetchCount s' = pendingFetchCount s + 1"
    "clusterEventLoadingRef s' = obj_set cid True (clusterEventLoadingRef s)"
    using t by (simp_all add: beginDataFetch_def set_events_def Let_def)
  show "\<not> is_set (clusterEventLoadingRef s) cid" by (rule free)
qed

lemma snapshot_end_control:
  assumes "fetchSnapshot_end cid r s = (s', call)"
  shows "fi.inv s \<Longrightarrow> fi.inv s'" and "pendingFetchCount s' = max 0 (pendingFetchCount s - 1)"
    and "clusterEventLoadingRef s' = clusterEventLoadingRef s"
proof -
  obtain t where t: "s' = endDataFetch t" "pendingFetchCount t = pendingFetchCount s"
      "isDataFetching t = isDataFetching s" "clusterEventLoadingRef t = clusterEventLoadingRef s"
    using assms by (auto simp: fetchSnapshot_end_def fetchSnapshot_finally_def markDataFetchError_def split: sum.splits)
  show "fi.inv s \<Longrightarrow> fi.inv s'" using t fi.inv_end[of t] by (simp add: fi.inv_def)
  show "pendingFetchCount s' = max 0 (pendingFetchCount s - 1)" "clusterEventLoadingRef s' = clusterEventLoadingRef s"
    using t by (simp_all add: endDataFetch_def Let_def)
qed

lemma events_end_control:
  shows "fi.inv s \<Longrightarrow> fi.inv (fetchEventPage_end cid mode r s)"
    and "pendingFetchCount (fetchEventPage_end cid mode r s) = max 0 (pendingFetchCount s - 1)"
    and "clusterEventLoadingRef (fetchEventPage_end cid mode r s) = obj_set cid False (clusterEventLoadingRef s)"
proof -
  obtain t where t: "fetchEventPage_end cid mode r s = endDataFetch t" "pendingFetchCount t = pendingFetchCount s"
      "isDataFetching t = isDataFetching s" "clusterEventLoadingRef t = obj_set cid False (clusterEventLoadingRef s)"
    by (cases r) (auto simp: fetchEventPage_end_def fetchEventPage_finally_def markDataFetchError_def
        set_events_def Let_def)
  show "fi.inv s \<Longrightarrow> fi.inv (fetchEventPage_end cid mode r s)" using t fi.inv_end[of t] by (simp add: fi.inv_def)
  show "pendingFetchCount (fetchEventPage_end cid mode r s) = max 0 (pendingFetchCount s - 1)"
    "clusterEventLoadingRef (fetchEventPage_end cid mode r s) = obj_set cid False (clusterEventLoadingRef s)"
    using t by (simp_all add: endDataFetch_def Let_def)
qed

lemma fi_inv_cong:
  "pendingFetchCount s' = pendingFetchCount s \<Longrightarrow> isDataFetching s' = isDataFetching s \<Longrightarrow> fi.inv s' = fi.inv s"
  for s s' :: data_state
  by (simp add: fi.inv_def)

section \<open>The invariants\<close>

definition counts_inflight :: "fetch_sys \<Rightarrow> bool" where
  "counts_inflight x = (fi.inv (fst x) \<and> pendingFetchCount (fst x) = int (size (filter_mset is_fetch (snd x))))"

lemma counts_inflight_step:
  assumes "fetch_step pageSize clears x y" and "counts_inflight x"
  shows "counts_inflight y"
  using assms
proof (cases rule: fetch_step.cases)
  case (snapshot_starts cid s s' call M)
  with assms(2) snapshot_begin_control[OF snapshot_starts(3)] show ?thesis by (simp add: counts_inflight_def)
next
  case (events_start cid mode s s' call M)
  with assms(2) events_begin_control[OF events_start(3)] show ?thesis by (simp add: counts_inflight_def)
next
  case (snapshot_settles cid r s s' call M)
  with assms(2) snapshot_end_control[OF snapshot_settles(3)] show ?thesis by (simp add: counts_inflight_def)
next
  case (events_settle s cid mode M r)
  with assms(2) events_end_control(1)[of s cid mode r] events_end_control(2)[of cid mode r s]
  show ?thesis by (simp add: counts_inflight_def)
next
  case (sync_settles s cid M u)
  then show ?thesis using assms(2)
    by (cases u) (simp_all add: counts_inflight_def syncClusterControlPlaneUrls_end_def fi.inv_def)
next
  case (clear s M cid)
  then show ?thesis using assms(2) by (simp add: counts_inflight_def clearClusterData_def Let_def fi.inv_def)
next
  case (other s' s M)
  then show ?thesis using assms(2) fi_inv_cong[of s' s] by (simp add: counts_inflight_def fetch_control_def)
qed

lemma counts_inflight_reachable: "fetch_reachable pageSize clears x \<Longrightarrow> counts_inflight x"
proof (induction rule: fetch_reachable.induct)
  case (initial s)
  then show ?case by (simp add: counts_inflight_def fetch_control_def fi.inv_def)
qed (rule counts_inflight_step)

text \<open>C8: the indicator is exact under every interleaving: whatever fetches start, settle, fail or
  are overtaken, and whatever clusters are forgotten meanwhile, the pending counter is the number of
  fetches in flight (never negative, never stuck), and the status bar shows fetching exactly while
  there is one.\<close>

theorem indicator_counts_inflight:
  assumes "fetch_reachable pageSize clears (s, M)"
  shows "pendingFetchCount s = int (size (filter_mset is_fetch M)) \<and>
    (isDataFetching s \<longleftrightarrow> filter_mset is_fetch M \<noteq> {#})"
proof -
  note inflight = counts_inflight_reachable[OF assms]
  have "pendingFetchCount s = int (size (filter_mset is_fetch M))" "isDataFetching s \<longleftrightarrow> 0 < pendingFetchCount s"
    using inflight by (simp_all add: counts_inflight_def fi.inv_def)
  then show ?thesis using nonempty_has_size[of "filter_mset is_fetch M"] by (metis of_nat_0_less_iff)
qed

definition one_event_request :: "fetch_sys \<Rightarrow> bool" where
  "one_event_request x = (\<forall>cid. size (filter_mset (is_event_for cid) (snd x)) =
     (if is_set (clusterEventLoadingRef (fst x)) cid then 1 else 0))"

lemma is_set_set [simp]: "is_set (obj_set k v ob) k' = (if k' = k then v else is_set ob k')"
  by (simp add: is_set_def)

lemma one_event_request_step:
  assumes "fetch_step pageSize False x y" and "one_event_request x"
  shows "one_event_request y"
  using assms
proof (cases rule: fetch_step.cases)
  case (snapshot_starts cid s s' call M)
  with assms(2) snapshot_begin_control(3)[OF snapshot_starts(3)] show ?thesis by (simp add: one_event_request_def)
next
  case (events_start cid mode s s' call M)
  have "size (filter_mset (is_event_for c) (add_mset (EventRequest cid mode) M)) =
      (if is_set (clusterEventLoadingRef s') c then 1 else 0)" for c
  proof -
    have "size (filter_mset (is_event_for c) M) = (if is_set (clusterEventLoadingRef s) c then 1 else 0)"
      using assms(2) events_start(1) by (simp only: one_event_request_def fst_conv snd_conv)
    then show ?thesis using events_begin_control(3,4)[OF events_start(3)] by auto
  qed
  then show ?thesis using events_start(2) by (simp only: one_event_request_def fst_conv snd_conv) simp
next
  case (snapshot_settles cid r s s' call M)
  with assms(2) snapshot_end_control(3)[OF snapshot_settles(3)] show ?thesis by (simp add: one_event_request_def)
next
  case (events_settle s cid mode M r)
  have "size (filter_mset (is_event_for c) M) =
      (if is_set (clusterEventLoadingRef (fetchEventPage_end cid mode r s)) c then 1 else 0)" for c
  proof -
    have "size (filter_mset (is_event_for c) (add_mset (EventRequest cid mode) M)) =
        (if is_set (clusterEventLoadingRef s) c then 1 else 0)"
      using assms(2) events_settle(1) by (simp only: one_event_request_def fst_conv snd_conv)
    then show ?thesis using events_end_control(3)[of cid mode r s] by (auto split: if_splits)
  qed
  then show ?thesis using events_settle(2) by (simp only: one_event_request_def fst_conv snd_conv) simp
next
  case (sync_settles s cid M u)
  then show ?thesis using assms(2)
    by (cases u) (simp_all add: one_event_request_def syncClusterControlPlaneUrls_end_def)
next
  case (other s' s M)
  then show ?thesis using assms(2) by (simp add: one_event_request_def fetch_control_def)
qed simp


section \<open>The requests in flight run out\<close>

text \<open>The steps in which a request settles, with any result.\<close>

inductive settle_step :: "fetch_sys \<Rightarrow> fetch_sys \<Rightarrow> bool" where
  snapshot: "fetchSnapshot_end cid r s = (s', call) \<Longrightarrow>
     settle_step (s, add_mset (SnapshotRequest cid) M) (s', if call = None then M else add_mset (SyncRequest cid) M)"
| events: "settle_step (s, add_mset (EventRequest cid mode) M) (fetchEventPage_end cid mode r s, M)"
| sync: "settle_step (s, add_mset (SyncRequest cid) M) (syncClusterControlPlaneUrls_end cid u s, M)"

lemma settle_step_fetch_step: "settle_step x y \<Longrightarrow> fetch_step pageSize clears x y"
  by (cases rule: settle_step.cases) (auto intro: fetch_step.intros)

text \<open>A snapshot may be followed by one more request, that of its URLs.\<close>

fun weight :: "request \<Rightarrow> nat" where
  "weight (SnapshotRequest _) = 2"
| "weight _ = 1"

lemma settle_step_weight:
  assumes "settle_step (s, M) (s', M')"
  shows "sum_mset (image_mset weight M') < sum_mset (image_mset weight M)"
  using assms by (cases rule: settle_step.cases) auto

lemma settle_step_exists: "M \<noteq> {#} \<Longrightarrow> \<exists>y. settle_step (s, M) y"
proof -
  assume "M \<noteq> {#}"
  then obtain q N where "M = add_mset q N" by (meson multiset_cases)
  then show ?thesis
    by (cases q; cases "fetchSnapshot_end (case q of SnapshotRequest c \<Rightarrow> c | _ \<Rightarrow> []) (Inl (OtherReason [])) s")
      (auto intro: settle_step.intros)
qed

lemma settle_steps_bound:
  "(settle_step ^^ k) (s, M) (s', M') \<Longrightarrow> k + sum_mset (image_mset weight M') \<le> sum_mset (image_mset weight M)"
proof (induction k arbitrary: s' M')
  case (Suc k)
  then obtain t N where "(settle_step ^^ k) (s, M) (t, N)" "settle_step (t, N) (s', M')"
    by (metis relpowp_Suc_E surj_pair)
  then show ?case using Suc.IH settle_step_weight by fastforce
qed simp

lemma settle_steps_reachable:
  "(settle_step ^^ k) x y \<Longrightarrow> fetch_reachable pageSize clears x \<Longrightarrow> fetch_reachable pageSize clears y"
proof (induction k arbitrary: y)
  case (Suc k)
  then show ?case by (metis relpowp_Suc_E fetch_reachable.step settle_step_fetch_step)
qed simp


section \<open>Concrete runs\<close>

definition demo_connection :: "string \<Rightarrow> StoredClusterConnection" where
  "demo_connection i = \<lparr>conn_id = i, conn_name = i, conn_yaml = ''yaml''\<rparr>"

definition demo_data :: data_state where
  "demo_data = fetch_state.extend (demo_fetch\<lparr>connectionConfigs := [demo_connection ''a'', demo_connection ''b'']\<rparr>)
     (data_state.fields [] [] [] [] [] [])"

lemmas demo_data_defs = demo_data_def demo_fetch_def fetch_idle_fields_def demo_tabs_def conn_state.defs tab_state.defs
  fetch_state.defs data_state.defs demo_connection_def useClusterConnections_init_def

definition events_started :: "string \<Rightarrow> data_state \<Rightarrow> data_state" where
  "events_started cid s = fst (fetchEventPage_begin 100 cid Initial s)"

lemma demo_data_reachable: "fetch_reachable n clears (demo_data, {#})"
  by (rule fetch_reachable.initial) (simp add: fetch_control_def demo_data_defs)

lemma demo_events_start:
  "fetchEventPage_begin 100 ''a'' Initial demo_data =
     (events_started ''a'' demo_data, Some (FetchEventPageFromYaml ''yaml'' None 100))"
  by (simp add: events_started_def fetchEventPage_begin_def find_connection_def is_set_def cache_field_def Let_def
      demo_data_defs)

lemma demo_inflight:
  "fetch_reachable 100 clears (events_started ''a'' demo_data, {#EventRequest ''a'' Initial#})"
  by (rule fetch_reachable.step[OF demo_data_reachable]) (rule fetch_step.events_start[OF demo_events_start])

theorem indicator_counts_inflight_witness:
  "pendingFetchCount (events_started ''a'' demo_data) = 1 \<and> isDataFetching (events_started ''a'' demo_data)"
  using indicator_counts_inflight[OF demo_inflight] by simp



section \<open>Forgetting a cluster during a fetch\<close>

text \<open>
  \<open>clearClusterData\<close> resets the loading guard while a request may be in flight. The page that
  settles afterwards writes the cache of the forgotten cluster again, with no entry left to merge with.
\<close>

lemma late_page_cache:
  "obj_get (clusterEvents (fetchEventPage_end cid mode (Inr page) (clearClusterData cid s))) cid =
     Some (merge_page mode None page)"
  by (simp add: fetchEventPage_end_def fetchEventPage_finally_def endDataFetch_def set_events_def clearClusterData_def Let_def)

text \<open>A page in flight when its cluster is forgotten brings the cluster's events back: whatever
  the state, after \<open>clearClusterData\<close> and then the page, the event cache again has an entry for
  the cluster, which holds the page alone; the other clusters keep theirs.\<close>

theorem late_page_resurrects:
  "let s' = fetchEventPage_end cid mode (Inr page) (clearClusterData cid s) in
    (\<exists>c. obj_get (clusterEvents s') cid = Some c \<and> cache_items c = page_items page) \<and>
    obj_get (clusterEvents (clearClusterData cid s)) cid = None \<and>
    (cid' = cid \<or> obj_get (clusterEvents s') cid' = obj_get (clusterEvents s) cid')"
proof -
  have "cache_items (merge_page mode None page) = page_items page"
    by (simp add: merge_page_def Let_def cache_field_def merge_items_def incoming_items_def)
  moreover have "obj_get (clusterEvents (clearClusterData cid s)) cid = None"
    by (simp add: clearClusterData_def Let_def)
  moreover have "cid' = cid \<or>
      obj_get (clusterEvents (fetchEventPage_end cid mode (Inr page) (clearClusterData cid s))) cid' = obj_get (clusterEvents s) cid'"
    by (simp add: fetchEventPage_end_def fetchEventPage_finally_def endDataFetch_def set_events_def clearClusterData_def Let_def)
  ultimately show ?thesis by (simp add: Let_def late_page_cache)
qed

section \<open>Two snapshots at once\<close>

text \<open>
  Snapshots have no guard: with one in flight another starts. The one that settles first clears the
  loading flag although the other is still in flight, and the one that settles last is shown, even
  if it was asked for first.
\<close>

lemma snapshot_starts_again:
  assumes "cid \<noteq> []" and "find_connection cid s \<noteq> None"
  shows "\<exists>s' call s'' call'. fetchSnapshot_begin cid s = (s', Some call) \<and> fetchSnapshot_begin cid s' = (s'', Some call')"
  using assms by (auto simp: fetchSnapshot_begin_def beginDataFetch_def find_connection_def)

lemma snapshot_end_clears_loading: "\<not> is_set (clusterSnapshotLoading (fst (fetchSnapshot_end cid r s))) cid"
  by (cases r) (simp_all add: fetchSnapshot_end_def fetchSnapshot_finally_def endDataFetch_def Let_def is_set_def)

lemma last_snapshot_shown:
  "let s' = fst (fetchSnapshot_end cid (Inr newer) s); s'' = fst (fetchSnapshot_end cid (Inr older) s') in
    \<not> is_set (clusterSnapshotLoading s') cid \<and> obj_get (clusterSnapshots s') cid = Some newer \<and>
    obj_get (clusterSnapshots s'') cid = Some older"
  by (simp add: fetchSnapshot_end_def fetchSnapshot_finally_def endDataFetch_def Let_def is_set_def)

lemma snapshot_race:
  assumes "fetch_reachable pageSize clears (s, M)" and "cid \<noteq> []" and "find_connection cid s \<noteq> None"
  shows "\<exists>s''. fetch_reachable pageSize clears (s'', M + {#SnapshotRequest cid, SnapshotRequest cid#}) \<and>
    fetch_reachable pageSize clears (fst (fetchSnapshot_end cid (Inl e) s''), add_mset (SnapshotRequest cid) M) \<and>
    \<not> is_set (clusterSnapshotLoading (fst (fetchSnapshot_end cid (Inl e) s''))) cid"
proof -
  obtain s' call s'' call' where b: "fetchSnapshot_begin cid s = (s', Some call)" "fetchSnapshot_begin cid s' = (s'', Some call')"
    using snapshot_starts_again[OF assms(2,3)] by blast
  have r: "fetch_reachable pageSize clears (s'', add_mset (SnapshotRequest cid) (add_mset (SnapshotRequest cid) M))"
    by (rule fetch_reachable.step[OF fetch_reachable.step[OF assms(1) snapshot_starts[OF b(1)]] snapshot_starts[OF b(2)]])
  obtain t where t: "fetchSnapshot_end cid (Inl e) s'' = (t, None)" by (simp add: fetchSnapshot_end_def)
  have "fetch_reachable pageSize clears (t, add_mset (SnapshotRequest cid) M)"
    using fetch_reachable.step[OF r snapshot_settles[OF t]] by simp
  moreover have "\<not> is_set (clusterSnapshotLoading t) cid"
    using snapshot_end_clears_loading[of cid "Inl e" s''] t by simp
  ultimately show ?thesis using r t by auto
qed

end
