(* ===== verification/EventServer.thy ===== *)
theory EventServer
  imports ApiTypes
begin

text \<open>
  The other end of the event requests: the audit log of the control plane
  (\<open>src/xenage/cluster/control_plane_event_manager.py\<close>), its pages
  (\<open>build_gui_event_page\<close> in \<open>control_plane_api/urls_logic.py\<close>, \<open>handle_gui_events\<close> in
  \<open>views.py\<close>), and the backend of the GUI that fetches them
  (\<open>src-tauri/src/cluster_connection.rs\<close>), with its fallback for old servers. Indices into the log
  are natural numbers; Python's slices are \<open>take\<close> and \<open>drop\<close>, the indices being in range. Times are
  an argument, and the other kinds of sync events are one constructor.
\<close>

section \<open>The event log of the control plane\<close>

datatype sync_payload =
    ClusterAuditEventAppended EventLogEntry
  | UserEventAppended EventLogEntry
  | OtherSyncEvent string

record sync_event =
  event_id :: int
  payload :: sync_payload

definition get_last_event_id :: "sync_event list \<Rightarrow> int" where
  "get_last_event_id current = (if current = [] then 0 else event_id (last current))"

definition is_audit :: "sync_event \<Rightarrow> bool" where
  "is_audit e = (case payload e of ClusterAuditEventAppended _ \<Rightarrow> True | _ \<Rightarrow> False)"

fun audit_entries :: "bool \<Rightarrow> sync_event list \<Rightarrow> EventLogEntry list" where
  "audit_entries has_cluster_audit [] = []"
| "audit_entries has_cluster_audit (e # es) =
     (case payload e of
        ClusterAuditEventAppended entry \<Rightarrow> [entry]
      | UserEventAppended entry \<Rightarrow> if \<not> has_cluster_audit then [entry] else []
      | OtherSyncEvent _ \<Rightarrow> []) @ audit_entries has_cluster_audit es"

definition cluster_audit_events :: "sync_event list \<Rightarrow> EventLogEntry list" where
  "cluster_audit_events current = audit_entries (list_ex is_audit current) current"

definition next_audit_sequence :: "sync_event list \<Rightarrow> int" where
  "next_audit_sequence current =
     (let entries = cluster_audit_events current in if entries = [] then 1 else event_sequence (last entries) + 1)"

text \<open>\<open>_append\<close>: the log, or the error for an event whose id does not continue it.\<close>

definition append_event :: "sync_event \<Rightarrow> sync_event list \<Rightarrow> string + sync_event list" where
  "append_event e current =
     (let expected = get_last_event_id current + 1 in
      if event_id e \<noteq> expected
      then Inl (''event id gap: expected '' @ show_int expected @ '', got '' @ show_int (event_id e))
      else Inr (current @ [e]))"

definition record_event :: "sync_payload \<Rightarrow> sync_event list \<Rightarrow> string + sync_event list" where
  "record_event p current = append_event \<lparr>event_id = get_last_event_id current + 1, payload = p\<rparr> current"

definition audit_entry :: "string \<Rightarrow> string \<Rightarrow> actor_type \<Rightarrow> string \<Rightarrow> string js_obj \<Rightarrow> sync_event list \<Rightarrow> EventLogEntry" where
  "audit_entry now actor ty action details current =
     \<lparr>event_sequence = next_audit_sequence current, happened_at = now, actor_id = actor, event_actor_type = ty,
      event_action = action, event_details = details\<rparr>"

definition record_cluster_audit_event ::
  "string \<Rightarrow> string \<Rightarrow> actor_type \<Rightarrow> string \<Rightarrow> string js_obj \<Rightarrow> sync_event list \<Rightarrow> string + sync_event list" where
  "record_cluster_audit_event now actor ty action details current =
     record_event (ClusterAuditEventAppended (audit_entry now actor ty action details current)) current"

text \<open>\<open>append_cluster_event\<close> of \<open>state_logic.py\<close>: the audit event and then its copy for old readers.\<close>

definition append_cluster_event ::
  "bool \<Rightarrow> string \<Rightarrow> string \<Rightarrow> string \<Rightarrow> string js_obj \<Rightarrow> sync_event list \<Rightarrow> string + sync_event list" where
  "append_cluster_event leader now node action details current =
     (if \<not> leader then Inr current
      else case record_cluster_audit_event now node NodeActor action details current of
        Inl e \<Rightarrow> Inl e
      | Inr current' \<Rightarrow> record_event (UserEventAppended (audit_entry now node NodeActor action details current)) current')"

section \<open>A page of the log\<close>

text \<open>The loop that looks for the cursor.\<close>

function bisect :: "EventLogEntry list \<Rightarrow> int \<Rightarrow> nat \<Rightarrow> nat \<Rightarrow> nat" where
  "bisect entries before_sequence left right =
     (if left < right
      then let middle = (left + right) div 2 in
        if event_sequence (entries ! middle) < before_sequence
        then bisect entries before_sequence (middle + 1) right
        else bisect entries before_sequence left middle
      else left)"
  by pat_completeness auto
termination
  by (relation "measure (\<lambda>(_, _, left, right). right - left)") auto

declare bisect.simps [simp del]

definition end_index :: "EventLogEntry list \<Rightarrow> int option \<Rightarrow> nat" where
  "end_index entries before_sequence =
     (case before_sequence of None \<Rightarrow> length entries | Some b \<Rightarrow> bisect entries b 0 (length entries))"

definition safe_limit :: "int \<Rightarrow> nat" where
  "safe_limit limit = nat (max 1 (min limit 200))"

definition page_at :: "EventLogEntry list \<Rightarrow> int \<Rightarrow> int option \<Rightarrow> GuiEventPage" where
  "page_at entries limit before_sequence =
     (let e = end_index entries before_sequence; start_index = e - safe_limit limit;
          items = rev (take (e - start_index) (drop start_index entries)) in
      \<lparr>page_items = items, page_has_more = 0 < start_index,
       next_before_sequence = (if items = [] then 0 else event_sequence (last items))\<rparr>)"

definition build_gui_event_page :: "sync_event list \<Rightarrow> int \<Rightarrow> int option \<Rightarrow> GuiEventPage" where
  "build_gui_event_page current limit before_sequence = page_at (cluster_audit_events current) limit before_sequence"

text \<open>The checks of the handler; \<open>access\<close> is the error of the checks of leadership and signature.\<close>

definition handle_gui_events ::
  "string option \<Rightarrow> sync_event list \<Rightarrow> int \<Rightarrow> int option \<Rightarrow> string + GuiEventPage" where
  "handle_gui_events access current limit before_sequence =
     (case access of Some e \<Rightarrow> Inl e | None \<Rightarrow>
      if limit < 1 then Inl ''query parameter 'limit' must be >= 1''
      else if 200 < limit then Inl ''query parameter 'limit' must be <= 200''
      else if (case before_sequence of Some b \<Rightarrow> b \<le> 0 | None \<Rightarrow> False)
      then Inl ''query parameter 'before_sequence' must be >= 1''
      else Inr (build_gui_event_page current limit before_sequence))"

section \<open>The backend of the GUI\<close>

record http_reply =
  reply_status :: nat
  reply_body :: string
  reply_url :: string

definition is_success :: "http_reply \<Rightarrow> bool" where
  "is_success r = (200 \<le> reply_status r \<and> reply_status r < 300)"

definition is_unsupported_events_route :: "http_reply \<Rightarrow> bool" where
  "is_unsupported_events_route r =
     (if reply_status r \<notin> {401, 404, 400} then False
      else let normalized = to_lower (reply_body r) in
        str_includes normalized ''unsupported route'' \<and> str_includes normalized ''/v1/gui/events'')"

text \<open>
  The log of an old server is part of its snapshot; an entry without a number for its sequence is
  \<open>None\<close>, a snapshot without a log \<open>None\<close>.
\<close>

definition build_event_page_from_legacy_snapshot ::
  "EventLogEntry option list option \<Rightarrow> int option \<Rightarrow> int \<Rightarrow> string + GuiEventPage" where
  "build_event_page_from_legacy_snapshot event_log before_sequence limit =
     (case event_log of
       None \<Rightarrow> Inl ''legacy /v1/gui/cluster response does not contain event_log''
     | Some evlog \<Rightarrow>
         let entries = sort_key event_sequence (List.map_filter id evlog);
             e = end_index entries before_sequence; start_index = e - safe_limit limit;
             items = rev (take (e - start_index) (drop start_index entries)) in
         Inr \<lparr>page_items = items, page_has_more = 0 < start_index,
           next_before_sequence = (if items = [] then 0 else event_sequence (last items))\<rparr>)"

definition events_path :: "int \<Rightarrow> int option \<Rightarrow> string" where
  "events_path limit before_sequence = ''/v1/gui/events?limit='' @ show_int (int (safe_limit limit)) @
     (case before_sequence of Some b \<Rightarrow> ''&before_sequence='' @ show_int b | None \<Rightarrow> [])"

text \<open>
  \<open>fetch_cluster_events_from_yaml\<close> after its checks of the configuration: the URLs in order, with the
  signed request, the two decoders and the text of a reply as arguments.
\<close>

record backend =
  signed_gui_get :: "string \<Rightarrow> string \<Rightarrow> string + http_reply"
  decode_page :: "string \<Rightarrow> string + GuiEventPage"
  decode_snapshot :: "string \<Rightarrow> string + EventLogEntry option list option"
  reply_text :: "http_reply \<Rightarrow> string"

definition rejected :: "backend \<Rightarrow> http_reply \<Rightarrow> string" where
  "rejected be r = reply_url r @ '': control-plane rejected request ('' @ reply_text be r @ ''): '' @ reply_body r"

definition legacy_fallback ::
  "backend \<Rightarrow> string \<Rightarrow> http_reply \<Rightarrow> int option \<Rightarrow> int \<Rightarrow> string + GuiEventPage" where
  "legacy_fallback be base r before_sequence limit =
     (case signed_gui_get be base ''/v1/gui/cluster'' of
       Inl e \<Rightarrow> Inl (reply_url r @ '': events endpoint unsupported, and legacy snapshot fallback request failed: '' @ e)
     | Inr f \<Rightarrow>
         if is_success f then
           (case (case decode_snapshot be (reply_body f) of
               Inl e \<Rightarrow> Inl (''invalid legacy snapshot response: '' @ e)
             | Inr snapshot \<Rightarrow> build_event_page_from_legacy_snapshot snapshot before_sequence limit) of
             Inr page \<Rightarrow> Inr page
           | Inl e \<Rightarrow> Inl (reply_url r @ '': events endpoint unsupported; legacy snapshot fallback decode failed: '' @ e))
         else Inl (reply_url r @ '': events endpoint unsupported; legacy snapshot fallback rejected ('' @ reply_text be f @
           '') from '' @ reply_url f @ '': '' @ reply_body f))"

fun fetch_events_loop ::
  "backend \<Rightarrow> int option \<Rightarrow> int \<Rightarrow> string list \<Rightarrow> string list \<Rightarrow> GuiEventPage option \<Rightarrow> string + GuiEventPage" where
  "fetch_events_loop be before_sequence limit [] errors fallback =
     (case fallback of Some page \<Rightarrow> Inr page | None \<Rightarrow> Inl (join_with '' | '' errors))"
| "fetch_events_loop be before_sequence limit (base # bases) errors fallback =
     (case signed_gui_get be base (events_path limit before_sequence) of
       Inl e \<Rightarrow> fetch_events_loop be before_sequence limit bases (errors @ [e]) fallback
     | Inr r \<Rightarrow>
         if is_success r then
           (case decode_page be (reply_body r) of
             Inr page \<Rightarrow> Inr page | Inl e \<Rightarrow> Inl (''invalid control-plane response: '' @ e))
         else if is_unsupported_events_route r then
           (if fallback = None then
              (case legacy_fallback be base r before_sequence limit of
                Inr page \<Rightarrow> fetch_events_loop be before_sequence limit bases errors (Some page)
              | Inl e \<Rightarrow> fetch_events_loop be before_sequence limit bases (errors @ [e]) None)
            else fetch_events_loop be before_sequence limit bases errors fallback)
         else fetch_events_loop be before_sequence limit bases (errors @ [rejected be r]) fallback)"

definition fetch_cluster_events :: "backend \<Rightarrow> string list \<Rightarrow> int option \<Rightarrow> int \<Rightarrow> string + GuiEventPage" where
  "fetch_cluster_events be control_plane_urls before_sequence limit =
     fetch_events_loop be before_sequence limit control_plane_urls [] None"

section \<open>The log: correctness\<close>

named_theorems server_simps \<open>effect of the operations of the event manager on the audit log\<close>

lemma record_event_Inr [server_simps]:
  "record_event p current = Inr (current @ [\<lparr>event_id = get_last_event_id current + 1, payload = p\<rparr>])"
  by (simp add: record_event_def append_event_def Let_def)

lemma audit_entries_append [simp]: "audit_entries b (xs @ ys) = audit_entries b xs @ audit_entries b ys"
  by (induction xs) simp_all

lemma audit_events_with_audit: "list_ex is_audit current \<Longrightarrow> cluster_audit_events current = audit_entries True current"
  by (simp add: cluster_audit_events_def)

lemma audit_entries_none: "\<not> list_ex is_audit current \<Longrightarrow> audit_entries True current = []"
  by (induction current) (auto simp: is_audit_def split: sync_payload.splits)

lemma audit_event_recorded:
  "cluster_audit_events (current @ [\<lparr>event_id = i, payload = ClusterAuditEventAppended e\<rparr>]) =
     (if list_ex is_audit current then cluster_audit_events current else []) @ [e]"
  by (simp add: cluster_audit_events_def is_audit_def audit_entries_none)

lemma user_event_recorded:
  "cluster_audit_events (current @ [\<lparr>event_id = i, payload = UserEventAppended e\<rparr>]) =
     cluster_audit_events current @ (if list_ex is_audit current then [] else [e])"
  by (simp add: cluster_audit_events_def is_audit_def)

lemma other_event_recorded:
  "cluster_audit_events (current @ [\<lparr>event_id = i, payload = OtherSyncEvent k\<rparr>]) = cluster_audit_events current"
  by (simp add: cluster_audit_events_def is_audit_def)

lemma append_cluster_event_Inr:
  "append_cluster_event True now node action details current =
     (let e = audit_entry now node NodeActor action details current; i = get_last_event_id current in
      Inr (current @ [\<lparr>event_id = i + 1, payload = ClusterAuditEventAppended e\<rparr>, \<lparr>event_id = i + 2, payload = UserEventAppended e\<rparr>]))"
  by (simp add: append_cluster_event_def record_cluster_audit_event_def server_simps Let_def get_last_event_id_def)

lemma append_cluster_event_log:
  assumes "append_cluster_event True now node action details current = Inr current'"
  shows "cluster_audit_events current' =
    (if list_ex is_audit current then cluster_audit_events current else []) @ [audit_entry now node NodeActor action details current]"
proof -
  let ?e = "audit_entry now node NodeActor action details current"
  let ?i = "get_last_event_id current"
  have "current' = (current @ [\<lparr>event_id = ?i + 1, payload = ClusterAuditEventAppended ?e\<rparr>]) @
      [\<lparr>event_id = ?i + 2, payload = UserEventAppended ?e\<rparr>]"
    using assms unfolding append_cluster_event_Inr Let_def by simp
  then show ?thesis by (simp only: user_event_recorded audit_event_recorded) (simp add: is_audit_def)
qed

text \<open>The logs a control plane writes from an empty one, whatever it records in between.\<close>

inductive control_plane_log :: "sync_event list \<Rightarrow> bool" where
  empty: "control_plane_log []"
| cluster_event: "control_plane_log current \<Longrightarrow> append_cluster_event leader now node action details current = Inr current' \<Longrightarrow>
    control_plane_log current'"
| other_event: "control_plane_log current \<Longrightarrow> record_event (OtherSyncEvent kind) current = Inr current' \<Longrightarrow>
    control_plane_log current'"

text \<open>Sequences and event ids count up without a gap, and an event that was written for old readers comes
  after one for new readers.\<close>

definition log_ok :: "sync_event list \<Rightarrow> bool" where
  "log_ok current =
     (map event_sequence (cluster_audit_events current) = map int [1..<Suc (length (cluster_audit_events current))] \<and>
      map event_id current = map int [1..<Suc (length current)] \<and>
      (list_ex is_audit current \<or> (\<forall>e \<in> set current. \<exists>k. payload e = OtherSyncEvent k)))"

lemma audit_entries_others: "\<forall>e \<in> set current. \<exists>k. payload e = OtherSyncEvent k \<Longrightarrow> audit_entries b current = []"
  by (induction current) auto

lemma last_event_id: "map event_id current = map int [1..<Suc (length current)] \<Longrightarrow> get_last_event_id current = int (length current)"
proof (cases current rule: rev_cases)
  case (snoc es e)
  moreover assume "map event_id current = map int [1..<Suc (length current)]"
  ultimately show ?thesis by (simp add: get_last_event_id_def)
qed (simp add: get_last_event_id_def)

lemma next_sequence_length:
  "map event_sequence (cluster_audit_events current) = map int [1..<Suc (length (cluster_audit_events current))] \<Longrightarrow>
     next_audit_sequence current = int (length (cluster_audit_events current)) + 1"
  by (cases "cluster_audit_events current" rule: rev_cases) (simp_all add: next_audit_sequence_def Let_def)

lemma log_ok_cluster_event:
  assumes "log_ok current" and "append_cluster_event True now node action details current = Inr current'"
  shows "log_ok current'"
    and "cluster_audit_events current' = cluster_audit_events current @ [audit_entry now node NodeActor action details current]"
proof -
  let ?e = "audit_entry now node NodeActor action details current"
  have "list_ex is_audit current \<or> cluster_audit_events current = []"
    using assms(1) audit_entries_others by (auto simp: log_ok_def cluster_audit_events_def)
  then show entries: "cluster_audit_events current' = cluster_audit_events current @ [?e]"
    using append_cluster_event_log[OF assms(2)] by auto
  have current': "current' = current @ [\<lparr>event_id = get_last_event_id current + 1, payload = ClusterAuditEventAppended ?e\<rparr>,
      \<lparr>event_id = get_last_event_id current + 2, payload = UserEventAppended ?e\<rparr>]"
    using assms(2) by (simp add: append_cluster_event_Inr Let_def)
  have "event_sequence ?e = int (length (cluster_audit_events current)) + 1"
    using next_sequence_length assms(1) by (simp add: audit_entry_def log_ok_def)
  then show "log_ok current'"
    using assms(1) last_event_id[of current] unfolding log_ok_def entries unfolding current' by (auto simp: is_audit_def)
qed

lemma log_ok_other_event:
  assumes "log_ok current" and "record_event (OtherSyncEvent kind) current = Inr current'"
  shows "log_ok current'" and "cluster_audit_events current' = cluster_audit_events current"
proof -
  have "current' = current @ [\<lparr>event_id = get_last_event_id current + 1, payload = OtherSyncEvent kind\<rparr>]"
    using assms(2) by (simp add: server_simps)
  then show "log_ok current'" "cluster_audit_events current' = cluster_audit_events current"
    using assms(1) last_event_id[of current] by (auto simp: log_ok_def other_event_recorded)
qed

lemma log_ok_Nil [simp]: "log_ok []"
  by (simp add: log_ok_def cluster_audit_events_def)

lemma log_ok_reachable:
  assumes "control_plane_log current"
  shows "log_ok current"
  using assms
proof (induction rule: control_plane_log.induct)
  case (cluster_event current leader now node action details current')
  then show ?case using log_ok_cluster_event(1)[of current now node action details current']
    by (cases leader) (auto simp: append_cluster_event_def)
qed (simp_all add: log_ok_other_event(1))

lemma log_ok_sorted: "log_ok current \<Longrightarrow> sorted_wrt (<) (map event_sequence (cluster_audit_events current))"
  by (simp add: log_ok_def sorted_wrt_map sorted_wrt_iff_nth_less del: upt_Suc)

text \<open>The history of an old server, kept in its user events, is shown up to the first audit event of the
  new one, and then no more.\<close>

lemma first_audit_event_hides_history:
  assumes "\<not> list_ex is_audit current" and "append_cluster_event True now node action details current = Inr current'"
  shows "cluster_audit_events current = audit_entries False current \<and>
    cluster_audit_events current' = [audit_entry now node NodeActor action details current]"
  using append_cluster_event_log[OF assms(2)] assms(1) by (simp add: cluster_audit_events_def list_ex_iff)

section \<open>A page: correctness\<close>

lemma step_below:
  "left < right \<Longrightarrow> event_sequence (entries ! ((left + right) div 2)) < b \<Longrightarrow>
     bisect entries b left right = bisect entries b ((left + right) div 2 + 1) right"
  by (subst bisect.simps) simp

lemma step_above:
  "left < right \<Longrightarrow> \<not> event_sequence (entries ! ((left + right) div 2)) < b \<Longrightarrow>
     bisect entries b left right = bisect entries b left ((left + right) div 2)"
  by (subst bisect.simps) simp

lemma step_done: "bisect entries b k k = k"
  by (subst bisect.simps) simp

lemma bisect_spec:
  assumes "sorted_wrt (<) (map event_sequence entries)" and "left \<le> right" and "right \<le> length entries"
    and "\<forall>i < left. event_sequence (entries ! i) < b"
    and "\<forall>i < length entries. right \<le> i \<longrightarrow> b \<le> event_sequence (entries ! i)"
  shows "bisect entries b left right \<le> length entries \<and> (\<forall>i < bisect entries b left right. event_sequence (entries ! i) < b) \<and>
    (\<forall>i < length entries. bisect entries b left right \<le> i \<longrightarrow> b \<le> event_sequence (entries ! i))"
  using assms
proof (induction entries b left right rule: bisect.induct)
  case (1 entries b left right)
  let ?m = "(left + right) div 2"
  note sorted = sorted_wrt_nth_less[OF "1.prems"(1)]
  show ?case
  proof (cases "left < right")
    case True
    then have m: "left \<le> ?m" "?m < right" "?m < length entries" using "1.prems"(3) by auto
    show ?thesis
    proof (cases "event_sequence (entries ! ?m) < b")
      case below: True
      have "\<forall>i < ?m + 1. event_sequence (entries ! i) < b"
      proof (intro allI impI)
        fix i assume "i < ?m + 1"
        then consider "i < ?m" | "i = ?m" by linarith
        then show "event_sequence (entries ! i) < b"
        proof cases
          case 1
          then have "event_sequence (entries ! i) < event_sequence (entries ! ?m)" using sorted[of i ?m] m(3) by simp
          with below show ?thesis by linarith
        qed (use below in simp)
      qed
      then show ?thesis unfolding step_below[OF True below]
        by (intro "1.IH"(1)[OF True refl below "1.prems"(1)] "1.prems"(3,5)) (use m in simp_all)
    next
      case above: False
      have "\<forall>i < length entries. ?m \<le> i \<longrightarrow> b \<le> event_sequence (entries ! i)"
      proof (intro allI impI)
        fix i assume i: "i < length entries" "?m \<le> i"
        show "b \<le> event_sequence (entries ! i)"
        proof (cases "i = ?m")
          case False
          then have "event_sequence (entries ! ?m) < event_sequence (entries ! i)" using sorted[of ?m i] i by simp
          with above show ?thesis by linarith
        qed (use above in simp)
      qed
      then show ?thesis unfolding step_above[OF True above]
        by (intro "1.IH"(2)[OF True refl above "1.prems"(1)] "1.prems"(4)) (use m in simp_all)
    qed
  next
    case False
    with "1.prems"(2) have "left = right" by simp
    with "1.prems"(3-5) show ?thesis by (simp add: step_done)
  qed
qed

lemma filter_take_of_split:
  assumes "k \<le> length xs" and "\<forall>i < k. P (xs ! i)" and "\<forall>i < length xs. k \<le> i \<longrightarrow> \<not> P (xs ! i)"
  shows "filter P xs = take k xs"
proof -
  have "filter P (take k xs) = take k xs" using assms(1,2) by (auto simp: filter_id_conv in_set_conv_nth)
  moreover have "filter P (drop k xs) = []" using assms(1,3) by (auto simp: filter_empty_conv in_set_conv_nth)
  ultimately show ?thesis using filter_append[of P "take k xs" "drop k xs"] by simp
qed

text \<open>The entries below a cursor.\<close>

definition older_than :: "int option \<Rightarrow> EventLogEntry list \<Rightarrow> EventLogEntry list" where
  "older_than before entries = filter (\<lambda>e. \<forall>b. before = Some b \<longrightarrow> event_sequence e < b) entries"

lemma older_than_None [simp]: "older_than None entries = entries"
  by (simp add: older_than_def)

lemma end_index_spec:
  assumes "sorted_wrt (<) (map event_sequence entries)"
  shows "end_index entries before \<le> length entries \<and> older_than before entries = take (end_index entries before) entries"
proof (cases before)
  case (Some b)
  have k: "bisect entries b 0 (length entries) \<le> length entries"
    "\<forall>i < bisect entries b 0 (length entries). event_sequence (entries ! i) < b"
    "\<forall>i < length entries. bisect entries b 0 (length entries) \<le> i \<longrightarrow> \<not> event_sequence (entries ! i) < b"
    using bisect_spec[OF assms, of 0 "length entries" b] by (simp_all add: not_less)
  show ?thesis using filter_take_of_split[OF k] k(1) Some by (simp add: older_than_def end_index_def)
qed (simp add: end_index_def)

lemma safe_limit_bounds: "1 \<le> safe_limit limit \<and> safe_limit limit \<le> 200"
  by (auto simp: safe_limit_def)

lemma safe_limit_id: "1 \<le> limit \<Longrightarrow> limit \<le> 200 \<Longrightarrow> int (safe_limit limit) = limit"
  by (simp add: safe_limit_def)

lemma event_page_facts:
  assumes "sorted_wrt (<) (map event_sequence (cluster_audit_events current))"
  shows "let below = older_than before (cluster_audit_events current); page = build_gui_event_page current limit before;
      n = safe_limit limit in
    (\<forall>b. before = Some b \<longrightarrow> bisect (cluster_audit_events current) b 0 (length (cluster_audit_events current)) = length below) \<and>
    page_items page = take n (rev below) \<and> (page_has_more page \<longleftrightarrow> n < length below) \<and>
    next_before_sequence page = (if below = [] then 0 else event_sequence (last (page_items page))) \<and> 1 \<le> n \<and> n \<le> 200"
proof -
  let ?es = "cluster_audit_events current" and ?n = "safe_limit limit"
  let ?e = "end_index ?es before"
  have e: "?e \<le> length ?es" and below: "older_than before ?es = take ?e ?es" using end_index_spec[OF assms] by blast+
  have items: "page_items (build_gui_event_page current limit before) = take ?n (rev (older_than before ?es))"
    using e by (simp add: build_gui_event_page_def page_at_def Let_def below take_rev drop_take)
  have "\<forall>b. before = Some b \<longrightarrow> bisect ?es b 0 (length ?es) = length (older_than before ?es)"
    using e below by (auto simp: end_index_def)
  moreover have "page_has_more (build_gui_event_page current limit before) \<longleftrightarrow> ?n < length (older_than before ?es)"
    using e by (simp add: build_gui_event_page_def page_at_def Let_def below)
  moreover have "next_before_sequence (build_gui_event_page current limit before) =
      (if older_than before ?es = [] then 0 else event_sequence (last (page_items (build_gui_event_page current limit before))))"
  proof -
    have "next_before_sequence (build_gui_event_page current limit before) =
        (if page_items (build_gui_event_page current limit before) = [] then 0
         else event_sequence (last (page_items (build_gui_event_page current limit before))))"
      by (simp only: build_gui_event_page_def page_at_def Let_def GuiEventPage.simps)
    then show ?thesis using items safe_limit_bounds[of limit] by (cases "older_than before ?es = []") auto
  qed
  ultimately show ?thesis using items safe_limit_bounds[of limit] by (simp only: Let_def)
qed

text \<open>C21: the server's page is the newest entries below the cursor: for a log whose sequences
  increase, the binary search that ends for every log finds exactly the number of entries below
  the cursor, and the page is the last of these, at most the limit clamped to 1 to 200 and newest
  first; it says there is more exactly when older entries remain, and its cursor is its oldest entry.\<close>

theorem event_page_spec:
  assumes "sorted_wrt (<) (map event_sequence (cluster_audit_events current))"
  shows "let below = older_than before (cluster_audit_events current); page = build_gui_event_page current limit before;
      n = safe_limit limit in
    (\<forall>b. before = Some b \<longrightarrow> bisect (cluster_audit_events current) b 0 (length (cluster_audit_events current)) = length below) \<and>
    page_items page = take n (rev below) \<and> (page_has_more page \<longleftrightarrow> n < length below) \<and>
    next_before_sequence page = (if below = [] then 0 else event_sequence (last (page_items page))) \<and> 1 \<le> n \<and> n \<le> 200"
  using assms by (rule event_page_facts)

definition demo_log :: "nat \<Rightarrow> sync_event list" where
  "demo_log n = map (\<lambda>i. \<lparr>event_id = int i, payload = ClusterAuditEventAppended \<lparr>event_sequence = int i, happened_at = [],
     actor_id = [], event_actor_type = NodeActor, event_action = [], event_details = []\<rparr>\<rparr>) [1..<Suc n]"

theorem event_page_spec_witness:
  "map event_sequence (page_items (build_gui_event_page (demo_log 5) 2 (Some 4))) = [3, 2]"
proof -
  have sorted: "sorted_wrt (<) (map event_sequence (cluster_audit_events (demo_log 5)))" by code_simp
  have "map event_sequence (take (safe_limit 2) (rev (older_than (Some 4) (cluster_audit_events (demo_log 5))))) = [3, 2]"
    by (simp add: demo_log_def upt_rec cluster_audit_events_def is_audit_def older_than_def safe_limit_def numeral_2_eq_2)
  with event_page_spec[OF sorted, of "Some 4" 2] show ?thesis by (simp add: Let_def)
qed

text \<open>The page made from the snapshot of an old server is the page a new server makes from that log.\<close>

lemma legacy_page_equals_server_page:
  assumes "cluster_audit_events current = sort_key event_sequence (List.map_filter id evlog)"
  shows "build_event_page_from_legacy_snapshot (Some evlog) before limit = Inr (build_gui_event_page current limit before)"
  using assms by (simp add: build_event_page_from_legacy_snapshot_def build_gui_event_page_def page_at_def Let_def)

section \<open>The backend: correctness\<close>

text \<open>What one URL contributes: the answer that ends the loop, or a page to fall back on.\<close>

definition first_answer :: "backend \<Rightarrow> int option \<Rightarrow> int \<Rightarrow> string list \<Rightarrow> http_reply option" where
  "first_answer be before limit bases =
     List.find is_success (List.map_filter (\<lambda>base. case signed_gui_get be base (events_path limit before) of Inr r \<Rightarrow> Some r | Inl _ \<Rightarrow> None) bases)"

definition fallback_page :: "backend \<Rightarrow> int option \<Rightarrow> int \<Rightarrow> string \<Rightarrow> GuiEventPage option" where
  "fallback_page be before limit base =
     (case signed_gui_get be base (events_path limit before) of
       Inr r \<Rightarrow> if is_unsupported_events_route r
         then (case legacy_fallback be base r before limit of Inr page \<Rightarrow> Some page | Inl _ \<Rightarrow> None) else None
     | Inl _ \<Rightarrow> None)"

definition events_outcome :: "backend \<Rightarrow> http_reply option \<Rightarrow> GuiEventPage list \<Rightarrow> string + GuiEventPage \<Rightarrow> bool" where
  "events_outcome be answer pages result =
     (case answer of
       Some r \<Rightarrow> result = (case decode_page be (reply_body r) of Inr page \<Rightarrow> Inr page
         | Inl e \<Rightarrow> Inl (''invalid control-plane response: '' @ e))
     | None \<Rightarrow> (case pages of page # _ \<Rightarrow> result = Inr page | [] \<Rightarrow> \<exists>e. result = Inl e))"

lemma first_answer_Cons:
  "first_answer be before limit (base # bases) =
     (case signed_gui_get be base (events_path limit before) of
        Inr r \<Rightarrow> if is_success r then Some r else first_answer be before limit bases
      | Inl _ \<Rightarrow> first_answer be before limit bases)"
  by (simp add: first_answer_def map_filter_simps split: sum.splits)

lemma fetch_events_loop_spec:
  "events_outcome be (first_answer be before limit bases)
     ((case fallback of Some page \<Rightarrow> [page] | None \<Rightarrow> []) @ List.map_filter (fallback_page be before limit) bases)
     (fetch_events_loop be before limit bases errors fallback)"
proof (induction bases arbitrary: errors fallback)
  case Nil
  then show ?case by (cases fallback) (simp_all add: first_answer_def map_filter_simps events_outcome_def)
next
  case (Cons base bases)
  show ?case
  proof (cases "signed_gui_get be base (events_path limit before)")
    case (Inl e)
    then show ?thesis using Cons[of fallback "errors @ [e]"] by (simp add: first_answer_Cons fallback_page_def map_filter_simps)
  next
    case (Inr r)
    consider "is_success r" | "\<not> is_success r" "\<not> is_unsupported_events_route r"
      | page where "\<not> is_success r" "is_unsupported_events_route r" "fallback = Some page"
      | "\<not> is_success r" "is_unsupported_events_route r" "fallback = None" by blast
    then show ?thesis
    proof cases
      case 1
      then show ?thesis by (simp add: first_answer_Cons Inr events_outcome_def)
    next
      case 2
      then show ?thesis using Cons[of fallback "errors @ [rejected be r]"]
        by (simp add: first_answer_Cons fallback_page_def map_filter_simps Inr)
    next
      case 3
      have "events_outcome be a (page # ps) res \<Longrightarrow> events_outcome be a (page # qs) res" for a ps qs res
        by (simp add: events_outcome_def split: option.splits)
      with 3 show ?thesis using Cons[of fallback errors] by (simp add: first_answer_Cons Inr)
    next
      case 4
      show ?thesis
      proof (cases "legacy_fallback be base r before limit")
        case (Inl e)
        then show ?thesis using Cons[of None "errors @ [e]"] 4
          by (simp add: first_answer_Cons fallback_page_def map_filter_simps Inr)
      next
        case l: (Inr page)
        then show ?thesis using Cons[of "Some page" errors] 4
          by (simp add: first_answer_Cons fallback_page_def map_filter_simps Inr)
      qed
    qed
  qed
qed


end
