(* ===== verification/EventPaging.thy ===== *)
theory EventPaging
  imports FetchSystem EventServer
begin

text \<open>
  The two ends of the event requests put together: the event cache of a cluster in the GUI against the
  audit log of its control plane, while events are recorded and pages are fetched in any order. The
  composition refines a small specification in which the cache is an interval of the log.
\<close>

section \<open>The composition\<close>

text \<open>The request the hook makes, cut to the range of limits by the backend and answered by the server.\<close>

definition served :: "sync_event list \<Rightarrow> service_call \<Rightarrow> js_error + GuiEventPage" where
  "served current call =
     (case call of
       FetchEventPageFromYaml yaml before limit \<Rightarrow>
         (case handle_gui_events None current (int (safe_limit limit)) before of Inr page \<Rightarrow> Inr page | Inl m \<Rightarrow> Inl (OtherReason m))
     | _ \<Rightarrow> Inl (OtherReason []))"

text \<open>A fetch from its start to its end, over a network that works or fails.\<close>

definition fetch_round ::
  "int \<Rightarrow> string \<Rightarrow> EventFetchMode \<Rightarrow> js_error option \<Rightarrow> sync_event list \<Rightarrow> data_state \<Rightarrow> data_state" where
  "fetch_round eventPageSize cid mode failure current s =
     (case fetchEventPage_begin eventPageSize cid mode s of
       (s', None) \<Rightarrow> s'
     | (s', Some call) \<Rightarrow>
         fetchEventPage_end cid mode (case failure of Some e \<Rightarrow> Inl e | None \<Rightarrow> served current call) s')"

datatype paging_op =
    Records string string string "string js_obj"
  | RecordsOther string
  | Fetches EventFetchMode "js_error option"

definition recorded :: "string + sync_event list \<Rightarrow> sync_event list \<Rightarrow> sync_event list" where
  "recorded result current = (case result of Inr current' \<Rightarrow> current' | Inl _ \<Rightarrow> current)"

fun paging_step :: "int \<Rightarrow> string \<Rightarrow> paging_op \<Rightarrow> sync_event list \<times> data_state \<Rightarrow> sync_event list \<times> data_state" where
  "paging_step n cid (Records now node action details) (current, s) =
     (recorded (append_cluster_event True now node action details current) current, s)"
| "paging_step n cid (RecordsOther kind) (current, s) = (recorded (record_event (OtherSyncEvent kind) current) current, s)"
| "paging_step n cid (Fetches mode failure) (current, s) = (current, fetch_round n cid mode failure current s)"

definition paging_run :: "int \<Rightarrow> string \<Rightarrow> paging_op list \<Rightarrow> sync_event list \<times> data_state \<Rightarrow> sync_event list \<times> data_state" where
  "paging_run n cid ops = fold (paging_step n cid) ops"

section \<open>The specification\<close>

text \<open>
  The length of the log, and the interval of it the cache shows: from the first index to below the
  second. A fetch of the newest page moves the upper end to the length of the log, an older page moves
  the lower end down by a page.
\<close>

type_synonym interval = "nat \<times> (nat \<times> nat) option"

fun interval_step :: "nat \<Rightarrow> paging_op \<Rightarrow> interval \<Rightarrow> interval" where
  "interval_step l (Records _ _ _ _) (n, v) = (n + 1, v)"
| "interval_step l (RecordsOther _) (n, v) = (n, v)"
| "interval_step l (Fetches mode (Some e)) (n, v) = (n, v)"
| "interval_step l (Fetches mode None) (n, None) = (n, Some (n - l, n))"
| "interval_step l (Fetches mode None) (n, Some (i, j)) =
     (n, Some (if mode = Older then (i - l, j) else if j = 0 then (n - l, n) else (i, n)))"

text \<open>The newest page is fetched before more events than a page holds have been recorded since the last time.\<close>

fun in_time :: "nat \<Rightarrow> paging_op list \<Rightarrow> interval \<Rightarrow> bool" where
  "in_time l [] v = True"
| "in_time l (op # ops) v =
     ((case op of Fetches mode None \<Rightarrow> mode = Older \<or> (case snd v of Some (i, j) \<Rightarrow> j = 0 \<or> fst v \<le> j + l | None \<Rightarrow> True) | _ \<Rightarrow> True) \<and>
      in_time l ops (interval_step l op v))"

text \<open>The interval as a cache.\<close>

definition shows_interval :: "EventLogEntry list \<Rightarrow> (nat \<times> nat) option \<Rightarrow> ClusterEventCache option \<Rightarrow> bool" where
  "shows_interval entries v c =
     (case v of
       None \<Rightarrow> (case c of None \<Rightarrow> True | Some c \<Rightarrow> cache_items c = [] \<and> oldest_sequence c = None \<and> cache_has_more c)
     | Some (i, j) \<Rightarrow> (case c of None \<Rightarrow> False | Some c \<Rightarrow>
         cache_items c = rev (drop i (take j entries)) \<and> (cache_has_more c \<longleftrightarrow> 0 < i) \<and>
         oldest_sequence c = (if i < j then Some (event_sequence (entries ! i)) else None)))"

text \<open>An interval that a fetch can leave behind: it is not empty unless the log was, and it holds a whole
  page unless it reaches down to the first event.\<close>

fun interval_bounds :: "nat \<Rightarrow> interval \<Rightarrow> bool" where
  "interval_bounds l (n, None) = True"
| "interval_bounds l (n, Some (i, j)) = (j \<le> n \<and> (if j = 0 then i = 0 else i < j) \<and> (i = 0 \<or> i + l \<le> j))"

text \<open>The simulation relation.\<close>

definition paging_rel :: "nat \<Rightarrow> string \<Rightarrow> interval \<Rightarrow> sync_event list \<times> data_state \<Rightarrow> bool" where
  "paging_rel l cid v x =
     (case x of (current, s) \<Rightarrow> case v of (n, w) \<Rightarrow>
       log_ok current \<and> n = length (cluster_audit_events current) \<and>
       find_connection cid s \<noteq> None \<and> \<not> is_set (clusterEventLoadingRef s) cid \<and>
       obj_get (clusterEventsRef s) cid = obj_get (clusterEvents s) cid \<and>
       shows_interval (cluster_audit_events current) w (obj_get (clusterEvents s) cid) \<and>
       interval_bounds l v)"

section \<open>A fetch\<close>

lemma fetch_round_frame:
  "connectionConfigs (fetch_round n cid mode failure current s) = connectionConfigs s"
  by (auto simp: fetch_round_def fetchEventPage_begin_def fetchEventPage_end_def fetchEventPage_finally_def endDataFetch_def
      beginDataFetch_def markDataFetchError_def set_events_def Let_def split: option.splits sum.splits prod.splits if_splits)

text \<open>A fetch that is not refused, with the caches only.\<close>

lemma fetch_round_started:
  assumes "find_connection cid s \<noteq> None" and "\<not> is_set (clusterEventLoadingRef s) cid"
    and "obj_get (clusterEventsRef s) cid = c" and "obj_get (clusterEvents s) cid = c"
    and "mode = Older \<longrightarrow> cache_field c cache_has_more True"
    and "page = served current (FetchEventPageFromYaml yaml (if mode = Older then cache_field c oldest_sequence None else None) n)"
  shows "let s' = fetch_round n cid mode failure current s in
    obj_get (clusterEvents s') cid = Some (case (case failure of Some e \<Rightarrow> Inl e | None \<Rightarrow> page) of
      Inr p \<Rightarrow> merge_page mode (Some (cache_with_loading True c)) p | Inl e \<Rightarrow> cache_with_loading False (Some (cache_with_loading True c))) \<and>
    obj_get (clusterEventsRef s') cid = obj_get (clusterEvents s') cid \<and> \<not> is_set (clusterEventLoadingRef s') cid"
proof -
  have served: "served current (FetchEventPageFromYaml yaml' b n) = served current (FetchEventPageFromYaml yaml b n)" for yaml' b
    by (simp add: served_def)
  from assms(1) obtain conn where conn: "find_connection cid s = Some conn" by blast
  show ?thesis
    using assms(2-6) conn served[of "conn_yaml conn"]
    by (auto simp: fetch_round_def fetchEventPage_begin_def fetchEventPage_end_def fetchEventPage_finally_def endDataFetch_def
        beginDataFetch_def markDataFetchError_def set_events_def Let_def is_set_def split: option.splits sum.splits if_splits)
qed

text \<open>A fetch that is refused.\<close>

lemma fetch_round_refused:
  assumes "obj_get (clusterEventsRef s) cid = Some c" and "\<not> cache_has_more c"
  shows "fetchEventPage_begin n cid Older s = (s, None)" and "fetch_round n cid Older failure current s = s"
proof -
  show "fetchEventPage_begin n cid Older s = (s, None)"
    using assms by (simp add: fetchEventPage_begin_def cache_field_def split: option.split)
  then show "fetch_round n cid Older failure current s = s" by (simp add: fetch_round_def)
qed

section \<open>A piece of the log\<close>

definition piece :: "nat \<Rightarrow> nat \<Rightarrow> EventLogEntry list \<Rightarrow> EventLogEntry list" where
  "piece i j entries = drop i (take j entries)"

lemma log_sequences:
  assumes "log_ok current" and "k < length (cluster_audit_events current)"
  shows "event_sequence (cluster_audit_events current ! k) = int k + 1"
proof -
  have "map event_sequence (cluster_audit_events current) = map int [1..<Suc (length (cluster_audit_events current))]"
    using assms(1) by (simp add: log_ok_def)
  from arg_cong[OF this, of "\<lambda>l. l ! k"] show ?thesis using assms(2) by (simp del: upt_Suc)
qed

lemma piece_sequences:
  assumes "log_ok current" and "j \<le> length (cluster_audit_events current)"
  shows "map event_sequence (piece i j (cluster_audit_events current)) = map int [Suc i..<Suc j]"
  using assms by (intro nth_equalityI) (auto simp: piece_def log_sequences simp del: upt_Suc)

lemma piece_sequence_set:
  assumes "log_ok current" and "j \<le> length (cluster_audit_events current)"
  shows "event_sequence ` set (piece i j (cluster_audit_events current)) = int ` {Suc i..<Suc j}"
  using arg_cong[OF piece_sequences[OF assms, of i], of set] by (simp del: upt_Suc)

lemma piece_append: "i \<le> j \<Longrightarrow> j \<le> k \<Longrightarrow> piece i j entries @ piece j k entries = piece i k entries"
proof -
  assume "i \<le> j" "j \<le> k"
  then have "k - i = (j - i) + (k - j)" and d: "j - i + i = j" by simp_all
  then show ?thesis unfolding piece_def drop_take by (simp only: take_add drop_drop d)
qed

lemma min_sequence_piece:
  assumes "log_ok current" and "j \<le> length (cluster_audit_events current)"
  shows "min_sequence (rev (piece i j (cluster_audit_events current))) =
    (if i < j then Some (event_sequence (cluster_audit_events current ! i)) else None)"
proof (cases "i < j")
  case True
  then have "piece i j (cluster_audit_events current) \<noteq> []" using assms(2) by (simp add: piece_def)
  moreover have "Min (int ` {Suc i..<Suc j}) = int (Suc i)" using True by (intro Min_eqI) (auto simp del: of_nat_Suc)
  ultimately show ?thesis using True assms by (simp add: min_sequence_Min piece_sequence_set log_sequences)
qed (simp add: piece_def)

text \<open>The pages the server makes.\<close>

lemma served_page:
  assumes "log_ok current" and "\<forall>b. before = Some b \<longrightarrow> 1 \<le> b"
  shows "\<exists>page. served current (FetchEventPageFromYaml yaml before n) = Inr page \<and>
    page_items page = take (safe_limit n) (rev (older_than before (cluster_audit_events current))) \<and>
    (page_has_more page \<longleftrightarrow> safe_limit n < length (older_than before (cluster_audit_events current)))"
proof -
  let ?l = "int (safe_limit n)"
  have l: "\<not> ?l < 1" "\<not> 200 < ?l" using safe_limit_bounds[of n] by auto
  have b: "\<not> (case before of Some b \<Rightarrow> b \<le> 0 | None \<Rightarrow> False)" using assms(2) by (auto split: option.split)
  have "served current (FetchEventPageFromYaml yaml before n) = Inr (build_gui_event_page current ?l before)"
    unfolding served_def handle_gui_events_def using l b by simp
  moreover have "safe_limit ?l = safe_limit n" using safe_limit_id[of ?l] l by simp
  ultimately show ?thesis
    using event_page_facts[OF log_ok_sorted[OF assms(1)], of before ?l] by (simp add: Let_def)
qed

lemma older_than_piece:
  assumes "log_ok current" and "i < length (cluster_audit_events current)"
  shows "older_than (Some (event_sequence (cluster_audit_events current ! i))) (cluster_audit_events current) =
    take i (cluster_audit_events current)"
  using assms unfolding older_than_def by (intro filter_take_of_split) (auto simp: log_sequences)

lemma newest_of: "take l (rev (take i entries)) = rev (piece (i - l) i entries)" if "i \<le> length entries"
  using that by (simp add: piece_def take_rev)

text \<open>Merging an older page, and the newest one.\<close>

lemma merge_older_piece:
  assumes "log_ok current" and "i \<le> j" and "j \<le> length (cluster_audit_events current)"
  shows "merge_items Older (rev (piece i j (cluster_audit_events current))) (rev (piece (i - l) i (cluster_audit_events current))) =
    rev (piece (i - l) j (cluster_audit_events current))"
proof -
  have "incoming_items (rev (piece i j (cluster_audit_events current))) (rev (piece (i - l) i (cluster_audit_events current))) =
      rev (piece (i - l) i (cluster_audit_events current))"
  proof -
    have "event_sequence ` set (piece i j (cluster_audit_events current)) \<inter>
        event_sequence ` set (piece (i - l) i (cluster_audit_events current)) = {}"
      unfolding piece_sequence_set[OF assms(1,3)] piece_sequence_set[OF assms(1) order_trans[OF assms(2,3)]] by auto
    then show ?thesis by (auto simp: incoming_items_def filter_id_conv)
  qed
  then show ?thesis using piece_append[of "i - l" i j] assms(2) by (simp add: merge_items_def rev_append[symmetric])
qed

lemma merge_newest_piece:
  assumes "log_ok current" and "i < j" and "j \<le> n" and "n = length (cluster_audit_events current)"
    and "n - l \<le> j" and "i = 0 \<or> i + l \<le> j" and "mode \<noteq> Older"
  shows "merge_items mode (rev (piece i j (cluster_audit_events current))) (rev (piece (n - l) n (cluster_audit_events current))) =
    rev (piece i n (cluster_audit_events current))"
proof -
  let ?es = "cluster_audit_events current"
  have split: "piece (n - l) n ?es = piece (n - l) j ?es @ piece j n ?es" using piece_append[of "n - l" j n] assms(3,5) by simp
  have old: "event_sequence ` set (piece i j ?es) = int ` {Suc i..<Suc j}" using piece_sequence_set[OF assms(1)] assms(3,4) by simp
  have "i \<le> n - l" using assms(3,6) by auto
  then have "event_sequence ` set (piece (n - l) j ?es) \<subseteq> int ` {Suc i..<Suc j}"
    using piece_sequence_set[OF assms(1), of j "n - l"] assms(3,4) by auto
  moreover have "event_sequence ` set (piece j n ?es) \<inter> int ` {Suc i..<Suc j} = {}"
    using piece_sequence_set[OF assms(1), of n j] assms(4) by auto
  ultimately have "filter (\<lambda>x. event_sequence x \<notin> int ` {Suc i..<Suc j}) (piece (n - l) n ?es) = piece j n ?es"
    unfolding split filter_append
    by (simp add: filter_id_conv filter_empty_conv disjoint_iff image_subset_iff)
  then have "incoming_items (rev (piece i j ?es)) (rev (piece (n - l) n ?es)) = rev (piece j n ?es)"
    by (simp add: incoming_items_def old rev_filter[symmetric])
  moreover have "piece i j ?es \<noteq> []" using assms(2-4) by (simp add: piece_def)
  ultimately show ?thesis using piece_append[of i j n] assms(2,3,7) by (simp add: merge_items_def rev_append[symmetric])
qed

section \<open>The simulation\<close>

lemma shows_interval_grows:
  assumes "shows_interval entries w c" and "case w of None \<Rightarrow> True | Some (i, j) \<Rightarrow> j \<le> length entries"
  shows "shows_interval (entries @ [e]) w c"
  using assms by (cases w) (auto simp: shows_interval_def nth_append split: option.splits)

lemma rel_records:
  assumes "paging_rel l cid (n, w) (current, s)" and "log_ok current'"
    and "cluster_audit_events current' = cluster_audit_events current @ [e]"
  shows "paging_rel l cid (n + 1, w) (current', s)"
  using assms shows_interval_grows[of "cluster_audit_events current" w _ e]
  by (cases w) (auto simp: paging_rel_def split: option.splits)

text \<open>What a fetch that runs leaves behind.\<close>

lemma rel_fetched:
  assumes rel: "paging_rel l cid (n, w) (current, s)"
    and round: "let s' = fetch_round m cid mode failure current s in
      obj_get (clusterEvents s') cid = Some c \<and> obj_get (clusterEventsRef s') cid = obj_get (clusterEvents s') cid \<and>
      \<not> is_set (clusterEventLoadingRef s') cid"
    and shown: "shows_interval (cluster_audit_events current) w' (Some c)"
    and bounds: "interval_bounds l (n, w')"
  shows "paging_rel l cid (n, w') (current, fetch_round m cid mode failure current s)"
  using assms fetch_round_frame[of m cid mode failure current s]
  by (auto simp: paging_rel_def Let_def find_connection_def)

lemma cache_with_loading_fields [simp]:
  "cache_items (cache_with_loading b c) = cache_field c cache_items []"
  "cache_has_more (cache_with_loading b c) = cache_field c cache_has_more True"
  "oldest_sequence (cache_with_loading b c) = cache_field c oldest_sequence None"
  by (simp_all add: cache_with_loading_def)

lemma shows_interval_failed:
  "shows_interval entries w c \<Longrightarrow> shows_interval entries w (Some (cache_with_loading False (Some (cache_with_loading True c))))"
  by (cases c) (auto simp: shows_interval_def cache_field_def split: option.splits)

lemma shows_merged:
  assumes "log_ok current" and "j \<le> length (cluster_audit_events current)"
    and "merge_items mode (cache_field c cache_items []) (page_items page) = rev (piece i j (cluster_audit_events current))"
    and "(if mode = Older then page_has_more page
          else if cache_field c cache_items [] \<noteq> [] then cache_field c cache_has_more (page_has_more page) else page_has_more page) = (0 < i)"
  shows "shows_interval (cluster_audit_events current) (Some (i, j)) (Some (merge_page mode c page))"
  using assms(3,4) min_sequence_piece[OF assms(1,2), of i]
  by (simp add: shows_interval_def merge_page_def Let_def piece_def)

text \<open>The newest page, on an empty cache and on an interval, and an older page.\<close>

lemma shows_first:
  assumes "log_ok current" and "cache_field c cache_items [] = []"
    and "page_items page = take l (rev (cluster_audit_events current))" and "page_has_more page \<longleftrightarrow> l < length (cluster_audit_events current)"
  shows "shows_interval (cluster_audit_events current)
    (Some (length (cluster_audit_events current) - l, length (cluster_audit_events current)))
    (Some (merge_page mode (Some (cache_with_loading True c)) page))"
  using assms newest_of[of "length (cluster_audit_events current)" "cluster_audit_events current" l]
  by (intro shows_merged) (simp_all add: cache_field_def[of "Some _"] merge_items_def incoming_items_def)

lemma shows_newest:
  assumes "log_ok current" and "n = length (cluster_audit_events current)" and "shows_interval (cluster_audit_events current) (Some (i, j)) c"
    and "interval_bounds l (n, Some (i, j))" and "0 < j" and "n \<le> j + l" and "mode \<noteq> Older"
    and "page_items page = take l (rev (cluster_audit_events current))"
  shows "shows_interval (cluster_audit_events current) (Some (i, n)) (Some (merge_page mode (Some (cache_with_loading True c)) page))"
proof -
  obtain c' where c: "c = Some c'" "cache_items c' = rev (piece i j (cluster_audit_events current))" "cache_has_more c' \<longleftrightarrow> 0 < i"
    using assms(3) by (auto simp: shows_interval_def piece_def split: option.splits)
  have ij: "i < j" "j \<le> n" "i = 0 \<or> i + l \<le> j" using assms(4,5) by auto
  have page: "page_items page = rev (piece (n - l) n (cluster_audit_events current))"
    using assms(2,8) newest_of[of n "cluster_audit_events current" l] by simp
  have "piece i j (cluster_audit_events current) \<noteq> []" using ij assms(2) by (simp add: piece_def)
  then show ?thesis
    using merge_newest_piece[OF assms(1) ij(1,2) assms(2) _ ij(3) assms(7)] assms(2,6,7) c page
    by (intro shows_merged[OF assms(1)]) (auto simp: cache_field_def)
qed

lemma shows_older:
  assumes "log_ok current" and "n = length (cluster_audit_events current)" and "shows_interval (cluster_audit_events current) (Some (i, j)) c"
    and "interval_bounds l (n, Some (i, j))" and "0 < i"
    and "page_items page = take l (rev (take i (cluster_audit_events current)))" and "page_has_more page \<longleftrightarrow> l < i"
  shows "shows_interval (cluster_audit_events current) (Some (i - l, j)) (Some (merge_page Older (Some (cache_with_loading True c)) page))"
proof -
  obtain c' where c: "c = Some c'" "cache_items c' = rev (piece i j (cluster_audit_events current))"
    using assms(3) by (auto simp: shows_interval_def piece_def split: option.splits)
  have ij: "i \<le> j" "j \<le> length (cluster_audit_events current)" using assms(2,4) by (auto split: if_splits)
  have "page_items page = rev (piece (i - l) i (cluster_audit_events current))"
    using newest_of[of i "cluster_audit_events current" l] assms(6) ij by simp
  then show ?thesis using merge_older_piece[OF assms(1) ij] assms(7) c ij
    by (intro shows_merged[OF assms(1)]) (auto simp: cache_field_def)
qed

lemma rel_fetches:
  assumes rel: "paging_rel l cid (n, w) (current, s)" and l: "l = safe_limit m"
    and in_time: "in_time l [Fetches mode failure] (n, w)"
  shows "paging_rel l cid (interval_step l (Fetches mode failure) (n, w)) (current, fetch_round m cid mode failure current s)"
proof -
  let ?es = "cluster_audit_events current" and ?c = "obj_get (clusterEvents s) cid"
  have ok: "log_ok current" "n = length ?es" "find_connection cid s \<noteq> None" "\<not> is_set (clusterEventLoadingRef s) cid"
    "obj_get (clusterEventsRef s) cid = ?c" "shows_interval ?es w ?c"
    and bounds: "interval_bounds l (n, w)"
    using rel unfolding paging_rel_def prod.case by blast+
  have l1: "1 \<le> l" using safe_limit_bounds l by simp
  show ?thesis
  proof (cases "mode = Older \<and> \<not> cache_field ?c cache_has_more True")
    case True
    then obtain c where c: "?c = Some c" "\<not> cache_has_more c" by (cases ?c) (auto simp: cache_field_def)
    then have same: "fetch_round m cid mode failure current s = s" using fetch_round_refused(2) ok(5) True by metis
    have "interval_step l (Fetches mode failure) (n, w) = (n, w)"
      using c ok(6) True by (cases failure; cases w) (auto simp: shows_interval_def)
    with same rel show ?thesis by simp
  next
    case False
    note started = fetch_round_started[OF ok(3,4,5) refl _ refl, where mode = mode and n = m and current = current and failure = failure and yaml = "[]"]
    show ?thesis
    proof (cases failure)
      case (Some e)
      then have "interval_step l (Fetches mode failure) (n, w) = (n, w)" by (cases w) auto
      moreover have "paging_rel l cid (n, w) (current, fetch_round m cid mode failure current s)"
        using rel_fetched[OF rel _ shows_interval_failed[OF ok(6)] bounds] started False Some by (simp add: Let_def)
      ultimately show ?thesis by simp
    next
      case None
      have step: "paging_rel l cid (n, Some (i, j)) (current, fetch_round m cid mode failure current s)"
        if "served current (FetchEventPageFromYaml [] (if mode = Older then cache_field ?c oldest_sequence None else None) m) = Inr page"
          and "shows_interval ?es (Some (i, j)) (Some (merge_page mode (Some (cache_with_loading True ?c)) page))"
          and "interval_bounds l (n, Some (i, j))" for page i j
        using rel_fetched[OF rel _ that(2,3), of m mode failure] started False None that(1) by (simp add: Let_def)
      show ?thesis
      proof (cases w)
        case w: None
        have "?c = None \<or> (\<exists>c. ?c = Some c \<and> cache_items c = [] \<and> oldest_sequence c = None)"
          using ok(6) w by (auto simp: shows_interval_def split: option.splits)
        then have empty: "cache_field ?c cache_items [] = []" "(if mode = Older then cache_field ?c oldest_sequence None else None) = None"
          by (auto simp: cache_field_def)
        obtain page where page: "served current (FetchEventPageFromYaml [] None m) = Inr page"
          "page_items page = take l (rev ?es)" "page_has_more page \<longleftrightarrow> l < length ?es"
          using served_page[OF ok(1), of None "[]" m] l by auto
        have "paging_rel l cid (n, Some (n - l, n)) (current, fetch_round m cid mode failure current s)"
          by (rule step[of page]) (use shows_first[OF ok(1) empty(1) page(2,3)] empty(2) page(1) l1 ok(2) in auto)
        then show ?thesis using w None by simp
      next
        case w: (Some ij)
        obtain i j where ij: "ij = (i, j)" by (cases ij)
        obtain c where c: "?c = Some c" "cache_items c = rev (drop i (take j ?es))" "cache_has_more c \<longleftrightarrow> 0 < i"
          "oldest_sequence c = (if i < j then Some (event_sequence (?es ! i)) else None)"
          using ok(6) w ij by (auto simp: shows_interval_def split: option.splits)
        consider (older) "mode = Older" | (first) "mode \<noteq> Older" "j = 0" | (newest) "mode \<noteq> Older" "j \<noteq> 0" by blast
        then show ?thesis
        proof cases
          case older
          then have i: "0 < i" "i < j" "j \<le> n" using False c(1,3) bounds w ij by (auto simp: cache_field_def split: if_splits)
          then have seq: "cache_field ?c oldest_sequence None = Some (event_sequence (?es ! i))" "1 \<le> event_sequence (?es ! i)"
            using c(1,4) log_sequences[OF ok(1), of i] ok(2) by (auto simp: cache_field_def)
          obtain page where page: "served current (FetchEventPageFromYaml [] (Some (event_sequence (?es ! i))) m) = Inr page"
            "page_items page = take l (rev (take i ?es))" "page_has_more page \<longleftrightarrow> l < i"
            using served_page[OF ok(1), of "Some (event_sequence (?es ! i))" "[]" m] seq(2) older_than_piece[OF ok(1), of i] i ok(2) l by auto
          have "paging_rel l cid (n, Some (i - l, j)) (current, fetch_round m cid mode failure current s)"
            by (rule step[of page])
              (use shows_older[OF ok(1,2) ok(6)[unfolded w ij] bounds[unfolded w ij] i(1) page(2,3)] older seq(1) page(1) i bounds w ij in \<open>auto split: if_splits\<close>)
          then show ?thesis using w ij None older by simp
        next
          case first
          then have empty: "cache_field ?c cache_items [] = []" using c(1,2) by (simp add: cache_field_def)
          obtain page where page: "served current (FetchEventPageFromYaml [] None m) = Inr page"
            "page_items page = take l (rev ?es)" "page_has_more page \<longleftrightarrow> l < length ?es"
            using served_page[OF ok(1), of None "[]" m] l by auto
          have "paging_rel l cid (n, Some (n - l, n)) (current, fetch_round m cid mode failure current s)"
            by (rule step[of page]) (use shows_first[OF ok(1) empty page(2,3)] first page(1) l1 ok(2) in auto)
          then show ?thesis using w ij None first by simp
        next
          case newest
          then have j: "0 < j" "n \<le> j + l" "i < j" using in_time None w ij bounds by (auto split: if_splits)
          obtain page where page: "served current (FetchEventPageFromYaml [] None m) = Inr page" "page_items page = take l (rev ?es)"
            using served_page[OF ok(1), of None "[]" m] l by auto
          have "paging_rel l cid (n, Some (i, n)) (current, fetch_round m cid mode failure current s)"
            by (rule step[of page])
              (use shows_newest[OF ok(1,2) ok(6)[unfolded w ij] bounds[unfolded w ij] j(1,2) newest(1) page(2)] newest page(1) bounds w ij j in \<open>auto split: if_splits\<close>)
          then show ?thesis using w ij None newest by simp
        qed
      qed
    qed
  qed
qed

lemma rel_step:
  assumes "paging_rel l cid v x" and "l = safe_limit m" and "in_time l [op] v"
  shows "paging_rel l cid (interval_step l op v) (paging_step m cid op x)"
proof (cases op)
  case (Records now node action details)
  obtain n w current s where v: "v = (n, w)" "x = (current, s)" by (cases v; cases x) auto
  obtain current' where a: "append_cluster_event True now node action details current = Inr current'"
    by (simp add: append_cluster_event_Inr Let_def)
  have "log_ok current" using assms(1) v by (simp add: paging_rel_def)
  note log_ok_cluster_event[OF this a]
  then show ?thesis using rel_records[OF assms(1)[unfolded v]] v a Records by (simp add: recorded_def)
next
  case (RecordsOther kind)
  obtain n w current s where v: "v = (n, w)" "x = (current, s)" by (cases v; cases x) auto
  obtain current' where a: "record_event (OtherSyncEvent kind) current = Inr current'" by (simp add: server_simps)
  have "log_ok current" using assms(1) v by (simp add: paging_rel_def)
  note log_ok_other_event[OF this a]
  then show ?thesis using assms(1) v a RecordsOther by (auto simp: recorded_def paging_rel_def)
next
  case (Fetches mode failure)
  obtain n w current s where v: "v = (n, w)" "x = (current, s)" by (cases v; cases x) auto
  show ?thesis using rel_fetches[of l cid n w current s m mode failure] assms v Fetches by simp
qed

lemma in_time_append: "in_time l (as @ bs) v \<longleftrightarrow> in_time l as v \<and> in_time l bs (fold (interval_step l) as v)"
  by (induction as arbitrary: v) auto

lemma rel_run:
  assumes "paging_rel l cid v x" and "l = safe_limit m" and "in_time l ops v"
  shows "paging_rel l cid (fold (interval_step l) ops v) (paging_run m cid ops x)"
  using assms
proof (induction ops arbitrary: v x)
  case (Cons op ops)
  then have "paging_rel l cid (interval_step l op v) (paging_step m cid op x)" by (intro rel_step) simp_all
  then show ?case using Cons by (simp add: paging_run_def)
qed (simp add: paging_run_def)

text \<open>A GUI that has just been connected to a new control plane.\<close>

definition just_connected :: "string \<Rightarrow> data_state \<Rightarrow> bool" where
  "just_connected cid s = (find_connection cid s \<noteq> None \<and> \<not> is_set (clusterEventLoadingRef s) cid \<and>
     obj_get (clusterEvents s) cid = None \<and> obj_get (clusterEventsRef s) cid = None)"

lemma rel_initial: "just_connected cid s \<Longrightarrow> paging_rel l cid (0, None) ([], s)"
  by (simp add: just_connected_def paging_rel_def shows_interval_def cluster_audit_events_def)


lemma older_steps: "fold (interval_step l) (replicate k (Fetches Older None)) (n, Some (i, j)) = (n, Some (i - k * l, j))"
  by (induction k arbitrary: i) (simp_all add: diff_diff_add algebra_simps)

lemma older_in_time: "in_time l (replicate k (Fetches Older None)) v"
proof (induction k arbitrary: v)
  case (Suc k)
  show ?case by (simp add: Suc del: interval_step.simps)
qed simp


section \<open>Concrete runs\<close>

definition demo_paging :: "paging_op list" where
  "demo_paging = replicate 5 (Records [] [] [] []) @ [Fetches Initial None, Records [] [] [] [], RecordsOther []]"

lemma demo_just_connected: "just_connected ''a'' demo_data"
  by (simp add: just_connected_def demo_data_defs find_connection_def is_set_def)



end
