(* ===== verification/Schema.thy ===== *)
theory Schema
  imports Ordering ApiTypes
begin

text \<open>
  Rows described by a table schema: \<open>types/controlPlane.ts\<close> and
  \<open>modules/table/schemaAdapter.ts\<close>. A value of the JSON world (\<open>unknown\<close> in the
  sources) is a \<open>js_value\<close>; its numbers are integers, as every number of the protocol is. The
  numbers that \<open>Number(...)\<close> reads from a string are rationals, infinities or NaN. Two parts of
  the runtime are parameters: \<open>collate\<close> is \<open>String.prototype.localeCompare\<close>, which
  depends on the locale, and \<open>numtext\<close> is the text of a number that is not an integer.
\<close>

section \<open>The manifest\<close>

record ManifestField =
  field_name :: string
  field_type :: string
  field_required :: bool
  field_isArray :: bool

record ManifestSectionMap =
  section_metadata :: "ManifestField list"
  section_spec :: "ManifestField list"
  section_status :: "ManifestField list"

datatype js_value = Undefined | Null | Str string | Num int | Bool bool
  | Arr "js_value list" | Obj "(string \<times> js_value) list"

record ManifestSample =
  sample_apiVersion :: string
  sample_metadata :: "js_value js_obj"
  sample_spec :: "js_value js_obj"
  sample_status :: "js_value js_obj"

record ManifestResource =
  resource_kind :: string
  resource_title :: string
  resource_fields :: "ManifestField list"
  resource_sections :: ManifestSectionMap
  resource_sample :: ManifestSample

datatype sort_direction = Asc | Desc

record ManifestSort =
  sort_field :: string
  sort_dir :: sort_direction

record ManifestTableColumn =
  col_key :: string
  col_label :: string
  col_path :: string
  col_type :: string
  col_isArray :: bool
  col_width :: int
  col_minWidth :: int
  col_displayOnly :: bool

record ManifestTable =
  table_kind :: string
  table_title :: string
  table_source :: string
  table_rowKind :: string
  table_rowKey :: string
  table_defaultSort :: ManifestSort
  table_pageSize :: "int option"
  table_columns :: "ManifestTableColumn list"
  table_sample :: "js_value js_obj"

record NavigationLeaf =
  leaf_label :: string
  leaf_kind :: string

record NavigationNode =
  nav_label :: string
  nav_children :: "NavigationLeaf list"

record ControlPlaneManifest =
  manifest_apiVersion :: string
  manifest_kind :: string
  manifest_generatedAt :: string
  product_name :: string
  product_tagline :: string
  manifest_navigation :: NavigationNode
  manifest_resources :: "ManifestResource list"
  manifest_tables :: "ManifestTable list"

section \<open>Numbers read from strings\<close>

datatype js_number = Finite rat | Infinite bool | NaN

text \<open>The smallest magnitude that rounds to infinity.\<close>

definition double_overflow :: rat where "double_overflow = 2 ^ 1024 - 2 ^ 970"

definition to_double :: "rat \<Rightarrow> js_number" where
  "to_double q = (if \<bar>q\<bar> < double_overflow then Finite q else Infinite (0 < q))"

definition signed_number :: "bool \<Rightarrow> rat \<Rightarrow> js_number" where
  "signed_number neg q = to_double (if neg then - q else q)"

definition take_sign :: "string \<Rightarrow> bool \<times> string" where
  "take_sign s = (if s \<noteq> [] \<and> hd s = CHR ''-'' then (True, tl s)
     else if s \<noteq> [] \<and> hd s = CHR ''+'' then (False, tl s) else (False, s))"

text \<open>Digits, an optional fraction, an optional exponent, and nothing after it.\<close>

definition read_decimal :: "string \<Rightarrow> rat option" where
  "read_decimal s =
     (let ip = takeWhile is_digit s; r1 = dropWhile is_digit s;
          dotted = (r1 \<noteq> [] \<and> hd r1 = CHR ''.'');
          fp = (if dotted then takeWhile is_digit (tl r1) else []);
          r2 = (if dotted then dropWhile is_digit (tl r1) else r1);
          expo = (r2 \<noteq> [] \<and> hd r2 \<in> {CHR ''e'', CHR ''E''});
          (eneg, es) = take_sign (tl r2);
          m = of_nat (read_nat (ip @ fp)) / 10 ^ length fp
      in if ip = [] \<and> fp = [] then None
         else if \<not> expo then (if r2 = [] then Some m else None)
         else if es = [] \<or> \<not> list_all is_digit es then None
         else Some (if eneg then m / 10 ^ read_nat es else m * 10 ^ read_nat es))"

definition hex_digit :: "char \<Rightarrow> nat option" where
  "hex_digit c = (let n = of_char (lower_char c) :: nat in
     if is_digit c then Some (digit_val c) else if 97 \<le> n \<and> n \<le> 102 then Some (n - 87) else None)"

fun read_radix :: "nat \<Rightarrow> nat \<Rightarrow> string \<Rightarrow> nat option" where
  "read_radix r a [] = Some a"
| "read_radix r a (c # s) = (case hex_digit c of
     None \<Rightarrow> None | Some d \<Rightarrow> if d < r then read_radix r (a * r + d) s else None)"

definition read_prefixed :: "string \<Rightarrow> js_number option" where
  "read_prefixed s =
     (let p = take 2 (to_lower s);
          r = (if p = ''0x'' then Some 16 else if p = ''0o'' then Some 8 else if p = ''0b'' then Some 2 else None)
      in case r of None \<Rightarrow> None
         | Some r \<Rightarrow> Some (if drop 2 s = [] then NaN
             else case read_radix r 0 (drop 2 s) of None \<Rightarrow> NaN | Some n \<Rightarrow> to_double (of_nat n)))"

text \<open>\<open>Number(value)\<close> of a string.\<close>

definition js_Number :: "string \<Rightarrow> js_number" where
  "js_Number value =
     (let s = trim value in
      if s = [] then Finite 0
      else case read_prefixed s of
        Some n \<Rightarrow> n
      | None \<Rightarrow>
          (let (neg, u) = take_sign s in
           if u = ''Infinity'' then Infinite (\<not> neg)
           else case read_decimal u of None \<Rightarrow> NaN | Some q \<Rightarrow> signed_number neg q))"

section \<open>Reading and printing values\<close>

text \<open>The canonical name of an array index, as a property key.\<close>

definition array_index :: "string \<Rightarrow> nat option" where
  "array_index seg = (if seg \<noteq> [] \<and> list_all is_digit seg \<and> show_nat (read_nat seg) = seg
                      then Some (read_nat seg) else None)"

text \<open>One step of \<open>valueAtPath\<close>: a property of an object or of an array.\<close>

fun get_property :: "js_value \<Rightarrow> string \<Rightarrow> js_value" where
  "get_property (Obj props) seg = nullish (obj_get props seg) Undefined"
| "get_property (Arr items) seg =
     (if seg = ''length'' then Num (int (length items))
      else case array_index seg of
        None \<Rightarrow> Undefined
      | Some i \<Rightarrow> nullish (nth_opt items i) Undefined)"
| "get_property _ seg = Undefined"

fun is_object :: "js_value \<Rightarrow> bool" where
  "is_object (Obj _) = True"
| "is_object (Arr _) = True"
| "is_object _ = False"

fun value_at :: "js_value \<Rightarrow> string list \<Rightarrow> js_value" where
  "value_at current [] = current"
| "value_at current (segment # segments) =
     (if \<not> is_object current then Undefined else value_at (get_property current segment) segments)"

definition valueAtPath :: "js_value \<Rightarrow> string \<Rightarrow> js_value" where
  "valueAtPath rcd path = value_at rcd (filter (\<lambda>seg. seg \<noteq> []) (split_on CHR ''.'' path))"

text \<open>\<open>JSON.stringify\<close>: strings are quoted with escapes, undefined props left out.\<close>

definition hex_char :: "nat \<Rightarrow> char" where
  "hex_char n = (if n < 10 then char_of (48 + n) else char_of (87 + n))"

definition json_char :: "char \<Rightarrow> string" where
  "json_char c = (let n = of_char c :: nat; esc = CHR 0x5C in
     if n = 34 then [esc, c] else if n = 92 then [esc, esc]
     else if n = 8 then [esc, CHR ''b''] else if n = 12 then [esc, CHR ''f'']
     else if n = 10 then [esc, CHR ''n''] else if n = 13 then [esc, CHR ''r'']
     else if n = 9 then [esc, CHR ''t'']
     else if n < 32 then [esc, CHR ''u'', CHR ''0'', CHR ''0'', hex_char (n div 16), hex_char (n mod 16)]
     else [c])"

definition json_string :: "string \<Rightarrow> string" where
  "json_string s = [CHR 0x22] @ concat (map json_char s) @ [CHR 0x22]"

fun JSON_stringify :: "js_value \<Rightarrow> string" where
  "JSON_stringify Undefined = ''null''"
| "JSON_stringify Null = ''null''"
| "JSON_stringify (Str s) = json_string s"
| "JSON_stringify (Num n) = show_int n"
| "JSON_stringify (Bool b) = (if b then ''true'' else ''false'')"
| "JSON_stringify (Arr items) = ''['' @ join_with '','' (map JSON_stringify items) @ '']''"
| "JSON_stringify (Obj props) = ''{'' @ join_with '',''
     (map (\<lambda>(k, v). json_string k @ '':'' @ JSON_stringify v) (filter (\<lambda>(k, v). v \<noteq> Undefined) props)) @ ''}''"

fun stringifyCell :: "js_value \<Rightarrow> string" where
  "stringifyCell Undefined = ''-''"
| "stringifyCell Null = ''-''"
| "stringifyCell (Str s) = (if s \<noteq> [] then s else ''-'')"
| "stringifyCell (Num n) = show_int n"
| "stringifyCell (Bool b) = (if b then ''true'' else ''false'')"
| "stringifyCell (Arr items) = (if items = [] then ''-'' else join_with '', '' (map stringifyCell items))"
| "stringifyCell (Obj props) = (if obj_keys props = [] then ''{}'' else JSON_stringify (Obj props))"

text \<open>\<open>String(value)\<close> for the values that can be a row key.\<close>

fun js_String :: "js_value \<Rightarrow> string" where
  "js_String Undefined = ''undefined''"
| "js_String Null = ''null''"
| "js_String (Str s) = s"
| "js_String (Num n) = show_int n"
| "js_String (Bool b) = (if b then ''true'' else ''false'')"
| "js_String (Arr items) = join_with '','' (map (\<lambda>v. if v = Undefined \<or> v = Null then [] else js_String v) items)"
| "js_String (Obj props) = ''[object Object]''"

section \<open>Columns and rows\<close>

record IdeTableColumn =
  ide_key :: string
  ide_label :: string
  ide_width :: int
  ide_minWidth :: "int option"

record IdeTableRow =
  row_key :: string
  row_values :: "string js_obj"
  row_raw :: js_value

definition schemaColumnsToTableColumns :: "ManifestTableColumn list \<Rightarrow> IdeTableColumn list" where
  "schemaColumnsToTableColumns columns =
     map (\<lambda>column. \<lparr>ide_key = col_key column, ide_label = col_label column, ide_width = col_width column,
                     ide_minWidth = Some (col_minWidth column)\<rparr>)
       (filter (\<lambda>column. \<not> col_displayOnly column) columns)"

definition cell_text :: "js_value \<Rightarrow> ManifestTableColumn \<Rightarrow> string" where
  "cell_text row column = stringifyCell (valueAtPath row (str_or (col_path column) (col_key column)))"

definition row_key_of :: "ManifestTable \<Rightarrow> nat \<Rightarrow> js_value \<Rightarrow> string" where
  "row_key_of tableSchema index row =
     (let keyValue = valueAtPath row (table_rowKey tableSchema) in
      if keyValue \<noteq> Null \<and> keyValue \<noteq> Undefined \<and> js_String keyValue \<noteq> []
      then js_String keyValue else to_lower (table_kind tableSchema) @ ''-'' @ show_nat index)"

definition rowsToSchemaTableRows :: "ManifestTable \<Rightarrow> js_value list \<Rightarrow> IdeTableRow list" where
  "rowsToSchemaTableRows tableSchema rows =
     map (\<lambda>(index, row). \<lparr>row_key = row_key_of tableSchema index row,
         row_values = obj_build col_key (cell_text row) (table_columns tableSchema), row_raw = row\<rparr>)
       (List.enumerate 0 rows)"

section \<open>Sorting rows\<close>

datatype comparable = CNum js_number | CText string

fun getComparable :: "js_value \<Rightarrow> comparable" where
  "getComparable (Num n) = CNum (Finite (of_int n))"
| "getComparable (Bool b) = CNum (Finite (if b then 1 else 0))"
| "getComparable (Str s) =
     (let numeric = js_Number s in
      if numeric \<noteq> NaN \<and> trim s \<noteq> [] then CNum numeric else CText (to_lower s))"
| "getComparable v = CText (to_lower (stringifyCell v))"

text \<open>The sign of a difference; a difference that is NaN counts as equal for \<open>sort\<close>.\<close>

fun js_minus :: "js_number \<Rightarrow> js_number \<Rightarrow> rat" where
  "js_minus (Finite a) (Finite b) = a - b"
| "js_minus (Infinite p) (Infinite q) = (if p = q then 0 else if p then 1 else -1)"
| "js_minus (Infinite p) (Finite b) = (if p then 1 else -1)"
| "js_minus (Finite a) (Infinite q) = (if q then -1 else 1)"
| "js_minus _ _ = 0"

fun number_text :: "(rat \<Rightarrow> string) \<Rightarrow> js_number \<Rightarrow> string" where
  "number_text numtext (Finite q) = (if of_int \<lfloor>q\<rfloor> = q \<and> \<bar>q\<bar> < 10 ^ 21 then show_int \<lfloor>q\<rfloor> else numtext q)"
| "number_text numtext (Infinite p) = (if p then ''Infinity'' else ''-Infinity'')"
| "number_text numtext NaN = ''NaN''"

fun comparable_text :: "(rat \<Rightarrow> string) \<Rightarrow> comparable \<Rightarrow> string" where
  "comparable_text numtext (CNum n) = number_text numtext n"
| "comparable_text numtext (CText s) = s"

definition sort_sign :: "sort_direction \<Rightarrow> rat" where
  "sort_sign d = (if d = Desc then -1 else 1)"

fun compare_comparable ::
  "(string \<Rightarrow> string \<Rightarrow> int) \<Rightarrow> (rat \<Rightarrow> string) \<Rightarrow> comparable \<Rightarrow> comparable \<Rightarrow> rat" where
  "compare_comparable collate numtext (CNum a) (CNum b) = js_minus a b"
| "compare_comparable collate numtext a b = of_int (collate (comparable_text numtext a) (comparable_text numtext b))"

definition compare_rows ::
  "(string \<Rightarrow> string \<Rightarrow> int) \<Rightarrow> (rat \<Rightarrow> string) \<Rightarrow> ManifestSort \<Rightarrow> js_value \<Rightarrow> js_value \<Rightarrow> rat" where
  "compare_rows collate numtext srt left right =
     compare_comparable collate numtext (getComparable (valueAtPath left (sort_field srt)))
       (getComparable (valueAtPath right (sort_field srt))) * sort_sign (sort_dir srt)"

definition sortSchemaRows ::
  "(string \<Rightarrow> string \<Rightarrow> int) \<Rightarrow> (rat \<Rightarrow> string) \<Rightarrow> ManifestSort \<Rightarrow> js_value list \<Rightarrow> js_value list" where
  "sortSchemaRows collate numtext srt rows = js_sort (compare_rows collate numtext srt) rows"

section \<open>The rows of the backend as JSON values\<close>

fun actor_type_text :: "actor_type \<Rightarrow> string" where
  "actor_type_text NodeActor = ''node''"
| "actor_type_text UserActor = ''user''"
| "actor_type_text SystemActor = ''system''"

definition event_value :: "EventLogEntry \<Rightarrow> js_value" where
  "event_value e = Obj [(''sequence'', Num (event_sequence e)), (''happened_at'', Str (happened_at e)),
     (''actor_id'', Str (actor_id e)), (''actor_type'', Str (actor_type_text (event_actor_type e))),
     (''action'', Str (event_action e)), (''details'', Obj (map (\<lambda>(k, v). (k, Str v)) (event_details e)))]"

definition group_config_value :: "GroupConfigKeyTableRow \<Rightarrow> js_value" where
  "group_config_value r = Obj [(''key'', Str (config_key r)), (''value'', Str (config_value r))]"

definition optional_field :: "string \<Rightarrow> string option \<Rightarrow> (string \<times> js_value) list" where
  "optional_field k v = (case v of None \<Rightarrow> [] | Some t \<Rightarrow> [(k, Str t)])"

definition node_value :: "ClusterNodeTableRow \<Rightarrow> js_value" where
  "node_value n = Obj ([(''node_id'', Str (node_id n)),
     (''role'', Str (case node_role n of ControlPlane \<Rightarrow> ''control-plane'' | RuntimeNode \<Rightarrow> ''runtime'')),
     (''leader'', Bool (node_leader n)), (''public_key'', Str (node_public_key n)),
     (''endpoints'', case node_endpoints n of None \<Rightarrow> Undefined | Some es \<Rightarrow> Arr (map Str es))] @
     optional_field ''status'' (node_status n) @ optional_field ''name'' (node_name n) @
     optional_field ''version'' (node_version n) @ optional_field ''age'' (node_age n) @
     optional_field ''last_poll_at'' (node_last_poll_at n))"


section \<open>Cells\<close>

lemma show_nat_not_Nil [simp]: "show_nat n \<noteq> []"
  by (subst show_nat.simps) simp

lemma show_int_not_Nil [simp]: "show_int i \<noteq> []"
  by (simp add: show_int_def)

lemma join_with_Nil_iff: "(\<forall>s \<in> set ss. s \<noteq> []) \<Longrightarrow> join_with sep ss = [] \<longleftrightarrow> ss = []"
  by (induction sep ss rule: join_with.induct) auto

lemma stringifyCell_not_Nil [simp]: "stringifyCell v \<noteq> []"
  by (induction v rule: stringifyCell.induct) (auto simp: join_with_Nil_iff)

lemma rows_length [simp]: "length (rowsToSchemaTableRows t rows) = length rows"
  by (simp add: rowsToSchemaTableRows_def)

lemma rows_nth:
  "i < length rows \<Longrightarrow> rowsToSchemaTableRows t rows ! i =
     \<lparr>row_key = row_key_of t i (rows ! i), row_values = obj_build col_key (cell_text (rows ! i)) (table_columns t),
      row_raw = rows ! i\<rparr>"
  by (simp add: rowsToSchemaTableRows_def nth_enumerate_eq)

text \<open>A table shows every row of its source once, in order: the i-th table row carries the i-th
  source row and, for every column of the schema, the text of the value at the column's path, which
  is never blank.\<close>

theorem rows_show_the_source:
  assumes "distinct (map col_key (table_columns t))" and "i < length rows" and "c \<in> set (table_columns t)"
  shows "let out = rowsToSchemaTableRows t rows in
    length out = length rows \<and> row_raw (out ! i) = rows ! i \<and>
    obj_get (row_values (out ! i)) (col_key c) = Some (cell_text (rows ! i) c) \<and> cell_text (rows ! i) c \<noteq> []"
  using assms by (simp add: Let_def rows_nth obj_get_build_distinct cell_text_def)

definition group_config_table :: ManifestTable where
  "group_config_table = \<lparr>table_kind = ''GroupConfig'', table_title = ''Group Config'',
     table_source = ''snapshot.group_config'', table_rowKind = ''GroupConfigKeyTableRow'', table_rowKey = ''key'',
     table_defaultSort = \<lparr>sort_field = ''key'', sort_dir = Asc\<rparr>, table_pageSize = None,
     table_columns =
       [\<lparr>col_key = ''key'', col_label = ''Key'', col_path = ''key'', col_type = ''str'', col_isArray = False,
         col_width = 220, col_minWidth = 140, col_displayOnly = False\<rparr>,
        \<lparr>col_key = ''value'', col_label = ''Value'', col_path = ''value'', col_type = ''str'', col_isArray = False,
         col_width = 220, col_minWidth = 140, col_displayOnly = False\<rparr>],
     table_sample = [(''key'', Str []), (''value'', Str [])]\<rparr>"

lemmas group_config_simps = group_config_table_def group_config_value_def valueAtPath_def obj_get_def nullish_def

theorem rows_show_the_source_witness:
  "cell_text (group_config_value \<lparr>config_key = ''k'', config_value = ''v''\<rparr>) (table_columns group_config_table ! 1) = ''v'' \<and>
   obj_get (row_values (rowsToSchemaTableRows group_config_table
     [group_config_value \<lparr>config_key = ''k'', config_value = ''v''\<rparr>] ! 0)) ''value'' = Some ''v''"
proof -
  let ?rows = "[group_config_value \<lparr>config_key = ''k'', config_value = ''v''\<rparr>]"
  let ?c = "table_columns group_config_table ! 1"
  have cell: "cell_text (?rows ! 0) ?c = ''v''"
    by (simp add: cell_text_def group_config_simps str_or_def)
  have "obj_get (row_values (rowsToSchemaTableRows group_config_table ?rows ! 0)) (col_key ?c) = Some (cell_text (?rows ! 0) ?c)"
    using rows_show_the_source[of group_config_table 0 ?rows ?c] by (simp add: group_config_table_def Let_def)
  with cell show ?thesis by (simp add: group_config_table_def)
qed

section \<open>Row keys\<close>

definition has_row_key :: "ManifestTable \<Rightarrow> js_value \<Rightarrow> bool" where
  "has_row_key t row = (let v = valueAtPath row (table_rowKey t) in v \<noteq> Null \<and> v \<noteq> Undefined \<and> js_String v \<noteq> [])"

lemma row_keys_present:
  assumes "\<forall>row \<in> set rows. has_row_key t row"
  shows "map row_key (rowsToSchemaTableRows t rows) = map (\<lambda>row. js_String (valueAtPath row (table_rowKey t))) rows"
  using assms by (intro nth_equalityI) (auto simp: rows_nth row_key_of_def has_row_key_def Let_def)

lemma event_value_sequence [simp]: "valueAtPath (event_value e) ''sequence'' = Num (event_sequence e)"
  by (simp add: valueAtPath_def event_value_def obj_get_def nullish_def)

text \<open>The rows of the event table have distinct keys: events with distinct sequence numbers, which
  is what merging pages guarantees, get distinct row keys, whatever order they are shown in.\<close>

theorem event_row_keys_distinct:
  assumes "distinct (map event_sequence events)" and "table_rowKey t = ''sequence''"
  shows "distinct (map row_key (rowsToSchemaTableRows t (sortSchemaRows collate numtext srt (map event_value events))))"
proof -
  let ?rows = "sortSchemaRows collate numtext srt (map event_value events)"
  let ?key = "\<lambda>row. js_String (valueAtPath row ''sequence'')"
  have "map row_key (rowsToSchemaTableRows t ?rows) = map ?key ?rows"
    using row_keys_present[of ?rows t] assms(2) by (auto simp: has_row_key_def sortSchemaRows_def)
  moreover have "mset (map ?key ?rows) = mset (map ?key (map event_value events))"
    by (simp only: mset_map sortSchemaRows_def mset_js_sort)
  moreover have "map ?key (map event_value events) = map show_int (map event_sequence events)" by simp
  moreover have "distinct (map show_int (map event_sequence events))"
    using assms(1) by (metis distinct_map inj_onI show_int_inject)
  ultimately show ?thesis by (metis mset_eq_imp_distinct_iff)
qed

section \<open>Sorting\<close>

lemma sort_is_permutation: "mset (sortSchemaRows collate numtext srt rows) = mset rows"
  by (simp add: sortSchemaRows_def)

definition row_key_number :: "ManifestSort \<Rightarrow> js_value \<Rightarrow> rat option" where
  "row_key_number srt row = (case getComparable (valueAtPath row (sort_field srt)) of
     CNum (Finite q) \<Rightarrow> Some q | _ \<Rightarrow> None)"

lemma row_key_number_SomeD:
  "row_key_number srt row = Some q \<Longrightarrow> getComparable (valueAtPath row (sort_field srt)) = CNum (Finite q)"
  by (auto simp: row_key_number_def split: comparable.splits js_number.splits)

lemma numeric_sort:
  assumes "\<forall>row \<in> set rows. row_key_number srt row \<noteq> None"
  shows "sortSchemaRows collate numtext srt rows =
    js_sort (key_cmp (\<lambda>row. the (row_key_number srt row)) (sort_sign (sort_dir srt))) rows"
  unfolding sortSchemaRows_def
proof (rule js_sort_cong)
  fix x y assume "x \<in> set rows" "y \<in> set rows"
  with assms obtain a b where "row_key_number srt x = Some a" "row_key_number srt y = Some b" by blast
  then show "compare_rows collate numtext srt x y =
      key_cmp (\<lambda>row. the (row_key_number srt row)) (sort_sign (sort_dir srt)) x y"
    by (simp add: compare_rows_def key_cmp_def row_key_number_SomeD)
qed


definition demo_event_row :: "int \<Rightarrow> js_value" where
  "demo_event_row q = Obj [(''sequence'', Num q)]"

lemma demo_event_row_number: "row_key_number \<lparr>sort_field = ''sequence'', sort_dir = d\<rparr> (demo_event_row q) = Some (of_int q)"
  by (simp add: row_key_number_def demo_event_row_def valueAtPath_def obj_get_def nullish_def)


definition demo_log_entry :: "int \<Rightarrow> EventLogEntry" where
  "demo_log_entry q = \<lparr>event_sequence = q, happened_at = ''t'', actor_id = ''n1'', event_actor_type = NodeActor,
     event_action = ''a'', event_details = []\<rparr>"

theorem event_row_keys_distinct_witness:
  "distinct (map row_key (rowsToSchemaTableRows (group_config_table\<lparr>table_rowKey := ''sequence''\<rparr>)
     (sortSchemaRows (\<lambda>x y. 0) (\<lambda>q. []) \<lparr>sort_field = ''sequence'', sort_dir = Desc\<rparr>
       (map event_value [demo_log_entry 1, demo_log_entry 2]))))"
  by (rule event_row_keys_distinct) (simp_all add: demo_log_entry_def)

text \<open>A column that mixes numbers and other text is compared by two orders at once.\<close>

definition name_row :: "string \<Rightarrow> js_value" where
  "name_row v = Obj [(''name'', Str v)]"

definition name_sort :: ManifestSort where
  "name_sort = \<lparr>sort_field = ''name'', sort_dir = Asc\<rparr>"

lemma name_row_comparable:
  "getComparable (valueAtPath (name_row v) ''name'') = getComparable (Str v)"
  by (simp add: name_row_def valueAtPath_def obj_get_def nullish_def)

lemma small_double: "\<bar>q\<bar> < 2 ^ 64 \<Longrightarrow> to_double q = Finite q"
proof -
  have "(2::rat) ^ 64 \<le> double_overflow" by (simp add: double_overflow_def)
  then show "\<bar>q\<bar> < 2 ^ 64 \<Longrightarrow> to_double q = Finite q" by (simp add: to_double_def)
qed

lemmas number_defs = js_Number_def trim_def trim_start_def trim_end_def is_js_space_def read_prefixed_def to_lower_def
  take_sign_def read_decimal_def read_nat_def is_digit_def digit_val_def signed_number_def small_double Let_def

lemma mixed_values:
  "getComparable (Str ''9'') = CNum (Finite 9)" "getComparable (Str ''10'') = CNum (Finite 10)"
  "getComparable (Str ''1a'') = CText ''1a''"
  by (simp_all add: number_defs lower_char_def)

text \<open>A column that mixes numbers and text has no consistent order: under every collation that puts
  10 before 1a and 1a before 9, as dictionary order does, the comparison ranks 9 before 10, 10 before
  1a and 1a before 9, so that the sorted order of such rows is left to the runtime.\<close>

theorem mixed_column_cycle:
  assumes "collate ''10'' ''1a'' < 0" and "collate ''1a'' ''9'' < 0"
  shows "compare_rows collate numtext name_sort (name_row ''9'') (name_row ''10'') < 0 \<and>
    compare_rows collate numtext name_sort (name_row ''10'') (name_row ''1a'') < 0 \<and>
    compare_rows collate numtext name_sort (name_row ''1a'') (name_row ''9'') < 0"
proof -
  have t: "number_text numtext (Finite 10) = ''10''" "number_text numtext (Finite 9) = ''9''"
    by code_simp+
  show ?thesis
    using assms
    by (simp add: compare_rows_def name_sort_def name_row_comparable mixed_values sort_sign_def t del: getComparable.simps number_text.simps)
qed


text \<open>Comparing strings by their code units is such a collation.\<close>

fun code_unit_order :: "string \<Rightarrow> string \<Rightarrow> int" where
  "code_unit_order [] t = (if t = [] then 0 else -1)"
| "code_unit_order (c # s) [] = 1"
| "code_unit_order (c # s) (d # t) = (if of_char c < (of_char d :: nat) then -1
     else if (of_char d :: nat) < of_char c then 1 else code_unit_order s t)"

theorem mixed_column_cycle_witness:
  "compare_rows code_unit_order (\<lambda>q. []) name_sort (name_row ''1a'') (name_row ''9'') < 0"
  using mixed_column_cycle[of code_unit_order "\<lambda>q. []"] by simp

end
