(* ===== verification/DataTable.thy ===== *)
theory DataTable
  imports Schema
begin

text \<open>
  The table every view uses, \<open>modules/table/SchemaDataTable.tsx\<close>: filtering, sorting, column
  widths and row selection. The state of the component is \<open>table_state\<close>; its effects and event
  handlers are functions on it, and what it renders is the record \<open>table_view\<close>. The collator of
  \<open>Intl\<close> and \<open>Date.parse\<close> depend on the locale and the engine and are parameters.
\<close>

section \<open>Comparing cells\<close>

definition plain_number :: "string \<Rightarrow> bool" where
  "plain_number plain =
     (let u = (if plain \<noteq> [] \<and> hd plain = CHR ''-'' then tl plain else plain);
          ip = takeWhile is_digit u; r = dropWhile is_digit u
      in ip \<noteq> [] \<and> (r = [] \<or> hd r = CHR ''.'' \<and> tl r \<noteq> [] \<and> list_all is_digit (tl r)))"

definition normalizeNumber :: "string \<Rightarrow> rat option" where
  "normalizeNumber value =
     (let plain = filter (\<lambda>c. c \<noteq> CHR '','') value in
      if \<not> plain_number plain then None
      else case js_Number plain of Finite numeric \<Rightarrow> Some numeric | _ \<Rightarrow> None)"

definition normalizeDate :: "(string \<Rightarrow> int option) \<Rightarrow> string \<Rightarrow> rat option" where
  "normalizeDate date_parse value =
     (let looksLikeDate = (str_includes value ''-'' \<or> str_includes value ''/'' \<or> str_includes value '':'' \<or>
          str_includes value ''T'')
      in if \<not> looksLikeDate then None else map_option of_int (date_parse value))"

definition blank_cell :: "string \<Rightarrow> bool" where
  "blank_cell trimmed = (trimmed = [] \<or> trimmed = ''-'')"

definition compareCellValues ::
  "(string \<Rightarrow> string \<Rightarrow> int) \<Rightarrow> (string \<Rightarrow> int option) \<Rightarrow> string \<Rightarrow> string \<Rightarrow> rat" where
  "compareCellValues collator date_parse left right =
     (let leftTrimmed = trim left; rightTrimmed = trim right;
          leftEmpty = blank_cell leftTrimmed; rightEmpty = blank_cell rightTrimmed in
      if leftEmpty \<and> rightEmpty then 0 else if leftEmpty then 1 else if rightEmpty then -1
      else case (normalizeNumber leftTrimmed, normalizeNumber rightTrimmed) of
        (Some leftNumber, Some rightNumber) \<Rightarrow> leftNumber - rightNumber
      | _ \<Rightarrow>
          (case (normalizeDate date_parse leftTrimmed, normalizeDate date_parse rightTrimmed) of
            (Some leftDate, Some rightDate) \<Rightarrow> leftDate - rightDate
          | _ \<Rightarrow> of_int (collator leftTrimmed rightTrimmed)))"

section \<open>State\<close>

record column_resize =
  resize_columnKey :: string
  resize_minWidth :: int
  resize_startX :: int
  resize_startWidth :: int

record table_state =
  columnWidths :: "int js_obj"
  sortState :: "(string \<times> sort_direction) option"
  selectedRowKeys :: "bool js_obj"
  selectionAnchorRowKey :: "string option"
  rowSelectionShiftPressed :: bool
  resizing :: "column_resize option"

definition SchemaDataTable_init :: "IdeTableColumn list \<Rightarrow> table_state" where
  "SchemaDataTable_init columns =
     \<lparr>columnWidths = obj_build ide_key ide_width columns, sortState = None, selectedRowKeys = [],
      selectionAnchorRowKey = None, rowSelectionShiftPressed = False, resizing = None\<rparr>"

definition selected :: "table_state \<Rightarrow> string \<Rightarrow> bool" where
  "selected s k = (obj_get (selectedRowKeys s) k = Some True)"

section \<open>Filtering and sorting\<close>

definition filteredRows :: "string \<Rightarrow> IdeTableRow list \<Rightarrow> IdeTableRow list" where
  "filteredRows filterQuery rows =
     (let normalizedFilter = to_lower (trim filterQuery) in
      if normalizedFilter \<noteq> []
      then filter (\<lambda>row. array_some (\<lambda>value. str_includes (to_lower value) normalizedFilter) (map snd (row_values row))) rows
      else rows)"

definition cell_of :: "string \<Rightarrow> IdeTableRow \<Rightarrow> string" where
  "cell_of key row = nullish (obj_get (row_values row) key) ''-''"

definition compare_indexed ::
  "(string \<Rightarrow> string \<Rightarrow> int) \<Rightarrow> (string \<Rightarrow> int option) \<Rightarrow> string \<Rightarrow> sort_direction \<Rightarrow>
   nat \<times> IdeTableRow \<Rightarrow> nat \<times> IdeTableRow \<Rightarrow> rat" where
  "compare_indexed collator date_parse key direction left right =
     (let compared = compareCellValues collator date_parse (cell_of key (snd left)) (cell_of key (snd right)) in
      if compared = 0 then of_nat (fst left) - of_nat (fst right) else compared * sort_sign direction)"

definition visibleRows ::
  "(string \<Rightarrow> string \<Rightarrow> int) \<Rightarrow> (string \<Rightarrow> int option) \<Rightarrow> table_state \<Rightarrow> string \<Rightarrow> IdeTableRow list \<Rightarrow> IdeTableRow list" where
  "visibleRows collator date_parse s filterQuery rows =
     (case sortState s of
       None \<Rightarrow> filteredRows filterQuery rows
     | Some (key, direction) \<Rightarrow>
         map snd (js_sort (compare_indexed collator date_parse key direction)
           (List.enumerate 0 (filteredRows filterQuery rows))))"

section \<open>Effects\<close>

text \<open>After the columns changed: widths for new columns, none for those that went.\<close>

definition columns_effect_widths :: "IdeTableColumn list \<Rightarrow> int js_obj \<Rightarrow> int js_obj" where
  "columns_effect_widths columns current =
     (let width = (\<lambda>column. nullish (obj_get current (ide_key column)) (ide_width column));
          missing = array_some (\<lambda>column. obj_get current (ide_key column) = None) columns;
          changed = (missing \<or> length (obj_keys current) \<noteq> length columns)
      in if changed then obj_build ide_key width columns else current)"

definition columns_effect :: "IdeTableColumn list \<Rightarrow> table_state \<Rightarrow> table_state" where
  "columns_effect columns s = s\<lparr>
     columnWidths := columns_effect_widths columns (columnWidths s),
     sortState := (case sortState s of None \<Rightarrow> None
        | Some (key, d) \<Rightarrow> if array_some (\<lambda>column. ide_key column = key) columns then Some (key, d) else None)\<rparr>"

text \<open>After the rows changed: only rows that are still there stay selected.\<close>

definition rows_effect :: "IdeTableRow list \<Rightarrow> table_state \<Rightarrow> table_state" where
  "rows_effect rows s = s\<lparr>
     selectedRowKeys := fold (\<lambda>row next. if obj_get (selectedRowKeys s) (row_key row) = Some True
                                          then obj_set (row_key row) True next else next) rows [],
     selectionAnchorRowKey := (case selectionAnchorRowKey s of None \<Rightarrow> None
        | Some a \<Rightarrow> if a \<noteq> [] \<and> \<not> array_some (\<lambda>row. row_key row = a) rows then None else Some a)\<rparr>"

definition reset_token_effect :: "int option \<Rightarrow> table_state \<Rightarrow> table_state" where
  "reset_token_effect token s = (case token of None \<Rightarrow> s
     | Some _ \<Rightarrow> s\<lparr>selectedRowKeys := [], selectionAnchorRowKey := None\<rparr>)"

text \<open>The rows passed to \<open>onSelectionChange\<close>.\<close>

definition reported_selection :: "IdeTableRow list \<Rightarrow> table_state \<Rightarrow> IdeTableRow list" where
  "reported_selection rows s = filter (\<lambda>row. selected s (row_key row)) rows"

section \<open>Resizing columns\<close>

definition resize_start :: "IdeTableColumn \<Rightarrow> int \<Rightarrow> table_state \<Rightarrow> table_state" where
  "resize_start column clientX s = s\<lparr>resizing := Some
     \<lparr>resize_columnKey = ide_key column, resize_minWidth = nullish (ide_minWidth column) 80, resize_startX = clientX,
      resize_startWidth = nullish (obj_get (columnWidths s) (ide_key column)) (ide_width column)\<rparr>\<rparr>"

definition resize_move :: "int \<Rightarrow> table_state \<Rightarrow> table_state" where
  "resize_move clientX s = (case resizing s of None \<Rightarrow> s
     | Some a \<Rightarrow> s\<lparr>columnWidths := obj_set (resize_columnKey a)
         (max (resize_minWidth a) (resize_startWidth a + clientX - resize_startX a)) (columnWidths s)\<rparr>)"

definition resize_end :: "table_state \<Rightarrow> table_state" where
  "resize_end s = s\<lparr>resizing := None\<rparr>"

section \<open>Selecting rows\<close>

definition row_index :: "string \<Rightarrow> IdeTableRow list \<Rightarrow> nat option" where
  "row_index key visible = find_index (\<lambda>row. row_key row = key) visible"

definition select_range :: "IdeTableRow list \<Rightarrow> nat \<Rightarrow> nat \<Rightarrow> bool \<Rightarrow> bool js_obj \<Rightarrow> bool js_obj" where
  "select_range visible rangeStart rangeEnd checked current =
     fold (\<lambda>index next. case nth_opt visible index of
         Some rangeRow \<Rightarrow> obj_set (row_key rangeRow) checked next | None \<Rightarrow> next)
       [rangeStart ..< Suc rangeEnd] current"

definition updateRowSelection :: "IdeTableRow list \<Rightarrow> string \<Rightarrow> bool \<Rightarrow> bool \<Rightarrow> table_state \<Rightarrow> table_state" where
  "updateRowSelection visible rowKey checked shiftPressed s =
     (let anchorRowKey = nullish (selectionAnchorRowKey s) [];
          current = selectedRowKeys s;
          next = (if \<not> shiftPressed \<or> anchorRowKey = [] then obj_set rowKey checked current
                  else case (row_index anchorRowKey visible, row_index rowKey visible) of
                    (Some anchorIndex, Some targetIndex) \<Rightarrow>
                      select_range visible (min anchorIndex targetIndex) (max anchorIndex targetIndex) checked current
                  | _ \<Rightarrow> obj_set rowKey checked current)
      in s\<lparr>selectedRowKeys := next, selectionAnchorRowKey := Some rowKey\<rparr>)"

definition checkbox_pointer :: "bool \<Rightarrow> table_state \<Rightarrow> table_state" where
  "checkbox_pointer shiftKey s = s\<lparr>rowSelectionShiftPressed := shiftKey\<rparr>"

definition checkbox_keydown :: "string \<Rightarrow> bool \<Rightarrow> table_state \<Rightarrow> table_state" where
  "checkbox_keydown key shiftKey s =
     (if key = '' '' \<or> key = ''Enter'' then s\<lparr>rowSelectionShiftPressed := shiftKey\<rparr> else s)"

definition checkbox_change :: "IdeTableRow list \<Rightarrow> IdeTableRow \<Rightarrow> bool \<Rightarrow> table_state \<Rightarrow> table_state" where
  "checkbox_change visible row checked s =
     updateRowSelection visible (row_key row) checked (rowSelectionShiftPressed s) (s\<lparr>rowSelectionShiftPressed := False\<rparr>)"

definition selectedVisibleCount :: "IdeTableRow list \<Rightarrow> table_state \<Rightarrow> nat" where
  "selectedVisibleCount visible s = fold (\<lambda>row count. count + (if selected s (row_key row) then 1 else 0)) visible 0"

definition allVisibleSelected :: "IdeTableRow list \<Rightarrow> table_state \<Rightarrow> bool" where
  "allVisibleSelected visible s = (length visible > 0 \<and> selectedVisibleCount visible s = length visible)"

definition toggle_all :: "IdeTableRow list \<Rightarrow> table_state \<Rightarrow> table_state" where
  "toggle_all visible s = s\<lparr>selectedRowKeys :=
     fold (\<lambda>row. obj_set (row_key row) (\<not> allVisibleSelected visible s)) visible (selectedRowKeys s)\<rparr>"

definition sort_click :: "string \<Rightarrow> table_state \<Rightarrow> table_state" where
  "sort_click key s = s\<lparr>sortState :=
     (case sortState s of
       None \<Rightarrow> Some (key, Asc)
     | Some (k, d) \<Rightarrow> if k \<noteq> key then Some (key, Asc) else if d = Asc then Some (key, Desc) else None)\<rparr>"

section \<open>Scrolling\<close>

record scroll_element =
  scrollTop :: rat
  clientHeight :: rat
  scrollHeight :: rat

definition isNearBottom :: "scroll_element \<Rightarrow> bool" where
  "isNearBottom element = (scrollTop element + clientHeight element \<ge> scrollHeight element - 32)"

text \<open>Whether connecting to the scroll element calls \<open>onReachEnd\<close> at once.\<close>

definition reach_end_on_connect :: "scroll_element \<Rightarrow> bool" where
  "reach_end_on_connect element = (scrollHeight element \<le> clientHeight element + 2 \<or> isNearBottom element)"

section \<open>What is rendered\<close>

datatype sort_mark = Ascending | Descending | NotSorted

record head_cell =
  head_key :: string
  head_label :: string
  head_mark :: sort_mark
  resizer_label :: string

record body_row =
  body_key :: string
  body_active :: bool
  body_checked :: "bool option"
  body_cells :: "(string \<times> string) list"

record table_view =
  view_template :: string
  view_select_all :: "bool option"
  view_head :: "head_cell list"
  view_body :: "string + body_row list"

definition templateColumns :: "bool \<Rightarrow> IdeTableColumn list \<Rightarrow> table_state \<Rightarrow> string" where
  "templateColumns selectable columns s =
     (if selectable then ''36px '' else []) @ join_with '' ''
       (map (\<lambda>column. show_int (nullish (obj_get (columnWidths s) (ide_key column)) (ide_width column)) @ ''px'') columns)"

definition sort_mark_of :: "table_state \<Rightarrow> string \<Rightarrow> sort_mark" where
  "sort_mark_of s key = (case sortState s of None \<Rightarrow> NotSorted
     | Some (k, d) \<Rightarrow> if k \<noteq> key then NotSorted else if d = Asc then Ascending else Descending)"

definition SchemaDataTable ::
  "string option \<Rightarrow> (IdeTableRow \<Rightarrow> string \<Rightarrow> string) \<Rightarrow> IdeTableColumn list \<Rightarrow> string \<Rightarrow> bool \<Rightarrow>
   IdeTableRow list \<Rightarrow> table_state \<Rightarrow> table_view" where
  "SchemaDataTable activeRowKey cellClassName columns emptyLabel selectable visible s =
     \<lparr>view_template = templateColumns selectable columns s,
      view_select_all = (if selectable then Some (allVisibleSelected visible s) else None),
      view_head = map (\<lambda>column. \<lparr>head_key = ide_key column, head_label = ide_label column,
         head_mark = sort_mark_of s (ide_key column), resizer_label = ''Resize '' @ ide_label column @ '' column''\<rparr>) columns,
      view_body = (if visible = [] then Inl emptyLabel
         else Inr (map (\<lambda>row. \<lparr>body_key = row_key row, body_active = (activeRowKey = Some (row_key row)),
           body_checked = (if selectable then Some (selected s (row_key row)) else None),
           body_cells = map (\<lambda>column. (cell_of (ide_key column) row, cellClassName row (ide_key column))) columns\<rparr>)
           visible))\<rparr>"


section \<open>Sorted columns\<close>

text \<open>
  A total comparator for columns of one kind: by key, blank last, ties by index. The cells' comparison
  agrees with it on such a column, so the locale of consistent comparators applies.
\<close>

definition blank_last :: "rat option \<Rightarrow> rat option \<Rightarrow> rat" where
  "blank_last a b = (case (a, b) of (None, None) \<Rightarrow> 0 | (None, Some _) \<Rightarrow> 1 | (Some _, None) \<Rightarrow> -1
     | (Some x, Some y) \<Rightarrow> x - y)"

definition blank_last_cmp :: "('a \<Rightarrow> rat option) \<Rightarrow> sort_direction \<Rightarrow> nat \<times> 'a \<Rightarrow> nat \<times> 'a \<Rightarrow> rat" where
  "blank_last_cmp key d x y =
     (let c = blank_last (key (snd x)) (key (snd y)) in
      if c = 0 then of_nat (fst x) - of_nat (fst y) else c * sort_sign d)"

lemma blank_last_eq_0: "blank_last a b = 0 \<longleftrightarrow> a = b"
  by (auto simp: blank_last_def split: option.splits)

lemma blank_last_flip: "blank_last b a < 0 \<longleftrightarrow> 0 < blank_last a b"
  by (auto simp: blank_last_def split: option.splits)

lemma blank_last_trans: "blank_last a b < 0 \<Longrightarrow> blank_last b c < 0 \<Longrightarrow> blank_last a c < 0"
  by (auto simp: blank_last_def split: option.splits)

definition before :: "sort_direction \<Rightarrow> rat option \<Rightarrow> rat option \<Rightarrow> bool" where
  "before d a b = (if d = Asc then blank_last a b < 0 else blank_last b a < 0)"

lemma before_trans: "before d a b \<Longrightarrow> before d b c \<Longrightarrow> before d a c"
  by (auto simp: before_def dest: blank_last_trans split: if_splits)

lemma before_linear: "a = b \<or> before d a b \<or> before d b a"
  using blank_last_eq_0[of a b] blank_last_flip[of a b] blank_last_flip[of b a] by (auto simp: before_def)

lemma before_irrefl [simp]: "\<not> before d a a"
  using blank_last_eq_0[of a a] by (simp add: before_def)

lemma blank_last_cmp_le:
  "blank_last_cmp key d x y \<le> 0 \<longleftrightarrow>
     before d (key (snd x)) (key (snd y)) \<or> key (snd x) = key (snd y) \<and> fst x \<le> fst y"
proof (cases "key (snd x) = key (snd y)")
  case True
  then show ?thesis using blank_last_eq_0[of "key (snd y)" "key (snd y)"] by (simp add: blank_last_cmp_def)
next
  case False
  then have "blank_last (key (snd x)) (key (snd y)) \<noteq> 0" by (simp add: blank_last_eq_0)
  with False show ?thesis
    using blank_last_flip[of "key (snd x)" "key (snd y)"] blank_last_flip[of "key (snd y)" "key (snd x)"]
    by (cases d) (auto simp: blank_last_cmp_def Let_def sort_sign_def before_def)
qed

interpretation blank_last: comparator "blank_last_cmp key d" for key :: "'a \<Rightarrow> rat option" and d
proof unfold_locales
  fix x y z :: "nat \<times> 'a"
  show "blank_last_cmp key d x y \<le> 0 \<or> blank_last_cmp key d y x \<le> 0"
    using before_linear[of "key (snd x)" "key (snd y)" d] by (auto simp: blank_last_cmp_le)
  show "blank_last_cmp key d x y \<le> 0 \<Longrightarrow> blank_last_cmp key d y z \<le> 0 \<Longrightarrow> blank_last_cmp key d x z \<le> 0"
    by (auto simp: blank_last_cmp_le intro: before_trans)
qed

definition cell_number :: "(string \<Rightarrow> int option) \<Rightarrow> bool \<Rightarrow> string \<Rightarrow> rat option" where
  "cell_number date_parse dates t =
     (if blank_cell (trim t) then None
      else if dates then normalizeDate date_parse (trim t) else normalizeNumber (trim t))"

text \<open>Every cell is blank, or every other cell a number, or every other cell a date and no number.\<close>

definition one_kind :: "(string \<Rightarrow> int option) \<Rightarrow> bool \<Rightarrow> string \<Rightarrow> bool" where
  "one_kind date_parse dates t = (blank_cell (trim t) \<or>
     cell_number date_parse dates t \<noteq> None \<and> (dates \<longrightarrow> normalizeNumber (trim t) = None))"

lemma compare_one_kind:
  assumes "one_kind date_parse dates a" and "one_kind date_parse dates b"
  shows "compareCellValues collator date_parse a b = blank_last (cell_number date_parse dates a) (cell_number date_parse dates b)"
  using assms
  by (cases "blank_cell (trim a)"; cases "blank_cell (trim b)"; cases dates)
     (auto simp: compareCellValues_def one_kind_def cell_number_def blank_last_def Let_def)

lemma sorted_wrt_enumerate: "sorted_wrt (\<lambda>x y. fst x \<le> fst y) (List.enumerate n xs)"
  by (auto simp: sorted_wrt_iff_nth_less nth_enumerate_eq)

lemma enumerate_snd: "x \<in> set (List.enumerate n xs) \<Longrightarrow> snd x \<in> set xs"
  by (metis image_eqI list.set_map map_snd_enumerate)

lemma filter_snd_enumerate: "map snd (filter (\<lambda>x. P (snd x)) (List.enumerate n xs)) = filter P xs"
  by (induction xs arbitrary: n) auto


section \<open>Selection\<close>

lemma select_range_get:
  assumes "distinct (map row_key visible)" and "i < length visible" and "hi < length visible"
  shows "obj_get (select_range visible lo hi checked cur) (row_key (visible ! i)) =
    (if lo \<le> i \<and> i \<le> hi then Some checked else obj_get cur (row_key (visible ! i)))"
proof -
  have "obj_get (fold (\<lambda>index next. case nth_opt visible index of
         Some r \<Rightarrow> obj_set (row_key r) checked next | None \<Rightarrow> next) is cur) (row_key (visible ! i)) =
      (if i \<in> set is then Some checked else obj_get cur (row_key (visible ! i)))"
    if "set is \<subseteq> {..hi}" for "is"
    using that
  proof (induction "is" arbitrary: cur)
    case (Cons j js)
    then have j: "j < length visible" using assms(3) by auto
    then have "row_key (visible ! i) = row_key (visible ! j) \<longleftrightarrow> i = j"
      using assms(1,2) by (metis distinct_conv_nth length_map nth_map)
    with Cons j show ?case by (auto simp: nth_opt_def)
  qed simp
  note * = this
  have "set [lo ..< Suc hi] \<subseteq> {..hi}" by auto
  from *[OF this] show ?thesis unfolding select_range_def by (simp only: set_upt) auto
qed

lemma select_range_other:
  assumes "k \<notin> row_key ` set visible"
  shows "obj_get (select_range visible lo hi checked cur) k = obj_get cur k"
proof -
  have "obj_get (fold (\<lambda>index next. case nth_opt visible index of
         Some r \<Rightarrow> obj_set (row_key r) checked next | None \<Rightarrow> next) is cur) k = obj_get cur k" for "is"
    using assms by (induction "is" arbitrary: cur) (auto dest: nth_opt_Some split: option.splits)
  then show ?thesis by (simp add: select_range_def)
qed

lemma row_index_nth:
  assumes "distinct (map row_key visible)" and "i < length visible"
  shows "row_index (row_key (visible ! i)) visible = Some i"
proof (cases "row_index (row_key (visible ! i)) visible")
  case None
  then show ?thesis using assms(2) by (auto simp: row_index_def find_index_None)
next
  case (Some j)
  then have "j < length visible" "row_key (visible ! j) = row_key (visible ! i)"
    by (auto simp: row_index_def dest: find_index_Some)
  then have "j = i" using assms by (metis distinct_conv_nth length_map nth_map)
  with Some show ?thesis by simp
qed

text \<open>C20: a shift-click selects a range: with an anchor row that is visible, checking (or unchecking)
  another visible row with shift held gives exactly the visible rows between the two, both included,
  the new state; the other visible rows and the rows filtered out keep theirs; the clicked row is the
  next anchor and the shift flag is consumed.\<close>

theorem shift_click_selects_range:
  assumes "distinct (map row_key visible)" and "a < length visible" and "t < length visible"
    and "selectionAnchorRowKey s = Some (row_key (visible ! a))" and "row_key (visible ! a) \<noteq> []"
    and "rowSelectionShiftPressed s"
  shows "let s' = checkbox_change visible (visible ! t) checked s in
    (\<forall>i < length visible. selected s' (row_key (visible ! i)) =
       (if min a t \<le> i \<and> i \<le> max a t then checked else selected s (row_key (visible ! i)))) \<and>
    (\<forall>k. k \<notin> row_key ` set visible \<longrightarrow> selected s' k = selected s k) \<and>
    selectionAnchorRowKey s' = Some (row_key (visible ! t)) \<and> \<not> rowSelectionShiftPressed s'"
proof -
  have "checkbox_change visible (visible ! t) checked s = s\<lparr>rowSelectionShiftPressed := False,
      selectedRowKeys := select_range visible (min a t) (max a t) checked (selectedRowKeys s),
      selectionAnchorRowKey := Some (row_key (visible ! t))\<rparr>"
    using assms by (simp add: checkbox_change_def updateRowSelection_def nullish_def row_index_nth Let_def)
  moreover have "max a t < length visible" using assms by simp
  ultimately show ?thesis
    using assms(1) by (auto simp: Let_def selected_def select_range_get select_range_other)
qed

lemma selectedVisibleCount_filter: "selectedVisibleCount visible s = length (filter (\<lambda>row. selected s (row_key row)) visible)"
proof -
  have "fold (\<lambda>row count. count + (if selected s (row_key row) then 1 else 0)) xs n =
      n + length (filter (\<lambda>row. selected s (row_key row)) xs)" for xs and n :: nat
    by (induction xs arbitrary: n) auto
  from this[of visible 0] show ?thesis by (simp add: selectedVisibleCount_def)
qed

lemma allVisibleSelected_iff:
  "allVisibleSelected visible s \<longleftrightarrow> visible \<noteq> [] \<and> (\<forall>row \<in> set visible. selected s (row_key row))"
proof -
  have "length (filter P xs) = length xs \<longleftrightarrow> (\<forall>x \<in> set xs. P x)" for P and xs :: "IdeTableRow list"
    by (metis filter_id_conv length_filter_less less_irrefl)
  then show ?thesis by (auto simp: allVisibleSelected_def selectedVisibleCount_filter)
qed

lemma toggle_all_get:
  "obj_get (fold (\<lambda>row. obj_set (row_key row) b) xs cur) k = (if k \<in> row_key ` set xs then Some b else obj_get cur k)"
  by (induction xs arbitrary: cur) auto

text \<open>The checkbox in the header toggles the visible rows: if there are any, it turns from
  unchecked to checked or back with one click, every visible row gets that state, and rows hidden by
  the filter keep theirs.\<close>

theorem toggle_all_spec:
  assumes "visible \<noteq> []"
  shows "let s' = toggle_all visible s in
    allVisibleSelected visible s' = (\<not> allVisibleSelected visible s) \<and>
    (\<forall>row \<in> set visible. selected s' (row_key row) = (\<not> allVisibleSelected visible s)) \<and>
    (\<forall>k. k \<notin> row_key ` set visible \<longrightarrow> selected s' k = selected s k)"
proof -
  have sel: "selected (toggle_all visible s) k =
      (if k \<in> row_key ` set visible then \<not> allVisibleSelected visible s else selected s k)" for k
    by (simp add: toggle_all_def selected_def toggle_all_get)
  then have "allVisibleSelected visible (toggle_all visible s) = (\<not> allVisibleSelected visible s)"
    using assms by (subst allVisibleSelected_iff) (auto simp: neq_Nil_conv)
  with sel show ?thesis by (simp add: Let_def)
qed


section \<open>Rows and columns that change\<close>

lemma rows_effect_get:
  "obj_get (fold (\<lambda>row next. if obj_get cur (row_key row) = Some True then obj_set (row_key row) True next else next) rows acc) k =
     (if k \<in> row_key ` set rows \<and> obj_get cur k = Some True then Some True else obj_get acc k)"
  by (induction rows arbitrary: acc) auto

text \<open>New rows never select anything: after the rows changed, a key is selected exactly if it was
  selected before and is still the key of a row; the selection reported to the parent is what was
  selected among the new rows, in their order; and running the effect again changes nothing.\<close>

theorem rows_effect_spec:
  "let s' = rows_effect rows s in
    (\<forall>k. selected s' k \<longleftrightarrow> selected s k \<and> k \<in> row_key ` set rows) \<and>
    reported_selection rows s' = reported_selection rows s \<and>
    rows_effect rows s' = s'"
proof -
  let ?s = "rows_effect rows s"
  have sel: "selected ?s k \<longleftrightarrow> selected s k \<and> k \<in> row_key ` set rows" for k
    by (auto simp: rows_effect_def selected_def rows_effect_get)
  moreover have "reported_selection rows ?s = reported_selection rows s"
    unfolding reported_selection_def by (rule filter_cong) (auto simp: sel)
  moreover have "rows_effect rows ?s = ?s"
  proof -
    have "fold (\<lambda>row next. if obj_get (selectedRowKeys ?s) (row_key row) = Some True then obj_set (row_key row) True next else next) xs acc
      = fold (\<lambda>row next. if obj_get (selectedRowKeys s) (row_key row) = Some True then obj_set (row_key row) True next else next) xs acc"
      if "set xs \<subseteq> set rows" for xs acc
      using that sel by (induction xs arbitrary: acc) (auto simp: selected_def)
    from this[of rows "[]"] show ?thesis
      by (simp add: rows_effect_def split: option.splits)
  qed
  ultimately show ?thesis by (simp add: Let_def)
qed

lemma columns_effect_widths_get:
  assumes "distinct (map ide_key columns)" and "c \<in> set columns"
  shows "obj_get (columns_effect_widths columns w) (ide_key c) = Some (nullish (obj_get w (ide_key c)) (ide_width c))"
  using assms obj_get_build_distinct[OF assms, of "\<lambda>column. nullish (obj_get w (ide_key column)) (ide_width column)"]
  by (auto simp: columns_effect_widths_def Let_def nullish_def split: option.splits)

text \<open>Dragging a column border keeps the column usable: once the drag has started, every move sets
  the width to at least the column's minimum (80 pixels if it has none) and follows the pointer above
  it, and touches no other column.\<close>

theorem resize_respects_minimum:
  "let s' = resize_move x (resize_start column x0 s); w = nullish (obj_get (columnWidths s) (ide_key column)) (ide_width column);
       low = nullish (ide_minWidth column) 80 in
    obj_get (columnWidths s') (ide_key column) = Some (if low \<le> w + x - x0 then w + x - x0 else low) \<and>
    (k = ide_key column \<or> obj_get (columnWidths s') k = obj_get (columnWidths s) k) \<and>
    resizing (resize_end s') = None"
  by (auto simp: resize_move_def resize_start_def resize_end_def Let_def max_def)

section \<open>Concrete tables\<close>

definition demo_row :: "string \<Rightarrow> string \<Rightarrow> IdeTableRow" where
  "demo_row k v = \<lparr>row_key = k, row_values = [(''n'', v)], row_raw = Undefined\<rparr>"

definition demo_rows :: "IdeTableRow list" where
  "demo_rows = [demo_row ''r1'' ''10'', demo_row ''r2'' ''-'', demo_row ''r3'' ''9'']"

definition demo_table :: table_state where
  "demo_table = (SchemaDataTable_init [])\<lparr>sortState := Some (''n'', Asc), selectionAnchorRowKey := Some ''r1'',
     rowSelectionShiftPressed := True\<rparr>"

lemma demo_numbers: "normalizeNumber (trim ''10'') = Some 10" "normalizeNumber (trim ''9'') = Some 9"
    "blank_cell (trim ''-'')" "\<not> blank_cell (trim ''10'')" "\<not> blank_cell (trim ''9'')"
  by (simp_all add: normalizeNumber_def plain_number_def number_defs blank_cell_def lower_char_def)

lemma demo_rows_numbers:
  "map (\<lambda>row. cell_number dp False (cell_of ''n'' row)) demo_rows = [Some 10, None, Some 9]"
  by (simp add: demo_rows_def demo_row_def cell_of_def cell_number_def demo_numbers obj_get_def nullish_def)


theorem shift_click_selects_range_witness:
  "map (\<lambda>row. selected (checkbox_change demo_rows (demo_rows ! 1) True demo_table) (row_key row)) demo_rows = [True, True, False]"
proof -
  have *: "let s' = checkbox_change demo_rows (demo_rows ! 1) True demo_table in
    (\<forall>i < length demo_rows. selected s' (row_key (demo_rows ! i)) =
       (if min 0 1 \<le> i \<and> i \<le> max 0 1 then True else selected demo_table (row_key (demo_rows ! i)))) \<and>
    (\<forall>k. k \<notin> row_key ` set demo_rows \<longrightarrow> selected s' k = selected demo_table k) \<and>
    selectionAnchorRowKey s' = Some (row_key (demo_rows ! 1)) \<and> \<not> rowSelectionShiftPressed s'"
    by (rule shift_click_selects_range) (simp_all add: demo_rows_def demo_row_def demo_table_def)
  have sel: "selected (checkbox_change demo_rows (demo_rows ! 1) True demo_table) (row_key (demo_rows ! i)) =
      (i \<le> 1 \<or> selected demo_table (row_key (demo_rows ! i)))" if "i < 3" for i
    using * that by (simp add: Let_def demo_rows_def)
  have "\<not> selected demo_table ''r3''" by (simp add: demo_table_def selected_def SchemaDataTable_init_def)
  then show ?thesis using sel[of 0] sel[of 1] sel[of 2] by (simp add: demo_rows_def demo_row_def)
qed

theorem toggle_all_spec_witness:
  "allVisibleSelected demo_rows (toggle_all demo_rows demo_table)"
proof -
  have "\<not> selected demo_table k" for k
    by (simp add: demo_table_def selected_def SchemaDataTable_init_def)
  then have "\<not> allVisibleSelected demo_rows demo_table"
    by (auto simp: allVisibleSelected_iff demo_rows_def)
  with toggle_all_spec[of demo_rows demo_table] show ?thesis by (simp add: demo_rows_def Let_def)
qed

end
