(* ===== verification/ViewModel.thy ===== *)
theory ViewModel
  imports FetchSystem DataTable
begin

text \<open>
  What the application derives from its state for rendering,
  \<open>modules/app/hooks/useAppViewModel.ts\<close>: the navigation filtered by the search text, the
  active tab with its kind, resource, table and cluster, and the snapshot data of that cluster. The
  generated manifest (\<open>controlPlane\<close>) is the parameter \<open>M\<close>.
\<close>

section \<open>The manifest by kind\<close>

text \<open>\<open>new Map(list.map(item => [item.kind, item]))\<close>: the last entry of a kind counts.\<close>

definition resourcesByKind :: "ControlPlaneManifest \<Rightarrow> ManifestResource js_obj" where
  "resourcesByKind M = obj_build resource_kind id (manifest_resources M)"

definition tablesByKind :: "ControlPlaneManifest \<Rightarrow> ManifestTable js_obj" where
  "tablesByKind M = obj_build table_kind id (manifest_tables M)"

section \<open>Navigation\<close>

definition normalizedSearch :: "string \<Rightarrow> string" where
  "normalizedSearch search = to_lower (trim search)"

definition itemsByCluster :: "ControlPlaneManifest \<Rightarrow> 'a conn_state_scheme \<Rightarrow> NavigationLeaf list js_obj" where
  "itemsByCluster M s = obj_build cluster_id (\<lambda>cluster. nav_children (manifest_navigation M)) (clusters s)"

definition filteredItemsByCluster ::
  "ControlPlaneManifest \<Rightarrow> string \<Rightarrow> 'a conn_state_scheme \<Rightarrow> NavigationLeaf list js_obj" where
  "filteredItemsByCluster M search s =
     (let q = normalizedSearch search in
      obj_build cluster_id (\<lambda>cluster.
        let items = nullish (obj_get (itemsByCluster M s) (cluster_id cluster)) [] in
        if q = [] then items else filter (\<lambda>item. str_includes (to_lower (leaf_label item)) q) items) (clusters s))"

definition visibleClusters :: "ControlPlaneManifest \<Rightarrow> string \<Rightarrow> 'a conn_state_scheme \<Rightarrow> ClusterEntry list" where
  "visibleClusters M search s =
     (let q = normalizedSearch search in
      filter (\<lambda>cluster.
        if q = [] then True
        else
          let matchesCluster = str_includes (to_lower (cluster_name cluster)) q;
              matchingItems = nullish (obj_get (filteredItemsByCluster M search s) (cluster_id cluster)) []
          in matchesCluster \<or> length matchingItems > 0) (clusters s))"

section \<open>The active tab\<close>

definition activeTab :: "'a tab_state_scheme \<Rightarrow> OpenTab option" where
  "activeTab s = (case List.find (\<lambda>tab. tab_id tab = activeTabId s) (openTabs s) of
     Some t \<Rightarrow> Some t | None \<Rightarrow> nth_opt (openTabs s) 0)"

definition setupTabActive :: "'a tab_state_scheme \<Rightarrow> bool" where
  "setupTabActive s = (map_option tab_id (activeTab s) = Some SETUP_TAB_ID)"

definition settingsTabActive :: "'a tab_state_scheme \<Rightarrow> bool" where
  "settingsTabActive s = (map_option tab_id (activeTab s) = Some SETTINGS_TAB_ID)"

definition activeKind :: "'a tab_state_scheme \<Rightarrow> string" where
  "activeKind s = nullish (map_option tab_kind (activeTab s)) ''Node''"

definition first_cluster_id :: "'a conn_state_scheme \<Rightarrow> string" where
  "first_cluster_id s = (case clusters s of [] \<Rightarrow> [] | c # _ \<Rightarrow> cluster_id c)"

definition resolvedClusterId :: "'a tab_state_scheme \<Rightarrow> string" where
  "resolvedClusterId s =
     str_or (nullish (map_option tab_cluster (activeTab s)) []) (str_or (activeClusterId s) (first_cluster_id s))"

definition activeResource :: "ControlPlaneManifest \<Rightarrow> 'a tab_state_scheme \<Rightarrow> ManifestResource option" where
  "activeResource M s =
     (if settingsTabActive s \<or> setupTabActive s then None
      else case obj_get (resourcesByKind M) (activeKind s) of
        Some r \<Rightarrow> Some r | None \<Rightarrow> nth_opt (manifest_resources M) 0)"

definition activeTableSchema :: "ControlPlaneManifest \<Rightarrow> 'a tab_state_scheme \<Rightarrow> ManifestTable option" where
  "activeTableSchema M s =
     (if settingsTabActive s \<or> setupTabActive s then None else obj_get (tablesByKind M) (activeKind s))"

definition activeKindUsesSnapshot :: "ControlPlaneManifest \<Rightarrow> 'a tab_state_scheme \<Rightarrow> bool" where
  "activeKindUsesSnapshot M s =
     (case activeTableSchema M s of None \<Rightarrow> False | Some t \<Rightarrow> starts_with (table_source t) ''snapshot.'')"

definition activeKindNeedsSnapshot :: "ControlPlaneManifest \<Rightarrow> 'a tab_state_scheme \<Rightarrow> bool" where
  "activeKindNeedsSnapshot M s = (activeKindUsesSnapshot M s \<or> activeKind s = ''Event'')"

definition hasStoredConnections :: "'a conn_state_scheme \<Rightarrow> bool" where
  "hasStoredConnections s = (length (clusters s) > 0)"

section \<open>The active cluster's data\<close>

definition activeSnapshot :: "'a data_state_scheme \<Rightarrow> GuiClusterSnapshot option" where
  "activeSnapshot s = obj_get (clusterSnapshots s) (resolvedClusterId s)"

definition activeSnapshotError :: "'a data_state_scheme \<Rightarrow> string option" where
  "activeSnapshotError s = obj_get (clusterSnapshotErrors s) (resolvedClusterId s)"

definition activeSnapshotLoading :: "'a data_state_scheme \<Rightarrow> bool" where
  "activeSnapshotLoading s = nullish (obj_get (clusterSnapshotLoading s) (resolvedClusterId s)) False"

definition config_entry :: "string \<Rightarrow> GuiClusterSnapshot \<Rightarrow> string option" where
  "config_entry key snapshot =
     map_option config_value (List.find (\<lambda>item. config_key item = key) (snapshot_group_config snapshot))"

definition inconsistency_of :: "GuiClusterSnapshot \<Rightarrow> string option" where
  "inconsistency_of snapshot =
     (let value = nullish (config_entry ''control_plane_sync_reason'' snapshot)
                    (nullish (config_entry ''user_state_sync_inconsistency_reason'' snapshot) [])
      in if value = [] \<or> value = ''-'' then None else Some value)"

definition activeClusterInconsistency :: "'a data_state_scheme \<Rightarrow> string option" where
  "activeClusterInconsistency s = (case activeSnapshot s of None \<Rightarrow> None | Some sn \<Rightarrow> inconsistency_of sn)"

definition activeClusterUserId :: "'a tab_state_scheme \<Rightarrow> string option" where
  "activeClusterUserId s =
     (case List.find (\<lambda>item. conn_id item = resolvedClusterId s) (connectionConfigs s) of
       None \<Rightarrow> None | Some activeConnection \<Rightarrow> extractClusterUserId (conn_yaml activeConnection))"

definition useLiveSnapshotTable :: "ControlPlaneManifest \<Rightarrow> 'a data_state_scheme \<Rightarrow> bool" where
  "useLiveSnapshotTable M s =
     (activeSnapshot s \<noteq> None \<and> activeKindUsesSnapshot M s \<and> activeTableSchema M s \<noteq> None)"

section \<open>Correctness\<close>

lemma cluster_ids: "map cluster_id (clusters s) = map conn_id (connectionConfigs s)"
  by (simp add: clusters_def)

text \<open>A record built over the clusters with a value that does not depend on the entry.\<close>

lemma build_const_get:
  "obj_get (obj_build key (\<lambda>x. v) xs) k = (if k \<in> key ` set xs then Some v else None)"
proof (cases "List.find (\<lambda>x. key x = k) (rev xs)")
  case None
  then have "k \<notin> key ` set xs" by (auto simp: find_None_iff)
  with None show ?thesis by (simp add: obj_get_build)
next
  case (Some x)
  then have "key x = k" "x \<in> set xs" by (auto dest: find_SomeD)
  with Some show ?thesis by (auto simp: obj_get_build)
qed

lemma build_by_key_get:
  "obj_get (obj_build key (\<lambda>x. g (key x)) xs) k = (if k \<in> key ` set xs then Some (g k) else None)"
proof (cases "List.find (\<lambda>x. key x = k) (rev xs)")
  case None
  then have "k \<notin> key ` set xs" by (auto simp: find_None_iff)
  with None show ?thesis by (simp add: obj_get_build)
next
  case (Some x)
  then have "key x = k" "x \<in> set xs" by (auto dest: find_SomeD)
  with Some show ?thesis by (auto simp: obj_get_build)
qed

definition matching_items :: "ControlPlaneManifest \<Rightarrow> string \<Rightarrow> NavigationLeaf list" where
  "matching_items M search = filter (\<lambda>item. str_includes (to_lower (leaf_label item)) (normalizedSearch search))
     (nav_children (manifest_navigation M))"

lemma filtered_items_get:
  assumes "c \<in> set (clusters s)"
  shows "obj_get (filteredItemsByCluster M search s) (cluster_id c) = Some (matching_items M search)"
proof -
  have mem: "cluster_id c \<in> cluster_id ` set (clusters s)" using assms by simp
  let ?g = "\<lambda>k. let items = nullish (obj_get (itemsByCluster M s) k) [] in
    if normalizedSearch search = [] then items
    else filter (\<lambda>item. str_includes (to_lower (leaf_label item)) (normalizedSearch search)) items"
  have "obj_get (filteredItemsByCluster M search s) (cluster_id c) = Some (?g (cluster_id c))"
    unfolding filteredItemsByCluster_def Let_def[of "normalizedSearch search"]
    using build_by_key_get[of cluster_id ?g "clusters s" "cluster_id c"] mem by simp
  moreover have "obj_get (itemsByCluster M s) (cluster_id c) = Some (nav_children (manifest_navigation M))"
    unfolding itemsByCluster_def using mem by (simp add: build_const_get)
  ultimately show ?thesis by (simp add: Let_def nullish_def matching_items_def)
qed

text \<open>The search in the sidebar finds exactly what matches: a stored cluster is shown if the search
  is blank, or its name contains the search text without regard to case and surrounding space, or
  some navigation item does; every shown cluster lists exactly the matching items; the order of the
  clusters is kept; and a blank search shows everything.\<close>

theorem sidebar_search_exact:
  "visibleClusters M search s =
     filter (\<lambda>c. str_includes (to_lower (cluster_name c)) (normalizedSearch search) \<or> matching_items M search \<noteq> []) (clusters s)
     \<and> (c \<in> set (visibleClusters M search s) \<longrightarrow>
         obj_get (filteredItemsByCluster M search s) (cluster_id c) = Some (matching_items M search))
     \<and> (normalizedSearch search = [] \<longrightarrow>
         visibleClusters M search s = clusters s \<and> matching_items M search = nav_children (manifest_navigation M))"
proof -
  have eq: "visibleClusters M search s =
     filter (\<lambda>c. str_includes (to_lower (cluster_name c)) (normalizedSearch search) \<or> matching_items M search \<noteq> []) (clusters s)"
    unfolding visibleClusters_def Let_def
    by (rule filter_cong[OF refl]) (auto simp: filtered_items_get nullish_def)
  then have "c \<in> set (visibleClusters M search s) \<Longrightarrow> c \<in> set (clusters s)" by simp
  with eq show ?thesis by (auto simp: filtered_items_get matching_items_def)
qed

theorem sidebar_search_exact_witness:
  "\<forall>M. visibleClusters M '' '' demo_data = clusters demo_data"
  using sidebar_search_exact[of _ "'' ''" demo_data]
  by (simp add: normalizedSearch_def trim_def trim_start_def trim_end_def is_js_space_def)

lemma activeTab_open:
  assumes "tab_inv s"
  shows "\<exists>t \<in> set (openTabs s). activeTab s = Some t \<and> tab_id t = activeTabId s"
proof (cases "List.find (\<lambda>tab. tab_id tab = activeTabId s) (openTabs s)")
  case None
  with assms show ?thesis by (auto simp: tab_inv_def find_None_iff)
next
  case (Some t)
  then show ?thesis by (auto simp: activeTab_def dest: find_SomeD)
qed

text \<open>The data shown belongs to the active tab: under the invariants of the tabs and of the
  connections, the active tab is an open tab with the active id; if it is bound to a cluster, that
  cluster is the resolved one, and otherwise the resolved one is the active stored cluster; it is
  empty only if nothing is stored and the tab is bound to none.\<close>

theorem resolved_cluster_follows_tab:
  fixes s :: "'a data_state_scheme"
  assumes "tab_inv s" and "active_ok s"
  shows "\<exists>t \<in> set (openTabs s). activeTab s = Some t \<and> tab_id t = activeTabId s \<and> activeKind s = tab_kind t \<and>
    (if tab_cluster t \<noteq> [] then resolvedClusterId s = tab_cluster t
     else if hasStoredConnections s
     then resolvedClusterId s \<in> set (map cluster_id (clusters s))
     else resolvedClusterId s = [])"
proof -
  obtain t where t: "t \<in> set (openTabs s)" "activeTab s = Some t" "tab_id t = activeTabId s"
    using activeTab_open[OF assms(1)] by blast
  have "resolvedClusterId s = str_or (tab_cluster t) (str_or (activeClusterId s) (first_cluster_id s))"
    by (simp add: resolvedClusterId_def t nullish_def)
  moreover have "activeKind s = tab_kind t" by (simp add: activeKind_def t nullish_def)
  moreover have "str_or (activeClusterId s) (first_cluster_id s) \<in> set (map cluster_id (clusters s))" if "connectionConfigs s \<noteq> []"
    using assms(2) that
    by (cases "connectionConfigs s") (auto simp: active_ok_def str_or_def first_cluster_id_def clusters_def)
  moreover have "str_or (activeClusterId s) (first_cluster_id s) = []" if "connectionConfigs s = []"
    using assms(2) that by (simp add: active_ok_def str_or_def first_cluster_id_def clusters_def)
  ultimately show ?thesis using t
    by (intro bexI[of _ t]) (auto simp: str_or_def hasStoredConnections_def clusters_def)
qed

theorem resolved_cluster_follows_tab_witness:
  "resolvedClusterId (demo_data\<lparr>activeClusterId := ''b''\<rparr>) \<in> {''a'', ''b''}"
proof -
  let ?s = "demo_data\<lparr>activeClusterId := ''b''\<rparr>"
  have inv: "tab_inv ?s" "active_ok ?s"
    by (simp_all add: tab_inv_def tabs_ok_def active_ok_def demo_data_defs useTabManager_init_def)
  have tabs: "\<forall>t \<in> set (openTabs ?s). tab_cluster t = []" by (simp add: demo_data_defs useTabManager_init_def)
  have "map cluster_id (clusters ?s) = [''a'', ''b'']" by (simp add: cluster_ids demo_data_defs)
  with resolved_cluster_follows_tab[OF inv] tabs show ?thesis
    by (auto simp: hasStoredConnections_def simp flip: length_greater_0_conv split: if_splits)
qed

end
