(* ===== verification/ResourceTables.thy ===== *)
theory ResourceTables
  imports DataTable
begin

text \<open>
  The tables of nodes, group configuration and events: \<open>modules/nodes/NodeTable.tsx\<close>,
  \<open>modules/group-config/GroupConfigTable.tsx\<close> and \<open>modules/events/EventTable.tsx\<close>. Each
  sorts its rows by the schema, turns them into table rows and hands them to the generic table. The
  relative time of the node table is \<open>formatTimeAgo\<close> with its parameters.
\<close>

definition schema_rows ::
  "(string \<Rightarrow> string \<Rightarrow> int) \<Rightarrow> (rat \<Rightarrow> string) \<Rightarrow> ManifestTable \<Rightarrow> js_value list \<Rightarrow> IdeTableRow list" where
  "schema_rows collate numtext tableSchema rows =
     rowsToSchemaTableRows tableSchema (sortSchemaRows collate numtext (table_defaultSort tableSchema) rows)"

section \<open>Group configuration\<close>

definition GroupConfigTable ::
  "(string \<Rightarrow> string \<Rightarrow> int) \<Rightarrow> (rat \<Rightarrow> string) \<Rightarrow> ManifestTable \<Rightarrow> GroupConfigKeyTableRow list \<Rightarrow>
   IdeTableColumn list \<times> IdeTableRow list" where
  "GroupConfigTable collate numtext tableSchema rows =
     (schemaColumnsToTableColumns (table_columns tableSchema),
      schema_rows collate numtext tableSchema (map group_config_value rows))"

section \<open>Nodes\<close>

definition statusClassName :: "string \<Rightarrow> string" where
  "statusClassName statusValue =
     (let lowered = to_lower statusValue in
      if str_includes lowered ''unavailable'' \<or> str_includes lowered ''not-ready'' \<or> str_includes lowered ''broken''
      then ''schema-table__cell--status-bad''
      else if str_includes lowered ''leader'' then ''schema-table__cell--status-leader''
      else if str_includes lowered ''ready'' \<or> str_includes lowered ''synced'' \<or> str_includes lowered ''connected''
        \<or> str_includes lowered ''available'' \<or> str_includes lowered ''leader''
      then ''schema-table__cell--status-good''
      else ''schema-table__cell--status-muted'')"

text \<open>\<open>age === "-" ? (row.age?.trim() || "-") : age\<close>\<close>

definition display_time :: "(string \<Rightarrow> string) \<Rightarrow> string option \<Rightarrow> string" where
  "display_time ago raw =
     (let t = ago (nullish raw []) in
      if t = ''-'' then str_or (case raw of None \<Rightarrow> [] | Some r \<Rightarrow> trim r) ''-'' else t)"

definition node_display_row :: "(string \<Rightarrow> string) \<Rightarrow> ClusterNodeTableRow \<Rightarrow> ClusterNodeTableRow" where
  "node_display_row ago row =
     row\<lparr>node_age := Some (display_time ago (node_age row)),
         node_last_poll_at := Some (display_time ago (node_last_poll_at row))\<rparr>"

text \<open>
  The rows are ordered before the times are replaced by their relative form: \<open>js_sort\<close> runs on the
  nodes, compared through their values.
\<close>

definition NodeTable_rows ::
  "(string \<Rightarrow> string \<Rightarrow> int) \<Rightarrow> (rat \<Rightarrow> string) \<Rightarrow> (string \<Rightarrow> string) \<Rightarrow> ManifestTable \<Rightarrow>
   ClusterNodeTableRow list \<Rightarrow> IdeTableRow list" where
  "NodeTable_rows collate numtext ago tableSchema rows =
     (let orderedRows = js_sort (\<lambda>a b. compare_rows collate numtext (table_defaultSort tableSchema)
            (node_value a) (node_value b)) rows;
          displayRows = map (node_display_row ago) orderedRows
      in rowsToSchemaTableRows tableSchema (map node_value displayRows))"

definition node_cell_class :: "IdeTableRow \<Rightarrow> string \<Rightarrow> string" where
  "node_cell_class row columnKey =
     (if columnKey = ''status'' then statusClassName (nullish (obj_get (row_values row) ''status'') []) else [])"

section \<open>Events\<close>

record event_table_state =
  activeEventId :: "string option"
  detailOpen :: bool
  detailWidth :: int
  detailResize :: "(int \<times> int) option"

definition EventTable_init :: event_table_state where
  "EventTable_init = \<lparr>activeEventId = None, detailOpen = False, detailWidth = 420, detailResize = None\<rparr>"

definition ordered_events ::
  "(string \<Rightarrow> string \<Rightarrow> int) \<Rightarrow> (rat \<Rightarrow> string) \<Rightarrow> ManifestTable \<Rightarrow> EventLogEntry list \<Rightarrow> EventLogEntry list" where
  "ordered_events collate numtext tableSchema rows =
     js_sort (\<lambda>a b. compare_rows collate numtext (table_defaultSort tableSchema) (event_value a) (event_value b)) rows"

definition EventTable_rows ::
  "(string \<Rightarrow> string \<Rightarrow> int) \<Rightarrow> (rat \<Rightarrow> string) \<Rightarrow> ManifestTable \<Rightarrow> EventLogEntry list \<Rightarrow> IdeTableRow list" where
  "EventTable_rows collate numtext tableSchema rows =
     rowsToSchemaTableRows tableSchema (map event_value (ordered_events collate numtext tableSchema rows))"

definition activeEvent :: "EventLogEntry list \<Rightarrow> event_table_state \<Rightarrow> EventLogEntry option" where
  "activeEvent orderedRows s = List.find (\<lambda>row. Some (show_int (event_sequence row)) = activeEventId s) orderedRows"

definition detail_resize_start :: "int \<Rightarrow> event_table_state \<Rightarrow> event_table_state" where
  "detail_resize_start clientX s = s\<lparr>detailResize := Some (clientX, detailWidth s)\<rparr>"

definition detail_resize_move :: "int \<Rightarrow> event_table_state \<Rightarrow> event_table_state" where
  "detail_resize_move clientX s = (case detailResize s of None \<Rightarrow> s
     | Some (startX, startWidth) \<Rightarrow> s\<lparr>detailWidth := max 260 (min 900 (startWidth + startX - clientX))\<rparr>)"

definition detail_resize_end :: "event_table_state \<Rightarrow> event_table_state" where
  "detail_resize_end s = s\<lparr>detailResize := None\<rparr>"

definition event_row_click :: "IdeTableRow \<Rightarrow> event_table_state \<Rightarrow> event_table_state" where
  "event_row_click row s = s\<lparr>activeEventId := Some (row_key row), detailOpen := True\<rparr>"

definition detail_close :: "event_table_state \<Rightarrow> event_table_state" where
  "detail_close s = s\<lparr>detailOpen := False\<rparr>"

definition event_rows_effect :: "EventLogEntry list \<Rightarrow> event_table_state \<Rightarrow> event_table_state" where
  "event_rows_effect orderedRows s =
     (case activeEventId s of None \<Rightarrow> s
     | Some i \<Rightarrow> if i = [] then s
         else if \<not> array_some (\<lambda>row. show_int (event_sequence row) = i) orderedRows
         then s\<lparr>activeEventId := None, detailOpen := False\<rparr> else s)"

text \<open>Reaching the end of the table asks for more only when there is more and none is on its way.\<close>

definition reach_end_loads_more :: "bool \<Rightarrow> bool \<Rightarrow> bool" where
  "reach_end_loads_more hasMore loadingMore = (hasMore \<and> \<not> loadingMore)"

definition pager_text :: "bool \<Rightarrow> bool \<Rightarrow> string option" where
  "pager_text hasMore loadingMore =
     (if hasMore then Some (if loadingMore then ''Loading...'' else ''Scroll to load more...'') else None)"

definition detail_title :: "EventLogEntry list \<Rightarrow> event_table_state \<Rightarrow> string option" where
  "detail_title orderedRows s =
     (if detailOpen s then Some (case activeEvent orderedRows s of
        Some e \<Rightarrow> ''Event #'' @ show_int (event_sequence e) | None \<Rightarrow> ''Event details'') else None)"

section \<open>Correctness\<close>

lemma sort_insert_map: "map f (sort_insert (\<lambda>a b. cmp (f a) (f b)) x ys) = sort_insert cmp (f x) (map f ys)"
  by (induction ys) auto

lemma js_sort_map: "map f (js_sort (\<lambda>a b. cmp (f a) (f b)) xs) = js_sort cmp (map f xs)"
  by (induction xs) (auto simp: sort_insert_map)

lemma ordered_events_values:
  "map event_value (ordered_events collate numtext t rows) =
     sortSchemaRows collate numtext (table_defaultSort t) (map event_value rows)"
  unfolding ordered_events_def sortSchemaRows_def by (rule js_sort_map)

lemma sort_insert_by_key:
  "(\<And>a b. cmp a b \<le> 0 \<longleftrightarrow> (key b :: int) \<le> key a) \<Longrightarrow> sorted_wrt (\<lambda>a b. key b \<le> key a) ys \<Longrightarrow>
     sorted_wrt (\<lambda>a b. key b \<le> key a) (sort_insert cmp x ys)"
proof (induction ys)
  case (Cons y ys)
  have "set (sort_insert cmp x ys) = insert x (set ys)"
    by (metis mset_sort_insert set_mset_add_mset_insert set_mset_mset)
  with Cons show ?case by auto
qed simp

definition newest_first :: "ManifestTable \<Rightarrow> bool" where
  "newest_first t = (table_rowKey t = ''sequence'' \<and> table_defaultSort t = \<lparr>sort_field = ''sequence'', sort_dir = Desc\<rparr>)"

lemma compare_events:
  assumes "newest_first t"
  shows "compare_rows collate numtext (table_defaultSort t) (event_value a) (event_value b) \<le> 0 \<longleftrightarrow>
    event_sequence b \<le> event_sequence a"
  using assms by (simp add: compare_rows_def newest_first_def sort_sign_def)

text \<open>The audit log reads newest first: with a schema that sorts by descending sequence number, the
  rows of the event table are the events of the cache, each once, in descending order of their
  sequence numbers, and the row at every position carries the key of the event there.\<close>

theorem event_table_newest_first:
  assumes "newest_first t"
  shows "let es = ordered_events collate numtext t events; rows = EventTable_rows collate numtext t events in
    mset es = mset events \<and> sorted_wrt (\<lambda>a b. event_sequence b \<le> event_sequence a) es \<and>
    map row_raw rows = map event_value es \<and> map row_key rows = map (\<lambda>e. show_int (event_sequence e)) es"
proof -
  let ?es = "ordered_events collate numtext t events"
  have sorted: "sorted_wrt (\<lambda>a b. event_sequence b \<le> event_sequence a) ?es"
    unfolding ordered_events_def
    by (induction events) (auto intro: sort_insert_by_key[where key = event_sequence] simp: compare_events[OF assms])
  have key: "table_rowKey t = ''sequence''" using assms by (simp add: newest_first_def)
  have "map row_key (EventTable_rows collate numtext t events) = map (\<lambda>e. show_int (event_sequence e)) ?es"
    using row_keys_present[of "map event_value ?es" t] key
    by (simp add: EventTable_rows_def has_row_key_def Let_def comp_def)
  moreover have "map row_raw (EventTable_rows collate numtext t events) = map event_value ?es"
    unfolding EventTable_rows_def by (intro nth_equalityI) (auto simp: rows_nth)
  ultimately show ?thesis using sorted by (simp add: Let_def ordered_events_def)
qed

definition demo_event_table :: ManifestTable where
  "demo_event_table = group_config_table\<lparr>table_kind := ''Event'', table_rowKey := ''sequence'',
     table_defaultSort := \<lparr>sort_field = ''sequence'', sort_dir = Desc\<rparr>\<rparr>"

theorem event_table_newest_first_witness:
  "sorted_wrt (\<lambda>a b. event_sequence b \<le> event_sequence a)
     (ordered_events code_unit_order (\<lambda>q. []) demo_event_table [demo_log_entry 3, demo_log_entry 8])"
  using event_table_newest_first[of demo_event_table code_unit_order "\<lambda>q. []" "[demo_log_entry 3, demo_log_entry 8]"]
  by (simp add: Let_def demo_event_table_def newest_first_def)

text \<open>The detail pane shows an event that is there, and its width stays within its bounds.\<close>

definition detail_ok :: "EventLogEntry list \<Rightarrow> event_table_state \<Rightarrow> bool" where
  "detail_ok orderedRows s = (260 \<le> detailWidth s \<and> detailWidth s \<le> 900 \<and>
     (detailOpen s \<longrightarrow> (\<exists>e \<in> set orderedRows. activeEvent orderedRows s = Some e)))"

lemma activeEvent_iff:
  "(\<exists>e \<in> set rows. activeEvent rows s = Some e) \<longleftrightarrow> (\<exists>e \<in> set rows. activeEventId s = Some (show_int (event_sequence e)))"
proof (cases "activeEvent rows s")
  case None
  then have "\<forall>e \<in> set rows. Some (show_int (event_sequence e)) \<noteq> activeEventId s"
    by (simp add: activeEvent_def find_None_iff)
  with None show ?thesis by (simp add: eq_commute)
next
  case (Some e)
  then have "e \<in> set rows" and "activeEventId s = Some (show_int (event_sequence e))"
    using find_SomeD[OF Some[unfolded activeEvent_def]] by simp_all
  with Some show ?thesis by blast
qed

text \<open>The detail pane of the event table never shows a stale event: whatever rows it held before,
  after clicking a row of the current table, dragging the border, or the effect that runs when the
  rows changed, an open pane shows an event of the current rows, and its width is between 260 and
  900 pixels.\<close>

theorem event_detail_ok:
  assumes "newest_first t" and "detail_ok old s"
    and "row \<in> set (EventTable_rows collate numtext t events)"
  shows "detail_ok (ordered_events collate numtext t events)
      (event_row_click row (event_rows_effect (ordered_events collate numtext t events) s)) \<and>
    detail_ok (ordered_events collate numtext t events) (event_rows_effect (ordered_events collate numtext t events) s) \<and>
    detail_ok old (detail_resize_move x (detail_resize_start x0 s)) \<and> detail_ok old (detail_close s)"
proof -
  let ?es = "ordered_events collate numtext t events"
  have "map row_key (EventTable_rows collate numtext t events) = map (\<lambda>e. show_int (event_sequence e)) ?es"
    using row_keys_present[of "map event_value ?es" t] assms(1)
    by (simp add: EventTable_rows_def has_row_key_def newest_first_def Let_def comp_def)
  then have key: "row_key row \<in> set (map (\<lambda>e. show_int (event_sequence e)) ?es)"
    using assms(3) by (metis image_eqI list.set_map)
  have w: "260 \<le> detailWidth s" "detailWidth s \<le> 900" using assms(2) by (simp_all add: detail_ok_def)
  have keeps: "detailWidth (event_rows_effect ?es s) = detailWidth s"
    by (simp add: event_rows_effect_def split: option.splits)
  have "detail_ok ?es (event_row_click row (event_rows_effect ?es s))"
    using key w keeps by (auto simp: detail_ok_def activeEvent_iff event_row_click_def)
  moreover have "\<exists>e \<in> set ?es. activeEventId (event_rows_effect ?es s) = Some (show_int (event_sequence e))"
    if "detailOpen (event_rows_effect ?es s)"
  proof -
    from that have "detailOpen s" by (auto simp: event_rows_effect_def split: option.splits if_splits)
    then obtain e0 :: EventLogEntry where "activeEventId s = Some (show_int (event_sequence e0))"
      using assms(2) unfolding detail_ok_def activeEvent_iff by blast
    with that show ?thesis by (auto simp: event_rows_effect_def split: if_splits) metis
  qed
  then have "detail_ok ?es (event_rows_effect ?es s)"
    using w keeps by (simp add: detail_ok_def activeEvent_iff)
  moreover have "detail_ok old (detail_resize_move x (detail_resize_start x0 s))"
    using assms(2) by (auto simp: detail_ok_def detail_resize_move_def detail_resize_start_def activeEvent_def)
  moreover have "detail_ok old (detail_close s)"
    using w by (simp add: detail_ok_def detail_close_def)
  ultimately show ?thesis by blast
qed

theorem event_detail_ok_witness:
  "detail_ok [demo_log_entry 3] (event_rows_effect [demo_log_entry 3] EventTable_init)"
proof -
  have es: "ordered_events code_unit_order (\<lambda>q. []) demo_event_table [demo_log_entry 3] = [demo_log_entry 3]"
    by (simp add: ordered_events_def)
  have "newest_first demo_event_table" by (simp add: newest_first_def demo_event_table_def)
  moreover have "detail_ok [] EventTable_init" by (simp add: detail_ok_def EventTable_init_def)
  moreover have "EventTable_rows code_unit_order (\<lambda>q. []) demo_event_table [demo_log_entry 3] ! 0
      \<in> set (EventTable_rows code_unit_order (\<lambda>q. []) demo_event_table [demo_log_entry 3])"
    by (rule nth_mem) (simp add: EventTable_rows_def ordered_events_def)
  ultimately show ?thesis using event_detail_ok[of demo_event_table "[]" EventTable_init] es by metis
qed

text \<open>The colour of a node's status does not depend on letter case, a status that reports an
  unavailable, not-ready or broken node is never shown as good, and only a leader is shown as one;
  but a disconnected node is shown as good, because its status contains the word connected.\<close>

theorem status_colours:
  "statusClassName (to_lower v) = statusClassName v \<and>
   (statusClassName v = ''schema-table__cell--status-bad'' \<longleftrightarrow>
      (\<exists>w \<in> {''unavailable'', ''not-ready'', ''broken''}. \<exists>a b. to_lower v = a @ w @ b)) \<and>
   (statusClassName v = ''schema-table__cell--status-leader'' \<longleftrightarrow>
      statusClassName v \<noteq> ''schema-table__cell--status-bad'' \<and> (\<exists>a b. to_lower v = a @ ''leader'' @ b)) \<and>
   statusClassName ''disconnected'' = ''schema-table__cell--status-good''"
proof -
  have "to_lower ''disconnected'' = ''disconnected''" by (simp add: to_lower_def lower_char_def)
  then have d: "statusClassName ''disconnected'' = ''schema-table__cell--status-good''"
    by (simp add: statusClassName_def starts_with_def)
  have i: "statusClassName (to_lower v) = statusClassName v" by (simp add: statusClassName_def)
  have b: "statusClassName v = ''schema-table__cell--status-bad'' \<longleftrightarrow>
      str_includes (to_lower v) ''unavailable'' \<or> str_includes (to_lower v) ''not-ready'' \<or> str_includes (to_lower v) ''broken''"
    by (simp add: statusClassName_def Let_def)
  have l: "statusClassName v = ''schema-table__cell--status-leader'' \<longleftrightarrow>
      statusClassName v \<noteq> ''schema-table__cell--status-bad'' \<and> str_includes (to_lower v) ''leader''"
    by (simp add: statusClassName_def Let_def)
  show ?thesis using d i b l by (simp add: str_includes_iff)
qed

end
