(* ===== verification/Maintenance.thy ===== *)
theory Maintenance
  imports AppUtils
begin

text \<open>
  Maintenance of the installation: \<open>services/logger.ts\<close>, \<open>services/update.ts\<close>,
  \<open>services/standalone.ts\<close> and \<open>modules/app/hooks/useMaintenanceSettings.ts\<close>. The
  browser's \<open>localStorage\<close> and the console are fields of the state; the commands of the Tauri
  backend are parameters, given by what they settle with. A handler is split at its first await: its
  \<open>_begin\<close> part, and its \<open>_end\<close> part as a function of what the awaited commands settle
  with. Where a handler awaits several commands in turn, \<open>in_order\<close> gives the commands that
  are really invoked.
\<close>

section \<open>Logging\<close>

datatype LogLevel = Debug | Info | Warn | Error

fun levelPriority :: "LogLevel \<Rightarrow> nat" where
  "levelPriority Debug = 10"
| "levelPriority Info = 20"
| "levelPriority Warn = 30"
| "levelPriority Error = 40"

fun level_name :: "LogLevel \<Rightarrow> string" where
  "level_name Debug = ''debug''"
| "level_name Info = ''info''"
| "level_name Warn = ''warn''"
| "level_name Error = ''error''"

lemma levelPriority_inject: "levelPriority a = levelPriority b \<longleftrightarrow> a = b"
  by (cases a; cases b) auto

text \<open>Levels are ordered by priority.\<close>

instantiation LogLevel :: linorder
begin

definition less_eq_LogLevel :: "LogLevel \<Rightarrow> LogLevel \<Rightarrow> bool" where
  "less_eq_LogLevel a b = (levelPriority a \<le> levelPriority b)"

definition less_LogLevel :: "LogLevel \<Rightarrow> LogLevel \<Rightarrow> bool" where
  "less_LogLevel a b = (levelPriority a < levelPriority b)"

instance
  by standard (auto simp: less_eq_LogLevel_def less_LogLevel_def levelPriority_inject)

end

definition normalizeLogLevel :: "string option \<Rightarrow> LogLevel" where
  "normalizeLogLevel value =
     (if value = Some ''debug'' then Debug else if value = Some ''info'' then Info
      else if value = Some ''warn'' then Warn else if value = Some ''error'' then Error else Info)"

datatype console_method = ConsoleLog | ConsoleWarn | ConsoleError

record app_env =
  localStorage :: "string js_obj"
  console :: "(console_method \<times> string) list"

definition STORAGE_KEY :: string where "STORAGE_KEY = ''xenage-log-level''"

definition getLogLevel :: "'a app_env_scheme \<Rightarrow> LogLevel" where
  "getLogLevel s = normalizeLogLevel (obj_get (localStorage s) STORAGE_KEY)"

definition setLogLevel :: "LogLevel \<Rightarrow> 'a app_env_scheme \<Rightarrow> 'a app_env_scheme" where
  "setLogLevel level s = s\<lparr>localStorage := obj_set STORAGE_KEY (level_name level) (localStorage s)\<rparr>"

definition shouldLog :: "LogLevel \<Rightarrow> 'a app_env_scheme \<Rightarrow> bool" where
  "shouldLog level s = (getLogLevel s \<le> level)"

definition write_log :: "LogLevel \<Rightarrow> string \<Rightarrow> 'a app_env_scheme \<Rightarrow> 'a app_env_scheme" where
  "write_log level message s =
     (if \<not> shouldLog level s then s
      else
        let prefix = ''[xenage:'' @ level_name level @ ''] '' @ message;
            method = (if level = Debug \<or> level = Info then ConsoleLog
                      else if level = Warn then ConsoleWarn else ConsoleError)
        in s\<lparr>console := console s @ [(method, prefix)]\<rparr>)"

lemma normalizeLogLevel_name [simp]: "normalizeLogLevel (Some (level_name l)) = l"
  by (cases l) (simp_all add: normalizeLogLevel_def)

lemma getLogLevel_set [simp]: "getLogLevel (setLogLevel l s) = l"
  by (simp add: getLogLevel_def setLogLevel_def)

text \<open>The log level is a threshold that survives a restart: after a level is chosen, a message is
  written exactly if its level is at least the chosen one, it goes to the console method of its level
  with its prefix, and nothing else is written; a stored value that is no level counts as info.\<close>

theorem log_threshold:
  "let s' = write_log l m (setLogLevel chosen s) in
    (console s' = console s @ [(if l \<le> Info then ConsoleLog else if l = Warn then ConsoleWarn else ConsoleError,
        ''[xenage:'' @ level_name l @ ''] '' @ m)] \<longleftrightarrow> chosen \<le> l) \<and>
    (console s' = console s \<longleftrightarrow> \<not> chosen \<le> l) \<and>
    getLogLevel s' = chosen \<and>
    (v \<in> level_name ` {Debug, Info, Warn, Error} \<or> normalizeLogLevel (Some v) = Info)"
proof -
  let ?e = "(if l \<le> Info then ConsoleLog else if l = Warn then ConsoleWarn else ConsoleError,
    ''[xenage:'' @ level_name l @ ''] '' @ m)"
  have "l = Debug \<or> l = Info \<longleftrightarrow> l \<le> Info" by (cases l) (simp_all add: less_eq_LogLevel_def)
  then have w: "write_log l m (setLogLevel chosen s) =
      (if chosen \<le> l then (setLogLevel chosen s)\<lparr>console := console s @ [?e]\<rparr> else setLogLevel chosen s)"
    by (simp add: write_log_def shouldLog_def Let_def) (simp add: setLogLevel_def)
  have "console (setLogLevel chosen s) = console s" by (simp add: setLogLevel_def)
  moreover have "getLogLevel (write_log l m (setLogLevel chosen s)) = chosen"
    by (simp add: write_log_def Let_def getLogLevel_def setLogLevel_def)
  moreover have "v \<in> level_name ` {Debug, Info, Warn, Error} \<or> normalizeLogLevel (Some v) = Info"
    by (simp add: normalizeLogLevel_def)
  ultimately show ?thesis by (simp add: w Let_def)
qed

section \<open>Updates\<close>

text \<open>\<open>getChannel\<close> does not check the stored text, as \<open>getLogLevel\<close> does.\<close>

definition CHANNEL_KEY :: string where "CHANNEL_KEY = ''xenage-update-channel''"

definition getChannel :: "'a app_env_scheme \<Rightarrow> string" where
  "getChannel s = str_or (nullish (obj_get (localStorage s) CHANNEL_KEY) []) ''main''"

definition setChannel :: "string \<Rightarrow> 'a app_env_scheme \<Rightarrow> 'a app_env_scheme" where
  "setChannel ch s = write_log Info ''Update channel changed''
     (s\<lparr>localStorage := obj_set CHANNEL_KEY ch (localStorage s)\<rparr>)"

datatype NodeRole = ControlPlaneRole | RuntimeRole

datatype command =
    CheckForUpdates string bool
  | InstallUpdate string bool
  | InstallStandaloneBundle string
  | InstallNodeService NodeRole "string list"
  | StartNodeService NodeRole
  | StopNodeService NodeRole
  | StandaloneStatusCommand

record UpdateInfo =
  update_current_version :: "string option"
  update_version :: string
  update_notes :: "string option"

definition checkForUpdates_call :: "'a app_env_scheme \<Rightarrow> command" where
  "checkForUpdates_call s = CheckForUpdates (getChannel s) False"

definition checkForUpdates ::
  "js_error + UpdateInfo option \<Rightarrow> 'a app_env_scheme \<Rightarrow> 'a app_env_scheme \<times> UpdateInfo option" where
  "checkForUpdates settled s =
     (case settled of
       Inr (Some update) \<Rightarrow> (write_log Info ''Update available'' s, Some update)
     | Inr None \<Rightarrow> (write_log Info ''No updates available'' s, None)
     | Inl e \<Rightarrow> (write_log Error ''Failed to check for updates'' s, None))"

text \<open>The boolean tells whether the application relaunches.\<close>

definition downloadUpdate :: "js_error + bool \<Rightarrow> 'a app_env_scheme \<Rightarrow> 'a app_env_scheme \<times> bool" where
  "downloadUpdate settled s =
     (case settled of
       Inr True \<Rightarrow> (write_log Info ''Update installed successfully, restarting application'' s, True)
     | Inr False \<Rightarrow> (write_log Warn ''Install update returned false'' s, False)
     | Inl e \<Rightarrow> (write_log Error ''Failed to download/install update'' s, False))"

definition forceUpdateDev_call :: "'a app_env_scheme \<Rightarrow> command option" where
  "forceUpdateDev_call s = (if getChannel s \<noteq> ''dev'' then None else Some (InstallUpdate (getChannel s) True))"

definition forceUpdateDev :: "js_error + bool \<Rightarrow> 'a app_env_scheme \<Rightarrow> 'a app_env_scheme \<times> bool" where
  "forceUpdateDev settled s =
     (if getChannel s \<noteq> ''dev'' then (write_log Warn ''Force update is only available on dev channel'' s, False)
      else case settled of
        Inr True \<Rightarrow> (write_log Info ''Dev update installed successfully, restarting application'' s, True)
      | Inr False \<Rightarrow> (write_log Warn ''Dev force update returned false'' s, False)
      | Inl e \<Rightarrow> (write_log Error ''Failed to force update dev release'' s, False))"

section \<open>The standalone services\<close>

record ServiceStatus =
  service_state :: string
  service_details :: "string option"

record StandaloneStatus =
  standalone_installed :: bool
  standalone_install_dir :: string
  standalone_asset_name :: string
  standalone_version :: "string option"
  control_plane_service :: ServiceStatus
  runtime_service :: ServiceStatus

record StandaloneInstallResult =
  install_version :: string
  install_dir :: string
  install_asset_name :: string

record maintenance_state = app_env +
  checkingUpdates :: bool
  managingStandalone :: bool
  updateStatus :: "string option"
  standaloneStatusMessage :: "string option"
  channel :: string
  standaloneStatus :: "StandaloneStatus option"
  controlPlaneArgs :: string
  runtimeArgs :: string
  logLevel :: LogLevel

definition useMaintenanceSettings_init :: "app_env \<Rightarrow> maintenance_state" where
  "useMaintenanceSettings_init env = app_env.extend env
     (maintenance_state.fields False False None None (getChannel env) None
       DEFAULT_CONTROL_PLANE_ARGS DEFAULT_RUNTIME_ARGS (getLogLevel env))"

definition handleChannelChange :: "string \<Rightarrow> 'a maintenance_state_scheme \<Rightarrow> 'a maintenance_state_scheme" where
  "handleChannelChange nextChannel s =
     (setChannel nextChannel (write_log Info ''Changing update channel'' s))
       \<lparr>channel := nextChannel, updateStatus := Some (''Switched to '' @ nextChannel @ '' channel.'')\<rparr>"

definition handleLogLevelChange :: "LogLevel \<Rightarrow> 'a maintenance_state_scheme \<Rightarrow> 'a maintenance_state_scheme" where
  "handleLogLevelChange nextLevel s =
     (write_log Info ''Application log level changed'' (setLogLevel nextLevel s))
       \<lparr>logLevel := nextLevel, updateStatus := Some (''Log level changed to '' @ level_name nextLevel @ ''.'')\<rparr>"

subsection \<open>Update handlers\<close>

definition update_begin :: "string \<Rightarrow> LogLevel \<Rightarrow> string \<Rightarrow> 'a maintenance_state_scheme \<Rightarrow> 'a maintenance_state_scheme" where
  "update_begin status level message s =
     write_log level message (s\<lparr>checkingUpdates := True, updateStatus := Some status\<rparr>)"

definition handleCheckUpdates_begin :: "'a maintenance_state_scheme \<Rightarrow> 'a maintenance_state_scheme" where
  "handleCheckUpdates_begin = update_begin ''Checking GitHub releases...'' Info ''Manual update check requested''"

definition handleCheckUpdates_end ::
  "js_error + UpdateInfo option \<Rightarrow> 'a maintenance_state_scheme \<Rightarrow> 'a maintenance_state_scheme" where
  "handleCheckUpdates_end settled s =
     (let (s1, update) = checkForUpdates settled s in
      s1\<lparr>updateStatus := Some (case update of Some u \<Rightarrow> ''Update available: '' @ update_version u
                                 | None \<Rightarrow> ''No updates available.''),
         checkingUpdates := False\<rparr>)"

definition handleInstallUpdate_begin :: "'a maintenance_state_scheme \<Rightarrow> 'a maintenance_state_scheme" where
  "handleInstallUpdate_begin =
     update_begin ''Downloading and installing update...'' Info ''Manual install update requested''"

definition handleInstallUpdate_end :: "js_error + bool \<Rightarrow> 'a maintenance_state_scheme \<Rightarrow> 'a maintenance_state_scheme" where
  "handleInstallUpdate_end settled s =
     (let (s1, success) = downloadUpdate settled s in
      s1\<lparr>updateStatus := Some (if success then ''Update installed. Restarting application...'' else ''No update installed.''),
         checkingUpdates := False\<rparr>)"

definition handleForceUpdate_begin :: "'a maintenance_state_scheme \<Rightarrow> 'a maintenance_state_scheme" where
  "handleForceUpdate_begin = update_begin ''Forcing dev update...'' Warn ''Force dev update requested''"

definition handleForceUpdate_end :: "js_error + bool \<Rightarrow> 'a maintenance_state_scheme \<Rightarrow> 'a maintenance_state_scheme" where
  "handleForceUpdate_end settled s =
     (let (s1, success) = forceUpdateDev settled s in
      s1\<lparr>updateStatus := Some (if success then ''Dev update installed. Restarting application...''
                                else ''No dev update installed.''),
         checkingUpdates := False\<rparr>)"

subsection \<open>Service handlers\<close>

text \<open>Awaiting commands in turn: the commands invoked, up to the first that rejects.\<close>

fun in_order :: "('c \<times> (js_error + 'r)) list \<Rightarrow> 'c list \<times> js_error option" where
  "in_order [] = ([], None)"
| "in_order ((c, r) # rest) =
     (case r of Inl e \<Rightarrow> ([c], Some e) | Inr _ \<Rightarrow> (let (cs, e) = in_order rest in (c # cs, e)))"

definition refreshStandaloneStatus ::
  "js_error + StandaloneStatus \<Rightarrow> 'a maintenance_state_scheme \<Rightarrow> 'a maintenance_state_scheme" where
  "refreshStandaloneStatus settled s =
     (case settled of
       Inr status \<Rightarrow> s\<lparr>standaloneStatus := Some status\<rparr>
     | Inl e \<Rightarrow> (write_log Error ''Failed to fetch standalone status'' s)
         \<lparr>standaloneStatusMessage := Some ''Failed to fetch standalone status.''\<rparr>)"

definition standalone_begin :: "string \<Rightarrow> 'a maintenance_state_scheme \<Rightarrow> 'a maintenance_state_scheme" where
  "standalone_begin message s = s\<lparr>managingStandalone := True, standaloneStatusMessage := Some message\<rparr>"

definition handleInstallStandaloneBundle_end ::
  "js_error + StandaloneInstallResult \<Rightarrow> js_error + StandaloneStatus \<Rightarrow>
   'a maintenance_state_scheme \<Rightarrow> 'a maintenance_state_scheme \<times> command list" where
  "handleInstallStandaloneBundle_end installed status s =
     (let calls = [InstallStandaloneBundle (channel s)];
          s0 = write_log Info ''Installing standalone bundle'' s in
      case installed of
        Inr result \<Rightarrow>
          ((refreshStandaloneStatus status (s0\<lparr>standaloneStatusMessage :=
              Some (''Installed standalone '' @ install_version result @ '' to '' @ install_dir result)\<rparr>))
             \<lparr>managingStandalone := False\<rparr>, calls @ [StandaloneStatusCommand])
      | Inl e \<Rightarrow>
          ((write_log Error ''Failed to install standalone package'' s0)
             \<lparr>standaloneStatusMessage := Some ''Standalone package installation failed.'', managingStandalone := False\<rparr>, calls))"

text \<open>The common body of the three handlers that run a command for each of the two services.\<close>

definition services_end ::
  "(command \<times> (js_error + string)) list \<Rightarrow> string \<Rightarrow> string \<Rightarrow> string \<Rightarrow> js_error + StandaloneStatus \<Rightarrow>
   'a maintenance_state_scheme \<Rightarrow> 'a maintenance_state_scheme \<times> command list" where
  "services_end steps done_message log_message failed_message status s =
     (let (calls, failure) = in_order steps in
      case failure of
        None \<Rightarrow> ((refreshStandaloneStatus status (s\<lparr>standaloneStatusMessage := Some done_message\<rparr>))
           \<lparr>managingStandalone := False\<rparr>, calls @ [StandaloneStatusCommand])
      | Some e \<Rightarrow> ((write_log Error log_message s)
           \<lparr>standaloneStatusMessage := Some failed_message, managingStandalone := False\<rparr>, calls))"

definition handleInstallStandaloneServices_end ::
  "js_error + string \<Rightarrow> js_error + string \<Rightarrow> js_error + StandaloneStatus \<Rightarrow>
   'a maintenance_state_scheme \<Rightarrow> 'a maintenance_state_scheme \<times> command list" where
  "handleInstallStandaloneServices_end cp rt status s =
     (let cpArgs = parseArgsList (controlPlaneArgs s); rtArgs = parseArgsList (runtimeArgs s) in
      services_end [(InstallNodeService ControlPlaneRole cpArgs, cp), (InstallNodeService RuntimeRole rtArgs, rt)]
        ''Node services installed.'' ''Failed to install standalone services''
        ''Service installation failed. Check arguments and permissions.'' status s)"

definition handleStartStandaloneServices_end ::
  "js_error + string \<Rightarrow> js_error + string \<Rightarrow> js_error + StandaloneStatus \<Rightarrow>
   'a maintenance_state_scheme \<Rightarrow> 'a maintenance_state_scheme \<times> command list" where
  "handleStartStandaloneServices_end cp rt status s =
     services_end [(StartNodeService ControlPlaneRole, cp), (StartNodeService RuntimeRole, rt)]
       ''Node services started.'' ''Failed to start standalone services''
       ''Failed to start services. Check service privileges.'' status s"

definition handleStopStandaloneServices_end ::
  "js_error + string \<Rightarrow> js_error + string \<Rightarrow> js_error + StandaloneStatus \<Rightarrow>
   'a maintenance_state_scheme \<Rightarrow> 'a maintenance_state_scheme \<times> command list" where
  "handleStopStandaloneServices_end cp rt status s =
     services_end [(StopNodeService ControlPlaneRole, cp), (StopNodeService RuntimeRole, rt)]
       ''Node services stopped.'' ''Failed to stop standalone services'' ''Failed to stop services.'' status s"

section \<open>The contract of a busy flag\<close>

text \<open>
  Every asynchronous handler of the application sets a flag when it starts and must clear it on every
  way it ends. The first locale states this for a start and an end that depends on how the awaited
  commands settle; inside it follows that a run leaves the flag clear, whatever ran in between. The
  second adds the message most handlers show.
\<close>

locale busy_flag =
  fixes start :: "'s \<Rightarrow> 's" and finish :: "'r \<Rightarrow> 's \<Rightarrow> 's" and busy :: "'s \<Rightarrow> bool"
  assumes start_busy: "busy (start s)" and finish_busy: "\<not> busy (finish r s)"
begin

lemma run_clears: "busy (start s) \<and> \<not> busy (finish r (between (start s)))"
  by (simp add: start_busy finish_busy)

lemma runs_clear: "rs \<noteq> [] \<Longrightarrow> \<not> busy (fold (\<lambda>r s. finish r (start s)) rs s)"
  by (induction rs rule: rev_induct) (auto simp: finish_busy)

end

locale busy_handler = busy_flag start finish busy
  for start :: "'s \<Rightarrow> 's" and finish :: "'r \<Rightarrow> 's \<Rightarrow> 's" and busy :: "'s \<Rightarrow> bool" +
  fixes shown :: "'s \<Rightarrow> string option"
  assumes start_shown: "shown (start s) \<noteq> None" and finish_shown: "shown (finish r s) \<noteq> None"
begin

lemma run_settles: "\<not> busy (finish r (between (start s))) \<and> shown (finish r (between (start s))) \<noteq> None"
  by (simp add: finish_busy finish_shown)

end

lemma write_log_fields [simp]:
  "checkingUpdates (write_log l m s) = checkingUpdates s" "managingStandalone (write_log l m s) = managingStandalone s"
  "updateStatus (write_log l m s) = updateStatus s" "standaloneStatusMessage (write_log l m s) = standaloneStatusMessage s"
  "channel (write_log l m s) = channel s" "standaloneStatus (write_log l m s) = standaloneStatus s"
  "localStorage (write_log l m s) = localStorage s"
  for s :: "'a maintenance_state_scheme"
  by (simp_all add: write_log_def Let_def)

lemma services_end_settles:
  "\<not> managingStandalone (fst (services_end steps d l f status s))"
  "\<exists>m. standaloneStatusMessage (fst (services_end steps d l f status s)) = Some m"
  by (auto simp: services_end_def refreshStandaloneStatus_def Let_def split: prod.splits option.splits sum.splits)

interpretation check_updates: busy_handler handleCheckUpdates_begin handleCheckUpdates_end checkingUpdates updateStatus
  by unfold_locales (simp_all add: handleCheckUpdates_begin_def update_begin_def handleCheckUpdates_end_def split_beta Let_def)

interpretation install_update: busy_handler handleInstallUpdate_begin handleInstallUpdate_end checkingUpdates updateStatus
  by unfold_locales (simp_all add: handleInstallUpdate_begin_def update_begin_def handleInstallUpdate_end_def split_beta Let_def)

interpretation force_update: busy_handler handleForceUpdate_begin handleForceUpdate_end checkingUpdates updateStatus
  by unfold_locales (simp_all add: handleForceUpdate_begin_def update_begin_def handleForceUpdate_end_def split_beta Let_def)

interpretation start_services: busy_handler "standalone_begin ''Starting node services...''"
  "\<lambda>(cp, rt, status) s. fst (handleStartStandaloneServices_end cp rt status s)" managingStandalone standaloneStatusMessage
  by unfold_locales (auto simp: standalone_begin_def handleStartStandaloneServices_end_def services_end_settles)

interpretation stop_services: busy_handler "standalone_begin ''Stopping node services...''"
  "\<lambda>(cp, rt, status) s. fst (handleStopStandaloneServices_end cp rt status s)" managingStandalone standaloneStatusMessage
  by unfold_locales (auto simp: standalone_begin_def handleStopStandaloneServices_end_def services_end_settles)

interpretation install_services: busy_handler "standalone_begin ''Installing node services...''"
  "\<lambda>(cp, rt, status) s. fst (handleInstallStandaloneServices_end cp rt status s)" managingStandalone standaloneStatusMessage
  by unfold_locales (auto simp: standalone_begin_def handleInstallStandaloneServices_end_def services_end_settles Let_def)

interpretation install_bundle: busy_handler "standalone_begin ''Downloading standalone package...''"
  "\<lambda>(installed, status) s. fst (handleInstallStandaloneBundle_end installed status s)" managingStandalone standaloneStatusMessage
  by unfold_locales
     (auto simp: standalone_begin_def handleInstallStandaloneBundle_end_def refreshStandaloneStatus_def Let_def split: sum.splits)


section \<open>Correctness\<close>

lemma update_handlers_same_flag:
  "checkingUpdates (handleCheckUpdates_end r s) = False" "checkingUpdates (handleInstallUpdate_end r' s) = False"
  "checkingUpdates (handleForceUpdate_end r' s) = False"
  by (simp_all add: handleCheckUpdates_end_def handleInstallUpdate_end_def handleForceUpdate_end_def split_beta Let_def)

text \<open>No maintenance action can hang the settings page: whichever handler runs, and however its
  commands settle, with anything that leaves the state alone in between or not, its busy flag is clear
  at the end and a status message is shown.\<close>

theorem maintenance_settles:
  fixes s :: maintenance_state and between :: "maintenance_state \<Rightarrow> maintenance_state"
  shows "\<not> checkingUpdates (handleCheckUpdates_end r (between (handleCheckUpdates_begin s))) \<and>
   \<not> checkingUpdates (handleInstallUpdate_end r' (between (handleInstallUpdate_begin s))) \<and>
   \<not> checkingUpdates (handleForceUpdate_end r' (between (handleForceUpdate_begin s))) \<and>
   \<not> managingStandalone (fst (handleInstallStandaloneBundle_end i status (between (standalone_begin ''Downloading standalone package...'' s)))) \<and>
   \<not> managingStandalone (fst (handleInstallStandaloneServices_end cp rt status (between (standalone_begin ''Installing node services...'' s)))) \<and>
   \<not> managingStandalone (fst (handleStartStandaloneServices_end cp rt status (between (standalone_begin ''Starting node services...'' s)))) \<and>
   \<not> managingStandalone (fst (handleStopStandaloneServices_end cp rt status (between (standalone_begin ''Stopping node services...'' s)))) \<and>
   standaloneStatusMessage (fst (handleStopStandaloneServices_end cp rt status (between (standalone_begin ''Stopping node services...'' s)))) \<noteq> None"
  using check_updates.run_settles[of r between s] install_update.run_settles[of r' between s]
    force_update.run_settles[of r' between s] install_bundle.run_settles[of "(i, status)" between s]
    install_services.run_settles[of "(cp, rt, status)" between s] start_services.run_settles[of "(cp, rt, status)" between s]
    stop_services.run_settles[of "(cp, rt, status)" between s]
  by (simp del: not_None_eq)

text \<open>The two services are handled in order and no further than they can be: starting them invokes
  the control plane first, the runtime only if that succeeded, and the status only if both did; the
  message says started exactly then, unless reading the status failed afterwards, and a failure
  changes neither the arguments nor the status shown.\<close>

theorem start_services_order:
  "let (s', calls) = handleStartStandaloneServices_end cp rt status s in
    calls = (case (cp, rt) of
      (Inl _, _) \<Rightarrow> [StartNodeService ControlPlaneRole]
    | (Inr _, Inl _) \<Rightarrow> [StartNodeService ControlPlaneRole, StartNodeService RuntimeRole]
    | (Inr _, Inr _) \<Rightarrow> [StartNodeService ControlPlaneRole, StartNodeService RuntimeRole, StandaloneStatusCommand]) \<and>
    (standaloneStatusMessage s' = Some ''Node services started.'' \<longleftrightarrow> \<not> isl cp \<and> \<not> isl rt \<and> \<not> isl status) \<and>
    (isl cp \<or> isl rt \<or> isl status \<longleftrightarrow> standaloneStatus s' = standaloneStatus s \<and> standaloneStatusMessage s' \<noteq> Some ''Node services started.'')"
  by (cases cp; cases rt; cases status)
     (simp_all add: handleStartStandaloneServices_end_def services_end_def refreshStandaloneStatus_def Let_def)

text \<open>A failed update check looks like being up to date: if the check for updates rejects, the
  status shown afterwards is the one shown when there is no update; the failure is only written to
  the console, and only as far as the log level allows.\<close>

theorem failed_check_shows_no_update:
  "updateStatus (handleCheckUpdates_end (Inl e) s) = updateStatus (handleCheckUpdates_end (Inr None) s) \<and>
   updateStatus (handleCheckUpdates_end (Inr (Some u)) s) = Some (''Update available: '' @ update_version u) \<and>
   updateStatus (handleCheckUpdates_end (Inl e) s) = Some ''No updates available.''"
  by (simp add: handleCheckUpdates_end_def checkForUpdates_def)

text \<open>An update is forced on the dev channel only: outside it no command is invoked and nothing is
  installed, whatever the backend would answer, and the channel is the one chosen last.\<close>

theorem force_update_only_dev:
  "(forceUpdateDev_call (handleChannelChange ch s) = None \<longleftrightarrow> str_or ch ''main'' \<noteq> ''dev'') \<and>
   (snd (forceUpdateDev settled (handleChannelChange ch s)) \<longleftrightarrow> ch = ''dev'' \<and> settled = Inr True)"
proof -
  have ch: "getChannel (handleChannelChange ch s) = str_or ch ''main''"
    by (simp add: getChannel_def handleChannelChange_def setChannel_def nullish_def)
  then show ?thesis
    by (cases settled) (auto simp: forceUpdateDev_call_def forceUpdateDev_def str_or_def split: bool.splits)
qed

section \<open>The subscription to the backend's log\<close>

text \<open>
  The effect that subscribes to a log: \<open>listen\<close> settles later and only then is the function
  known that removes the listener. \<open>registered\<close> tells whether the backend still has the listener.
\<close>

record subscription =
  mounted :: bool
  unlisten :: bool
  registered :: bool
  message :: "string option"

datatype subscription_event = Settled bool | Unmounted | LogEvent string

definition subscribe :: "string option \<Rightarrow> subscription" where
  "subscribe m = \<lparr>mounted = True, unlisten = False, registered = False, message = m\<rparr>"

fun subscription_step :: "subscription_event \<Rightarrow> subscription \<Rightarrow> subscription" where
  "subscription_step (Settled ok) s = s\<lparr>unlisten := True, registered := ok\<rparr>"
| "subscription_step Unmounted s = (if unlisten s then s\<lparr>mounted := False, registered := False\<rparr> else s\<lparr>mounted := False\<rparr>)"
| "subscription_step (LogEvent m) s = (if registered s \<and> mounted s then s\<lparr>message := Some m\<rparr> else s)"

lemma unmounted_silent:
  "\<not> mounted s \<Longrightarrow> \<not> mounted (fold subscription_step es s) \<and> message (fold subscription_step es s) = message s"
proof (induction es arbitrary: s)
  case (Cons e es)
  then show ?case by (cases e) (auto simp: Cons.IH)
qed simp

text \<open>A page that is gone gets no messages, but may keep its listener: after the effect is cleaned
  up no log event changes the message any more, whatever happens; if the clean-up comes before the
  subscription settles, nothing removes the listener, which stays registered for good.\<close>

theorem subscription_cleanup:
  "message (fold subscription_step es (subscription_step Unmounted s)) = message s \<and>
   registered (subscription_step (Settled True) (subscription_step Unmounted (subscribe m))) \<and>
   \<not> registered (subscription_step Unmounted (subscription_step (Settled True) (subscribe m)))"
  using unmounted_silent[of "subscription_step Unmounted s" es] by (simp add: subscribe_def)

end
