(* ===== verification/Views.thy ===== *)
theory Views
  imports ViewModel ResourceTables Maintenance
begin

text \<open>
  What the components of the shell render, as functions from their properties to records of the parts
  that depend on them: \<open>modules/app/components/*.tsx\<close>, \<open>modules/tabs/SortableTab.tsx\<close> and
  \<open>components/Icon.tsx\<close>. Fixed markup, class names without a condition and icons drawn by a
  third-party package are left out; buttons and their guards are kept.
\<close>

section \<open>Icons\<close>

definition kindToIcon :: "string js_obj" where
  "kindToIcon =
     [(''Cluster'', ''overview''), (''Node'', ''nodes''), (''Agent'', ''agent''), (''Run'', ''run''),
      (''Session'', ''session''), (''Tool'', ''tool''), (''MCP'', ''mcp''), (''Job'', ''job''),
      (''Event'', ''event''), (''Log'', ''log''), (''ResourceType'', ''resourceType''),
      (''CustomResource'', ''customResource''), (''ExecutionEnvironment'', ''environment''),
      (''Secret'', ''secret''), (''AccessControl'', ''access''), (''Interface'', ''interface''),
      (''Model'', ''model''), (''APIAccess'', ''api''), (''ConfigHistory'', ''history''),
      (''Alert'', ''alert''), (''Usage'', ''usage''), (''User'', ''user''), (''Role'', ''role''),
      (''RoleBinding'', ''roleBinding'')]"

definition iconNameForItem :: "string \<Rightarrow> string" where
  "iconNameForItem kind = nullish (obj_get kindToIcon kind) ''overview''"

text \<open>The names for which \<open>Icon\<close> has a drawing; it renders nothing for any other.\<close>

definition icons :: "string list" where
  "icons = [''access'', ''agent'', ''alert'', ''api'', ''chevron'', ''close'', ''cluster'', ''customResource'',
     ''environment'', ''event'', ''history'', ''interface'', ''job'', ''log'', ''mcp'', ''model'', ''nodes'',
     ''overview'', ''panel'', ''plus'', ''resourceType'', ''run'', ''search'', ''secret'', ''share'',
     ''settings'', ''session'', ''tool'', ''user'', ''role'', ''roleBinding'', ''usage'']"

section \<open>The tab bar\<close>

record SortableTab_view =
  st_id :: string
  st_active :: bool
  st_accent :: string
  st_closable :: bool
  st_icon :: string
  st_title :: "string \<times> string option"

definition local_cluster :: ClusterEntry where
  "local_cluster = \<lparr>cluster_id = ''local'', cluster_name = ''LOCAL'', cluster_accent = ''#22c55e''\<rparr>"

text \<open>The title is a label and, behind a separator, the name of the cluster if it has one.\<close>

definition header_tab :: "ControlPlaneManifest \<Rightarrow> 'a tab_state_scheme \<Rightarrow> OpenTab \<Rightarrow> SortableTab_view" where
  "header_tab M s tab =
     (let resource = obj_get (resourcesByKind M) (tab_kind tab);
          cluster = (case List.find (\<lambda>item. cluster_id item = tab_cluster tab) (clusters s) of
             Some c \<Rightarrow> c | None \<Rightarrow> local_cluster);
          tabLabel = (if tab_id tab = SETTINGS_TAB_ID then SETTINGS_KIND
             else if tab_id tab = SETUP_TAB_ID then ''Setup Guide''
             else nullish (map_option resource_title resource) (tab_kind tab))
      in \<lparr>st_id = tab_id tab, st_active = (tab_id tab = activeTabId s), st_accent = cluster_accent cluster,
          st_closable = (length (openTabs s) > 1),
          st_icon = (if tab_id tab = SETTINGS_TAB_ID \<or> tab_id tab = SETUP_TAB_ID then ''settings''
                     else iconNameForItem (tab_kind tab)),
          st_title = (tabLabel, if cluster_name cluster \<noteq> [] then Some (cluster_name cluster) else None)\<rparr>)"

definition WorkspaceHeader ::
  "ControlPlaneManifest \<Rightarrow> bool \<Rightarrow> 'a tab_state_scheme \<Rightarrow> bool \<times> SortableTab_view list" where
  "WorkspaceHeader M showSidebar s =
     (\<not> showSidebar \<and> hasStoredConnections s, map (header_tab M s) (openTabs s))"

datatype tab_key_event = KeyEnter | KeyOther

definition SortableTab_keydown :: "tab_key_event \<Rightarrow> OpenTab \<Rightarrow> 'a tab_state_scheme \<Rightarrow> 'a tab_state_scheme" where
  "SortableTab_keydown k tab s = (case k of KeyEnter \<Rightarrow> activateTab (tab_id tab) (tab_cluster tab) s | KeyOther \<Rightarrow> s)"

definition SortableTab_close :: "OpenTab \<Rightarrow> 'a tab_state_scheme \<Rightarrow> 'a tab_state_scheme" where
  "SortableTab_close tab s = (if length (openTabs s) > 1 then closeTab (tab_id tab) s else s)"

section \<open>The navigator\<close>

definition RBAC_KINDS :: "string set" where
  "RBAC_KINDS = {''User'', ''Role'', ''RoleBinding''}"

record ClusterTree_view =
  tree_cluster :: ClusterEntry
  tree_active :: bool
  tree_expanded :: bool
  tree_main :: "(NavigationLeaf \<times> bool \<times> string) list"
  tree_rbac :: "(bool \<times> (NavigationLeaf \<times> bool \<times> string) list) option"

definition leaf_view :: "string \<Rightarrow> string \<Rightarrow> ClusterEntry \<Rightarrow> NavigationLeaf \<Rightarrow> NavigationLeaf \<times> bool \<times> string" where
  "leaf_view clusterId kind cluster item =
     (item, clusterId = cluster_id cluster \<and> kind = leaf_kind item, iconNameForItem (leaf_kind item))"

definition ClusterTree ::
  "string \<Rightarrow> string \<Rightarrow> ClusterEntry \<Rightarrow> bool \<Rightarrow> NavigationLeaf list \<Rightarrow> bool \<Rightarrow> ClusterTree_view" where
  "ClusterTree clusterId kind cluster expanded items rbacExpanded =
     (let mainItems = filter (\<lambda>item. leaf_kind item \<notin> RBAC_KINDS) items;
          rbacItems = filter (\<lambda>item. leaf_kind item \<in> RBAC_KINDS) items
      in \<lparr>tree_cluster = cluster, tree_active = (clusterId = cluster_id cluster), tree_expanded = expanded,
          tree_main = (if expanded then map (leaf_view clusterId kind cluster) mainItems else []),
          tree_rbac = (if expanded \<and> length rbacItems > 0
             then Some (rbacExpanded, if rbacExpanded then map (leaf_view clusterId kind cluster) rbacItems else [])
             else None)\<rparr>)"

definition tree_header_click :: "string \<Rightarrow> 'a conn_state_scheme \<Rightarrow> 'a conn_state_scheme" where
  "tree_header_click clusterId s = s\<lparr>activeClusterId := clusterId,
     expandedClusters := obj_set clusterId (\<not> nullish (obj_get (expandedClusters s) clusterId) False) (expandedClusters s)\<rparr>"

record editor_view =
  editor_notice :: "string option"
  editor_name :: string
  editor_accent :: string

record NavigatorSidebar_view =
  nav_trees :: "ClusterTree_view list"
  nav_editor :: "editor_view option"

definition NavigatorSidebar ::
  "ControlPlaneManifest \<Rightarrow> string \<Rightarrow> bool \<Rightarrow> 'a tab_state_scheme \<Rightarrow> NavigatorSidebar_view" where
  "NavigatorSidebar M search rbacExpanded s =
     \<lparr>nav_trees = map (\<lambda>cluster. ClusterTree (resolvedClusterId s) (activeKind s) cluster
          (nullish (obj_get (expandedClusters s) (cluster_id cluster)) False)
          (nullish (obj_get (filteredItemsByCluster M search s) (cluster_id cluster)) []) rbacExpanded)
        (visibleClusters M search s),
      nav_editor = (case editing s of None \<Rightarrow> None
        | Some i \<Rightarrow> Some \<lparr>editor_notice = (case shareCopyNotice s of Some n \<Rightarrow> if n \<noteq> [] then Some n else None | None \<Rightarrow> None),
            editor_name = clusterDraftName s, editor_accent = clusterDraftAccent s\<rparr>)\<rparr>"

section \<open>The status bar\<close>

record StatusBar_view =
  bar_label :: string
  bar_class :: string
  bar_user :: "string option"
  bar_time :: string

definition StatusBar :: "string option \<Rightarrow> string \<Rightarrow> bool \<Rightarrow> bool \<Rightarrow> StatusBar_view" where
  "StatusBar userId clockTime failed fetching =
     \<lparr>bar_label = (if fetching then ''fetch'' else if failed then ''error'' else ''ready''),
      bar_class = (if fetching then ''statusbar__dot--fetching''
                   else if failed then ''statusbar__dot--error'' else ''statusbar__dot--ready''),
      bar_user = (case userId of Some u \<Rightarrow> if u \<noteq> [] then Some u else None | None \<Rightarrow> None),
      bar_time = clockTime\<rparr>"

section \<open>The workspace\<close>

record SetupGuide_view =
  setup_button :: "string \<times> bool"
  setup_yaml :: string
  setup_status :: "string option"

definition SetupGuideView :: "'a conn_state_scheme \<Rightarrow> SetupGuide_view" where
  "SetupGuideView s =
     \<lparr>setup_button = (if connectingGui s then ''Connecting...'' else ''Connect'', connectingGui s),
      setup_yaml = guiConnectionYaml s,
      setup_status = (case guiConnectionStatus s of Some t \<Rightarrow> if t \<noteq> [] then Some t else None | None \<Rightarrow> None)\<rparr>"

text \<open>Buttons are label and \<open>disabled\<close>.\<close>

record Settings_view =
  settings_level :: string
  settings_update_buttons :: "(string \<times> bool) list"
  settings_update_status :: string
  settings_service_buttons :: "(string \<times> bool) list"
  settings_bundle :: "string list"

definition SettingsView :: "'a maintenance_state_scheme \<Rightarrow> Settings_view" where
  "SettingsView m =
     (let st = standaloneStatus m; busy = managingStandalone m in
      \<lparr>settings_level = level_name (logLevel m),
       settings_update_buttons =
         [(if checkingUpdates m then ''Checking...'' else ''Check version'', checkingUpdates m),
          (''Install update'', checkingUpdates m)] @
         (if channel m = ''dev'' then [(''Force dev update'', checkingUpdates m)] else []),
       settings_update_status = nullish (updateStatus m) ''No update action yet.'',
       settings_service_buttons =
         [(if busy then ''Working...'' else ''Download binaries'', busy), (''Install services'', busy),
          (''Start services'', busy), (''Stop services'', busy), (''Refresh status'', busy)],
       settings_bundle =
         [''Installed: '' @ (if (case st of Some x \<Rightarrow> standalone_installed x | None \<Rightarrow> False) then ''yes'' else ''no''),
          ''Version: '' @ nullish (Option.bind st standalone_version) ''n/a'',
          ''Asset: '' @ nullish (map_option standalone_asset_name st) ''n/a'',
          ''Location: '' @ nullish (map_option standalone_install_dir st) ''n/a'',
          ''Control Plane Service: '' @ nullish (map_option (service_state \<circ> control_plane_service) st) ''unknown'',
          ''Runtime Service: '' @ nullish (map_option (service_state \<circ> runtime_service) st) ''unknown'',
          nullish (standaloneStatusMessage m) ''No standalone action yet.'']\<rparr>)"

text \<open>The table areas; \<open>activeSnapshot!\<close> and \<open>tableSchema!\<close> are options here.\<close>

datatype table_pane =
    RbacPane string string ManifestTable
  | EventPane bool bool "EventLogEntry list" ManifestTable
  | NodePane "GuiClusterSnapshot option" "ManifestTable option"
  | GroupConfigPane "GuiClusterSnapshot option" "ManifestTable option"
  | UnavailablePane string
  | FetchStatePane "string option" string bool

datatype workspace_content =
    SettingsContent
  | SetupContent SetupGuide_view
  | ResourceContent "string option" table_pane

definition table_pane_of :: "ControlPlaneManifest \<Rightarrow> 'a data_state_scheme \<Rightarrow> table_pane" where
  "table_pane_of M s =
     (let kind = activeKind s; cid = resolvedClusterId s; cache = obj_get (clusterEvents s) cid;
          rbacKindActive = (kind = ''User'' \<or> kind = ''Role'' \<or> kind = ''RoleBinding'') in
      case activeTableSchema M s of
        Some schema \<Rightarrow>
          if rbacKindActive then RbacPane kind cid schema
          else if kind = ''Event'' then EventPane (cache_field cache cache_has_more False)
              (cache_field cache cache_loading False) (cache_field cache cache_items []) schema
          else if useLiveSnapshotTable M s then
            (if kind = ''Node'' then NodePane (activeSnapshot s) (Some schema)
             else if kind = ''GroupConfig'' then GroupConfigPane (activeSnapshot s) (Some schema)
             else UnavailablePane kind)
          else if activeKindUsesSnapshot M s
          then FetchStatePane (activeSnapshotError s) kind (activeSnapshotLoading s)
          else UnavailablePane (nullish (map_option resource_kind (activeResource M s)) kind)
      | None \<Rightarrow>
          if useLiveSnapshotTable M s then
            (if kind = ''Node'' then NodePane (activeSnapshot s) None
             else if kind = ''GroupConfig'' then GroupConfigPane (activeSnapshot s) None
             else UnavailablePane kind)
          else if activeKindUsesSnapshot M s
          then FetchStatePane (activeSnapshotError s) kind (activeSnapshotLoading s)
          else UnavailablePane (nullish (map_option resource_kind (activeResource M s)) kind))"

definition WorkspaceContent :: "ControlPlaneManifest \<Rightarrow> 'a data_state_scheme \<Rightarrow> workspace_content" where
  "WorkspaceContent M s =
     (if settingsTabActive s then SettingsContent
      else if setupTabActive s then SetupContent (SetupGuideView s)
      else ResourceContent (activeClusterInconsistency s) (table_pane_of M s))"

definition ApiUnavailableTable :: "string \<Rightarrow> string" where
  "ApiUnavailableTable kind =
     ''API table is available only for Node, Event, and Group Config. No schema fallback for '' @ kind @ ''.''"

text \<open>The text and whether the retry button is offered.\<close>

definition ApiFetchStateTable :: "string option \<Rightarrow> string \<Rightarrow> bool \<Rightarrow> string \<times> bool" where
  "ApiFetchStateTable err kind loading =
     (if loading then (''Loading '' @ kind @ '' from API...'', False)
      else (case err of
          Some e \<Rightarrow> if e \<noteq> [] then ''API error: '' @ e else ''No API data returned for '' @ kind @ ''.''
        | None \<Rightarrow> ''No API data returned for '' @ kind @ ''.'', True))"

section \<open>Correctness\<close>

lemma kindToIcon_all: "list_all (\<lambda>p. list_ex (\<lambda>i. i = snd p) icons) kindToIcon"
  by code_simp

lemma kindToIcon_drawn: "v \<in> snd ` set kindToIcon \<Longrightarrow> v \<in> set icons"
  using kindToIcon_all by (auto simp: list_all_iff list_ex_iff)

text \<open>Every tab, item and window has an icon that exists: the icon chosen for any kind, known or
  not, is one the icon component draws.\<close>

theorem every_kind_has_icon:
  "iconNameForItem kind \<in> set icons \<and>
   st_icon (header_tab M s tab) \<in> set icons"
proof -
  have i: "iconNameForItem k \<in> set icons" for k
  proof (cases "obj_get kindToIcon k")
    case None
    then show ?thesis by (simp add: iconNameForItem_def nullish_def icons_def)
  next
    case (Some v)
    then have "v \<in> snd ` set kindToIcon" by (auto simp: obj_get_def dest: map_of_SomeD intro: rev_image_eqI)
    with Some show ?thesis by (simp add: iconNameForItem_def nullish_def kindToIcon_drawn)
  qed
  have "''settings'' \<in> set icons" by (simp add: icons_def)
  with i show ?thesis by (simp add: header_tab_def Let_def)
qed

text \<open>The workspace never dereferences missing data: whenever it renders the table of nodes or of
  the group configuration, the snapshot of the active cluster has arrived and the kind has a table in
  the manifest; a fetch state is shown exactly for a kind that reads snapshots while none has arrived.\<close>

theorem workspace_content_safe:
  "case WorkspaceContent M s of
     ResourceContent w (NodePane sn t) \<Rightarrow> sn \<noteq> None \<and> t \<noteq> None \<and> activeKind s = ''Node''
   | ResourceContent w (GroupConfigPane sn t) \<Rightarrow> sn \<noteq> None \<and> t \<noteq> None \<and> activeKind s = ''GroupConfig''
   | ResourceContent w (FetchStatePane e k l) \<Rightarrow> activeSnapshot s = None \<and> activeKindUsesSnapshot M s \<and> w = None
   | ResourceContent w (EventPane m l es t) \<Rightarrow> activeKind s = ''Event'' \<and> (es = [] \<or> (\<exists>c. obj_get (clusterEvents s) (resolvedClusterId s) = Some c \<and> es = cache_items c))
   | ResourceContent w (RbacPane k c t) \<Rightarrow> k \<in> RBAC_KINDS \<and> c = resolvedClusterId s
   | ResourceContent w (UnavailablePane k) \<Rightarrow> \<not> (k = ''Event'' \<and> activeTableSchema M s \<noteq> None \<and> activeKind s = ''Event'')
   | SetupContent v \<Rightarrow> setupTabActive s
   | SettingsContent \<Rightarrow> settingsTabActive s"
proof (cases "activeTableSchema M s")
  case None
  then show ?thesis
    by (simp add: WorkspaceContent_def table_pane_of_def Let_def useLiveSnapshotTable_def activeKindUsesSnapshot_def)
next
  case (Some schema)
  then show ?thesis
    by (auto simp: WorkspaceContent_def table_pane_of_def Let_def useLiveSnapshotTable_def RBAC_KINDS_def
        activeClusterInconsistency_def cache_field_def split: option.splits)
qed

text \<open>The last tab cannot be closed from the tab bar, and closing any other keeps the invariant of
  the tabs; exactly one tab is drawn as active, and the button that brings the sidebar back is there
  exactly when the sidebar is hidden and there is something to show in it.\<close>

theorem tab_bar_safe:
  assumes "tab_inv s"
  shows "tab_inv (SortableTab_close tab s) \<and>
    length (filter st_active (snd (WorkspaceHeader M shown s))) = 1 \<and>
    (\<forall>v \<in> set (snd (WorkspaceHeader M shown s)). st_closable v \<longleftrightarrow> length (openTabs s) \<noteq> 1) \<and>
    (fst (WorkspaceHeader M shown s) \<longleftrightarrow> \<not> shown \<and> connectionConfigs s \<noteq> [])"
proof -
  have distinct: "distinct (map tab_id (openTabs s))" and mem: "activeTabId s \<in> set (map tab_id (openTabs s))"
    and ne: "openTabs s \<noteq> []" using assms by (auto simp: tab_inv_def tabs_ok_def)
  have "length (filter (\<lambda>t. tab_id t = a) ts) = (if a \<in> set (map tab_id ts) then 1 else 0)"
    if "distinct (map tab_id ts)" for a and ts :: "OpenTab list"
    using that by (induction ts) (auto simp: filter_empty_conv)
  from this[OF distinct, of "activeTabId s"] mem
  have "length (filter st_active (snd (WorkspaceHeader M shown s))) = 1"
    by (simp add: WorkspaceHeader_def filter_map comp_def header_tab_def Let_def)
  moreover have "tab_inv (SortableTab_close tab s)"
    using assms by (simp add: SortableTab_close_def closeTab_inv)
  moreover have "\<forall>v \<in> set (snd (WorkspaceHeader M shown s)). st_closable v \<longleftrightarrow> length (openTabs s) \<noteq> 1"
    using ne by (auto simp: WorkspaceHeader_def header_tab_def Let_def neq_Nil_conv)
  ultimately show ?thesis by (simp add: WorkspaceHeader_def hasStoredConnections_def clusters_def)
qed

theorem tab_bar_safe_witness:
  "\<forall>M shown. length (filter st_active (snd (WorkspaceHeader M shown (openResource ''Node'' ''a'' demo_data)))) = 1"
proof -
  have "tabs_ok demo_data" by (simp add: tabs_ok_def demo_data_defs useTabManager_init_def)
  then have "tab_inv (openResource ''Node'' ''a'' demo_data)" by (rule openResource_inv)
  from tab_bar_safe[OF this] show ?thesis by blast
qed

end
