(* ===== verification/WindowState.thy ===== *)
theory WindowState
  imports TabManager
begin

text \<open>
  Detached windows. A window opened for a tab carries the tab in the query of its URL, and the
  start-up code reads it back: \<open>modules/tabs/windowState.ts\<close>. The URL parser of the platform is
  an argument: it maps a URL to its list of query pairs, or to \<open>None\<close> where
  \<open>new URL\<close> throws; \<open>URLSearchParams.get\<close> returns the first pair of a name.
\<close>

definition query_get :: "(string \<times> string) list \<Rightarrow> string \<Rightarrow> string option" where
  "query_get params name = map_of params name"

text \<open>\<open>params.get(name)?.trim()\<close>, where an absent or blank value is falsy.\<close>

definition trimmed_param :: "(string \<times> string) list \<Rightarrow> string \<Rightarrow> string" where
  "trimmed_param params name = (case query_get params name of Some v \<Rightarrow> trim v | None \<Rightarrow> [])"

definition raw_param :: "(string \<times> string) list \<Rightarrow> string \<Rightarrow> string" where
  "raw_param params name = nullish (query_get params name) []"

definition parseInitialWindowTab ::
  "(string \<Rightarrow> (string \<times> string) list option) \<Rightarrow> string \<Rightarrow> js_error + OpenTab option" where
  "parseInitialWindowTab parse_url sourceUrl =
     (case parse_url sourceUrl of
       None \<Rightarrow> Inl (ErrorObject ''Invalid URL'')
     | Some params \<Rightarrow> Inr
         (if query_get params ''tabPopout'' \<noteq> Some ''1'' then None
          else let kind = trimmed_param params ''tabKind'' in
            if kind = [] then None
            else let clusterId = trimmed_param params ''clusterId'';
                     tabId = str_or (trimmed_param params ''tabId'') (clusterId @ '':'' @ kind)
              in Some \<lparr>tab_id = tabId, tab_kind = kind, tab_cluster = clusterId\<rparr>))"

datatype horizontal_kind = ConsoleWindow | RbacEditorWindow

record rbac_payload =
  pl_clusterId :: string
  pl_clusterYaml :: string
  pl_kind :: string
  pl_resourceName :: "string option"
  pl_yaml :: string

record InitialHorizontalWindowTab =
  hw_icon :: string
  hw_id :: string
  hw_kind :: horizontal_kind
  hw_payload :: "rbac_payload option"
  hw_title :: string

definition parseHorizontalIcon :: "string option \<Rightarrow> string" where
  "parseHorizontalIcon icon =
     (case icon of Some i \<Rightarrow> if i \<in> {''session'', ''user'', ''role'', ''roleBinding''} then i else ''overview''
      | None \<Rightarrow> ''overview'')"

definition parseInitialHorizontalWindowTab ::
  "(string \<Rightarrow> (string \<times> string) list option) \<Rightarrow> string \<Rightarrow> js_error + InitialHorizontalWindowTab option" where
  "parseInitialHorizontalWindowTab parse_url sourceUrl =
     (case parse_url sourceUrl of
       None \<Rightarrow> Inl (ErrorObject ''Invalid URL'')
     | Some params \<Rightarrow> Inr
         (if query_get params ''subWindowPopout'' \<noteq> Some ''1'' then None
          else let kind = trimmed_param params ''subWindowKind'';
                   i = trimmed_param params ''subWindowTabId'';
                   title = trimmed_param params ''subWindowTitle'';
                   icon = parseHorizontalIcon (query_get params ''subWindowIcon'') in
            if kind = [] \<or> i = [] \<or> title = [] then None
            else if kind = ''console'' then
              Some \<lparr>hw_icon = icon, hw_id = i, hw_kind = ConsoleWindow, hw_payload = None, hw_title = title\<rparr>
            else if kind \<noteq> ''rbac-editor'' then None
            else let clusterId = trimmed_param params ''subWindowClusterId'';
                     clusterYaml = raw_param params ''subWindowClusterYaml'';
                     resourceKind = trimmed_param params ''subWindowResourceKind'';
                     yaml = raw_param params ''subWindowYaml'';
                     resourceName = trimmed_param params ''subWindowResourceName'' in
              if clusterId = [] \<or> trim clusterYaml = [] \<or> resourceKind = [] \<or> trim yaml = [] then None
              else Some \<lparr>hw_icon = icon, hw_id = i, hw_kind = RbacEditorWindow,
                hw_payload = Some \<lparr>pl_clusterId = clusterId, pl_clusterYaml = clusterYaml, pl_kind = resourceKind,
                  pl_resourceName = (if resourceName \<noteq> [] then Some resourceName else None), pl_yaml = yaml\<rparr>,
                hw_title = title\<rparr>))"

section \<open>The other end: the query the backend writes\<close>

text \<open>
  \<open>open_detached_tab_window\<close> of \<open>src-tauri/src/main.rs\<close> (Rust) drops the pairs of a former
  tab from the query of the source URL and appends those of the request.
\<close>

definition detached_query :: "DetachedTabWindowRequest \<Rightarrow> (string \<times> string) list \<Rightarrow> (string \<times> string) list" where
  "detached_query req pairs =
     filter (\<lambda>p. fst p \<notin> {''tabPopout'', ''tabKind'', ''clusterId'', ''tabId''}) pairs @
     [(''tabPopout'', ''1''), (''tabKind'', req_tabKind req), (''clusterId'', req_clusterId req), (''tabId'', req_tabId req)]"

lemma query_get_detached:
  assumes "k \<in> {''tabPopout'', ''tabKind'', ''clusterId'', ''tabId''}"
  shows "query_get (detached_query req pairs) k =
    query_get [(''tabPopout'', ''1''), (''tabKind'', req_tabKind req), (''clusterId'', req_clusterId req), (''tabId'', req_tabId req)] k"
proof -
  have "map_of (filter (\<lambda>p. fst p \<notin> {''tabPopout'', ''tabKind'', ''clusterId'', ''tabId''}) pairs) k = None"
    using assms by (auto simp: map_of_eq_None_iff)
  then show ?thesis by (simp add: query_get_def detached_query_def map_add_def)
qed

definition plain :: "string \<Rightarrow> bool" where
  "plain s = (trim s = s)"

text \<open>C34: a detached tab arrives as the same tab: if the query of the new window's URL is the one
  the backend builds from the request for a tab whose id, kind and cluster have no white space at
  their ends and whose id and kind are not empty, the new window starts with exactly that tab,
  whatever the query of the source window held.\<close>

theorem detached_tab_roundtrip:
  assumes "parse_url url = Some (detached_query (openTabInWindow tab s) pairs)"
    and "plain (tab_id tab)" "plain (tab_kind tab)" "plain (tab_cluster tab)"
    and "tab_id tab \<noteq> []" "tab_kind tab \<noteq> []"
  shows "parseInitialWindowTab parse_url url = Inr (Some tab)"
  using assms query_get_detached[of _ "openTabInWindow tab s" pairs]
  by (simp add: parseInitialWindowTab_def trimmed_param_def query_get_def plain_def openTabInWindow_def Let_def)

theorem detached_tab_roundtrip_witness:
  "parseInitialWindowTab (\<lambda>_. Some (detached_query (openTabInWindow
      \<lparr>tab_id = ''c1:Node'', tab_kind = ''Node'', tab_cluster = ''c1''\<rparr> demo_tabs) [(''tabId'', ''old''), (''x'', ''y'')]))
    ''app://main''
   = Inr (Some \<lparr>tab_id = ''c1:Node'', tab_kind = ''Node'', tab_cluster = ''c1''\<rparr>)"
  by (rule detached_tab_roundtrip) (auto simp: plain_def is_js_space_def intro!: trim_no_space)

definition horizontal_tab_ok :: "InitialHorizontalWindowTab \<Rightarrow> bool" where
  "horizontal_tab_ok t =
     (hw_id t \<noteq> [] \<and> plain (hw_id t) \<and> hw_title t \<noteq> [] \<and> plain (hw_title t) \<and>
      hw_icon t \<in> {''session'', ''user'', ''role'', ''roleBinding'', ''overview''} \<and>
      (case hw_kind t of
        ConsoleWindow \<Rightarrow> hw_payload t = None
      | RbacEditorWindow \<Rightarrow> (case hw_payload t of
          None \<Rightarrow> False
        | Some q \<Rightarrow> pl_clusterId q \<noteq> [] \<and> pl_kind q \<noteq> [] \<and> trim (pl_clusterYaml q) \<noteq> [] \<and>
            trim (pl_yaml q) \<noteq> [] \<and> pl_resourceName q \<noteq> Some [])))"

lemma parseHorizontalIcon_known:
  "parseHorizontalIcon i \<in> {''session'', ''user'', ''role'', ''roleBinding'', ''overview''}"
  by (auto simp: parseHorizontalIcon_def split: option.splits)

lemma plain_trimmed_param [simp]: "plain (trimmed_param params n)"
  by (auto simp: plain_def trimmed_param_def trim_id split: option.splits)

text \<open>C40: a sub-window never starts on incomplete data: whatever the URL, a tab that is read has a
  trimmed non-empty id and title and a known icon; a console has no payload; an editor has one whose
  cluster, kind and both YAML texts are not blank and whose resource name, if any, is not blank.\<close>

theorem parseInitialHorizontalWindowTab_ok:
  assumes "parseInitialHorizontalWindowTab parse_url url = Inr (Some t)"
  shows "horizontal_tab_ok t"
proof -
  obtain params where ps: "parse_url url = Some params"
    using assms by (auto simp: parseInitialHorizontalWindowTab_def split: option.splits)
  let ?p = "trimmed_param params"
  have ne: "query_get params ''subWindowPopout'' = Some ''1''" "?p ''subWindowTabId'' \<noteq> []" "?p ''subWindowTitle'' \<noteq> []"
    using assms ps by (simp_all add: parseInitialHorizontalWindowTab_def Let_def split: if_splits)
  show ?thesis
  proof (cases "?p ''subWindowKind'' = ''console''")
    case True
    with assms ps ne have "t = \<lparr>hw_icon = parseHorizontalIcon (query_get params ''subWindowIcon''),
        hw_id = ?p ''subWindowTabId'', hw_kind = ConsoleWindow, hw_payload = None, hw_title = ?p ''subWindowTitle''\<rparr>"
      by (simp add: parseInitialHorizontalWindowTab_def Let_def)
    with ne show ?thesis using parseHorizontalIcon_known by (simp add: horizontal_tab_ok_def)
  next
    case False
    with assms ps ne show ?thesis using parseHorizontalIcon_known[of "query_get params ''subWindowIcon''"]
      by (simp add: parseInitialHorizontalWindowTab_def Let_def horizontal_tab_ok_def split: if_splits)
         (auto simp: horizontal_tab_ok_def)
  qed
qed

theorem parseInitialHorizontalWindowTab_ok_witness:
  "horizontal_tab_ok \<lparr>hw_icon = ''session'', hw_id = ''console'', hw_kind = ConsoleWindow, hw_payload = None, hw_title = ''Console''\<rparr>"
  by (rule parseInitialHorizontalWindowTab_ok[where url = "''u''" and parse_url = "\<lambda>_. Some [(''subWindowPopout'', ''1''),
        (''subWindowKind'', ''console''), (''subWindowTabId'', ''console''), (''subWindowTitle'', ''Console''), (''subWindowIcon'', ''session'')]"])
     code_simp

end
