(* ===== verification/Rbac.thy ===== *)
theory Rbac
  imports DataTable Maintenance WindowState
begin

text \<open>
  The editor of users, roles and role bindings: \<open>modules/rbac/RbacYamlEditor.tsx\<close>. The listing
  of resources awaits two commands and is split at them; the continuation holds the kind and the
  cluster of the render that started it. Deleting runs one command per selected resource, in turn.
\<close>

section \<open>Templates\<close>

definition quoted :: "string \<Rightarrow> string" where
  "quoted t = [CHR 0x22] @ t @ [CHR 0x22]"

definition defaultYamlForKind :: "string \<Rightarrow> string" where
  "defaultYamlForKind kind = join_with [newline]
     (if kind = ''User'' then
        [''apiVersion: xenage.dev/v1'', ''kind: ServiceAccount'', ''metadata:'', ''  name: new-user'', ''spec:'',
         ''  engine: gui/v1'', ''  publicKey: <base64-public-key>'', ''  enabled: true'', '''']
      else if kind = ''Role'' then
        [''apiVersion: rbac.authorization.xenage.dev/v1'', ''kind: Role'', ''metadata:'', ''  name: new-role'', ''rules:'',
         ''  - apiGroups: ['' @ quoted [] @ '']'', ''    namespaces: ['' @ quoted ''cluster'' @ '']'',
         ''    resources: ['' @ quoted ''nodes'' @ '']'', ''    verbs: ['' @ quoted ''get'' @ '', '' @ quoted ''list'' @ '']'', '''']
      else
        [''apiVersion: rbac.authorization.xenage.dev/v1'', ''kind: RoleBinding'', ''metadata:'', ''  name: new-rolebinding'',
         ''subjects:'', ''  - kind: ServiceAccount'', ''    name: new-user'', ''roleRef:'',
         ''  apiGroup: rbac.authorization.xenage.dev'', ''  kind: Role'', ''  name: new-role'', ''''])"

definition isRbacKind :: "string \<Rightarrow> bool" where
  "isRbacKind kind = (kind = ''User'' \<or> kind = ''Role'' \<or> kind = ''RoleBinding'')"

section \<open>Rows\<close>

record RbacYamlResourceEntry =
  entry_kind :: string
  entry_name :: string
  entry_yaml :: string
  entry_manifest :: js_value

fun toRecord :: "js_value \<Rightarrow> js_value js_obj" where
  "toRecord (Obj props) = props"
| "toRecord _ = []"

fun toArray :: "js_value \<Rightarrow> js_value list" where
  "toArray (Arr items) = items"
| "toArray _ = []"

definition field :: "js_value js_obj \<Rightarrow> string \<Rightarrow> js_value" where
  "field r k = nullish (obj_get r k) Undefined"

text \<open>\<open>value ?? fallback\<close> on JSON values, and truthiness.\<close>

definition or_else :: "js_value \<Rightarrow> js_value \<Rightarrow> js_value" where
  "or_else v d = (if v = Undefined \<or> v = Null then d else v)"

fun js_Boolean :: "js_value \<Rightarrow> bool" where
  "js_Boolean Undefined = False"
| "js_Boolean Null = False"
| "js_Boolean (Str s) = (s \<noteq> [])"
| "js_Boolean (Num n) = (n \<noteq> 0)"
| "js_Boolean (Bool b) = b"
| "js_Boolean _ = True"

definition resource_name :: "RbacYamlResourceEntry \<Rightarrow> string" where
  "resource_name entry = js_String (or_else (field (toRecord (field (toRecord (entry_manifest entry)) ''metadata'')) ''name'')
     (Str (entry_name entry)))"

definition toUserRow :: "RbacYamlResourceEntry \<Rightarrow> js_value" where
  "toUserRow entry =
     (let manifest = toRecord (entry_manifest entry); spec = toRecord (field manifest ''spec'') in
      Obj [(''name'', Str (resource_name entry)),
        (''engine'', Str (js_String (or_else (field spec ''engine'') (Str [])))),
        (''enabled'', Bool (js_Boolean (or_else (field spec ''enabled'') (Bool False)))),
        (''public_key'', Str (js_String (or_else (field spec ''publicKey'') (Str []))))])"

definition toRoleRow :: "RbacYamlResourceEntry \<Rightarrow> js_value" where
  "toRoleRow entry =
     (let rules = toArray (field (toRecord (entry_manifest entry)) ''rules'') in
      Obj [(''name'', Str (resource_name entry)), (''rule_count'', Num (int (length rules)))])"

definition toRoleBindingRow :: "RbacYamlResourceEntry \<Rightarrow> js_value" where
  "toRoleBindingRow entry =
     (let manifest = toRecord (entry_manifest entry); roleRef = toRecord (field manifest ''roleRef'');
          subjects = toArray (field manifest ''subjects'') in
      Obj [(''name'', Str (resource_name entry)),
        (''role'', Str (js_String (or_else (field roleRef ''name'') (Str [])))),
        (''subject_count'', Num (int (length subjects)))])"

definition to_row :: "string \<Rightarrow> RbacYamlResourceEntry \<Rightarrow> js_value" where
  "to_row activeKind = (if activeKind = ''User'' then toUserRow
     else if activeKind = ''Role'' then toRoleRow else toRoleBindingRow)"

definition toTableRows :: "string \<Rightarrow> RbacYamlResourceEntry list \<Rightarrow> js_value list" where
  "toTableRows activeKind entries = map (to_row activeKind) entries"

section \<open>State\<close>

record rbac_state = app_env +
  clusterYaml :: string
  resources :: "RbacYamlResourceEntry list"
  activeRowKey :: "string option"
  selectedRows :: "IdeTableRow list"
  selectionResetToken :: int
  rbac_loading :: bool
  rbac_saving :: bool
  rbac_status :: "string option"

definition RbacYamlEditor_init :: "app_env \<Rightarrow> rbac_state" where
  "RbacYamlEditor_init env = app_env.extend env (rbac_state.fields [] [] None [] 0 False False None)"

definition rbac_rows ::
  "(string \<Rightarrow> string \<Rightarrow> int) \<Rightarrow> (rat \<Rightarrow> string) \<Rightarrow> ManifestTable \<Rightarrow> string \<Rightarrow> rbac_state \<Rightarrow> IdeTableRow list" where
  "rbac_rows collate numtext tableSchema activeKind s =
     rowsToSchemaTableRows tableSchema
       (sortSchemaRows collate numtext (table_defaultSort tableSchema) (toTableRows activeKind (resources s)))"

section \<open>Loading\<close>

text \<open>The boolean tells whether the connections are being listed.\<close>

definition loadResources_begin :: "string \<Rightarrow> string \<Rightarrow> rbac_state \<Rightarrow> rbac_state \<times> bool" where
  "loadResources_begin activeKind clusterId s =
     (if \<not> isRbacKind activeKind \<or> clusterId = [] then (s\<lparr>resources := [], activeRowKey := None\<rparr>, False)
      else (s\<lparr>rbac_loading := True, rbac_status := None\<rparr>, True))"

definition load_failed :: "js_error \<Rightarrow> rbac_state \<Rightarrow> rbac_state" where
  "load_failed e s = (write_log Error ''Failed to load RBAC yaml resources'' s)
     \<lparr>resources := [], activeRowKey := None, rbac_status := Some (error_text ''Failed to load RBAC resources.'' e),
      rbac_loading := False\<rparr>"

text \<open>The YAML with which the resources are listed next, if they are.\<close>

definition loadResources_connections ::
  "string \<Rightarrow> js_error + StoredClusterConnection list \<Rightarrow> rbac_state \<Rightarrow> rbac_state \<times> string option" where
  "loadResources_connections clusterId settled s =
     (case settled of
       Inl e \<Rightarrow> (load_failed e s, None)
     | Inr connections \<Rightarrow>
         (case List.find (\<lambda>item. conn_id item = clusterId) connections of
           None \<Rightarrow> (s\<lparr>rbac_status := Some ''Cluster connection is not available.'', resources := [], activeRowKey := None,
               clusterYaml := [], rbac_loading := False\<rparr>, None)
         | Some connection \<Rightarrow> (s\<lparr>clusterYaml := conn_yaml connection\<rparr>, Some (conn_yaml connection))))"

definition loadResources_listed ::
  "string \<Rightarrow> js_error + RbacYamlResourceEntry list \<Rightarrow> rbac_state \<Rightarrow> rbac_state" where
  "loadResources_listed activeKind settled s =
     (case settled of
       Inl e \<Rightarrow> load_failed e s
     | Inr nextResources \<Rightarrow>
         (case nextResources of
           [] \<Rightarrow> s\<lparr>resources := [], activeRowKey := None, rbac_status := Some (''No '' @ activeKind @ '' resources yet.''),
               selectionResetToken := selectionResetToken s + 1, rbac_loading := False\<rparr>
         | first # _ \<Rightarrow> s\<lparr>resources := nextResources,
               activeRowKey := (if entry_name first \<noteq> [] then Some (entry_name first) else None),
               selectionResetToken := selectionResetToken s + 1, rbac_loading := False\<rparr>))"

text \<open>The part after the start, as one function of how both commands settle.\<close>

definition loadResources_end ::
  "string \<Rightarrow> string \<Rightarrow> (js_error + StoredClusterConnection list) \<times> (js_error + RbacYamlResourceEntry list) \<Rightarrow>
   rbac_state \<Rightarrow> rbac_state" where
  "loadResources_end activeKind clusterId settled s =
     (let (s1, listing) = loadResources_connections clusterId (fst settled) s in
      if listing = None then s1 else loadResources_listed activeKind (snd settled) s1)"

section \<open>Opening and creating\<close>

definition no_connection :: "rbac_state \<Rightarrow> rbac_state" where
  "no_connection s = s\<lparr>rbac_status := Some ''Cluster connection is not available.''\<rparr>"

definition handleOpenExisting ::
  "string \<Rightarrow> string \<Rightarrow> IdeTableRow \<Rightarrow> rbac_state \<Rightarrow> rbac_state \<times> rbac_payload option" where
  "handleOpenExisting activeKind clusterId row s =
     (case List.find (\<lambda>item. entry_name item = row_key row) (resources s) of
       None \<Rightarrow> (s, None)
     | Some sel \<Rightarrow>
         let s1 = s\<lparr>activeRowKey := Some (entry_name sel)\<rparr> in
         if trim (clusterYaml s) = [] then (no_connection s1, None)
         else (s1\<lparr>rbac_status := None\<rparr>,
           Some \<lparr>pl_clusterId = clusterId, pl_clusterYaml = clusterYaml s, pl_kind = activeKind,
                 pl_resourceName = Some (entry_name sel), pl_yaml = entry_yaml sel\<rparr>))"

definition handleCreate :: "string \<Rightarrow> string \<Rightarrow> rbac_state \<Rightarrow> rbac_state \<times> rbac_payload option" where
  "handleCreate activeKind clusterId s =
     (if trim (clusterYaml s) = [] then (no_connection s, None)
      else (s\<lparr>rbac_status := None\<rparr>,
        Some \<lparr>pl_clusterId = clusterId, pl_clusterYaml = clusterYaml s, pl_kind = activeKind,
              pl_resourceName = None, pl_yaml = defaultYamlForKind activeKind\<rparr>))"

section \<open>Deleting\<close>

text \<open>The commands of the loop over the selected rows: rows without a resource are skipped.\<close>

fun delete_targets :: "RbacYamlResourceEntry list \<Rightarrow> IdeTableRow list \<Rightarrow> RbacYamlResourceEntry list" where
  "delete_targets rs [] = []"
| "delete_targets rs (row # rows) =
     (case List.find (\<lambda>item. entry_name item = row_key row) rs of
       None \<Rightarrow> delete_targets rs rows | Some target \<Rightarrow> target # delete_targets rs rows)"

definition handleDeleteSelected_begin :: "rbac_state \<Rightarrow> rbac_state \<times> service_call list option" where
  "handleDeleteSelected_begin s =
     (if trim (clusterYaml s) = [] then (no_connection s, None)
      else if length (selectedRows s) = 0 then (s\<lparr>rbac_status := Some ''Select at least one resource to delete.''\<rparr>, None)
      else (s\<lparr>rbac_saving := True, rbac_status := None\<rparr>,
        Some (map (\<lambda>t. ApplyRbacYamlResource (clusterYaml s) (entry_yaml t) True)
          (delete_targets (resources s) (selectedRows s)))))"

text \<open>The loop over the calls: those made, and the first rejection.\<close>

definition delete_loop :: "service_call list \<Rightarrow> (js_error + unit) list \<Rightarrow> service_call list \<times> js_error option" where
  "delete_loop calls results = in_order (zip calls results)"

definition delete_failed :: "js_error \<Rightarrow> rbac_state \<Rightarrow> rbac_state" where
  "delete_failed e s = (write_log Error ''Failed to delete selected RBAC resources'' s)
     \<lparr>rbac_status := Some (error_text ''Failed to delete selected resources.'' e), rbac_saving := False\<rparr>"

text \<open>
  After the last call the status is set and, in the same turn, \<open>loadResources\<close> starts; its
  continuation and then the \<open>finally\<close> follow.
\<close>

definition delete_done :: "string \<Rightarrow> string \<Rightarrow> nat \<Rightarrow> rbac_state \<Rightarrow> rbac_state \<times> bool" where
  "delete_done activeKind clusterId selectedCount s =
     loadResources_begin activeKind clusterId
       (s\<lparr>rbac_status := Some (''Deleted '' @ show_nat selectedCount @ '' resource(s).'')\<rparr>)"

definition delete_finally :: "rbac_state \<Rightarrow> rbac_state" where
  "delete_finally s = s\<lparr>rbac_saving := False\<rparr>"

definition handleDeleteSelected_end ::
  "string \<Rightarrow> string \<Rightarrow> nat \<Rightarrow>
   js_error option \<times> (js_error + StoredClusterConnection list) \<times> (js_error + RbacYamlResourceEntry list) \<Rightarrow>
   rbac_state \<Rightarrow> rbac_state" where
  "handleDeleteSelected_end activeKind clusterId selectedCount settled s =
     (case fst settled of
       Some e \<Rightarrow> delete_failed e s
     | None \<Rightarrow>
         (let (s1, listing) = delete_done activeKind clusterId selectedCount s in
          delete_finally (if listing then loadResources_end activeKind clusterId (snd settled) s1 else s1)))"

section \<open>What is rendered\<close>

record rbac_view =
  rbac_delete_button :: "bool option"
  rbac_loading_text :: "string option"
  rbac_status_text :: "string option"

definition RbacYamlEditor :: "string \<Rightarrow> rbac_state \<Rightarrow> string + rbac_view" where
  "RbacYamlEditor activeKind s =
     (if \<not> isRbacKind activeKind then Inl (''Unsupported RBAC kind: '' @ activeKind)
      else Inr \<lparr>rbac_delete_button = (if length (selectedRows s) > 0 then Some (rbac_saving s) else None),
        rbac_loading_text = (if rbac_loading s then Some (''Loading '' @ activeKind @ ''...'') else None),
        rbac_status_text = (case rbac_status s of Some t \<Rightarrow> if t \<noteq> [] then Some t else None | None \<Rightarrow> None)\<rparr>)"

section \<open>Correctness\<close>

lemma rbac_write_log [simp]:
  "rbac_saving (write_log l m s) = rbac_saving s" "rbac_loading (write_log l m s) = rbac_loading s"
  "resources (write_log l m s) = resources s" "clusterYaml (write_log l m s) = clusterYaml s"
  for s :: rbac_state
  by (simp_all add: write_log_def Let_def)

lemma loadResources_end_clears: "\<not> rbac_loading (loadResources_end kind cid r s)"
  by (auto simp: loadResources_end_def loadResources_connections_def loadResources_listed_def load_failed_def
      Let_def split: sum.splits option.splits list.splits)

interpretation rbac_load: busy_flag "\<lambda>s. s\<lparr>rbac_loading := True, rbac_status := None\<rparr>"
  "loadResources_end kind cid" rbac_loading for kind cid
  by unfold_locales (simp_all add: loadResources_end_clears)

interpretation rbac_delete: busy_flag "\<lambda>s. s\<lparr>rbac_saving := True, rbac_status := None\<rparr>"
  "handleDeleteSelected_end kind cid n" rbac_saving for kind cid n
  by unfold_locales
     (auto simp: handleDeleteSelected_end_def delete_failed_def delete_finally_def Let_def split: option.splits prod.splits)

text \<open>Loading and deleting always give the buttons back: however the commands settle and whatever
  happens in between, the loading flag is clear after a load and the saving flag after a delete.\<close>

theorem rbac_flags_settle:
  fixes s :: rbac_state and between :: "rbac_state \<Rightarrow> rbac_state"
  shows "\<not> rbac_loading (loadResources_end kind cid r (between (s\<lparr>rbac_loading := True, rbac_status := None\<rparr>))) \<and>
    \<not> rbac_saving (handleDeleteSelected_end kind cid n d (between (s\<lparr>rbac_saving := True, rbac_status := None\<rparr>)))"
  using rbac_load.run_clears[of s kind cid r between] rbac_delete.run_clears[of s kind cid n d between] by blast

lemma delete_targets_sound:
  "t \<in> set (delete_targets rs rows) \<Longrightarrow> t \<in> set rs \<and> entry_name t \<in> row_key ` set rows"
  by (induction rows) (auto split: option.splits dest: find_SomeD)

lemma delete_targets_complete:
  "row \<in> set rows \<Longrightarrow> row_key row \<in> entry_name ` set rs \<Longrightarrow> row_key row \<in> entry_name ` set (delete_targets rs rows)"
  by (induction rows) (auto simp: find_None_iff split: option.splits dest: find_SomeD)

lemma delete_targets_distinct:
  "distinct (map row_key rows) \<Longrightarrow> distinct (map entry_name (delete_targets rs rows))"
proof (induction rows)
  case (Cons r rows)
  show ?case
  proof (cases "List.find (\<lambda>item. entry_name item = row_key r) rs")
    case (Some u)
    then have "entry_name u = row_key r" by (auto dest: find_SomeD)
    moreover have "row_key r \<notin> entry_name ` set (delete_targets rs rows)"
      using Cons.prems delete_targets_sound[of _ rs rows] by force
    ultimately show ?thesis using Some Cons by simp
  qed (use Cons in simp)
qed simp


text \<open>The report of a deletion is never shown: when the last delete command has succeeded, the reload
  that starts in the same turn clears the status again, and whatever the reload brings, the status
  shown in the end is the reload's own.\<close>

theorem deleted_report_lost:
  assumes "isRbacKind kind" and "cid \<noteq> []"
  shows "rbac_status (fst (delete_done kind cid n s)) = None \<and>
    rbac_status (handleDeleteSelected_end kind cid n (None, r) s) =
      rbac_status (loadResources_end kind cid r (fst (loadResources_begin kind cid s)))"
proof -
  have "fst (loadResources_begin kind cid (s\<lparr>rbac_status := m\<rparr>)) = fst (loadResources_begin kind cid s)" for m
    using assms by (simp add: loadResources_begin_def)
  then show ?thesis using assms
    by (simp add: handleDeleteSelected_end_def delete_done_def delete_finally_def split_beta loadResources_begin_def)
qed

text \<open>Clicking a row opens the resource it shows: if the names in the manifests are the names of the
  entries, distinct and not empty, then for every row of the table, in whatever order it is sorted,
  the editor opens with the name and the YAML of the entry the row was made from, for the cluster and
  the kind on display.\<close>

theorem open_row_opens_its_resource:
  assumes "distinct (map entry_name (resources s))" and "table_rowKey t = ''name''"
    and "\<forall>e \<in> set (resources s). resource_name e = entry_name e \<and> entry_name e \<noteq> []"
    and "trim (clusterYaml s) \<noteq> []" and "row \<in> set (rbac_rows collate numtext t kind s)"
  shows "\<exists>e \<in> set (resources s). row_raw row = to_row kind e \<and>
    snd (handleOpenExisting kind cid row s) =
      Some \<lparr>pl_clusterId = cid, pl_clusterYaml = clusterYaml s, pl_kind = kind,
            pl_resourceName = Some (entry_name e), pl_yaml = entry_yaml e\<rparr>"
proof -
  let ?sorted = "sortSchemaRows collate numtext (table_defaultSort t) (toTableRows kind (resources s))"
  obtain i where i: "i < length ?sorted" "row = rbac_rows collate numtext t kind s ! i"
    using assms(5) by (auto simp: rbac_rows_def in_set_conv_nth)
  have "?sorted ! i \<in> set (toTableRows kind (resources s))"
    using i(1) by (metis nth_mem set_js_sort sortSchemaRows_def)
  then obtain e where e: "e \<in> set (resources s)" "?sorted ! i = to_row kind e"
    by (auto simp: toTableRows_def)
  have name: "valueAtPath (to_row kind e) ''name'' = Str (resource_name e)"
    by (simp add: to_row_def toUserRow_def toRoleRow_def toRoleBindingRow_def valueAtPath_def obj_get_def nullish_def Let_def)
  then have key: "row_key row = entry_name e"
    using i e assms(2,3) by (simp add: rbac_rows_def rows_nth row_key_of_def Let_def)
  obtain f where f: "List.find (\<lambda>item. entry_name item = row_key row) (resources s) = Some f"
    using e(1) key by (cases "List.find (\<lambda>item. entry_name item = row_key row) (resources s)") (auto simp: find_None_iff)
  then have "f \<in> set (resources s)" "entry_name f = entry_name e" using key by (auto dest: find_SomeD)
  with e(1) assms(1) have "f = e" by (metis distinct_map inj_on_def)
  moreover have "row_raw row = to_row kind e" using i e(2) by (simp add: rbac_rows_def rows_nth)
  ultimately show ?thesis using e(1) f assms(4) by (auto simp: handleOpenExisting_def Let_def)
qed


section \<open>Changing the cluster while the list is loading\<close>

text \<open>The editor has no key, so that it keeps its state when another tab of the same kind is activated:
  the reload of the new cluster has started and its connection is found, and the list has not come.\<close>

definition switched :: "string \<Rightarrow> string \<Rightarrow> StoredClusterConnection list \<Rightarrow> rbac_state \<Rightarrow> rbac_state" where
  "switched kind cid connections s =
     fst (loadResources_connections cid (Inr connections) (fst (loadResources_begin kind cid s)))"

text \<open>A deletion can hit the wrong cluster: from the moment the connection of the newly chosen cluster
  is known until its resources are listed, the table still shows the resources of the cluster before,
  with their selection, and the delete button is enabled as it was; pressing it sends the delete commands for
  exactly those resources to the new cluster, and a click on a row opens the old cluster's YAML for it.\<close>

theorem delete_after_switch:
  assumes "isRbacKind kind" and "cid \<noteq> []" and "List.find (\<lambda>item. conn_id item = cid) connections = Some c"
    and "trim (conn_yaml c) \<noteq> []" and "selectedRows s \<noteq> []"
  shows "let s' = switched kind cid connections s in
    rbac_rows collate numtext t kind s' = rbac_rows collate numtext t kind s \<and>
    (\<exists>v. RbacYamlEditor kind s' = Inr v \<and> rbac_delete_button v = Some (rbac_saving s)) \<and>
    snd (handleDeleteSelected_begin s') =
      Some (map (\<lambda>r. ApplyRbacYamlResource (conn_yaml c) (entry_yaml r) True) (delete_targets (resources s) (selectedRows s))) \<and>
    (\<forall>e. List.find (\<lambda>item. entry_name item = row_key row) (resources s) = Some e \<longrightarrow>
       map_option (\<lambda>p. (pl_clusterId p, pl_clusterYaml p, pl_yaml p)) (snd (handleOpenExisting kind cid row s')) =
         Some (cid, conn_yaml c, entry_yaml e))"
proof -
  have s': "switched kind cid connections s = s\<lparr>rbac_loading := True, rbac_status := None, clusterYaml := conn_yaml c\<rparr>"
    using assms(1-3) by (simp add: switched_def loadResources_begin_def loadResources_connections_def)
  show ?thesis using assms(1,4,5)
    by (simp add: s' rbac_rows_def RbacYamlEditor_def handleDeleteSelected_begin_def handleOpenExisting_def Let_def)
qed

section \<open>A concrete editor\<close>

definition demo_role :: RbacYamlResourceEntry where
  "demo_role = \<lparr>entry_kind = ''Role'', entry_name = ''viewer'', entry_yaml = ''kind: Role'',
     entry_manifest = Obj [(''metadata'', Obj [(''name'', Str ''viewer'')]), (''rules'', Arr [])]\<rparr>"

definition demo_role_row :: IdeTableRow where
  "demo_role_row = \<lparr>row_key = ''viewer'', row_values = [], row_raw = toRoleRow demo_role\<rparr>"

definition demo_rbac :: rbac_state where
  "demo_rbac = (RbacYamlEditor_init \<lparr>localStorage = [], console = []\<rparr>)
     \<lparr>clusterYaml := ''y'', resources := [demo_role], selectedRows := [demo_role_row]\<rparr>"

definition demo_role_table :: ManifestTable where
  "demo_role_table = group_config_table\<lparr>table_kind := ''Role'', table_rowKey := ''name'',
     table_defaultSort := \<lparr>sort_field = ''name'', sort_dir = Asc\<rparr>\<rparr>"

lemma demo_rbac_fields [simp]:
  "clusterYaml demo_rbac = ''y''" "resources demo_rbac = [demo_role]" "selectedRows demo_rbac = [demo_role_row]"
  by (simp_all add: demo_rbac_def)

lemma trim_y: "trim ''y'' = ''y''"
  by (simp add: trim_def trim_start_def trim_end_def is_js_space_def)


theorem deleted_report_lost_witness:
  "rbac_status (handleDeleteSelected_end ''Role'' ''a'' 1 (None, Inr [], Inr []) demo_rbac) =
     Some ''Cluster connection is not available.''"
proof -
  have "rbac_status (handleDeleteSelected_end ''Role'' ''a'' 1 (None, Inr [], Inr []) demo_rbac) =
      rbac_status (loadResources_end ''Role'' ''a'' (Inr [], Inr []) (fst (loadResources_begin ''Role'' ''a'' demo_rbac)))"
    using deleted_report_lost[of "''Role''" "''a''" 1 demo_rbac "(Inr [], Inr [])"] by (simp add: isRbacKind_def)
  then show ?thesis by (simp add: loadResources_end_def loadResources_connections_def)
qed

theorem open_row_opens_its_resource_witness:
  "snd (handleOpenExisting ''Role'' ''a'' (rbac_rows code_unit_order (\<lambda>q. []) demo_role_table ''Role'' demo_rbac ! 0) demo_rbac) =
     Some \<lparr>pl_clusterId = ''a'', pl_clusterYaml = ''y'', pl_kind = ''Role'',
           pl_resourceName = Some ''viewer'', pl_yaml = ''kind: Role''\<rparr>"
proof -
  have "length (rbac_rows code_unit_order (\<lambda>q. []) demo_role_table ''Role'' demo_rbac) = 1"
    by (simp add: rbac_rows_def sortSchemaRows_def toTableRows_def)
  then have mem: "rbac_rows code_unit_order (\<lambda>q. []) demo_role_table ''Role'' demo_rbac ! 0
      \<in> set (rbac_rows code_unit_order (\<lambda>q. []) demo_role_table ''Role'' demo_rbac)" by (intro nth_mem) simp
  have name: "resource_name demo_role = entry_name demo_role"
    by (simp add: resource_name_def demo_role_def or_else_def field_def obj_get_def nullish_def)
  from open_row_opens_its_resource[OF _ _ _ _ mem, of "''a''"] show ?thesis
    by (simp add: name trim_y demo_role_table_def) (simp add: demo_role_def)
qed

theorem delete_after_switch_witness:
  "snd (handleDeleteSelected_begin (switched ''Role'' ''b'' [\<lparr>conn_id = ''b'', conn_name = ''b'', conn_yaml = ''y''\<rparr>] (demo_rbac\<lparr>clusterYaml := ''a''\<rparr>))) =
     Some [ApplyRbacYamlResource ''y'' ''kind: Role'' True]"
proof -
  let ?s = "demo_rbac\<lparr>clusterYaml := ''a''\<rparr>"
  have "snd (handleDeleteSelected_begin (switched ''Role'' ''b'' [\<lparr>conn_id = ''b'', conn_name = ''b'', conn_yaml = ''y''\<rparr>] ?s)) =
      Some (map (\<lambda>r. ApplyRbacYamlResource ''y'' (entry_yaml r) True) (delete_targets (resources ?s) (selectedRows ?s)))"
    using delete_after_switch[of "''Role''" "''b''" "[\<lparr>conn_id = ''b'', conn_name = ''b'', conn_yaml = ''y''\<rparr>]"
        "\<lparr>conn_id = ''b'', conn_name = ''b'', conn_yaml = ''y''\<rparr>" ?s]
    by (simp add: isRbacKind_def trim_y Let_def)
  then show ?thesis by (simp add: demo_role_row_def demo_role_def)
qed

end
