(* ===== verification/AppShell.thy ===== *)
theory AppShell
  imports Views Rbac
begin

text \<open>
  The component that puts the hooks together, \<open>App.tsx\<close>, with the effects and keyboard handlers
  of \<open>modules/app/hooks/useAppEffects.ts\<close> and the lower sub-window of
  \<open>modules/app/components/HorizontalSubWindow.tsx\<close>. The state adds what \<open>App\<close> keeps
  itself to the state of the hooks. An effect or handler that starts requests returns them with the
  service calls made.
\<close>

section \<open>State\<close>

datatype sub_content = ConsoleContent | RbacContent rbac_payload "string option"

record SubWindowTab =
  sub_id :: string
  sub_title :: string
  sub_icon :: string
  sub_content :: sub_content

record app_state = data_state +
  horizontalTabs :: "SubWindowTab list"
  activeHorizontalTabId :: string
  applyingSubWindowTabId :: string
  navSearch :: string
  tableSearch :: string
  sidebarVisible :: bool
  sidebarWidth :: int
  sidebarResize :: "(int \<times> int) option"

definition horizontal_init :: "InitialHorizontalWindowTab option \<Rightarrow> SubWindowTab list \<times> string" where
  "horizontal_init initial =
     (case initial of
       None \<Rightarrow> ([], [])
     | Some t \<Rightarrow>
         (case hw_kind t of
           ConsoleWindow \<Rightarrow> [\<lparr>sub_id = hw_id t, sub_title = hw_title t, sub_icon = hw_icon t, sub_content = ConsoleContent\<rparr>]
         | RbacEditorWindow \<Rightarrow>
             (case hw_payload t of
               None \<Rightarrow> []
             | Some p \<Rightarrow> [\<lparr>sub_id = hw_id t, sub_title = hw_title t, sub_icon = hw_icon t, sub_content = RbacContent p None\<rparr>]),
          hw_id t))"

definition App_init :: "data_state \<Rightarrow> InitialHorizontalWindowTab option \<Rightarrow> app_state" where
  "App_init d initial = data_state.extend d
     (app_state.fields (fst (horizontal_init initial)) (snd (horizontal_init initial)) [] [] [] True 286 None)"

definition eventPageSize :: "ControlPlaneManifest \<Rightarrow> int" where
  "eventPageSize M = (case List.find (\<lambda>t. table_kind t = ''Event'') (manifest_tables M) of
     None \<Rightarrow> 200 | Some t \<Rightarrow> nullish (table_pageSize t) 200)"

definition showSidebar :: "app_state \<Rightarrow> bool" where
  "showSidebar s = (hasStoredConnections s \<and> sidebarVisible s)"

type_synonym started = "(request \<times> service_call) list"

definition start_snapshot :: "string \<Rightarrow> app_state \<Rightarrow> app_state \<times> started" where
  "start_snapshot cid s = (case fetchSnapshot_begin cid s of
     (s', None) \<Rightarrow> (s', []) | (s', Some call) \<Rightarrow> (s', [(SnapshotRequest cid, call)]))"

definition start_events :: "int \<Rightarrow> string \<Rightarrow> EventFetchMode \<Rightarrow> app_state \<Rightarrow> app_state \<times> started" where
  "start_events n cid mode s = (case fetchEventPage_begin n cid mode s of
     (s', None) \<Rightarrow> (s', []) | (s', Some call) \<Rightarrow> (s', [(EventRequest cid mode, call)]))"

definition refreshActiveTabFromServer :: "ControlPlaneManifest \<Rightarrow> app_state \<Rightarrow> app_state \<times> started" where
  "refreshActiveTabFromServer M s =
     (let cid = resolvedClusterId s in
      if cid = [] then (s, [])
      else
        let (s1, r1) = (if activeKindNeedsSnapshot M s then start_snapshot cid s else (s, []));
            (s2, r2) = (if activeKind s = ''Event'' then start_events (eventPageSize M) cid Refresh s1 else (s1, []))
        in (s2, r1 @ r2))"

section \<open>Connecting and deleting clusters\<close>

definition empty_cache :: ClusterEventCache where
  "empty_cache = \<lparr>cache_has_more = True, cache_items = [], cache_loading = False, oldest_sequence = None\<rparr>"

definition handleConnectGui_end :: "(StoredClusterConnection \<times> GuiClusterSnapshot) option \<Rightarrow> app_state \<Rightarrow> app_state" where
  "handleConnectGui_end conn s =
     (case conn of
       None \<Rightarrow> s
     | Some (saved, snapshot) \<Rightarrow>
         let cid = conn_id saved; nodeTabId = cid @ '':Node'';
             withoutSetup = remove_tab SETUP_TAB_ID (openTabs s)
         in s\<lparr>clusterSnapshots := obj_set cid snapshot (clusterSnapshots s),
             clusterSnapshotErrors := obj_set cid [] (clusterSnapshotErrors s),
             clusterEvents := obj_set cid empty_cache (clusterEvents s),
             openTabs := append_tab \<lparr>tab_id = nodeTabId, tab_kind = ''Node'', tab_cluster = cid\<rparr> withoutSetup,
             activeTabId := nodeTabId\<rparr>)"

text \<open>
  The flag \<open>deletedActiveTab\<close> is set inside the updater passed to \<open>setOpenTabs\<close> and read
  right after that call. React runs an updater at once or later: \<open>eager\<close> tells which. The id of
  the active tab is the one of the render the callback belongs to.
\<close>

definition delete_tabs :: "string \<Rightarrow> OpenTab list \<Rightarrow> OpenTab list" where
  "delete_tabs cid current =
     (let filtered = filter (\<lambda>tab. tab_cluster tab \<noteq> cid) current in
      if length filtered > 0 then filtered else [\<lparr>tab_id = SETUP_TAB_ID, tab_kind = SETUP_KIND, tab_cluster = []\<rparr>])"

definition handleDeleteCluster_end :: "bool \<Rightarrow> string \<Rightarrow> string option \<Rightarrow> app_state \<Rightarrow> app_state" where
  "handleDeleteCluster_end eager renderActiveTabId deletedClusterId s =
     (case deletedClusterId of
       None \<Rightarrow> s
     | Some cid \<Rightarrow> if cid = [] then s else
         let deletedActiveTab = (eager \<and>
               array_some (\<lambda>tab. tab_id tab = renderActiveTabId \<and> tab_cluster tab = cid) (openTabs s));
             s1 = s\<lparr>openTabs := delete_tabs cid (openTabs s)\<rparr>;
             s2 = (if deletedActiveTab then s1\<lparr>activeTabId := SETUP_TAB_ID\<rparr> else s1)
         in clearClusterData cid s2)"

section \<open>The lower sub-window\<close>

definition append_sub :: "SubWindowTab \<Rightarrow> SubWindowTab list \<Rightarrow> SubWindowTab list" where
  "append_sub t ts = append_once sub_id t ts"

definition remove_sub :: "string \<Rightarrow> SubWindowTab list \<Rightarrow> SubWindowTab list" where
  "remove_sub k ts = remove_key sub_id k ts"

definition consoleTab :: SubWindowTab where
  "consoleTab = \<lparr>sub_id = ''console'', sub_title = ''Console'', sub_icon = ''session'', sub_content = ConsoleContent\<rparr>"

definition openConsoleTab :: "app_state \<Rightarrow> app_state" where
  "openConsoleTab s = s\<lparr>horizontalTabs := append_sub consoleTab (horizontalTabs s), activeHorizontalTabId := ''console''\<rparr>"

text \<open>The key of an event as code units, since two of the keys are Cyrillic letters.\<close>

datatype event_target = NotAnElement | Element string bool

fun isEditableTarget :: "event_target \<Rightarrow> bool" where
  "isEditableTarget NotAnElement = False"
| "isEditableTarget (Element tagName contentEditable) =
     (let tag = to_lower tagName in
      if tag = ''input'' \<or> tag = ''textarea'' \<or> tag = ''select'' then True else contentEditable)"

definition isBackquoteKey :: "string \<Rightarrow> nat list \<Rightarrow> bool" where
  "isBackquoteKey eventCode key = (eventCode = ''Backquote'' \<or> key = [96] \<or> key = [126] \<or> key = [0x451] \<or> key = [0x401])"

definition console_keydown :: "string \<Rightarrow> nat list \<Rightarrow> event_target \<Rightarrow> app_state \<Rightarrow> app_state \<times> bool" where
  "console_keydown eventCode key target s =
     (if \<not> isBackquoteKey eventCode key then (s, False)
      else if isEditableTarget target then (s, False)
      else (openConsoleTab s, True))"

definition rbac_tab :: "nat \<Rightarrow> rbac_payload \<Rightarrow> SubWindowTab" where
  "rbac_tab now payload =
     (let resourcePart = nullish (pl_resourceName payload) (''new-'' @ show_nat now) in
      \<lparr>sub_id = ''rbac:'' @ pl_clusterId payload @ '':'' @ pl_kind payload @ '':'' @ resourcePart,
       sub_title = str_or (nullish (pl_resourceName payload) []) (''Create '' @ pl_kind payload),
       sub_icon = iconNameForItem (pl_kind payload), sub_content = RbacContent payload None\<rparr>)"

definition openRbacEditorTab :: "nat \<Rightarrow> rbac_payload \<Rightarrow> app_state \<Rightarrow> app_state" where
  "openRbacEditorTab now payload s =
     (let t = rbac_tab now payload in
      s\<lparr>horizontalTabs := append_sub t (horizontalTabs s), activeHorizontalTabId := sub_id t\<rparr>)"

definition reorderHorizontalTabs ::
  "(SubWindowTab list \<Rightarrow> nat \<Rightarrow> nat \<Rightarrow> SubWindowTab list) \<Rightarrow> string \<Rightarrow> string \<Rightarrow> app_state \<Rightarrow> app_state" where
  "reorderHorizontalTabs arrayMove sourceTabId targetTabId s =
     (if find_index (\<lambda>t. sub_id t = sourceTabId) (horizontalTabs s) = find_index (\<lambda>t. sub_id t = targetTabId) (horizontalTabs s)
      then s
      else s\<lparr>horizontalTabs := reorder_keys arrayMove sub_id sourceTabId targetTabId (horizontalTabs s)\<rparr>)"

definition last_sub_id :: "SubWindowTab list \<Rightarrow> string" where
  "last_sub_id ts = (case ts of [] \<Rightarrow> [] | _ \<Rightarrow> sub_id (last ts))"

definition closeHorizontalTab :: "string \<Rightarrow> app_state \<Rightarrow> app_state" where
  "closeHorizontalTab tabId s =
     (let next = remove_sub tabId (horizontalTabs s) in
      s\<lparr>horizontalTabs := next,
        activeHorizontalTabId := (if activeHorizontalTabId s = tabId then last_sub_id next else activeHorizontalTabId s)\<rparr>)"

subsection \<open>Detaching\<close>

record DetachedHorizontalTabWindowRequest =
  dh_kind :: horizontal_kind
  dh_tabIcon :: string
  dh_tabId :: string
  dh_tabTitle :: string
  dh_clusterId :: string
  dh_clusterLabel :: string
  dh_resource :: "rbac_payload option"

text \<open>
  The callback is memoised on the clusters and the resolved cluster only: the tabs it reads are those
  of the render in which one of these last changed, the argument \<open>renderTabs\<close>.
\<close>

definition detachHorizontalTab :: "SubWindowTab list \<Rightarrow> string \<Rightarrow> app_state \<Rightarrow> DetachedHorizontalTabWindowRequest option" where
  "detachHorizontalTab renderTabs tabId s =
     (case List.find (\<lambda>item. sub_id item = tabId) renderTabs of
       None \<Rightarrow> None
     | Some tab \<Rightarrow>
         let payload = (case sub_content tab of RbacContent p st \<Rightarrow> Some p | ConsoleContent \<Rightarrow> None);
             tabClusterId = (case payload of Some p \<Rightarrow> pl_clusterId p | None \<Rightarrow> resolvedClusterId s);
             clusterLabel = nullish (map_option cluster_name (List.find (\<lambda>c. cluster_id c = tabClusterId) (clusters s))) []
         in Some \<lparr>dh_kind = (if payload = None then ConsoleWindow else RbacEditorWindow), dh_tabIcon = sub_icon tab,
              dh_tabId = sub_id tab, dh_tabTitle = sub_title tab, dh_clusterId = tabClusterId,
              dh_clusterLabel = clusterLabel, dh_resource = payload\<rparr>)"

definition detachHorizontalTab_end :: "string \<Rightarrow> bool \<Rightarrow> app_state \<Rightarrow> app_state" where
  "detachHorizontalTab_end tabId opened s = (if opened then closeHorizontalTab tabId s else s)"

definition horizontal_drag_end ::
  "(SubWindowTab list \<Rightarrow> nat \<Rightarrow> nat \<Rightarrow> SubWindowTab list) \<Rightarrow> SubWindowTab list \<Rightarrow> DragEndEvent \<Rightarrow> rect option \<Rightarrow>
   app_state \<Rightarrow> app_state \<times> DetachedHorizontalTabWindowRequest option" where
  "horizontal_drag_end arrayMove renderTabs event bounds s =
     (case drag_outcome_of event bounds of
       DragNothing \<Rightarrow> (s, None)
     | DragDetach sourceId \<Rightarrow> (s, detachHorizontalTab renderTabs sourceId s)
     | DragMove sourceId targetId \<Rightarrow> (reorderHorizontalTabs arrayMove sourceId targetId s, None))"

subsection \<open>Editing and applying\<close>

definition activeSubWindowTab :: "app_state \<Rightarrow> SubWindowTab option" where
  "activeSubWindowTab s = List.find (\<lambda>item. sub_id item = activeHorizontalTabId s) (horizontalTabs s)"

definition update_rbac ::
  "string \<Rightarrow> (rbac_payload \<Rightarrow> string option \<Rightarrow> sub_content) \<Rightarrow> app_state \<Rightarrow> app_state" where
  "update_rbac tabId f s = s\<lparr>horizontalTabs := map (\<lambda>item.
     case sub_content item of
       RbacContent p st \<Rightarrow> if sub_id item = tabId then item\<lparr>sub_content := f p st\<rparr> else item
     | ConsoleContent \<Rightarrow> item) (horizontalTabs s)\<rparr>"

definition onYamlChange :: "string \<Rightarrow> app_state \<Rightarrow> app_state" where
  "onYamlChange value s = (case activeSubWindowTab s of
     None \<Rightarrow> s
   | Some tab \<Rightarrow> (case sub_content tab of
       ConsoleContent \<Rightarrow> s
     | RbacContent p0 st0 \<Rightarrow> update_rbac (sub_id tab) (\<lambda>p st. RbacContent (p\<lparr>pl_yaml := value\<rparr>) st) s))"

definition onApply_begin :: "app_state \<Rightarrow> app_state \<times> (string \<times> service_call) option" where
  "onApply_begin s = (case activeSubWindowTab s of
     None \<Rightarrow> (s, None)
   | Some tab \<Rightarrow> (case sub_content tab of
       ConsoleContent \<Rightarrow> (s, None)
     | RbacContent payload st0 \<Rightarrow>
         (update_rbac (sub_id tab) (\<lambda>p st. RbacContent p None) (s\<lparr>applyingSubWindowTabId := sub_id tab\<rparr>),
          Some (sub_id tab, ApplyRbacYamlResource (pl_clusterYaml payload) (pl_yaml payload) False))))"

definition onApply_end :: "string \<Rightarrow> js_error + unit \<Rightarrow> app_state \<Rightarrow> app_state" where
  "onApply_end tabId settled s =
     (let result = (case settled of Inr _ \<Rightarrow> ''Applied YAML successfully.'' | Inl e \<Rightarrow> error_text ''Failed to apply YAML.'' e)
      in (update_rbac tabId (\<lambda>p st. RbacContent p (Some result)) s)\<lparr>applyingSubWindowTabId := []\<rparr>)"

definition applying :: "SubWindowTab \<Rightarrow> app_state \<Rightarrow> bool" where
  "applying tab s = (applyingSubWindowTabId s = sub_id tab)"

subsection \<open>Its height\<close>

definition DEFAULT_HEIGHT_PX :: int where "DEFAULT_HEIGHT_PX = 280"
definition MIN_HEIGHT_PX :: int where "MIN_HEIGHT_PX = 180"

text \<open>\<open>Math.floor(window.innerHeight * 0.8)\<close>\<close>

definition max_height :: "int \<Rightarrow> int" where
  "max_height innerHeight = max MIN_HEIGHT_PX (innerHeight * 4 div 5)"

definition subwindow_height :: "int \<Rightarrow> int \<Rightarrow> int \<Rightarrow> int \<Rightarrow> int" where
  "subwindow_height innerHeight startHeight startY clientY =
     min (max_height innerHeight) (max MIN_HEIGHT_PX (startHeight + (startY - clientY)))"

section \<open>Effects\<close>

definition setup_effect :: "OpenTab option \<Rightarrow> app_state \<Rightarrow> app_state" where
  "setup_effect initialWindowTab s =
     (if initialWindowTab \<noteq> None then s
      else if \<not> hasStoredConnections s \<and> activeTabId s \<noteq> SETUP_TAB_ID \<and> activeTabId s \<noteq> SETTINGS_TAB_ID
      then s\<lparr>activeTabId := SETUP_TAB_ID\<rparr> else s)"

definition snapshot_effect :: "ControlPlaneManifest \<Rightarrow> app_state \<Rightarrow> app_state \<times> started" where
  "snapshot_effect M s =
     (let cid = resolvedClusterId s in
      if \<not> activeKindNeedsSnapshot M s \<or> cid = [] then (s, [])
      else if obj_get (clusterSnapshots s) cid \<noteq> None \<or> is_set (clusterSnapshotLoading s) cid then (s, [])
      else start_snapshot cid s)"

definition events_effect :: "ControlPlaneManifest \<Rightarrow> app_state \<Rightarrow> app_state \<times> started" where
  "events_effect M s =
     (let cid = resolvedClusterId s in
      if activeKind s \<noteq> ''Event'' \<or> cid = [] then (s, [])
      else if (case obj_get (clusterEvents s) cid of None \<Rightarrow> True | Some cache \<Rightarrow> length (cache_items cache) = 0)
      then start_events (eventPageSize M) cid Initial s else (s, []))"

text \<open>The timers tick every eight seconds.\<close>

definition snapshot_timer :: "ControlPlaneManifest \<Rightarrow> app_state \<Rightarrow> app_state \<times> started" where
  "snapshot_timer M s =
     (if \<not> activeKindNeedsSnapshot M s \<or> resolvedClusterId s = [] then (s, []) else start_snapshot (resolvedClusterId s) s)"

definition events_timer :: "ControlPlaneManifest \<Rightarrow> app_state \<Rightarrow> app_state \<times> started" where
  "events_timer M s =
     (if activeKind s \<noteq> ''Event'' \<or> resolvedClusterId s = [] then (s, [])
      else start_events (eventPageSize M) (resolvedClusterId s) Refresh s)"

section \<open>Keyboard\<close>

definition activateTabAtIndex :: "int \<Rightarrow> app_state \<Rightarrow> app_state" where
  "activateTabAtIndex index s =
     (if length (openTabs s) = 0 then s
      else
        let boundedIndex = max 0 (min index (int (length (openTabs s)) - 1)) in
        (case nth_opt (openTabs s) (nat boundedIndex) of
          None \<Rightarrow> s
        | Some targetTab \<Rightarrow> if tab_id targetTab = activeTabId s then s
            else activateTab (tab_id targetTab) (tab_cluster targetTab) s))"

text \<open>\<open>%\<close> of JavaScript: the remainder takes the sign of the dividend, which is never negative here.\<close>

definition switchTab :: "int \<Rightarrow> app_state \<Rightarrow> app_state" where
  "switchTab direction s =
     (if length (openTabs s) \<le> 1 then s
      else
        let n = int (length (openTabs s));
            currentIndex = (case find_index (\<lambda>tab. tab_id tab = activeTabId s) (openTabs s) of Some i \<Rightarrow> int i | None \<Rightarrow> 0)
        in activateTabAtIndex ((currentIndex + direction + n) mod n) s)"

text \<open>The state after a key, the requests started, and whether the default action was prevented.\<close>

definition handleKeyDown :: "ControlPlaneManifest \<Rightarrow> bool \<Rightarrow> ShortcutEvent \<Rightarrow> app_state \<Rightarrow> app_state \<times> started \<times> bool" where
  "handleKeyDown M macLike event s =
     (case resolveGlobalShortcut event macLike of
       None \<Rightarrow> (s, [], False)
     | Some RefreshData \<Rightarrow>
         if resolvedClusterId s \<noteq> [] \<and> (activeKindNeedsSnapshot M s \<or> activeKind s = ''Event'')
         then (let (s', r) = refreshActiveTabFromServer M s in (s', r, True)) else (s, [], False)
     | Some CloseTab \<Rightarrow> (if length (openTabs s) > 1 then closeTab (activeTabId s) s else s, [], True)
     | Some (SwitchTab direction) \<Rightarrow> (switchTab direction s, [], True)
     | Some (ActivateTab index) \<Rightarrow>
         (if index \<ge> int (length (openTabs s)) - 1 then activateTabAtIndex (int (length (openTabs s)) - 1) s
          else activateTabAtIndex index s, [], True))"

section \<open>The sidebar\<close>

definition sidebar_resize_start :: "int \<Rightarrow> app_state \<Rightarrow> app_state" where
  "sidebar_resize_start clientX s = s\<lparr>sidebarResize := Some (clientX, sidebarWidth s)\<rparr>"

definition sidebar_resize_move :: "int \<Rightarrow> app_state \<Rightarrow> app_state" where
  "sidebar_resize_move clientX s = (case sidebarResize s of None \<Rightarrow> s
     | Some (startX, startWidth) \<Rightarrow> s\<lparr>sidebarWidth := max 220 (min 520 (startWidth + clientX - startX))\<rparr>)"

definition sidebar_resize_end :: "app_state \<Rightarrow> app_state" where
  "sidebar_resize_end s = s\<lparr>sidebarResize := None\<rparr>"

end
