(* ===== verification/Manifest.thy ===== *)
theory Manifest
  imports Schema
begin

text \<open>
  The manifest the GUI is generated with, \<open>generated/controlPlaneSchema.ts\<close>: the navigation,
  the resources and the tables, value for value. The other theories take a manifest as a parameter;
  this one is the instance the program runs with.
\<close>

section \<open>Resources\<close>

definition node_resource :: ManifestResource where
  "node_resource = \<lparr>resource_kind = ''Node'', resource_title = ''Node'',
     resource_fields =
      [\<lparr>field_name = ''metadata'', field_type = ''NodeMeta'', field_required = False, field_isArray = False\<rparr>,
       \<lparr>field_name = ''spec'', field_type = ''NodeSpec'', field_required = False, field_isArray = False\<rparr>,
       \<lparr>field_name = ''status'', field_type = ''NodeStatus'', field_required = False, field_isArray = False\<rparr>,
       \<lparr>field_name = ''apiVersion'', field_type = ''str'', field_required = False, field_isArray = False\<rparr>],
     resource_sections = \<lparr>section_metadata =
      [\<lparr>field_name = ''name'', field_type = ''str'', field_required = True, field_isArray = False\<rparr>,
       \<lparr>field_name = ''labels'', field_type = ''map'', field_required = False, field_isArray = False\<rparr>,
       \<lparr>field_name = ''annotations'', field_type = ''map'', field_required = False, field_isArray = False\<rparr>,
       \<lparr>field_name = ''uid'', field_type = ''str?'', field_required = False, field_isArray = False\<rparr>,
       \<lparr>field_name = ''generation'', field_type = ''int'', field_required = False, field_isArray = False\<rparr>,
       \<lparr>field_name = ''createdAt'', field_type = ''str?'', field_required = False, field_isArray = False\<rparr>],
      section_spec =
      [\<lparr>field_name = ''nodeId'', field_type = ''str'', field_required = True, field_isArray = False\<rparr>,
       \<lparr>field_name = ''role'', field_type = ''literal'', field_required = True, field_isArray = False\<rparr>,
       \<lparr>field_name = ''publicKey'', field_type = ''str'', field_required = True, field_isArray = False\<rparr>,
       \<lparr>field_name = ''endpoints'', field_type = ''str'', field_required = False, field_isArray = True\<rparr>],
      section_status =
      [\<lparr>field_name = ''phase'', field_type = ''literal'', field_required = True, field_isArray = False\<rparr>,
       \<lparr>field_name = ''leader'', field_type = ''bool'', field_required = True, field_isArray = False\<rparr>,
       \<lparr>field_name = ''lastSeenAt'', field_type = ''str'', field_required = True, field_isArray = False\<rparr>]\<rparr>,
     resource_sample = \<lparr>sample_apiVersion = ''xenage.io/v1alpha1'',
      sample_metadata = [(''name'', Str ''cp-1''), (''labels'', Obj []), (''annotations'', Obj []), (''uid'', Null), (''generation'', Num 1), (''createdAt'', Null)],
      sample_spec = [(''nodeId'', Str ''cp-1''), (''role'', Str ''control-plane''), (''publicKey'', Str ''base64-public-key''), (''endpoints'', Arr [Str ''http://127.0.0.1:8734''])],
      sample_status = [(''phase'', Str ''Connected''), (''leader'', Bool True), (''lastSeenAt'', Str ''2026-03-14T12:24:00Z'')]\<rparr>\<rparr>"

definition groupConfig_resource :: ManifestResource where
  "groupConfig_resource = \<lparr>resource_kind = ''GroupConfig'', resource_title = ''GroupConfig'',
     resource_fields =
      [\<lparr>field_name = ''metadata'', field_type = ''ObjectMeta'', field_required = False, field_isArray = False\<rparr>,
       \<lparr>field_name = ''spec'', field_type = ''GroupConfigSpec'', field_required = False, field_isArray = False\<rparr>,
       \<lparr>field_name = ''status'', field_type = ''GroupConfigStatus'', field_required = False, field_isArray = False\<rparr>,
       \<lparr>field_name = ''apiVersion'', field_type = ''str'', field_required = False, field_isArray = False\<rparr>],
     resource_sections = \<lparr>section_metadata =
      [\<lparr>field_name = ''name'', field_type = ''str'', field_required = True, field_isArray = False\<rparr>,
       \<lparr>field_name = ''namespace'', field_type = ''str'', field_required = False, field_isArray = False\<rparr>,
       \<lparr>field_name = ''labels'', field_type = ''map'', field_required = False, field_isArray = False\<rparr>,
       \<lparr>field_name = ''annotations'', field_type = ''map'', field_required = False, field_isArray = False\<rparr>,
       \<lparr>field_name = ''uid'', field_type = ''str?'', field_required = False, field_isArray = False\<rparr>,
       \<lparr>field_name = ''generation'', field_type = ''int'', field_required = False, field_isArray = False\<rparr>,
       \<lparr>field_name = ''createdAt'', field_type = ''str?'', field_required = False, field_isArray = False\<rparr>],
      section_spec =
      [\<lparr>field_name = ''groupId'', field_type = ''str'', field_required = True, field_isArray = False\<rparr>,
       \<lparr>field_name = ''stateVersion'', field_type = ''int'', field_required = True, field_isArray = False\<rparr>,
       \<lparr>field_name = ''leaderEpoch'', field_type = ''int'', field_required = True, field_isArray = False\<rparr>,
       \<lparr>field_name = ''leaderNodeId'', field_type = ''str'', field_required = True, field_isArray = False\<rparr>,
       \<lparr>field_name = ''leaderPubkey'', field_type = ''str'', field_required = True, field_isArray = False\<rparr>,
       \<lparr>field_name = ''controlPlanes'', field_type = ''NodeRecord'', field_required = True, field_isArray = True\<rparr>,
       \<lparr>field_name = ''runtimes'', field_type = ''NodeRecord'', field_required = True, field_isArray = True\<rparr>,
       \<lparr>field_name = ''endpoints'', field_type = ''GroupEndpoint'', field_required = True, field_isArray = True\<rparr>,
       \<lparr>field_name = ''expiresAt'', field_type = ''str'', field_required = True, field_isArray = False\<rparr>,
       \<lparr>field_name = ''nodeStatuses'', field_type = ''GroupNodeSyncStatus'', field_required = False, field_isArray = True\<rparr>],
      section_status =
      [\<lparr>field_name = ''phase'', field_type = ''literal'', field_required = True, field_isArray = False\<rparr>,
       \<lparr>field_name = ''controlPlaneCount'', field_type = ''int'', field_required = True, field_isArray = False\<rparr>,
       \<lparr>field_name = ''runtimeCount'', field_type = ''int'', field_required = True, field_isArray = False\<rparr>]\<rparr>,
     resource_sample = \<lparr>sample_apiVersion = ''xenage.io/v1alpha1'',
      sample_metadata = [(''name'', Str ''main''), (''namespace'', Str ''default''), (''labels'', Obj []), (''annotations'', Obj []), (''uid'', Null), (''generation'', Num 1), (''createdAt'', Null)],
      sample_spec = [(''groupId'', Str ''demo''), (''stateVersion'', Num 42), (''leaderEpoch'', Num 3), (''leaderNodeId'', Str ''cp-1''), (''leaderPubkey'', Str ''base64-public-key''), (''controlPlanes'', Arr [Obj [(''node_id'', Str ''cp-1''), (''role'', Str ''control-plane''), (''public_key'', Str ''base64-public-key''), (''endpoints'', Arr [Str ''http://127.0.0.1:8734''])]]), (''runtimes'', Arr [Obj [(''node_id'', Str ''rt-1''), (''role'', Str ''runtime''), (''public_key'', Str ''base64-runtime-key''), (''endpoints'', Arr [Str ''http://127.0.0.1:8735''])]]), (''endpoints'', Arr [Obj [(''node_id'', Str ''cp-1''), (''url'', Str ''http://127.0.0.1:8734'')], Obj [(''node_id'', Str ''rt-1''), (''url'', Str ''http://127.0.0.1:8735'')]]), (''expiresAt'', Str ''2026-03-14T12:30:00Z''), (''nodeStatuses'', Arr [])],
      sample_status = [(''phase'', Str ''Active''), (''controlPlaneCount'', Num 1), (''runtimeCount'', Num 1)]\<rparr>\<rparr>"

definition event_resource :: ManifestResource where
  "event_resource = \<lparr>resource_kind = ''Event'', resource_title = ''Event'',
     resource_fields =
      [\<lparr>field_name = ''metadata'', field_type = ''ObjectMeta'', field_required = False, field_isArray = False\<rparr>,
       \<lparr>field_name = ''spec'', field_type = ''EventSpec'', field_required = False, field_isArray = False\<rparr>,
       \<lparr>field_name = ''status'', field_type = ''EventStatus'', field_required = False, field_isArray = False\<rparr>,
       \<lparr>field_name = ''apiVersion'', field_type = ''str'', field_required = False, field_isArray = False\<rparr>],
     resource_sections = \<lparr>section_metadata =
      [\<lparr>field_name = ''name'', field_type = ''str'', field_required = True, field_isArray = False\<rparr>,
       \<lparr>field_name = ''namespace'', field_type = ''str'', field_required = False, field_isArray = False\<rparr>,
       \<lparr>field_name = ''labels'', field_type = ''map'', field_required = False, field_isArray = False\<rparr>,
       \<lparr>field_name = ''annotations'', field_type = ''map'', field_required = False, field_isArray = False\<rparr>,
       \<lparr>field_name = ''uid'', field_type = ''str?'', field_required = False, field_isArray = False\<rparr>,
       \<lparr>field_name = ''generation'', field_type = ''int'', field_required = False, field_isArray = False\<rparr>,
       \<lparr>field_name = ''createdAt'', field_type = ''str?'', field_required = False, field_isArray = False\<rparr>],
      section_spec =
      [\<lparr>field_name = ''regarding'', field_type = ''str'', field_required = True, field_isArray = False\<rparr>,
       \<lparr>field_name = ''type'', field_type = ''literal'', field_required = True, field_isArray = False\<rparr>,
       \<lparr>field_name = ''reason'', field_type = ''str'', field_required = True, field_isArray = False\<rparr>,
       \<lparr>field_name = ''message'', field_type = ''str'', field_required = True, field_isArray = False\<rparr>],
      section_status =
      [\<lparr>field_name = ''phase'', field_type = ''literal'', field_required = True, field_isArray = False\<rparr>,
       \<lparr>field_name = ''count'', field_type = ''int'', field_required = True, field_isArray = False\<rparr>,
       \<lparr>field_name = ''lastSeenAt'', field_type = ''str'', field_required = True, field_isArray = False\<rparr>]\<rparr>,
     resource_sample = \<lparr>sample_apiVersion = ''xenage.io/v1alpha1'',
      sample_metadata = [(''name'', Str ''event-1d2f''), (''namespace'', Str ''default''), (''labels'', Obj []), (''annotations'', Obj []), (''uid'', Null), (''generation'', Num 1), (''createdAt'', Null)],
      sample_spec = [(''regarding'', Str ''Node/cp-1''), (''type'', Str ''Normal''), (''reason'', Str ''Joined''), (''message'', Str ''Node cp-1 joined the group'')],
      sample_status = [(''phase'', Str ''Observed''), (''count'', Num 1), (''lastSeenAt'', Str ''2026-03-14T12:24:00Z'')]\<rparr>\<rparr>"

definition user_resource :: ManifestResource where
  "user_resource = \<lparr>resource_kind = ''User'', resource_title = ''User'',
     resource_fields =
      [\<lparr>field_name = ''metadata'', field_type = ''RbacObjectMeta'', field_required = False, field_isArray = False\<rparr>,
       \<lparr>field_name = ''apiVersion'', field_type = ''str'', field_required = False, field_isArray = False\<rparr>,
       \<lparr>field_name = ''spec'', field_type = ''ServiceAccountSpec'', field_required = False, field_isArray = False\<rparr>,
       \<lparr>field_name = ''status'', field_type = ''ServiceAccountStatus'', field_required = False, field_isArray = False\<rparr>],
     resource_sections = \<lparr>section_metadata =
      [\<lparr>field_name = ''name'', field_type = ''str'', field_required = True, field_isArray = False\<rparr>,
       \<lparr>field_name = ''labels'', field_type = ''map'', field_required = False, field_isArray = False\<rparr>,
       \<lparr>field_name = ''annotations'', field_type = ''map'', field_required = False, field_isArray = False\<rparr>,
       \<lparr>field_name = ''uid'', field_type = ''str?'', field_required = False, field_isArray = False\<rparr>,
       \<lparr>field_name = ''generation'', field_type = ''int'', field_required = False, field_isArray = False\<rparr>,
       \<lparr>field_name = ''createdAt'', field_type = ''str?'', field_required = False, field_isArray = False\<rparr>],
      section_spec =
      [\<lparr>field_name = ''engine'', field_type = ''str'', field_required = True, field_isArray = False\<rparr>,
       \<lparr>field_name = ''publicKey'', field_type = ''str'', field_required = True, field_isArray = False\<rparr>,
       \<lparr>field_name = ''enabled'', field_type = ''bool'', field_required = False, field_isArray = False\<rparr>],
      section_status =
      [\<lparr>field_name = ''phase'', field_type = ''str'', field_required = False, field_isArray = False\<rparr>]\<rparr>,
     resource_sample = \<lparr>sample_apiVersion = ''xenage.dev/v1'',
      sample_metadata = [(''name'', Str ''default''), (''labels'', Obj []), (''annotations'', Obj []), (''uid'', Null), (''generation'', Num 1), (''createdAt'', Null)],
      sample_spec = [(''engine'', Str ''runtime/v1''), (''publicKey'', Str []), (''enabled'', Bool True)],
      sample_status = [(''phase'', Str ''Active'')]\<rparr>\<rparr>"

section \<open>Tables\<close>

definition node_table :: ManifestTable where
  "node_table = \<lparr>table_kind = ''Node'', table_title = ''Nodes'', table_source = ''snapshot.nodes'',
     table_rowKind = ''ClusterNodeTableRow'', table_rowKey = ''node_id'',
     table_defaultSort = \<lparr>sort_field = ''node_id'', sort_dir = Asc\<rparr>, table_pageSize = None,
     table_columns =
      [\<lparr>col_key = ''node_id'', col_label = ''Node Id'', col_path = ''node_id'', col_type = ''str'', col_isArray = False,
        col_width = 220, col_minWidth = 140, col_displayOnly = False\<rparr>,
       \<lparr>col_key = ''role'', col_label = ''Role'', col_path = ''role'', col_type = ''literal'', col_isArray = False,
        col_width = 220, col_minWidth = 140, col_displayOnly = False\<rparr>,
       \<lparr>col_key = ''leader'', col_label = ''Leader'', col_path = ''leader'', col_type = ''bool'', col_isArray = False,
        col_width = 100, col_minWidth = 100, col_displayOnly = False\<rparr>,
       \<lparr>col_key = ''public_key'', col_label = ''Public Key'', col_path = ''public_key'', col_type = ''str'', col_isArray = False,
        col_width = 220, col_minWidth = 140, col_displayOnly = True\<rparr>,
       \<lparr>col_key = ''endpoints'', col_label = ''Endpoints'', col_path = ''endpoints'', col_type = ''str'', col_isArray = True,
        col_width = 440, col_minWidth = 220, col_displayOnly = False\<rparr>,
       \<lparr>col_key = ''status'', col_label = ''Status'', col_path = ''status'', col_type = ''str'', col_isArray = False,
        col_width = 220, col_minWidth = 140, col_displayOnly = False\<rparr>,
       \<lparr>col_key = ''name'', col_label = ''Name'', col_path = ''name'', col_type = ''str'', col_isArray = False,
        col_width = 220, col_minWidth = 140, col_displayOnly = False\<rparr>,
       \<lparr>col_key = ''version'', col_label = ''Version'', col_path = ''version'', col_type = ''str'', col_isArray = False,
        col_width = 220, col_minWidth = 140, col_displayOnly = False\<rparr>,
       \<lparr>col_key = ''age'', col_label = ''Age'', col_path = ''age'', col_type = ''str'', col_isArray = False,
        col_width = 220, col_minWidth = 140, col_displayOnly = False\<rparr>,
       \<lparr>col_key = ''last_poll_at'', col_label = ''Last Poll At'', col_path = ''last_poll_at'', col_type = ''str'', col_isArray = False,
        col_width = 220, col_minWidth = 140, col_displayOnly = False\<rparr>],
     table_sample = [(''node_id'', Str []), (''role'', Str ''control-plane''), (''leader'', Bool False), (''public_key'', Str []), (''endpoints'', Arr []), (''status'', Str []), (''name'', Str []), (''version'', Str []), (''age'', Str []), (''last_poll_at'', Str [])]\<rparr>"

definition groupConfig_table :: ManifestTable where
  "groupConfig_table = \<lparr>table_kind = ''GroupConfig'', table_title = ''Group Config'', table_source = ''snapshot.group_config'',
     table_rowKind = ''GroupConfigKeyTableRow'', table_rowKey = ''key'',
     table_defaultSort = \<lparr>sort_field = ''key'', sort_dir = Asc\<rparr>, table_pageSize = None,
     table_columns =
      [\<lparr>col_key = ''key'', col_label = ''Key'', col_path = ''key'', col_type = ''str'', col_isArray = False,
        col_width = 220, col_minWidth = 140, col_displayOnly = False\<rparr>,
       \<lparr>col_key = ''value'', col_label = ''Value'', col_path = ''value'', col_type = ''str'', col_isArray = False,
        col_width = 220, col_minWidth = 140, col_displayOnly = False\<rparr>],
     table_sample = [(''key'', Str []), (''value'', Str [])]\<rparr>"

definition event_table :: ManifestTable where
  "event_table = \<lparr>table_kind = ''Event'', table_title = ''Events'', table_source = ''events.items'',
     table_rowKind = ''EventLogEntry'', table_rowKey = ''sequence'',
     table_defaultSort = \<lparr>sort_field = ''sequence'', sort_dir = Desc\<rparr>, table_pageSize = Some 200,
     table_columns =
      [\<lparr>col_key = ''sequence'', col_label = ''Sequence'', col_path = ''sequence'', col_type = ''int'', col_isArray = False,
        col_width = 90, col_minWidth = 100, col_displayOnly = False\<rparr>,
       \<lparr>col_key = ''happened_at'', col_label = ''Happened At'', col_path = ''happened_at'', col_type = ''str'', col_isArray = False,
        col_width = 220, col_minWidth = 140, col_displayOnly = False\<rparr>,
       \<lparr>col_key = ''actor_id'', col_label = ''Actor Id'', col_path = ''actor_id'', col_type = ''str'', col_isArray = False,
        col_width = 220, col_minWidth = 140, col_displayOnly = False\<rparr>,
       \<lparr>col_key = ''actor_type'', col_label = ''Actor Type'', col_path = ''actor_type'', col_type = ''literal'', col_isArray = False,
        col_width = 220, col_minWidth = 140, col_displayOnly = False\<rparr>,
       \<lparr>col_key = ''action'', col_label = ''Action'', col_path = ''action'', col_type = ''str'', col_isArray = False,
        col_width = 220, col_minWidth = 140, col_displayOnly = False\<rparr>,
       \<lparr>col_key = ''details'', col_label = ''Details'', col_path = ''details'', col_type = ''map'', col_isArray = False,
        col_width = 440, col_minWidth = 220, col_displayOnly = False\<rparr>],
     table_sample = [(''sequence'', Num 0), (''happened_at'', Str []), (''actor_id'', Str []), (''actor_type'', Str ''node''), (''action'', Str []), (''details'', Obj [])]\<rparr>"

definition user_table :: ManifestTable where
  "user_table = \<lparr>table_kind = ''User'', table_title = ''Users'', table_source = ''rbac.users'',
     table_rowKind = ''UserTableRow'', table_rowKey = ''name'',
     table_defaultSort = \<lparr>sort_field = ''name'', sort_dir = Asc\<rparr>, table_pageSize = None,
     table_columns =
      [\<lparr>col_key = ''name'', col_label = ''Name'', col_path = ''name'', col_type = ''str'', col_isArray = False,
        col_width = 220, col_minWidth = 140, col_displayOnly = False\<rparr>,
       \<lparr>col_key = ''engine'', col_label = ''Engine'', col_path = ''engine'', col_type = ''str'', col_isArray = False,
        col_width = 220, col_minWidth = 140, col_displayOnly = False\<rparr>,
       \<lparr>col_key = ''enabled'', col_label = ''Enabled'', col_path = ''enabled'', col_type = ''bool'', col_isArray = False,
        col_width = 100, col_minWidth = 100, col_displayOnly = False\<rparr>,
       \<lparr>col_key = ''public_key'', col_label = ''Public Key'', col_path = ''public_key'', col_type = ''str'', col_isArray = False,
        col_width = 220, col_minWidth = 140, col_displayOnly = True\<rparr>],
     table_sample = [(''name'', Str []), (''engine'', Str []), (''enabled'', Bool False), (''public_key'', Str [])]\<rparr>"

definition role_table :: ManifestTable where
  "role_table = \<lparr>table_kind = ''Role'', table_title = ''Roles'', table_source = ''rbac.roles'',
     table_rowKind = ''RoleTableRow'', table_rowKey = ''name'',
     table_defaultSort = \<lparr>sort_field = ''name'', sort_dir = Asc\<rparr>, table_pageSize = None,
     table_columns =
      [\<lparr>col_key = ''name'', col_label = ''Name'', col_path = ''name'', col_type = ''str'', col_isArray = False,
        col_width = 220, col_minWidth = 140, col_displayOnly = False\<rparr>,
       \<lparr>col_key = ''rule_count'', col_label = ''Rule Count'', col_path = ''rule_count'', col_type = ''int'', col_isArray = False,
        col_width = 140, col_minWidth = 100, col_displayOnly = False\<rparr>],
     table_sample = [(''name'', Str []), (''rule_count'', Num 0)]\<rparr>"

definition roleBinding_table :: ManifestTable where
  "roleBinding_table = \<lparr>table_kind = ''RoleBinding'', table_title = ''Role Bindings'', table_source = ''rbac.role_bindings'',
     table_rowKind = ''RoleBindingTableRow'', table_rowKey = ''name'',
     table_defaultSort = \<lparr>sort_field = ''name'', sort_dir = Asc\<rparr>, table_pageSize = None,
     table_columns =
      [\<lparr>col_key = ''name'', col_label = ''Name'', col_path = ''name'', col_type = ''str'', col_isArray = False,
        col_width = 220, col_minWidth = 140, col_displayOnly = False\<rparr>,
       \<lparr>col_key = ''role'', col_label = ''Role'', col_path = ''role'', col_type = ''str'', col_isArray = False,
        col_width = 220, col_minWidth = 140, col_displayOnly = False\<rparr>,
       \<lparr>col_key = ''subject_count'', col_label = ''Subject Count'', col_path = ''subject_count'', col_type = ''int'', col_isArray = False,
        col_width = 140, col_minWidth = 100, col_displayOnly = False\<rparr>],
     table_sample = [(''name'', Str []), (''role'', Str []), (''subject_count'', Num 0)]\<rparr>"

section \<open>The manifest\<close>

definition controlPlane_navigation :: NavigationNode where
  "controlPlane_navigation = \<lparr>nav_label = ''Cluster'', nav_children =
     [\<lparr>leaf_label = ''Nodes'', leaf_kind = ''Node''\<rparr>,
      \<lparr>leaf_label = ''Group Config'', leaf_kind = ''GroupConfig''\<rparr>,
      \<lparr>leaf_label = ''Events'', leaf_kind = ''Event''\<rparr>,
      \<lparr>leaf_label = ''Users'', leaf_kind = ''User''\<rparr>,
      \<lparr>leaf_label = ''Roles'', leaf_kind = ''Role''\<rparr>,
      \<lparr>leaf_label = ''Role Bindings'', leaf_kind = ''RoleBinding''\<rparr>]\<rparr>"

definition controlPlaneManifest :: ControlPlaneManifest where
  "controlPlaneManifest = \<lparr>manifest_apiVersion = ''xenage.io/v1alpha1'', manifest_kind = ''ControlPlaneRelease'',
     manifest_generatedAt = ''2026-03-14T12:30:00Z'', product_name = ''Xenage'',
     product_tagline = ''AI Agent Control Plane'', manifest_navigation = controlPlane_navigation,
     manifest_resources = [node_resource, groupConfig_resource, event_resource, user_resource],
     manifest_tables = [node_table, groupConfig_table, event_table, user_table, role_table, roleBinding_table]\<rparr>"
section \<open>Well-formedness\<close>

definition table_ok :: "ManifestTable \<Rightarrow> bool" where
  "table_ok t =
     (let keys = map col_key (table_columns t) in
      distinct keys \<and> list_ex (\<lambda>k. k = table_rowKey t) keys \<and> list_ex (\<lambda>k. k = sort_field (table_defaultSort t)) keys \<and>
      list_all (\<lambda>c. 0 < col_width c \<and> 0 < col_minWidth c \<and> col_key c \<noteq> [] \<and> col_label c \<noteq> []) (table_columns t) \<and>
      list_ex (\<lambda>c. col_key c = table_rowKey t \<and> col_path c = table_rowKey t) (table_columns t) \<and>
      list_all (\<lambda>c. list_ex (\<lambda>p. fst p = col_path c) (table_sample t)) (table_columns t))"

lemma tables_ok: "list_all table_ok (manifest_tables controlPlaneManifest)"
  by code_simp

lemma navigation_tables:
  "list_all (\<lambda>l. list_ex (\<lambda>t. table_kind t = leaf_kind l) (manifest_tables controlPlaneManifest))
     (nav_children (manifest_navigation controlPlaneManifest))"
  by code_simp

lemma manifest_kinds_distinct:
  "distinct (map table_kind (manifest_tables controlPlaneManifest))"
  "distinct (map leaf_kind (nav_children (manifest_navigation controlPlaneManifest)))"
  "distinct (map resource_kind (manifest_resources controlPlaneManifest))"
  by code_simp+

text \<open>The generated schema is usable: no two tables, resources or navigation items have the same kind,
  every navigation item has a table, and in every table the column keys are distinct, the row key and
  the field of the default sort are columns, every path exists in the sample row, and the widths are
  positive; the initial width of a column is at least its minimum except for the sequence column of
  the events, which starts ten pixels too narrow.\<close>

theorem manifest_usable:
  "list_all table_ok (manifest_tables controlPlaneManifest) \<and>
   distinct (map table_kind (manifest_tables controlPlaneManifest)) \<and>
   distinct (map resource_kind (manifest_resources controlPlaneManifest)) \<and>
   distinct (map leaf_kind (nav_children (manifest_navigation controlPlaneManifest))) \<and>
   list_all (\<lambda>l. list_ex (\<lambda>t. table_kind t = leaf_kind l) (manifest_tables controlPlaneManifest))
     (nav_children (manifest_navigation controlPlaneManifest)) \<and>
   concat (map (\<lambda>t. map (\<lambda>c. (table_kind t, col_key c)) (filter (\<lambda>c. col_width c < col_minWidth c) (table_columns t)))
     (manifest_tables controlPlaneManifest)) = [(''Event'', ''sequence'')]"
proof -
  have "concat (map (\<lambda>t. map (\<lambda>c. (table_kind t, col_key c)) (filter (\<lambda>c. col_width c < col_minWidth c) (table_columns t)))
     (manifest_tables controlPlaneManifest)) = [(''Event'', ''sequence'')]"
    by code_simp
  with tables_ok manifest_kinds_distinct navigation_tables show ?thesis by blast
qed

end
