(* ===== verification/AppSafety.thy ===== *)
theory AppSafety
  imports AppShell Manifest
begin

text \<open>
  The correctness of the application shell: the invariant of the lower sub-window as a state machine,
  the end-to-end behaviour of connecting, deleting and refreshing, and the keyboard.
\<close>

section \<open>The sub-window\<close>

interpretation subs: tab_strip sub_id append_sub remove_sub
proof unfold_locales
  fix t :: SubWindowTab and ts and k
  show "map sub_id (append_sub t ts) = (if sub_id t \<in> set (map sub_id ts) then map sub_id ts else map sub_id ts @ [sub_id t])"
    unfolding append_sub_def by (rule append_once_keys)
  show "sub_id t \<in> set (map sub_id ts) \<Longrightarrow> append_sub t ts = ts"
    by (auto simp: append_sub_def append_once_def)
  show "map sub_id (remove_sub k ts) = filter (\<lambda>i. i \<noteq> k) (map sub_id ts)"
    by (simp add: remove_sub_def remove_key_def filter_map comp_def)
qed

definition sub_inv :: "app_state \<Rightarrow> bool" where
  "sub_inv s = (distinct (map sub_id (horizontalTabs s)) \<and>
     (horizontalTabs s = [] \<or> activeHorizontalTabId s \<in> set (map sub_id (horizontalTabs s))))"

inductive sub_step ::
  "(SubWindowTab list \<Rightarrow> nat \<Rightarrow> nat \<Rightarrow> SubWindowTab list) \<Rightarrow> app_state \<Rightarrow> app_state \<Rightarrow> bool" for move where
  activate: "t \<in> set (horizontalTabs s) \<Longrightarrow> sub_step move s (s\<lparr>activeHorizontalTabId := sub_id t\<rparr>)"
| keydown: "sub_step move s (fst (console_keydown c k target s))"
| open_editor: "sub_step move s (openRbacEditorTab now payload s)"
| close_tab: "sub_step move s (closeHorizontalTab tabId s)"
| drag: "sub_step move s (fst (horizontal_drag_end move renderTabs event bounds s))"
| detached: "sub_step move s (detachHorizontalTab_end tabId opened s)"
| edit: "sub_step move s (onYamlChange value s)"
| apply_starts: "sub_step move s (fst (onApply_begin s))"
| apply_settles: "sub_step move s (onApply_end tabId r s)"
| other: "horizontalTabs s' = horizontalTabs s \<Longrightarrow> activeHorizontalTabId s' = activeHorizontalTabId s \<Longrightarrow> sub_step move s s'"

inductive sub_reachable ::
  "(SubWindowTab list \<Rightarrow> nat \<Rightarrow> nat \<Rightarrow> SubWindowTab list) \<Rightarrow> app_state \<Rightarrow> bool" for move where
  initial: "sub_reachable move (App_init d initial_tab)"
| step: "sub_reachable move s \<Longrightarrow> sub_step move s s' \<Longrightarrow> sub_reachable move s'"

lemma sub_inv_append:
  "sub_inv s \<Longrightarrow> sub_inv (s\<lparr>horizontalTabs := append_sub t (horizontalTabs s), activeHorizontalTabId := sub_id t\<rparr>)"
  using subs.distinct_add[of "horizontalTabs s" t] subs.set_keys_add[of t "horizontalTabs s"] by (simp add: sub_inv_def)

lemma last_sub_id_mem: "ts \<noteq> [] \<Longrightarrow> last_sub_id ts \<in> set (map sub_id ts)"
  by (simp add: last_sub_id_def split: list.split)

lemma sub_inv_close: "sub_inv s \<Longrightarrow> sub_inv (closeHorizontalTab tabId s)"
  using subs.distinct_remove[of "horizontalTabs s" tabId] subs.set_keys_remove[of tabId "horizontalTabs s"]
    last_sub_id_mem[of "remove_sub tabId (horizontalTabs s)"]
  by (auto simp: sub_inv_def closeHorizontalTab_def Let_def remove_sub_def remove_key_def)

lemma sub_inv_reorder:
  assumes "permutes_elements move" and "sub_inv s"
  shows "sub_inv (reorderHorizontalTabs move a b s)"
proof -
  let ?ts = "horizontalTabs s" and ?r = "reorder_keys move sub_id a b (horizontalTabs s)"
  have "set ?r = set ?ts" "length ?r = length ?ts" "distinct (map sub_id ?ts) \<Longrightarrow> distinct (map sub_id ?r)"
    using reorder_keys_keys[OF assms(1)] by blast+
  with assms(2) show ?thesis by (cases ?ts) (auto simp: sub_inv_def reorderHorizontalTabs_def)
qed

lemma update_rbac_ids [simp]: "map sub_id (horizontalTabs (update_rbac tabId f s)) = map sub_id (horizontalTabs s)"
  by (simp add: update_rbac_def) (auto split: sub_content.splits)

lemma update_rbac_active [simp]: "activeHorizontalTabId (update_rbac tabId f s) = activeHorizontalTabId s"
  by (simp add: update_rbac_def)

lemma sub_inv_same_ids:
  "map sub_id (horizontalTabs s') = map sub_id (horizontalTabs s) \<Longrightarrow> activeHorizontalTabId s' = activeHorizontalTabId s \<Longrightarrow>
     sub_inv s \<Longrightarrow> sub_inv s'"
  unfolding sub_inv_def by (metis map_is_Nil_conv)

lemma sub_step_inv:
  assumes "sub_step move s s'" and "permutes_elements move" and "sub_inv s"
  shows "sub_inv s'"
  using assms(1)
proof (cases rule: sub_step.cases)
  case (activate t)
  with assms(3) show ?thesis by (simp add: sub_inv_def)
next
  case (keydown c k target)
  with assms(3) sub_inv_append[of s consoleTab] show ?thesis
    by (simp add: console_keydown_def openConsoleTab_def consoleTab_def)
next
  case (open_editor now payload)
  with assms(3) sub_inv_append[of s "rbac_tab now payload"] show ?thesis by (simp add: openRbacEditorTab_def Let_def)
next
  case (close_tab tabId)
  with assms(3) sub_inv_close show ?thesis by simp
next
  case (drag renderTabs event bounds)
  with assms(2,3) sub_inv_reorder show ?thesis by (auto simp: horizontal_drag_end_def split: drag_outcome.split)
next
  case (detached tabId opened)
  with assms(3) sub_inv_close show ?thesis by (simp add: detachHorizontalTab_end_def)
next
  case (edit v)
  show ?thesis unfolding edit
    by (rule sub_inv_same_ids[OF _ _ assms(3)]) (simp_all add: onYamlChange_def split: option.split sub_content.split)
next
  case apply_starts
  show ?thesis unfolding apply_starts
    by (rule sub_inv_same_ids[OF _ _ assms(3)]) (simp_all add: onApply_begin_def split: option.split sub_content.split)
next
  case (apply_settles tabId r)
  show ?thesis unfolding apply_settles
    by (rule sub_inv_same_ids[OF _ _ assms(3)]) (simp_all add: onApply_end_def Let_def)
next
  case other
  with assms(3) show ?thesis by (simp add: sub_inv_def)
qed

text \<open>C6: the lower sub-window is always consistent: whatever tabs are opened, closed, dragged, detached,
  edited or applied, in any order and with requests settling at any time, the ids of its tabs are
  distinct, and as long as it has a tab, the active id is the id of one of them, so that its body is
  never empty.\<close>

theorem sub_window_invariant:
  assumes "sub_reachable move s" and "permutes_elements move"
  shows "distinct (map sub_id (horizontalTabs s)) \<and> (horizontalTabs s \<noteq> [] \<longrightarrow> activeSubWindowTab s \<noteq> None)"
proof -
  have "sub_inv s" using assms(1)
  proof (induction rule: sub_reachable.induct)
    case (initial d initial_tab)
    then show ?case
      by (auto simp: sub_inv_def App_init_def horizontal_init_def app_state.defs data_state.defs
          split: option.splits horizontal_kind.splits)
  qed (rule sub_step_inv[OF _ assms(2)])
  then show ?thesis by (auto simp: sub_inv_def activeSubWindowTab_def find_None_iff)
qed

definition demo_app :: app_state where
  "demo_app = App_init demo_data None"

definition demo_payload :: rbac_payload where
  "demo_payload = \<lparr>pl_clusterId = ''a'', pl_clusterYaml = ''y'', pl_kind = ''Role'', pl_resourceName = Some ''viewer'',
     pl_yaml = ''kind: Role''\<rparr>"

theorem sub_window_invariant_witness:
  "activeSubWindowTab (openConsoleTab demo_app) \<noteq> None"
proof -
  have "sub_reachable (\<lambda>xs i j. xs) demo_app" unfolding demo_app_def by (rule sub_reachable.initial)
  from sub_reachable.step[OF this sub_step.keydown[of _ _ "''Backquote''" "[96]" NotAnElement]]
  have "sub_reachable (\<lambda>xs i j. xs) (openConsoleTab demo_app)" by (simp add: console_keydown_def isBackquoteKey_def)
  moreover have "permutes_elements (\<lambda>xs i j. xs :: SubWindowTab list)" by (simp add: permutes_elements_def)
  moreover have "horizontalTabs (openConsoleTab demo_app) \<noteq> []"
    using subs.add_nonempty by (simp add: openConsoleTab_def)
  ultimately show ?thesis using sub_window_invariant by blast
qed

section \<open>Applying a resource\<close>

definition sub_tab :: "string \<Rightarrow> app_state \<Rightarrow> SubWindowTab option" where
  "sub_tab i s = List.find (\<lambda>item. sub_id item = i) (horizontalTabs s)"

lemma find_map_key:
  "(\<And>t. key (f t) = key t) \<Longrightarrow> List.find (\<lambda>t. key t = i) (map f ts) = map_option f (List.find (\<lambda>t. key t = i) ts)"
  by (induction ts) auto

lemma sub_tab_update:
  "sub_tab i (update_rbac tabId f s) = map_option (\<lambda>item.
     case sub_content item of RbacContent p st \<Rightarrow> if sub_id item = tabId then item\<lparr>sub_content := f p st\<rparr> else item
       | ConsoleContent \<Rightarrow> item) (sub_tab i s)"
  unfolding sub_tab_def update_rbac_def
  by (simp add: find_map_key[where key = sub_id] split: sub_content.splits)

lemma sub_tab_id: "sub_tab i s = Some t \<Longrightarrow> sub_id t = i"
  by (auto simp: sub_tab_def dest: find_SomeD)

text \<open>The result of applying YAML lands on the tab it was asked for and nowhere else: the settled
  request sets the status of that tab, even if it is no longer the active one or has moved; its text
  and every other tab are untouched, a tab closed meanwhile does not come back, and the text that was
  sent is the one the tab had when the button was pressed.\<close>

theorem apply_result_lands:
  "let s' = onApply_end tabId r s in
    map sub_id (horizontalTabs s') = map sub_id (horizontalTabs s) \<and>
    (i = tabId \<or> sub_tab i s' = sub_tab i s) \<and>
    sub_tab tabId s' = (case sub_tab tabId s of
       Some t \<Rightarrow> (case sub_content t of
           RbacContent p st \<Rightarrow> Some (t\<lparr>sub_content := RbacContent p (Some (case r of
               Inr u \<Rightarrow> ''Applied YAML successfully.'' | Inl e \<Rightarrow> error_text ''Failed to apply YAML.'' e))\<rparr>)
         | ConsoleContent \<Rightarrow> Some t)
     | None \<Rightarrow> None)"
proof -
  let ?s = "onApply_end tabId r s"
  have eq: "sub_tab k ?s = sub_tab k (update_rbac tabId (\<lambda>p st. RbacContent p (Some (case r of
               Inr u \<Rightarrow> ''Applied YAML successfully.'' | Inl e \<Rightarrow> error_text ''Failed to apply YAML.'' e))) s)" for k
    by (simp add: onApply_end_def Let_def sub_tab_def)
  have "i = tabId \<or> sub_tab i ?s = sub_tab i s"
    by (cases "sub_tab i s") (auto simp: eq sub_tab_update sub_tab_id split: sub_content.split)
  moreover have "map sub_id (horizontalTabs ?s) = map sub_id (horizontalTabs s)"
    by (simp add: onApply_end_def Let_def)
  ultimately show ?thesis
    by (simp add: Let_def eq sub_tab_update sub_tab_id split: option.split sub_content.split)
qed

text \<open>One flag for all tabs: when two editors are applying at once, the one that settles first
  re-enables the button of the other, whose request is still in flight; before that, starting the
  second already re-enabled the first.\<close>

theorem apply_flag_is_shared:
  assumes "onApply_begin s = (s1, Some (a, call_a))" and "a \<noteq> b"
    and "onApply_begin (s1\<lparr>activeHorizontalTabId := b\<rparr>) = (s2, Some (b, call_b))" and "b \<noteq> []"
  shows "applyingSubWindowTabId s1 = a \<and> applyingSubWindowTabId s2 = b \<and>
    applyingSubWindowTabId (onApply_end a r s2) = []"
proof -
  have "applyingSubWindowTabId s' = i" if "onApply_begin s0 = (s', Some (i, c))" for s0 s' i c
    using that by (auto simp: onApply_begin_def update_rbac_def split: option.splits sub_content.splits)
  with assms(1,3) show ?thesis by (auto simp: onApply_end_def Let_def)
qed

section \<open>Detaching sub-window tabs\<close>

text \<open>A tab of the sub-window cannot be dragged out into a window while the callback holds an older
  list of tabs: if the tab was opened since the clusters or the active cluster last changed, dragging
  it out does nothing at all, neither a request nor a change of the tabs.\<close>

theorem detach_new_tab_ignored:
  assumes "activeTabSource \<notin> set (map sub_id renderTabs)"
    and "drag_outcome_of event bounds = DragDetach activeTabSource"
  shows "horizontal_drag_end move renderTabs event bounds s = (s, None)"
proof -
  have "List.find (\<lambda>item. sub_id item = activeTabSource) renderTabs = None"
    using assms(1) by (auto simp: find_None_iff)
  with assms(2) show ?thesis by (simp add: horizontal_drag_end_def detachHorizontalTab_def)
qed

section \<open>Frame lemmas\<close>

definition view_fields :: "app_state \<Rightarrow> OpenTab list \<times> string \<times> string \<times> StoredClusterConnection list \<times> ClusterUiPrefs js_obj" where
  "view_fields s = (openTabs s, activeTabId s, activeClusterId s, connectionConfigs s, clusterUiPrefs s)"

lemma view_fields_cong:
  assumes "view_fields s' = view_fields s"
  shows "resolvedClusterId s' = resolvedClusterId s" and "activeKind s' = activeKind s"
    and "activeKindNeedsSnapshot M s' = activeKindNeedsSnapshot M s" and "find_connection c s' = find_connection c s"
proof -
  have e: "openTabs s' = openTabs s" "activeTabId s' = activeTabId s" "activeClusterId s' = activeClusterId s"
    "connectionConfigs s' = connectionConfigs s" "clusterUiPrefs s' = clusterUiPrefs s"
    using assms by (simp_all add: view_fields_def)
  then have t: "activeTab s' = activeTab s" by (simp add: activeTab_def split: option.split)
  then have k: "activeKind s' = activeKind s" "setupTabActive s' = setupTabActive s" "settingsTabActive s' = settingsTabActive s"
    by (simp_all add: activeKind_def setupTabActive_def settingsTabActive_def)
  then have "activeTableSchema M s' = activeTableSchema M s" by (simp add: activeTableSchema_def)
  then have "activeKindUsesSnapshot M s' = activeKindUsesSnapshot M s" by (simp add: activeKindUsesSnapshot_def)
  with k show "activeKindNeedsSnapshot M s' = activeKindNeedsSnapshot M s" by (simp add: activeKindNeedsSnapshot_def)
  show "activeKind s' = activeKind s" by (rule k)
  have "clusters s' = clusters s" by (simp add: clusters_def e)
  with t e show "resolvedClusterId s' = resolvedClusterId s" by (simp add: resolvedClusterId_def first_cluster_id_def)
  show "find_connection c s' = find_connection c s" by (simp add: find_connection_def e)
qed

lemma endDataFetch_view [simp]: "view_fields (endDataFetch s) = view_fields s"
  by (simp add: view_fields_def endDataFetch_def Let_def)

lemma markDataFetchError_view [simp]: "view_fields (markDataFetchError s) = view_fields s"
  by (simp add: view_fields_def markDataFetchError_def)

lemma set_events_view [simp]: "view_fields (set_events c e s) = view_fields s"
  by (simp add: view_fields_def set_events_def Let_def)

section \<open>Polling and retrying\<close>

text \<open>A failing snapshot is fetched again at once: whenever the fetch of the snapshot of the active
  cluster fails before one has ever arrived, the effect that runs after that render starts the same
  fetch again, for any error and without any delay, and so on as long as it fails.\<close>

theorem failed_snapshot_refetched:
  assumes "activeKindNeedsSnapshot M s" and "resolvedClusterId s = cid" and "cid \<noteq> []"
    and "find_connection cid s = Some c" and "obj_get (clusterSnapshots s) cid = None"
  shows "snd (snapshot_effect M (fst (fetchSnapshot_end cid (Inl e) s))) =
    [(SnapshotRequest cid, FetchSnapshotFromYaml (conn_yaml c))]"
proof -
  let ?s = "fst (fetchSnapshot_end cid (Inl e) s)"
  have v: "view_fields ?s = view_fields s"
    by (simp add: fetchSnapshot_end_def fetchSnapshot_finally_def) (simp add: view_fields_def markDataFetchError_def)
  have "obj_get (clusterSnapshots ?s) cid = None" "\<not> is_set (clusterSnapshotLoading ?s) cid"
    using assms(5) by (simp_all add: fetchSnapshot_end_def fetchSnapshot_finally_def endDataFetch_def markDataFetchError_def Let_def is_set_def)
  moreover have "find_connection cid ?s = Some c" "activeKindNeedsSnapshot M ?s" "resolvedClusterId ?s = cid"
    using assms view_fields_cong[OF v] by simp_all
  ultimately show ?thesis using assms(3)
    by (simp add: snapshot_effect_def Let_def start_snapshot_def fetchSnapshot_begin_def)
qed

text \<open>An empty audit log is asked for without end: if the first page of events settles with no
  events, or fails, while its cluster is shown, the effect that runs after that render starts the same
  fetch again at once, although the answer was complete.\<close>

theorem empty_log_refetched:
  assumes "activeKind s = ''Event''" and "resolvedClusterId s = cid" and "cid \<noteq> []"
    and "find_connection cid s = Some c" and "obj_get (clusterEvents s) cid = Some \<lparr>cache_has_more = m0,
      cache_items = [], cache_loading = True, oldest_sequence = None\<rparr>"
    and "r = Inl e \<or> r = Inr \<lparr>page_items = [], page_has_more = False, next_before_sequence = 0\<rparr>"
  shows "snd (events_effect M (fetchEventPage_end cid Initial r s)) =
    [(EventRequest cid Initial, FetchEventPageFromYaml (conn_yaml c) None (eventPageSize M))]"
proof -
  let ?s = "fetchEventPage_end cid Initial r s"
  have v: "view_fields ?s = view_fields s"
    by (cases r) (simp_all add: fetchEventPage_end_def fetchEventPage_finally_def Let_def, simp_all add: view_fields_def set_events_def markDataFetchError_def Let_def)
  have empty: "\<exists>m. obj_get (clusterEvents ?s) cid = Some m \<and> cache_items m = []"
    using assms(5,6) by (auto simp: fetchEventPage_end_def fetchEventPage_finally_def endDataFetch_def set_events_def
        markDataFetchError_def merge_page_def merge_items_def cache_field_def cache_with_loading_def Let_def)
  have "\<not> is_set (clusterEventLoadingRef ?s) cid"
    by (cases r) (simp_all add: fetchEventPage_end_def fetchEventPage_finally_def endDataFetch_def set_events_def
        markDataFetchError_def Let_def is_set_def)
  moreover have "find_connection cid ?s = Some c" "activeKind ?s = ''Event''" "resolvedClusterId ?s = cid"
    using assms(1,2,4) view_fields_cong[OF v] by simp_all
  ultimately show ?thesis using assms(3) empty
    by (auto simp: events_effect_def start_events_def fetchEventPage_begin_def Let_def cache_field_def)
qed


section \<open>Connecting to a cluster\<close>

lemma node_tab_not_special: "cid @ '':Node'' \<noteq> SETUP_TAB_ID" "cid @ '':Node'' \<noteq> SETTINGS_TAB_ID"
  by (auto simp: SETUP_TAB_ID_def SETTINGS_TAB_ID_def dest: arg_cong[where f = "\<lambda>x. take 5 (rev x)"])

lemma find_append_tab:
  assumes "distinct (map tab_id ts)" and "\<forall>u \<in> set ts. tab_id u = tab_id t \<longrightarrow> u = t"
  shows "List.find (\<lambda>u. tab_id u = tab_id t) (append_tab t ts) = Some t"
proof -
  have "tab_id t \<in> set (map tab_id (append_tab t ts))" using tabs.set_keys_add[of t ts] by simp
  then obtain u where u: "List.find (\<lambda>u. tab_id u = tab_id t) (append_tab t ts) = Some u"
    by (cases "List.find (\<lambda>u. tab_id u = tab_id t) (append_tab t ts)") (auto simp: find_None_iff)
  then have "tab_id u = tab_id t" "u \<in> set (append_tab t ts)" by (auto dest: find_SomeD)
  then have "u = t" using assms(2) by (auto simp: append_tab_def append_once_def split: if_splits)
  with u show ?thesis by simp
qed

text \<open>C31: after a successful connection the user sees the cluster just connected to: from a consistent
  state, the tab of its nodes is open and active, the setup tab is gone, the invariant of the tabs
  holds, and the workspace shows the table of the nodes of the snapshot that was fetched, provided the
  manifest has a table for nodes that reads snapshots.\<close>

theorem connected_cluster_shown:
  assumes "tab_inv s" and "conn_id saved \<noteq> []"
    and "\<forall>u \<in> set (openTabs s). tab_id u = conn_id saved @ '':Node'' \<longrightarrow> tab_kind u = ''Node'' \<and> tab_cluster u = conn_id saved"
    and "obj_get (tablesByKind M) ''Node'' = Some t" and "starts_with (table_source t) ''snapshot.''"
  shows "let s' = handleConnectGui_end (Some (saved, snapshot)) s in
    tab_inv s' \<and> SETUP_TAB_ID \<notin> set (map tab_id (openTabs s')) \<and> resolvedClusterId s' = conn_id saved \<and>
    WorkspaceContent M s' = ResourceContent (inconsistency_of snapshot) (NodePane (Some snapshot) (Some t))"
proof -
  let ?s = "handleConnectGui_end (Some (saved, snapshot)) s" and ?cid = "conn_id saved"
  let ?t = "\<lparr>tab_id = ?cid @ '':Node'', tab_kind = ''Node'', tab_cluster = ?cid\<rparr>"
  let ?ts = "remove_tab SETUP_TAB_ID (openTabs s)"
  have d: "distinct (map tab_id (openTabs s))" using assms(1) by (simp add: tab_inv_def tabs_ok_def)
  have opened: "openTabs ?s = append_tab ?t ?ts" "activeTabId ?s = ?cid @ '':Node''"
    "obj_get (clusterSnapshots ?s) ?cid = Some snapshot"
    by (simp_all add: handleConnectGui_end_def Let_def)
  have d': "distinct (map tab_id ?ts)" using tabs.distinct_remove[OF d] .
  have inv: "tab_inv ?s"
    using tabs.distinct_add[OF d', of ?t] tabs.set_keys_add[of ?t ?ts] tabs.add_nonempty[of ?t ?ts]
    by (simp add: tab_inv_def tabs_ok_def opened)
  have "\<forall>u \<in> set ?ts. tab_id u = tab_id ?t \<longrightarrow> u = ?t"
    using assms(3) by (auto simp: remove_tab_def remove_key_def)
  from find_append_tab[OF d' this] have active: "activeTab ?s = Some ?t"
    by (simp add: activeTab_def opened)
  then have k: "activeKind ?s = ''Node''" "\<not> setupTabActive ?s" "\<not> settingsTabActive ?s" "resolvedClusterId ?s = ?cid"
    using node_tab_not_special assms(2)
    by (simp_all add: activeKind_def setupTabActive_def settingsTabActive_def resolvedClusterId_def nullish_def str_or_def)
  then have schema: "activeTableSchema M ?s = Some t" using assms(4) by (simp add: activeTableSchema_def)
  have snap: "activeSnapshot ?s = Some snapshot" using k opened by (simp add: activeSnapshot_def)
  have "SETUP_TAB_ID \<notin> set (map tab_id (openTabs ?s))"
    using tabs.set_keys_add[of ?t ?ts] tabs.set_keys_remove[of SETUP_TAB_ID "openTabs s"] node_tab_not_special(1)[of ?cid]
    by (auto simp: opened)
  moreover have "WorkspaceContent M ?s = ResourceContent (inconsistency_of snapshot) (NodePane (Some snapshot) (Some t))"
    using k assms(5) by (simp add: WorkspaceContent_def table_pane_of_def Let_def schema snap useLiveSnapshotTable_def
        activeKindUsesSnapshot_def activeClusterInconsistency_def)
  ultimately show ?thesis using inv k by (simp add: Let_def)
qed

section \<open>Deleting a cluster\<close>

text \<open>Deleting the cluster of the active tab leaves no tab active: if the tab on display belongs to the
  deleted cluster, a tab of another cluster is open and the setup tab is not, then afterwards the
  active id is the id of no open tab, whether React ran the updater at once or later, so that the
  invariant of the tabs is lost although a tab is shown.\<close>

theorem delete_active_cluster_dangles:
  assumes "tab_inv s" and "t \<in> set (openTabs s)" and "tab_id t = activeTabId s" and "tab_cluster t = cid" and "cid \<noteq> []"
    and "u \<in> set (openTabs s)" and "tab_cluster u \<noteq> cid"
    and "SETUP_TAB_ID \<notin> set (map tab_id (openTabs s))"
  shows "let s' = handleDeleteCluster_end eager (activeTabId s) (Some cid) s in
    openTabs s' = filter (\<lambda>tab. tab_cluster tab \<noteq> cid) (openTabs s) \<and>
    activeTabId s' \<notin> set (map tab_id (openTabs s')) \<and> activeTab s' \<noteq> None"
proof -
  let ?s = "handleDeleteCluster_end eager (activeTabId s) (Some cid) s"
  let ?f = "filter (\<lambda>tab. tab_cluster tab \<noteq> cid) (openTabs s)"
  have d: "distinct (map tab_id (openTabs s))" using assms(1) by (simp add: tab_inv_def tabs_ok_def)
  have ne: "?f \<noteq> []" using assms(6,7) by (auto simp: filter_empty_conv)
  then have tabs': "openTabs ?s = ?f"
    using assms(5) by (simp add: handleDeleteCluster_end_def delete_tabs_def clearClusterData_def Let_def)
  have "activeTabId ?s = (if eager then SETUP_TAB_ID else activeTabId s)"
    using assms(2-5) by (auto simp: handleDeleteCluster_end_def clearClusterData_def Let_def)
  moreover have "activeTabId s \<notin> set (map tab_id ?f)"
  proof
    assume "activeTabId s \<in> set (map tab_id ?f)"
    then obtain v where v: "v \<in> set (openTabs s)" "tab_id v = activeTabId s" "tab_cluster v \<noteq> cid" by auto
    with assms(2,3) d have "v = t" by (metis distinct_map inj_on_def)
    with v(3) assms(4) show False by simp
  qed
  moreover have "SETUP_TAB_ID \<notin> set (map tab_id ?f)" using assms(8) by auto
  ultimately have "activeTabId ?s \<notin> set (map tab_id (openTabs ?s))" by (simp only: tabs') (simp split: if_splits)
  moreover have "activeTab ?s \<noteq> None" using ne by (simp add: activeTab_def tabs' nth_opt_def split: option.split)
  ultimately show ?thesis using tabs' by (simp add: Let_def)
qed

section \<open>Keyboard\<close>

lemma mod_bounds:
  assumes "2 \<le> (n :: nat)"
  shows "0 \<le> x mod int n" "x mod int n < int n" "nat (x mod int n) < n" "int (nat (x mod int n)) = x mod int n"
proof -
  have "0 < int n" using assms by simp
  then show "0 \<le> x mod int n" "x mod int n < int n" by simp_all
  then show "nat (x mod int n) < n" "int (nat (x mod int n)) = x mod int n" by linarith+
qed

lemma activateTabAtIndex_active:
  assumes "distinct (map tab_id (openTabs s))" and "0 \<le> i" and "i < int (length (openTabs s))"
  shows "activeTabId (activateTabAtIndex i s) = tab_id (openTabs s ! nat i)" and "openTabs (activateTabAtIndex i s) = openTabs s"
proof -
  have "max 0 (min i (int (length (openTabs s)) - 1)) = i" "length (openTabs s) \<noteq> 0" using assms(2,3) by auto
  then show "activeTabId (activateTabAtIndex i s) = tab_id (openTabs s ! nat i)"
    "openTabs (activateTabAtIndex i s) = openTabs s"
    using assms(2,3) by (simp_all add: activateTabAtIndex_def nth_opt_def activateTab_def nat_less_iff)
qed

lemma switchTab_index:
  assumes "distinct (map tab_id (openTabs s))" and "2 \<le> length (openTabs s)" and "i < length (openTabs s)"
    and "activeTabId s = tab_id (openTabs s ! i)"
  shows "activeTabId (switchTab d s) = tab_id (openTabs s ! nat ((int i + d) mod int (length (openTabs s))))"
    and "openTabs (switchTab d s) = openTabs s"
proof -
  let ?n = "int (length (openTabs s))"
  have "find_index (\<lambda>tab. tab_id tab = activeTabId s) (openTabs s) = Some i"
  proof (cases "find_index (\<lambda>tab. tab_id tab = activeTabId s) (openTabs s)")
    case None
    with assms(3,4) show ?thesis by (auto simp: find_index_None)
  next
    case (Some j)
    from find_index_Some[OF Some] assms(1,3,4) have "j = i" by (metis distinct_conv_nth length_map nth_map)
    with Some show ?thesis by simp
  qed
  then have sw: "switchTab d s = activateTabAtIndex ((int i + d + ?n) mod ?n) s"
    using assms(2) by (simp add: switchTab_def Let_def)
  have n: "0 \<le> (int i + d) mod ?n" "(int i + d) mod ?n < ?n" using mod_bounds[OF assms(2)] by simp_all
  show "activeTabId (switchTab d s) = tab_id (openTabs s ! nat ((int i + d) mod ?n))" "openTabs (switchTab d s) = openTabs s"
    unfolding sw using activateTabAtIndex_active[OF assms(1)] n by simp_all
qed

lemma switchTab_iterate:
  assumes "distinct (map tab_id (openTabs s))" and "2 \<le> length (openTabs s)" and "i < length (openTabs s)"
    and "activeTabId s = tab_id (openTabs s ! i)"
  shows "activeTabId ((switchTab d ^^ k) s) = tab_id (openTabs s ! nat ((int i + int k * d) mod int (length (openTabs s)))) \<and>
    openTabs ((switchTab d ^^ k) s) = openTabs s"
proof (induction k)
  case 0
  then show ?case using assms(3,4) by simp
next
  case (Suc k)
  let ?n = "int (length (openTabs s))"
  let ?j = "nat ((int i + int k * d) mod ?n)"
  have j: "?j < length (openTabs s)" "int ?j = (int i + int k * d) mod ?n" using mod_bounds[OF assms(2)] by simp_all
  have "activeTabId (switchTab d ((switchTab d ^^ k) s)) = tab_id (openTabs s ! nat ((int ?j + d) mod ?n))"
    using switchTab_index(1)[of "(switchTab d ^^ k) s" ?j d] Suc.IH assms(1,2) j(1) by simp
  moreover have "(int ?j + d) mod ?n = (int i + int (Suc k) * d) mod ?n"
    unfolding j(2) mod_add_left_eq by (simp add: algebra_simps)
  moreover have "openTabs (switchTab d ((switchTab d ^^ k) s)) = openTabs s"
    using switchTab_index(2)[of "(switchTab d ^^ k) s" ?j d] Suc.IH assms(1,2) j(1) by simp
  ultimately show ?case by simp
qed

text \<open>Switching tabs with the keyboard goes around: from a consistent state, going one tab forward and
  one back (or back and forward) ends on the same tab, as many steps in one direction as there are tabs
  do too, and no step opens, closes or reorders a tab.\<close>

theorem switchTab_cycles:
  assumes "tab_inv s" and "d = 1 \<or> d = -1"
  shows "activeTabId (switchTab (- d) (switchTab d s)) = activeTabId s \<and>
    activeTabId ((switchTab d ^^ length (openTabs s)) s) = activeTabId s \<and> openTabs ((switchTab d ^^ k) s) = openTabs s"
proof (cases "length (openTabs s) \<le> 1")
  case True
  then have one: "switchTab e s = s" for e by (simp add: switchTab_def)
  then have "(switchTab d ^^ k) s = s" for k by (induction k) auto
  with one show ?thesis by simp
next
  case False
  let ?n = "int (length (openTabs s))"
  have d: "distinct (map tab_id (openTabs s))" using assms(1) by (simp add: tab_inv_def tabs_ok_def)
  obtain i where i: "i < length (openTabs s)" "activeTabId s = tab_id (openTabs s ! i)"
    using assms(1) by (auto simp: tab_inv_def in_set_conv_nth)
  have len: "2 \<le> length (openTabs s)" using False by simp
  note it = switchTab_iterate[OF d len i]
  let ?j = "nat ((int i + d) mod ?n)"
  have j: "?j < length (openTabs s)" "int ?j = (int i + d) mod ?n" using mod_bounds[OF len] by simp_all
  have "activeTabId (switchTab (- d) (switchTab d s)) = tab_id (openTabs s ! nat ((int ?j + - d) mod ?n))"
    using switchTab_index(1)[of "switchTab d s" ?j "- d"] it[where d = d and k = 1] d len j(1) by simp
  also have "(int ?j + - d) mod ?n = int i mod ?n" unfolding j(2) by (simp add: mod_diff_left_eq)
  finally have "activeTabId (switchTab (- d) (switchTab d s)) = activeTabId s" using i by simp
  moreover have "activeTabId ((switchTab d ^^ length (openTabs s)) s) = activeTabId s"
    using it[where d = d and k = "length (openTabs s)"] i by simp
  ultimately show ?thesis using it[where d = d and k = k] by blast
qed


section \<open>The generated manifest\<close>

lemma table_of_kind:
  "t \<in> set (manifest_tables controlPlaneManifest) \<Longrightarrow> obj_get (tablesByKind controlPlaneManifest) (table_kind t) = Some t"
  unfolding tablesByKind_def
  using obj_get_build_distinct[OF manifest_kinds_distinct(1), of t id] by simp

lemma table_kinds:
  "obj_get (tablesByKind controlPlaneManifest) ''Node'' = Some node_table"
  "obj_get (tablesByKind controlPlaneManifest) ''GroupConfig'' = Some groupConfig_table"
  "obj_get (tablesByKind controlPlaneManifest) ''Event'' = Some event_table"
  "obj_get (tablesByKind controlPlaneManifest) ''User'' = Some user_table"
  "obj_get (tablesByKind controlPlaneManifest) ''Role'' = Some role_table"
  "obj_get (tablesByKind controlPlaneManifest) ''RoleBinding'' = Some roleBinding_table"
  using table_of_kind[of node_table] table_of_kind[of groupConfig_table] table_of_kind[of event_table]
    table_of_kind[of user_table] table_of_kind[of role_table] table_of_kind[of roleBinding_table]
  by (simp_all add: controlPlaneManifest_def)
    (simp_all add: node_table_def groupConfig_table_def event_table_def user_table_def role_table_def roleBinding_table_def)

lemma event_table_newest: "newest_first event_table"
  by (simp add: newest_first_def event_table_def)

lemma snapshot_sources:
  "starts_with (table_source node_table) ''snapshot.''" "starts_with (table_source groupConfig_table) ''snapshot.''"
  by (simp_all add: node_table_def groupConfig_table_def starts_with_def)

text \<open>Every item of the navigation leads to a working view: with the generated manifest, a tab of the
  kind of a navigation item shows the editor of access rights, the event table, the table of its
  snapshot or the state of fetching it, never the notice that there is no table for it.\<close>

theorem navigation_item_has_view:
  fixes s :: app_state
  assumes "leaf \<in> set (nav_children (manifest_navigation controlPlaneManifest))"
    and "activeTab s = Some t" and "tab_kind t = leaf_kind leaf" and "tab_id t \<noteq> SETUP_TAB_ID" and "tab_id t \<noteq> SETTINGS_TAB_ID"
  shows "\<exists>w p. WorkspaceContent controlPlaneManifest s = ResourceContent w p \<and> p \<notin> range UnavailablePane"
proof -
  have kind: "activeKind s = leaf_kind leaf" and plain: "\<not> setupTabActive s" "\<not> settingsTabActive s"
    using assms(2-5) by (simp_all add: activeKind_def setupTabActive_def settingsTabActive_def nullish_def)
  have kinds: "leaf_kind leaf \<in> {''Node'', ''GroupConfig'', ''Event'', ''User'', ''Role'', ''RoleBinding''}"
    using assms(1) by (auto simp: controlPlaneManifest_def controlPlane_navigation_def)
  have schema: "activeTableSchema controlPlaneManifest s = obj_get (tablesByKind controlPlaneManifest) (leaf_kind leaf)"
    using kind plain by (simp add: activeTableSchema_def)
  have "table_pane_of controlPlaneManifest s \<notin> range UnavailablePane"
    using kinds schema kind snapshot_sources
    by (elim insertE emptyE) (simp_all add: table_pane_of_def table_kinds Let_def activeKindUsesSnapshot_def image_iff)
  then show ?thesis using plain by (auto simp: WorkspaceContent_def)
qed

section \<open>Concrete runs of the shell\<close>

definition demo_events :: app_state where
  "demo_events = (App_init demo_data None)\<lparr>openTabs := [\<lparr>tab_id = ''a:Event'', tab_kind = ''Event'', tab_cluster = ''a''\<rparr>,
     \<lparr>tab_id = ''b:Node'', tab_kind = ''Node'', tab_cluster = ''b''\<rparr>], activeTabId := ''a:Event''\<rparr>"

lemmas demo_shell_defs = demo_events_def App_init_def app_state.defs demo_data_defs horizontal_init_def

lemma demo_events_view:
  "tab_inv demo_events" "activeKind demo_events = ''Event''" "resolvedClusterId demo_events = ''a''"
  "\<not> setupTabActive demo_events" "\<not> settingsTabActive demo_events"
  "find_connection ''a'' demo_events = Some (demo_connection ''a'')"
  "clusterSnapshots demo_events = []" "clusterEvents demo_events = []"
  by (simp_all add: demo_shell_defs tab_inv_def tabs_ok_def activeKind_def resolvedClusterId_def activeTab_def nullish_def
      str_or_def find_connection_def setupTabActive_def settingsTabActive_def SETUP_TAB_ID_def SETTINGS_TAB_ID_def)

theorem failed_snapshot_refetched_witness:
  "snd (snapshot_effect controlPlaneManifest (fst (fetchSnapshot_end ''a'' (Inl (OtherReason ''refused'')) demo_events))) =
     [(SnapshotRequest ''a'', FetchSnapshotFromYaml ''yaml'')]"
  using failed_snapshot_refetched[of controlPlaneManifest demo_events "''a''" "demo_connection ''a''" "OtherReason ''refused''"]
  by (simp add: demo_events_view activeKindNeedsSnapshot_def) (simp add: demo_connection_def)

theorem empty_log_refetched_witness:
  "snd (events_effect controlPlaneManifest (fetchEventPage_end ''a'' Initial
     (Inr \<lparr>page_items = [], page_has_more = False, next_before_sequence = 0\<rparr>)
     (demo_events\<lparr>clusterEvents := [(''a'', \<lparr>cache_has_more = True, cache_items = [], cache_loading = True, oldest_sequence = None\<rparr>)]\<rparr>))) =
     [(EventRequest ''a'' Initial, FetchEventPageFromYaml ''yaml'' None (eventPageSize controlPlaneManifest))]"
proof -
  let ?s = "demo_events\<lparr>clusterEvents := [(''a'', \<lparr>cache_has_more = True, cache_items = [], cache_loading = True, oldest_sequence = None\<rparr>)]\<rparr>"
  have "view_fields ?s = view_fields demo_events" by (simp add: view_fields_def)
  from view_fields_cong[OF this] have "activeKind ?s = ''Event''" "resolvedClusterId ?s = ''a''"
    "find_connection ''a'' ?s = Some (demo_connection ''a'')" by (simp_all add: demo_events_view)
  then show ?thesis
    using empty_log_refetched[of ?s "''a''" "demo_connection ''a''" True "Inr \<lparr>page_items = [], page_has_more = False, next_before_sequence = 0\<rparr>"
      undefined controlPlaneManifest] by (simp add: obj_get_def demo_connection_def)
qed

theorem connected_cluster_shown_witness:
  "\<exists>w. WorkspaceContent controlPlaneManifest
     (handleConnectGui_end (Some (demo_connection ''c'', \<lparr>group_id = ''g'', state_version = 1, leader_epoch = 1,
        snapshot_nodes = [], snapshot_group_config = [], snapshot_users = []\<rparr>)) demo_events) =
     ResourceContent w (NodePane (Some \<lparr>group_id = ''g'', state_version = 1, leader_epoch = 1,
        snapshot_nodes = [], snapshot_group_config = [], snapshot_users = []\<rparr>) (Some node_table))"
proof -
  have "conn_id (demo_connection ''c'') = ''c''" by (simp add: demo_connection_def)
  moreover have "\<forall>u \<in> set (openTabs demo_events). tab_id u = ''c:Node'' \<longrightarrow> tab_kind u = ''Node'' \<and> tab_cluster u = ''c''"
    by (simp add: demo_shell_defs)
  ultimately show ?thesis
    using connected_cluster_shown[OF demo_events_view(1), of "demo_connection ''c''" controlPlaneManifest node_table]
    by (simp add: Let_def table_kinds snapshot_sources)
qed

theorem delete_active_cluster_dangles_witness:
  "activeTabId (handleDeleteCluster_end True ''a:Event'' (Some ''a'') demo_events) \<notin>
     set (map tab_id (openTabs (handleDeleteCluster_end True ''a:Event'' (Some ''a'') demo_events)))"
proof -
  have a: "activeTabId demo_events = ''a:Event''" and no_setup: "SETUP_TAB_ID \<notin> set (map tab_id (openTabs demo_events))"
    and t: "\<lparr>tab_id = ''a:Event'', tab_kind = ''Event'', tab_cluster = ''a''\<rparr> \<in> set (openTabs demo_events)"
    and u: "\<lparr>tab_id = ''b:Node'', tab_kind = ''Node'', tab_cluster = ''b''\<rparr> \<in> set (openTabs demo_events)"
    by (simp_all add: demo_shell_defs SETUP_TAB_ID_def)
  have "let s' = handleDeleteCluster_end True (activeTabId demo_events) (Some ''a'') demo_events in
    openTabs s' = filter (\<lambda>tab. tab_cluster tab \<noteq> ''a'') (openTabs demo_events) \<and>
    activeTabId s' \<notin> set (map tab_id (openTabs s')) \<and> activeTab s' \<noteq> None"
    by (rule delete_active_cluster_dangles[OF demo_events_view(1) t _ _ _ u _ no_setup]) (simp_all add: a)
  then show ?thesis unfolding a Let_def by blast
qed

theorem switchTab_cycles_witness:
  "activeTabId (switchTab (- 1) (switchTab 1 demo_events)) = ''a:Event''"
proof -
  have "activeTabId demo_events = ''a:Event''" by (simp add: demo_shell_defs)
  with switchTab_cycles[OF demo_events_view(1), of 1 0] show ?thesis by simp
qed

theorem navigation_item_has_view_witness:
  "\<exists>w p. WorkspaceContent controlPlaneManifest demo_events = ResourceContent w p \<and> p \<notin> range UnavailablePane"
proof (rule navigation_item_has_view)
  show "\<lparr>leaf_label = ''Events'', leaf_kind = ''Event''\<rparr> \<in> set (nav_children (manifest_navigation controlPlaneManifest))"
    by (simp add: controlPlaneManifest_def controlPlane_navigation_def)
  show "activeTab demo_events = Some \<lparr>tab_id = ''a:Event'', tab_kind = ''Event'', tab_cluster = ''a''\<rparr>"
    by (simp add: demo_shell_defs activeTab_def)
qed (simp_all add: SETUP_TAB_ID_def SETTINGS_TAB_ID_def)

theorem apply_flag_is_shared_witness:
  "\<exists>s2. applyingSubWindowTabId s2 = ''rbac:a:Role:editor'' \<and>
     applyingSubWindowTabId (onApply_end ''rbac:a:Role:viewer'' (Inr ()) s2) = []"
proof -
  let ?p = "demo_payload" and ?q = "demo_payload\<lparr>pl_resourceName := Some ''editor''\<rparr>"
  let ?s = "demo_events\<lparr>horizontalTabs := [rbac_tab 0 ?p, rbac_tab 0 ?q], activeHorizontalTabId := ''rbac:a:Role:viewer''\<rparr>"
  define s1 where "s1 = fst (onApply_begin ?s)"
  define s2 where "s2 = fst (onApply_begin (s1\<lparr>activeHorizontalTabId := ''rbac:a:Role:editor''\<rparr>))"
  have first: "onApply_begin ?s = (s1, Some (''rbac:a:Role:viewer'', ApplyRbacYamlResource ''y'' ''kind: Role'' False))"
    by (simp add: s1_def onApply_begin_def activeSubWindowTab_def rbac_tab_def demo_payload_def nullish_def)
  have second: "onApply_begin (s1\<lparr>activeHorizontalTabId := ''rbac:a:Role:editor''\<rparr>) =
      (s2, Some (''rbac:a:Role:editor'', ApplyRbacYamlResource ''y'' ''kind: Role'' False))"
    by (simp add: s2_def s1_def onApply_begin_def activeSubWindowTab_def update_rbac_def rbac_tab_def demo_payload_def nullish_def)
  have "applyingSubWindowTabId s1 = ''rbac:a:Role:viewer'' \<and> applyingSubWindowTabId s2 = ''rbac:a:Role:editor'' \<and>
      applyingSubWindowTabId (onApply_end ''rbac:a:Role:viewer'' (Inr ()) s2) = []"
    by (rule apply_flag_is_shared[OF first _ second]) simp_all
  then show ?thesis by blast
qed

definition demo_drag :: DragEndEvent where
  "demo_drag = \<lparr>activatorEvent = PointerEvent (Some 10) (Some 10), delta_x = 0, delta_y = 500, initial_box = None,
     translated_box = None, active_id = ''console'', over_id = None\<rparr>"

theorem detach_new_tab_ignored_witness:
  "horizontal_drag_end (\<lambda>xs i j. xs) [] demo_drag (Some \<lparr>left = 0, top = 0, right = 100, bottom = 30\<rparr>) (openConsoleTab demo_events) =
     (openConsoleTab demo_events, None)"
  by (rule detach_new_tab_ignored[where activeTabSource = "''console''"])
    (simp_all add: drag_outcome_of_def demo_drag_def shouldDetachTabByDrag_def outside_def TAB_DETACH_TRIGGER_PX_def)

end
