(* ===== verification/AgentConsole.thy ===== *)
theory AgentConsole
  imports Prelude
begin

text \<open>
  The console of the sub-window, \<open>modules/app/components/AgentConsole.tsx\<close>: a command line that
  acts on the document. The document is the argument \<open>page\<close>: what \<open>querySelector\<close> finds,
  or its rejection of a malformed selector, and the counts and buttons the commands read. What a
  command does to the document is a list of effects.
\<close>

record 'e document =
  query :: "string \<Rightarrow> js_error + 'e option"
  count_all :: "string \<Rightarrow> nat"
  resource_links :: "(string option \<times> 'e) list"

datatype 'e dom_effect = Click 'e | Focus 'e | ClearSelectionMarkers | MarkSelected 'e

record ConsoleLine =
  line_id :: nat
  line_text :: string

record CommandResult =
  result_message :: string
  result_success :: bool

section \<open>Commands\<close>

text \<open>\<open>command.slice(n)\<close> after a \<open>startsWith\<close>.\<close>

definition after :: "string \<Rightarrow> string \<Rightarrow> string" where
  "after prefix s = drop (length prefix) s"

definition findOpenTarget :: "'e document \<Rightarrow> string \<Rightarrow> js_error + 'e option" where
  "findOpenTarget page command =
     (let normalized = to_lower (trim command) in
      if normalized = ''settings'' \<or> normalized = ''window settings'' then query page ''button[title='Open settings']''
      else if normalized = ''setup'' \<or> normalized = ''window setup'' then query page ''button[title='Open setup guide']''
      else
        let resourceLabel = (if starts_with normalized ''resource '' then trim (after ''resource '' normalized) else normalized) in
        if resourceLabel = [] then Inr None
        else Inr (map_option snd (List.find (\<lambda>item. map_option (\<lambda>t. to_lower (trim t)) (fst item) = Some resourceLabel)
          (resource_links page))))"

definition findWindowTarget :: "'e document \<Rightarrow> string \<Rightarrow> js_error + 'e option" where
  "findWindowTarget page windowName =
     (let normalized = to_lower (trim windowName) in
      if normalized = ''sidebar'' then query page ''.navigator''
      else if normalized = ''workspace'' then query page ''.workspace''
      else if normalized = ''table'' then query page ''.schema-table''
      else Inr None)"

type_synonym 'e command_outcome = "js_error + (CommandResult \<times> 'e dom_effect list)"

definition failed_command :: "string \<Rightarrow> 'e command_outcome" where
  "failed_command m = Inr (\<lparr>result_message = m, result_success = False\<rparr>, [])"

definition done_command :: "string \<Rightarrow> 'e dom_effect list \<Rightarrow> 'e command_outcome" where
  "done_command m es = Inr (\<lparr>result_message = m, result_success = True\<rparr>, es)"

text \<open>A lookup that throws ends the command; one that finds nothing is reported.\<close>

definition with_target :: "js_error + 'e option \<Rightarrow> string \<Rightarrow> ('e \<Rightarrow> 'e command_outcome) \<Rightarrow> 'e command_outcome" where
  "with_target found missing f =
     (case found of Inl e \<Rightarrow> Inl e | Inr None \<Rightarrow> failed_command missing | Inr (Some t) \<Rightarrow> f t)"

definition parseCommand :: "'e document \<Rightarrow> string \<Rightarrow> 'e command_outcome" where
  "parseCommand page raw =
     (let command = trim raw in
      if command = [] then failed_command ''Empty command''
      else if command = ''help'' then done_command (''Commands: open <resource|settings|setup>, focus window <name>, ''
        @ ''focus <selector>, select <selector>, table info'') []
      else if command = ''table info'' then
        done_command (''Table rows: '' @ show_nat (count_all page ''.schema-table__row'') @ '', selected: '' @
          show_nat (count_all page ''.schema-table__row input[type='checkbox']:checked'')) []
      else if starts_with command ''open '' then
        with_target (findOpenTarget page (after ''open '' command)) ''Open target not found''
          (\<lambda>t. done_command ''Open command executed'' [Click t])
      else if starts_with command ''focus window '' then
        let windowName = trim (after ''focus window '' command) in
        with_target (findWindowTarget page windowName) ''Window target not found''
          (\<lambda>t. done_command (''Focused window '' @ windowName) [Focus t])
      else if starts_with command ''focus '' then
        let selector = trim (after ''focus '' command) in
        with_target (query page selector) (''Selector not found: '' @ selector)
          (\<lambda>t. done_command (''Focused '' @ selector) [Focus t])
      else if starts_with command ''select '' then
        let selector = trim (after ''select '' command) in
        with_target (query page selector) (''Selector not found: '' @ selector)
          (\<lambda>t. done_command (''Selected '' @ selector) [ClearSelectionMarkers, MarkSelected t, Focus t])
      else failed_command ''Unknown command'')"

section \<open>History\<close>

record console_state =
  command_text :: string
  history :: "ConsoleLine list"

text \<open>\<open>slice(-18)\<close>\<close>

definition last_lines :: "nat \<Rightarrow> 'a list \<Rightarrow> 'a list" where
  "last_lines n xs = drop (length xs - n) xs"

definition addHistory :: "string \<Rightarrow> console_state \<Rightarrow> console_state" where
  "addHistory line s =
     s\<lparr>history := last_lines 18 (history s @ [\<lparr>line_id = length (history s) + 1, line_text = line\<rparr>])\<rparr>"

text \<open>The Enter key. An exception in the command leaves the text in place and adds no result.\<close>

definition run_command :: "'e document \<Rightarrow> console_state \<Rightarrow> console_state \<times> 'e dom_effect list" where
  "run_command page s =
     (let s1 = addHistory (''> '' @ command_text s) s in
      case parseCommand page (command_text s) of
        Inl e \<Rightarrow> (s1, [])
      | Inr (result, effects) \<Rightarrow>
          ((addHistory ((if result_success result then ''ok'' else ''err'') @ '': '' @ result_message result) s1)
             \<lparr>command_text := []\<rparr>, effects))"

section \<open>Correctness\<close>

definition add_lines :: "string list \<Rightarrow> console_state \<Rightarrow> console_state" where
  "add_lines ls s = fold addHistory ls s"

lemma last_lines_append_one:
  "last_lines n (last_lines n xs @ [x]) = last_lines n (xs @ [x])"
proof (cases "length xs \<le> n")
  case True
  then show ?thesis by (simp add: last_lines_def)
next
  case False
  then have n: "Suc (length xs) - n = Suc (length xs - n)" and l: "length (drop (length xs - n) xs @ [x]) - n = 1"
    by (simp_all add: Suc_diff_le)
  have "drop (length xs - n) xs @ [x] = drop (length xs - n) (xs @ [x])" by simp
  then have "drop 1 (drop (length xs - n) xs @ [x]) = drop (1 + (length xs - n)) (xs @ [x])"
    by (simp only: drop_drop)
  then show ?thesis unfolding last_lines_def l by (simp only: length_append_singleton n plus_1_eq_Suc)
qed

definition numbered_lines :: "string list \<Rightarrow> ConsoleLine list" where
  "numbered_lines ls = map (\<lambda>(i, l). \<lparr>line_id = min (Suc i) 19, line_text = l\<rparr>) (List.enumerate 0 ls)"

lemma numbered_lines_snoc:
  "numbered_lines (ls @ [l]) = numbered_lines ls @ [\<lparr>line_id = min (Suc (length ls)) 19, line_text = l\<rparr>]"
  by (simp add: numbered_lines_def enumerate_append_eq)

lemma numbered_lines_length [simp]: "length (numbered_lines ls) = length ls"
  by (simp add: numbered_lines_def)

lemma history_closed_form:
  "history s = [] \<Longrightarrow> history (add_lines ls s) = last_lines 18 (numbered_lines ls)"
proof (induction ls rule: rev_induct)
  case Nil
  then show ?case by (simp add: add_lines_def numbered_lines_def last_lines_def)
next
  case (snoc l ls)
  then have h: "history (add_lines ls s) = last_lines 18 (numbered_lines ls)" by simp
  have "length (last_lines 18 (numbered_lines ls)) + 1 = min (Suc (length ls)) 19"
    by (simp add: last_lines_def)
  then have "history (add_lines (ls @ [l]) s) = last_lines 18 (last_lines 18 (numbered_lines ls) @
      [\<lparr>line_id = min (Suc (length ls)) 19, line_text = l\<rparr>])"
    using h by (simp add: add_lines_def addHistory_def)
  then show ?case by (simp add: last_lines_append_one numbered_lines_snoc)
qed

text \<open>The console shows the last eighteen lines, in order, whatever is entered; but a line is numbered
  by the length of the list before it was cut, so that from the twentieth line on two lines on display
  have the same number, which React uses as their key.\<close>

theorem console_history:
  "history s = [] \<longrightarrow>
    map line_text (history (add_lines ls s)) = last_lines 18 ls \<and>
    length (history (add_lines ls s)) \<le> 18 \<and>
    (distinct (map line_id (history (add_lines ls s))) \<longleftrightarrow> length ls \<le> 19)"
proof
  assume "history s = []"
  then have h: "history (add_lines ls s) = last_lines 18 (numbered_lines ls)" by (rule history_closed_form)
  have texts: "map line_text (numbered_lines ls) = ls"
    unfolding numbered_lines_def by (intro nth_equalityI) (auto simp: nth_enumerate_eq)
  have ids: "map line_id (numbered_lines ls) = map (\<lambda>i. min (Suc i) 19) [0..<length ls]"
    unfolding numbered_lines_def by (intro nth_equalityI) (auto simp: nth_enumerate_eq)
  have "map line_text (history (add_lines ls s)) = last_lines 18 ls"
    using texts by (simp add: h last_lines_def drop_map[symmetric])
  moreover have "length (history (add_lines ls s)) \<le> 18" by (simp add: h last_lines_def)
  moreover have "map line_id (history (add_lines ls s)) = drop (length ls - 18) (map line_id (numbered_lines ls))"
    by (simp add: h last_lines_def drop_map)
  then have "map line_id (history (add_lines ls s)) = map (\<lambda>i. min (Suc i) 19) [length ls - 18..<length ls]"
    unfolding ids by (simp only: drop_map drop_upt) simp
  then have "distinct (map line_id (history (add_lines ls s))) \<longleftrightarrow> inj_on (\<lambda>i. min (Suc i) 19) {length ls - 18..<length ls}"
    by (simp add: distinct_map)
  moreover have "inj_on (\<lambda>i. min (Suc i) 19) {length ls - 18..<length ls} \<longleftrightarrow> length ls \<le> 19"
  proof
    assume inj: "inj_on (\<lambda>i. min (Suc i) (19 :: nat)) {length ls - 18..<length ls}"
    show "length ls \<le> 19"
    proof (rule ccontr)
      assume "\<not> length ls \<le> 19"
      then have "min (Suc (length ls - 1)) (19 :: nat) = min (Suc (length ls - 2)) 19"
        "length ls - 1 \<in> {length ls - 18..<length ls}" "length ls - 2 \<in> {length ls - 18..<length ls}"
        "length ls - 1 \<noteq> length ls - 2" by auto
      with inj show False by (meson inj_onD)
    qed
  next
    assume "length ls \<le> 19"
    then show "inj_on (\<lambda>i. min (Suc i) (19 :: nat)) {length ls - 18..<length ls}"
      by (auto intro!: inj_onI)
  qed
  ultimately show "map line_text (history (add_lines ls s)) = last_lines 18 ls \<and>
    length (history (add_lines ls s)) \<le> 18 \<and>
    (distinct (map line_id (history (add_lines ls s))) \<longleftrightarrow> length ls \<le> 19)" by blast
qed

theorem console_history_witness:
  "\<not> distinct (map line_id (history (add_lines (replicate 20 ''> help'') \<lparr>command_text = [], history = []\<rparr>)))"
  using console_history[of "\<lparr>command_text = [], history = []\<rparr>" "replicate 20 ''> help''"] by simp

definition on_page :: "'e document \<Rightarrow> 'e \<Rightarrow> bool" where
  "on_page page t = (t \<in> snd ` set (resource_links page) \<or> (\<exists>sel. query page sel = Inr (Some t)))"

definition effects_ok :: "'e document \<Rightarrow> 'e dom_effect list \<Rightarrow> bool" where
  "effects_ok page es = (es = [] \<or>
     (\<exists>t. on_page page t \<and> es \<in> {[Click t], [Focus t], [ClearSelectionMarkers, MarkSelected t, Focus t]}))"

definition found_ok :: "'e document \<Rightarrow> js_error + 'e option \<Rightarrow> bool" where
  "found_ok page found = (case found of Inl e \<Rightarrow> \<exists>sel. query page sel = Inl e | Inr None \<Rightarrow> True | Inr (Some t) \<Rightarrow> on_page page t)"

definition outcome_ok :: "'e document \<Rightarrow> 'e command_outcome \<Rightarrow> bool" where
  "outcome_ok page out = (case out of Inl e \<Rightarrow> \<exists>sel. query page sel = Inl e
     | Inr (r, es) \<Rightarrow> (\<not> result_success r \<longrightarrow> es = []) \<and> effects_ok page es)"

named_theorems outcome_intros \<open>outcomes of commands\<close>

lemma outcome_failed [outcome_intros]: "outcome_ok page (failed_command m)"
  by (simp add: outcome_ok_def failed_command_def effects_ok_def)

lemma outcome_plain [outcome_intros]: "outcome_ok page (done_command m [])"
  by (simp add: outcome_ok_def done_command_def effects_ok_def)

lemma effects_none: "effects_ok page []"
  by (simp add: effects_ok_def)

lemma outcome_with_target:
  assumes "found_ok page found" and "\<And>t. on_page page t \<Longrightarrow> effects_ok page (es t)"
  shows "outcome_ok page (with_target found missing (\<lambda>t. done_command m (es t)))"
  using assms
  by (auto simp: with_target_def found_ok_def outcome_ok_def done_command_def failed_command_def effects_none
      split: sum.split option.split)

lemma outcome_click [outcome_intros]:
  "found_ok page found \<Longrightarrow> outcome_ok page (with_target found missing (\<lambda>t. done_command m [Click t]))"
  by (rule outcome_with_target) (auto simp: effects_ok_def)

lemma outcome_focus [outcome_intros]:
  "found_ok page found \<Longrightarrow> outcome_ok page (with_target found missing (\<lambda>t. done_command m [Focus t]))"
  by (rule outcome_with_target) (auto simp: effects_ok_def)

lemma outcome_select [outcome_intros]:
  "found_ok page found \<Longrightarrow>
     outcome_ok page (with_target found missing (\<lambda>t. done_command m [ClearSelectionMarkers, MarkSelected t, Focus t]))"
  by (rule outcome_with_target) (auto simp: effects_ok_def)

lemma found_query [outcome_intros]: "found_ok page (query page sel)"
  by (auto simp: found_ok_def on_page_def split: sum.split option.split)

lemma found_none [outcome_intros]: "found_ok page (Inr None)"
  by (simp add: found_ok_def)

lemma found_link [outcome_intros]: "found_ok page (Inr (map_option snd (List.find P (resource_links page))))"
proof (cases "List.find P (resource_links page)")
  case (Some p)
  then have "p \<in> set (resource_links page)" by (auto dest: find_SomeD)
  then have "on_page page (snd p)" unfolding on_page_def by blast
  with Some show ?thesis by (simp add: found_ok_def)
qed (simp add: found_ok_def)

lemma found_open [outcome_intros]: "found_ok page (findOpenTarget page c)"
  by (simp add: findOpenTarget_def Let_def outcome_intros)

lemma found_window [outcome_intros]: "found_ok page (findWindowTarget page c)"
  by (simp add: findWindowTarget_def Let_def outcome_intros)

lemma parseCommand_ok: "outcome_ok page (parseCommand page raw)"
  by (simp add: parseCommand_def Let_def outcome_intros)

text \<open>The console does to the document what it says: a command touches at most one element, one that is
  on the page, with the effects of its verb; a command that fails touches nothing; and the only way a
  command is dropped without a result line is a lookup that throws, as for a malformed selector.\<close>

theorem command_effects:
  "case parseCommand page raw of
     Inl e \<Rightarrow> run_command page (s\<lparr>command_text := raw\<rparr>) = (addHistory (''> '' @ raw) (s\<lparr>command_text := raw\<rparr>), [])
       \<and> (\<exists>sel. query page sel = Inl e)
   | Inr (r, es) \<Rightarrow> snd (run_command page (s\<lparr>command_text := raw\<rparr>)) = es \<and> effects_ok page es \<and>
       command_text (fst (run_command page (s\<lparr>command_text := raw\<rparr>))) = [] \<and> (result_success r = False \<longrightarrow> es = [])"
  using parseCommand_ok[of page raw] by (auto simp: run_command_def Let_def outcome_ok_def split: sum.splits)

definition empty_page :: "nat document" where
  "empty_page = \<lparr>query = (\<lambda>sel. Inr None), count_all = (\<lambda>sel. 0), resource_links = [(Some ''Nodes'', 7)]\<rparr>"

theorem command_effects_witness:
  "effects_ok empty_page (snd (run_command empty_page (\<lparr>command_text = [], history = []\<rparr>\<lparr>command_text := ''help''\<rparr>)))"
proof -
  have "trim ''help'' = ''help''" by (simp add: trim_def trim_start_def trim_end_def is_js_space_def)
  then have "\<exists>r. parseCommand empty_page ''help'' = Inr (r, [])"
    by (simp add: parseCommand_def done_command_def)
  with command_effects[of empty_page "''help''" "\<lparr>command_text = [], history = []\<rparr>"] show ?thesis by auto
qed

end
