(* ===== verification/Application.thy ===== *)
theory Application
  imports AppSafety AgentConsole
begin

text \<open>
  The application as a whole: what \<open>App.tsx\<close> renders from the state, with
  \<open>HorizontalSubWindow.tsx\<close>, \<open>HorizontalSortableTab.tsx\<close> and \<open>RbacEditorTabContent.tsx\<close>, and
  one step relation of all handlers, effects, timers and settling requests of the window.
\<close>

section \<open>The sub-window\<close>

record SubTab_view =
  hst_id :: string
  hst_active :: bool
  hst_icon :: string
  hst_title :: string

definition HorizontalSortableTab :: "string \<Rightarrow> SubWindowTab \<Rightarrow> SubTab_view" where
  "HorizontalSortableTab activeId tab =
     \<lparr>hst_id = sub_id tab, hst_active = (activeId = sub_id tab), hst_icon = sub_icon tab, hst_title = sub_title tab\<rparr>"

record RbacEditorTab_view =
  apply_disabled :: bool
  editor_yaml :: string
  editor_status :: "string option"

definition RbacEditorTabContent :: "bool \<Rightarrow> string option \<Rightarrow> string \<Rightarrow> RbacEditorTab_view" where
  "RbacEditorTabContent isApplying status yaml =
     \<lparr>apply_disabled = isApplying, editor_yaml = yaml,
      editor_status = (case status of Some t \<Rightarrow> if t \<noteq> [] then Some t else None | None \<Rightarrow> None)\<rparr>"

datatype sub_body = NoBody | ConsoleBody | EditorBody RbacEditorTab_view

definition sub_window_body :: "app_state \<Rightarrow> sub_body" where
  "sub_window_body s =
     (case activeSubWindowTab s of
       None \<Rightarrow> NoBody
     | Some tab \<Rightarrow> (case sub_content tab of
         ConsoleContent \<Rightarrow> ConsoleBody
       | RbacContent payload status \<Rightarrow> EditorBody (RbacEditorTabContent (applying tab s) status (pl_yaml payload))))"

record SubWindow_view =
  sw_height :: int
  sw_tabs :: "SubTab_view list"
  sw_body :: sub_body

definition HorizontalSubWindow :: "int \<Rightarrow> app_state \<Rightarrow> SubWindow_view option" where
  "HorizontalSubWindow height s =
     (if length (horizontalTabs s) = 0 then None
      else Some \<lparr>sw_height = height, sw_tabs = map (HorizontalSortableTab (activeHorizontalTabId s)) (horizontalTabs s),
        sw_body = sub_window_body s\<rparr>)"

section \<open>The window\<close>

text \<open>What the components keep themselves: the clock, the group of the navigator, and the height.\<close>

record window_env =
  clockTime :: string
  rbacExpanded :: bool
  heightPx :: int

record App_view =
  app_sidebar :: "NavigatorSidebar_view option"
  app_sidebarWidth :: int
  app_header :: "bool \<times> SortableTab_view list"
  app_content :: workspace_content
  app_subWindow :: "SubWindow_view option"
  app_statusBar :: StatusBar_view

definition App :: "ControlPlaneManifest \<Rightarrow> window_env \<Rightarrow> app_state \<Rightarrow> App_view" where
  "App M env s =
     \<lparr>app_sidebar = (if showSidebar s then Some (NavigatorSidebar M (navSearch s) (rbacExpanded env) s) else None),
      app_sidebarWidth = sidebarWidth s,
      app_header = WorkspaceHeader M (showSidebar s) s,
      app_content = WorkspaceContent M s,
      app_subWindow = HorizontalSubWindow (heightPx env) s,
      app_statusBar = StatusBar (activeClusterUserId s) (clockTime env) (hasDataFetchError s) (isDataFetching s)\<rparr>"

text \<open>The handlers the window passes down that are not operations of a hook.\<close>

definition onShowSidebar :: "app_state \<Rightarrow> app_state" where
  "onShowSidebar s = s\<lparr>sidebarVisible := True\<rparr>"

definition onSidebarHide :: "app_state \<Rightarrow> app_state" where
  "onSidebarHide s = s\<lparr>sidebarVisible := False\<rparr>"

definition onLoadMoreEvents :: "ControlPlaneManifest \<Rightarrow> app_state \<Rightarrow> app_state \<times> started" where
  "onLoadMoreEvents M s = start_events (eventPageSize M) (resolvedClusterId s) Older s"

definition onRetrySnapshot :: "app_state \<Rightarrow> app_state \<times> started" where
  "onRetrySnapshot s = start_snapshot (resolvedClusterId s) s"

text \<open>The clock effect, for the text that \<open>Intl.DateTimeFormat\<close> makes of a time.\<close>

definition clock_tick :: "(int \<Rightarrow> string) \<Rightarrow> int \<Rightarrow> window_env \<Rightarrow> window_env" where
  "clock_tick formatClockTime now env = env\<lparr>clockTime := formatClockTime now\<rparr>"

text \<open>
  The effect that scrolls the active tab into view: the id of the element that is scrolled to and
  focused, if the strip is there and holds one; otherwise a line of the debug log.
\<close>

definition show_active_tab :: "bool \<Rightarrow> app_state \<Rightarrow> string option" where
  "show_active_tab hasHost s =
     (if \<not> hasHost then None
      else if list_ex (\<lambda>tab. tab_id tab = activeTabId s) (openTabs s) then Some (activeTabId s) else None)"

section \<open>The window as a state machine\<close>

type_synonym app_sys = "app_state \<times> request multiset"

definition started_requests :: "started \<Rightarrow> request multiset" where
  "started_requests r = mset (map fst r)"

text \<open>A handler that starts requests, with the requests already in flight.\<close>

definition launching :: "app_state \<times> started \<Rightarrow> request multiset \<Rightarrow> app_sys" where
  "launching r Q = (fst r, Q + started_requests (snd r))"

inductive app_step ::
  "ControlPlaneManifest \<Rightarrow> (OpenTab list \<Rightarrow> nat \<Rightarrow> nat \<Rightarrow> OpenTab list) \<Rightarrow>
   (SubWindowTab list \<Rightarrow> nat \<Rightarrow> nat \<Rightarrow> SubWindowTab list) \<Rightarrow> app_sys \<Rightarrow> app_sys \<Rightarrow> bool" for M move subMove where
\<comment> \<open>tabs\<close>
  activate: "t \<in> set (openTabs s) \<Longrightarrow> app_step M move subMove (s, Q) (activateTab (tab_id t) (tab_cluster t) s, Q)"
| resource: "app_step M move subMove (s, Q) (openResource kind cid s, Q)"
| setup_tab: "app_step M move subMove (s, Q) (openSetupTab s, Q)"
| settings_tab: "app_step M move subMove (s, Q) (openSettingsTab s, Q)"
| close: "app_step M move subMove (s, Q) (SortableTab_close t s, Q)"
| drag: "app_step M move subMove (s, Q) (fst (handleTabDragEnd move event bounds s), Q)"
| detached: "app_step M move subMove (s, Q) (detach_settled tabId opened s, Q)"
\<comment> \<open>keyboard\<close>
| key: "handleKeyDown M macLike ev s = (s', r, prevented) \<Longrightarrow> app_step M move subMove (s, Q) (launching (s', r) Q)"
| console_key: "app_step M move subMove (s, Q) (fst (console_keydown kc k target s), Q)"
\<comment> \<open>effects and timers\<close>
| setup_guard: "app_step M move subMove (s, Q) (setup_effect initial s, Q)"
| snapshot_missing: "app_step M move subMove (s, Q) (launching (snapshot_effect M s) Q)"
| events_missing: "app_step M move subMove (s, Q) (launching (events_effect M s) Q)"
| snapshot_tick: "app_step M move subMove (s, Q) (launching (snapshot_timer M s) Q)"
| events_tick: "app_step M move subMove (s, Q) (launching (events_timer M s) Q)"
| ref_synced: "app_step M move subMove (s, Q) (sync_events_ref s, Q)"
\<comment> \<open>buttons that fetch\<close>
| more_events: "app_step M move subMove (s, Q) (launching (onLoadMoreEvents M s) Q)"
| retry: "app_step M move subMove (s, Q) (launching (onRetrySnapshot s) Q)"
\<comment> \<open>requests that settle\<close>
| snapshot_settles: "fetchSnapshot_end cid r s = (s', call) \<Longrightarrow> app_step M move subMove (s, add_mset (SnapshotRequest cid) Q)
    (s', if call = None then Q else add_mset (SyncRequest cid) Q)"
| events_settle: "app_step M move subMove (s, add_mset (EventRequest cid mode) Q) (fetchEventPage_end cid mode p s, Q)"
| sync_settles: "app_step M move subMove (s, add_mset (SyncRequest cid) Q) (syncClusterControlPlaneUrls_end cid u s, Q)"
\<comment> \<open>connections\<close>
| loads: "app_step M move subMove (s, Q) (loadConnections lr s, Q)"
| connects: "app_step M move subMove (s, Q) (connectGui_begin s, Q)"
| connected: "connectGui_end cr s = (s', conn) \<Longrightarrow> app_step M move subMove (s, Q) (handleConnectGui_end conn s', Q)"
| editor_opens: "app_step M move subMove (s, Q) (openClusterConfigEditor cid s, Q)"
| editor_saved: "app_step M move subMove (s, Q) (saveClusterConfigEditor_end sr s, Q)"
| deleted: "deleteClusterFromEditor dr rr s = (s', gone) \<Longrightarrow>
    app_step M move subMove (s, Q) (handleDeleteCluster_end eager renderActive gone s', Q)"
| shared: "app_step M move subMove (s, Q) (shareClusterConfigFromEditor copied s, Q)"
| share_notice_ends: "app_step M move subMove (s, Q) (shareNotice_timeout s, Q)"
| tree_click: "app_step M move subMove (s, Q) (tree_header_click cid s, Q)"
\<comment> \<open>sub-window\<close>
| sub_activate: "t \<in> set (horizontalTabs s) \<Longrightarrow> app_step M move subMove (s, Q) (s\<lparr>activeHorizontalTabId := sub_id t\<rparr>, Q)"
| sub_open: "app_step M move subMove (s, Q) (openRbacEditorTab now payload s, Q)"
| sub_close: "app_step M move subMove (s, Q) (closeHorizontalTab tabId s, Q)"
| sub_drag: "app_step M move subMove (s, Q) (fst (horizontal_drag_end subMove renderTabs event bounds s), Q)"
| sub_detached: "app_step M move subMove (s, Q) (detachHorizontalTab_end tabId opened s, Q)"
| yaml_edited: "app_step M move subMove (s, Q) (onYamlChange v s, Q)"
| apply_starts: "app_step M move subMove (s, Q) (fst (onApply_begin s), Q)"
| apply_settles: "app_step M move subMove (s, Q) (onApply_end tabId ar s, Q)"
\<comment> \<open>sidebar and search\<close>
| sidebar_shown: "app_step M move subMove (s, Q) (onShowSidebar s, Q)"
| sidebar_hidden: "app_step M move subMove (s, Q) (onSidebarHide s, Q)"
| resize_starts: "app_step M move subMove (s, Q) (sidebar_resize_start x s, Q)"
| resize_moves: "app_step M move subMove (s, Q) (sidebar_resize_move x s, Q)"
| resize_ends: "app_step M move subMove (s, Q) (sidebar_resize_end s, Q)"
| searches: "app_step M move subMove (s, Q) (s\<lparr>navSearch := q, tableSearch := q'\<rparr>, Q)"

text \<open>A window starts with its tab, maybe a tab of the sub-window, and nothing in flight.\<close>

inductive app_reachable ::
  "ControlPlaneManifest \<Rightarrow> (OpenTab list \<Rightarrow> nat \<Rightarrow> nat \<Rightarrow> OpenTab list) \<Rightarrow>
   (SubWindowTab list \<Rightarrow> nat \<Rightarrow> nat \<Rightarrow> SubWindowTab list) \<Rightarrow> app_sys \<Rightarrow> bool" for M move subMove where
  initial: "(openTabs d, activeTabId d) = useTabManager_init w \<Longrightarrow> fetch_control d = (0, False, False, False, []) \<Longrightarrow>
    app_reachable M move subMove (App_init d h, {#})"
| step: "app_reachable M move subMove x \<Longrightarrow> app_step M move subMove x y \<Longrightarrow> app_reachable M move subMove y"

section \<open>The invariant\<close>

definition app_inv :: "app_sys \<Rightarrow> bool" where
  "app_inv x = (tabs_ok (fst x) \<and> sub_inv (fst x) \<and> fi.inv (fst x) \<and>
     pendingFetchCount (fst x) = int (size (filter_mset is_fetch (snd x))) \<and>
     220 \<le> sidebarWidth (fst x) \<and> sidebarWidth (fst x) \<le> 520)"

text \<open>The parts of the state the invariant reads; most steps keep all of them, or all but one.\<close>

definition shell_part :: "app_state \<Rightarrow> OpenTab list \<times> (SubWindowTab list \<times> string) \<times> (int \<times> bool) \<times> int" where
  "shell_part s = (openTabs s, (horizontalTabs s, activeHorizontalTabId s), (pendingFetchCount s, isDataFetching s), sidebarWidth s)"

lemma app_inv_frame: "shell_part s' = shell_part s \<Longrightarrow> app_inv (s', Q) = app_inv (s, Q)"
  by (simp add: app_inv_def shell_part_def tabs_ok_def sub_inv_def fi_inv_def)

named_theorems shell_simps \<open>steps that keep the parts of the state the invariant reads\<close>

lemma shell_connections [shell_simps]:
  "shell_part (loadConnections lr s) = shell_part s" "shell_part (connectGui_begin s) = shell_part s"
  "shell_part (fst (connectGui_end cr s)) = shell_part s" "shell_part (openClusterConfigEditor cid s) = shell_part s"
  "shell_part (saveClusterConfigEditor_end sr s) = shell_part s" "shell_part (forget_cluster cid s) = shell_part s"
  "shell_part (shareClusterConfigFromEditor copied s) = shell_part s" "shell_part (shareNotice_timeout s) = shell_part s"
  "shell_part (tree_header_click cid s) = shell_part s"
  by (auto simp: shell_part_def loadConnections_def connectGui_begin_def connectGui_end_def openClusterConfigEditor_def
      saveClusterConfigEditor_end_def forget_cluster_def shareClusterConfigFromEditor_def shareNotice_timeout_def
      tree_header_click_def Let_def split: sum.splits list.splits option.splits prod.splits)

lemma shell_deleted [shell_simps]: "shell_part (fst (deleteClusterFromEditor dr rr s)) = shell_part s"
  by (simp add: deleteClusterFromEditor_def shell_simps split: option.split sum.split)

lemma shell_other [shell_simps]:
  "shell_part (activateTab i cid s) = shell_part s" "shell_part (setup_effect w s) = shell_part s"
  "shell_part (sync_events_ref s) = shell_part s" "shell_part (onShowSidebar s) = shell_part s"
  "shell_part (onSidebarHide s) = shell_part s" "shell_part (sidebar_resize_start x s) = shell_part s"
  "shell_part (sidebar_resize_end s) = shell_part s" "shell_part (s\<lparr>navSearch := q, tableSearch := q'\<rparr>) = shell_part s"
  "shell_part (syncClusterControlPlaneUrls_end cid u s) = shell_part s"
  by (auto simp: shell_part_def activateTab_def setup_effect_def sync_events_ref_def onShowSidebar_def onSidebarHide_def
      sidebar_resize_start_def sidebar_resize_end_def syncClusterControlPlaneUrls_end_def split: sum.splits)

subsection \<open>Tabs\<close>

lemma app_inv_tabs:
  "snd (shell_part s') = snd (shell_part s) \<Longrightarrow> (tabs_ok s \<Longrightarrow> tabs_ok s') \<Longrightarrow> app_inv (s, Q) \<Longrightarrow> app_inv (s', Q)"
  by (simp add: app_inv_def shell_part_def sub_inv_def fi_inv_def)

lemma closeTab_ok: "tabs_ok s \<Longrightarrow> tabs_ok (closeTab i s)"
proof -
  assume ok: "tabs_ok s"
  obtain ts n where u: "close_updater i (openTabs s) = (ts, n)" by fastforce
  have d: "distinct (map tab_id (openTabs s))" using ok by (simp add: tabs_ok_def)
  have "openTabs (closeTab i s) = ts" using u by (simp add: closeTab_def)
  then show ?thesis using close_updater_cases[OF u d] ok tabs.distinct_remove[OF d, of i] by (auto simp: tabs_ok_def)
qed

lemma reorder_tabs_ok:
  assumes "tabs_ok s" and "permutes_elements move"
  shows "tabs_ok (fst (handleTabDragEnd move event bounds s))"
proof (cases "drag_outcome_of event bounds")
  case (DragMove a b)
  have "set (reorder_keys move tab_id a b (openTabs s)) = set (openTabs s)"
    "distinct (map tab_id (openTabs s)) \<Longrightarrow> distinct (map tab_id (reorder_keys move tab_id a b (openTabs s)))"
    using reorder_keys_keys[OF assms(2)] by blast+
  then show ?thesis using assms(1) DragMove by (auto simp: tabs_ok_def handleTabDragEnd_def)
qed (use assms in \<open>simp_all add: handleTabDragEnd_def\<close>)

lemma delete_tabs_ok: "distinct (map tab_id ts) \<Longrightarrow> delete_tabs cid ts \<noteq> [] \<and> distinct (map tab_id (delete_tabs cid ts))"
  by (auto simp: delete_tabs_def Let_def distinct_map_filter)

lemma tabs_frame [shell_simps]:
  "snd (shell_part (openResource kind cid s)) = snd (shell_part s)" "snd (shell_part (openSetupTab s)) = snd (shell_part s)"
  "snd (shell_part (openSettingsTab s)) = snd (shell_part s)" "snd (shell_part (closeTab i s)) = snd (shell_part s)"
  "snd (shell_part (fst (handleTabDragEnd move event bounds s))) = snd (shell_part s)"
  "snd (shell_part (handleConnectGui_end conn s)) = snd (shell_part s)"
  by (auto simp: shell_part_def openResource_def openSetupTab_def openSettingsTab_def closeTab_def activateTab_def
      handleTabDragEnd_def handleConnectGui_end_def Let_def split: prod.splits option.splits drag_outcome.split)

lemma delete_frame: "snd (shell_part (handleDeleteCluster_end eager r gone s)) = snd (shell_part s)"
  by (auto simp: shell_part_def handleDeleteCluster_end_def clearClusterData_def Let_def split: option.split)

lemma connect_end_ok: "tabs_ok s \<Longrightarrow> tabs_ok (handleConnectGui_end conn s)"
proof (cases conn)
  case (Some p)
  assume ok: "tabs_ok s"
  obtain saved sn where p: "p = (saved, sn)" by (cases p)
  let ?t = "\<lparr>tab_id = conn_id saved @ '':Node'', tab_kind = ''Node'', tab_cluster = conn_id saved\<rparr>"
  let ?ts = "remove_tab SETUP_TAB_ID (openTabs s)"
  have "distinct (map tab_id ?ts)" using ok tabs.distinct_remove by (auto simp: tabs_ok_def)
  then show ?thesis using Some p tabs.distinct_add[of ?ts ?t] tabs.add_nonempty[of ?t ?ts]
    by (simp add: tabs_ok_def handleConnectGui_end_def Let_def)
qed (simp add: handleConnectGui_end_def)

lemma delete_end_ok: "tabs_ok s \<Longrightarrow> tabs_ok (handleDeleteCluster_end eager r gone s)"
  using delete_tabs_ok[of "openTabs s"]
  by (auto simp: tabs_ok_def handleDeleteCluster_end_def clearClusterData_def Let_def split: option.split)

lemma opens_ok: "tabs_ok s \<Longrightarrow> tabs_ok (openResource kind cid s)" "tabs_ok s \<Longrightarrow> tabs_ok (openSetupTab s)"
  "tabs_ok s \<Longrightarrow> tabs_ok (openSettingsTab s)"
  using openResource_inv[of s] openSetupTab_inv[of s] openSettingsTab_inv[of s] by (simp_all add: tab_inv_def)

lemma app_inv_tab_steps:
  assumes "app_inv (s, Q)"
  shows "app_inv (openResource kind cid s, Q)" "app_inv (openSetupTab s, Q)" "app_inv (openSettingsTab s, Q)"
    "app_inv (SortableTab_close t s, Q)" "app_inv (detach_settled i opened s, Q)"
    "app_inv (handleConnectGui_end conn s, Q)" "app_inv (handleDeleteCluster_end eager r gone s, Q)"
    "permutes_elements move \<Longrightarrow> app_inv (fst (handleTabDragEnd move event bounds s), Q)"
  using assms app_inv_tabs[OF _ closeTab_ok assms]
  by (simp_all add: shell_simps delete_frame SortableTab_close_def detach_settled_def app_inv_tabs[OF _ opens_ok(1) assms]
      app_inv_tabs[OF _ opens_ok(2) assms] app_inv_tabs[OF _ opens_ok(3) assms] app_inv_tabs[OF _ connect_end_ok assms]
      app_inv_tabs[OF _ delete_end_ok assms] app_inv_tabs[OF _ reorder_tabs_ok assms])

subsection \<open>Requests\<close>

text \<open>A handler that only starts requests: the counter goes up by the fetches among them.\<close>

definition launches :: "app_state \<Rightarrow> app_state \<times> started \<Rightarrow> bool" where
  "launches s r = (openTabs (fst r) = openTabs s \<and> horizontalTabs (fst r) = horizontalTabs s \<and>
     activeHorizontalTabId (fst r) = activeHorizontalTabId s \<and> sidebarWidth (fst r) = sidebarWidth s \<and>
     (fi.inv s \<longrightarrow> fi.inv (fst r)) \<and>
     pendingFetchCount (fst r) = pendingFetchCount s + int (size (filter_mset is_fetch (started_requests (snd r)))))"

lemma launches_inv: "launches s r \<Longrightarrow> app_inv (s, Q) \<Longrightarrow> app_inv (launching r Q)"
  by (simp add: launches_def app_inv_def launching_def tabs_ok_def sub_inv_def)

lemma launches_nothing: "launches s (s, [])"
  by (simp add: launches_def started_requests_def)

lemma launches_both:
  assumes "launches s (s1, r1)" and "launches s1 (s2, r2)"
  shows "launches s (s2, r1 @ r2)"
  using assms by (simp add: launches_def started_requests_def)

lemma fetchSnapshot_begin_shell:
  "fetchSnapshot_begin cid s = (s', c) \<Longrightarrow> openTabs s' = openTabs s \<and> horizontalTabs s' = horizontalTabs s \<and>
     activeHorizontalTabId s' = activeHorizontalTabId s \<and> sidebarWidth s' = sidebarWidth s"
  for s :: app_state
  by (auto simp: fetchSnapshot_begin_def beginDataFetch_def split: if_splits option.splits)

lemma fetchEventPage_begin_shell:
  "fetchEventPage_begin n cid mode s = (s', c) \<Longrightarrow> openTabs s' = openTabs s \<and> horizontalTabs s' = horizontalTabs s \<and>
     activeHorizontalTabId s' = activeHorizontalTabId s \<and> sidebarWidth s' = sidebarWidth s"
  for s :: app_state
  by (auto simp: fetchEventPage_begin_def beginDataFetch_def set_events_def Let_def split: if_splits option.splits)

lemma fetch_begin_refused:
  "fetchSnapshot_begin cid s = (s', None) \<Longrightarrow> s' = s" "fetchEventPage_begin n cid mode s = (s', None) \<Longrightarrow> s' = s"
  by (auto simp: fetchSnapshot_begin_def fetchEventPage_begin_def Let_def split: if_splits option.splits)

lemma launches_snapshot: "launches s (start_snapshot cid s)"
proof -
  obtain s' c where b: "fetchSnapshot_begin cid s = (s', c)" by fastforce
  show ?thesis
  proof (cases c)
    case None
    then show ?thesis using b fetch_begin_refused(1) launches_nothing by (auto simp: start_snapshot_def)
  next
    case (Some call)
    then show ?thesis using b fetchSnapshot_begin_shell[OF b] snapshot_begin_control[of cid s s' call]
      by (simp add: start_snapshot_def launches_def started_requests_def)
  qed
qed

lemma launches_events: "launches s (start_events n cid mode s)"
proof -
  obtain s' c where b: "fetchEventPage_begin n cid mode s = (s', c)" by fastforce
  show ?thesis
  proof (cases c)
    case None
    then show ?thesis using b fetch_begin_refused(2)[of n cid mode s s'] launches_nothing[of s] by (auto simp: start_events_def)
  next
    case (Some call)
    then show ?thesis using b fetchEventPage_begin_shell[OF b] events_begin_control[of n cid mode s s' call]
      by (simp add: start_events_def launches_def started_requests_def)
  qed
qed

lemma launches_refresh: "launches s (refreshActiveTabFromServer M s)"
proof -
  let ?cid = "resolvedClusterId s"
  obtain s1 r1 where a: "(if activeKindNeedsSnapshot M s then start_snapshot ?cid s else (s, [])) = (s1, r1)" by fastforce
  obtain s2 r2 where b: "(if activeKind s = ''Event'' then start_events (eventPageSize M) ?cid Refresh s1 else (s1, [])) = (s2, r2)"
    by fastforce
  have "launches s (s1, r1)" "launches s1 (s2, r2)"
    using a b launches_snapshot[of s ?cid] launches_events[of s1 "eventPageSize M" ?cid Refresh] launches_nothing
    by (auto split: if_splits)
  then show ?thesis using launches_both launches_nothing a b by (auto simp: refreshActiveTabFromServer_def Let_def)
qed

lemmas launches_parts = launches_nothing launches_snapshot launches_events

lemma launches_effects:
  "launches s (snapshot_effect M s)" "launches s (events_effect M s)" "launches s (snapshot_timer M s)"
  "launches s (events_timer M s)" "launches s (onLoadMoreEvents M s)" "launches s (onRetrySnapshot s)"
  by (auto simp: snapshot_effect_def events_effect_def snapshot_timer_def events_timer_def onLoadMoreEvents_def
      onRetrySnapshot_def Let_def intro: launches_parts)

lemma app_inv_key:
  assumes "handleKeyDown M macLike ev s = (s', r, prevented)" and "app_inv (s, Q)"
  shows "app_inv (launching (s', r) Q)"
proof -
  have ok: "tabs_ok s" using assms(2) by (simp add: app_inv_def)
  have idle: "launching (t, []) Q = (t, Q)" for t by (simp add: launching_def started_requests_def)
  have close: "app_inv (closeTab i s, Q)" for i
    using app_inv_tabs[OF _ closeTab_ok assms(2)] shell_simps by simp
  have at: "app_inv (activateTabAtIndex i s, Q)" for i
    using assms(2) app_inv_frame[OF shell_other(1)] by (auto simp: activateTabAtIndex_def Let_def split: option.split)
  then have switch: "app_inv (switchTab d s, Q)" for d
    using assms(2) by (auto simp: switchTab_def Let_def)
  note refresh = launches_inv[OF launches_refresh[of s M] assms(2)]
  show ?thesis
    using assms close at switch refresh
    by (auto simp: handleKeyDown_def idle split: option.splits KeyboardShortcutAction.splits if_splits prod.splits)
qed

lemma app_inv_settles:
  assumes "app_inv (s, add_mset q Q)" and "is_fetch q" and "openTabs s' = openTabs s" and "horizontalTabs s' = horizontalTabs s"
    and "activeHorizontalTabId s' = activeHorizontalTabId s" and "sidebarWidth s' = sidebarWidth s"
    and "fi.inv s \<Longrightarrow> fi.inv s'" and "pendingFetchCount s' = max 0 (pendingFetchCount s - 1)"
    and "filter_mset is_fetch Q' = filter_mset is_fetch Q"
  shows "app_inv (s', Q')"
  using assms by (simp add: app_inv_def tabs_ok_def sub_inv_def)

lemma fetch_ends_shell:
  "openTabs (fst (fetchSnapshot_end cid r s)) = openTabs s" "horizontalTabs (fst (fetchSnapshot_end cid r s)) = horizontalTabs s"
  "activeHorizontalTabId (fst (fetchSnapshot_end cid r s)) = activeHorizontalTabId s"
  "sidebarWidth (fst (fetchSnapshot_end cid r s)) = sidebarWidth s"
  "openTabs (fetchEventPage_end cid mode p s) = openTabs s" "horizontalTabs (fetchEventPage_end cid mode p s) = horizontalTabs s"
  "activeHorizontalTabId (fetchEventPage_end cid mode p s) = activeHorizontalTabId s"
  "sidebarWidth (fetchEventPage_end cid mode p s) = sidebarWidth s"
  for s :: app_state
  by (cases r; cases p; simp add: fetchSnapshot_end_def fetchSnapshot_finally_def fetchEventPage_end_def
      fetchEventPage_finally_def markDataFetchError_def endDataFetch_def set_events_def Let_def)+

subsection \<open>The sub-window\<close>

lemma sub_frame:
  "(openTabs s', snd (snd (shell_part s'))) = (openTabs s, snd (snd (shell_part s))) \<Longrightarrow> sub_inv s' \<Longrightarrow> app_inv (s, Q) \<Longrightarrow> app_inv (s', Q)"
  by (simp add: app_inv_def shell_part_def tabs_ok_def fi_inv_def)

lemma update_rbac_shell [simp]: "snd (snd (shell_part (update_rbac i f s))) = snd (snd (shell_part s))" "openTabs (update_rbac i f s) = openTabs s"
  by (simp_all add: shell_part_def update_rbac_def)

lemma sub_steps_shell:
  "snd (snd (shell_part (fst (console_keydown kc k target s)))) = snd (snd (shell_part s))"
  "snd (snd (shell_part (openRbacEditorTab now payload s))) = snd (snd (shell_part s))"
  "snd (snd (shell_part (closeHorizontalTab i s))) = snd (snd (shell_part s))"
  "snd (snd (shell_part (fst (horizontal_drag_end subMove renderTabs event bounds s)))) = snd (snd (shell_part s))"
  "snd (snd (shell_part (onYamlChange v s))) = snd (snd (shell_part s))"
  "snd (snd (shell_part (fst (onApply_begin s)))) = snd (snd (shell_part s))"
  "snd (snd (shell_part (onApply_end i ar s))) = snd (snd (shell_part s))"
  "openTabs (fst (console_keydown kc k target s)) = openTabs s" "openTabs (openRbacEditorTab now payload s) = openTabs s"
  "openTabs (closeHorizontalTab i s) = openTabs s"
  "openTabs (fst (horizontal_drag_end subMove renderTabs event bounds s)) = openTabs s"
  "openTabs (onYamlChange v s) = openTabs s" "openTabs (fst (onApply_begin s)) = openTabs s" "openTabs (onApply_end i ar s) = openTabs s"
  by (simp_all add: onYamlChange_def onApply_begin_def onApply_end_def Let_def split: option.split sub_content.split)
    (simp_all add: shell_part_def console_keydown_def openConsoleTab_def openRbacEditorTab_def closeHorizontalTab_def
      horizontal_drag_end_def reorderHorizontalTabs_def update_rbac_def Let_def split: drag_outcome.split)

lemma app_inv_sub_step:
  assumes "app_inv (s, Q)" and "sub_step subMove s s'" and "permutes_elements subMove"
    and "openTabs s' = openTabs s" and "snd (snd (shell_part s')) = snd (snd (shell_part s))"
  shows "app_inv (s', Q)"
proof -
  have "sub_inv s'" using sub_step_inv[OF assms(2,3)] assms(1) by (simp add: app_inv_def)
  then show ?thesis using sub_frame[of s' s Q] assms(1,4,5) by simp
qed

subsection \<open>All steps\<close>

lemmas app_inv_kept = shell_connections[THEN app_inv_frame] shell_other[THEN app_inv_frame]

lemma app_step_inv:
  assumes "app_step M move subMove x y" and "permutes_elements move" and "permutes_elements subMove" and "app_inv x"
  shows "app_inv y"
  using assms(1)
proof (cases rule: app_step.cases)
  case (connected cr s s' conn Q)
  then have "shell_part s' = shell_part s" using shell_connections(3)[of cr s] by simp
  with assms(4) connected have "app_inv (s', Q)" using app_inv_frame[of s' s Q] by simp
  with connected show ?thesis by (simp add: app_inv_tab_steps)
next
  case (deleted dr rr s s' gone Q eager r)
  then have "shell_part s' = shell_part s" using shell_deleted[of dr rr s] by simp
  with assms(4) deleted have "app_inv (s', Q)" using app_inv_frame[of s' s Q] by simp
  with deleted show ?thesis by (simp add: app_inv_tab_steps)
next
  case (snapshot_settles cid r s s' call Q)
  then show ?thesis
    using assms(4) fetch_ends_shell(1-4)[of cid r s] snapshot_end_control[OF snapshot_settles(3)]
    by (auto intro!: app_inv_settles[of s "SnapshotRequest cid" Q])
next
  case (events_settle s cid mode Q p)
  then show ?thesis
    using assms(4) fetch_ends_shell(5-8)[of cid mode p s] events_end_control(1)[of s cid mode p] events_end_control(2)[of cid mode p s]
    by (auto intro!: app_inv_settles[of s "EventRequest cid mode" Q])
next
  case (sync_settles s cid Q u)
  then have "app_inv (s, Q)" using assms(4) by (simp add: app_inv_def)
  then show ?thesis using sync_settles app_inv_frame[OF shell_other(9), of cid u s Q] by simp
next
  case (sub_activate t s Q)
  show ?thesis using assms(4) app_inv_sub_step[OF _ sub_step.activate[OF sub_activate(3)] assms(3)] sub_activate
    by (simp add: shell_part_def)
next
  case (console_key s Q kc k target)
  then show ?thesis using assms(4) app_inv_sub_step[OF _ sub_step.keydown assms(3)] by (simp add: sub_steps_shell)
next
  case (sub_open s Q now payload)
  then show ?thesis using assms(4) app_inv_sub_step[OF _ sub_step.open_editor assms(3)] by (simp add: sub_steps_shell)
next
  case (sub_close s Q i)
  then show ?thesis using assms(4) app_inv_sub_step[OF _ sub_step.close_tab assms(3)] by (simp add: sub_steps_shell)
next
  case (sub_drag s Q renderTabs event bounds)
  then show ?thesis using assms(4) app_inv_sub_step[OF _ sub_step.drag assms(3)] by (simp add: sub_steps_shell)
next
  case (sub_detached s Q i opened)
  then show ?thesis using assms(4) app_inv_sub_step[OF _ sub_step.close_tab assms(3)]
    by (simp add: sub_steps_shell detachHorizontalTab_end_def)
next
  case (yaml_edited s Q v)
  then show ?thesis using assms(4) app_inv_sub_step[OF _ sub_step.edit assms(3)] by (simp add: sub_steps_shell)
next
  case (apply_starts s Q)
  then show ?thesis using assms(4) app_inv_sub_step[OF _ sub_step.apply_starts assms(3)] by (simp add: sub_steps_shell)
next
  case (apply_settles s Q i ar)
  then show ?thesis using assms(4) app_inv_sub_step[OF _ sub_step.apply_settles assms(3)] by (simp add: sub_steps_shell)
next
  case (key macLike ev s s' r prevented Q)
  then show ?thesis using app_inv_key assms(4) by simp
next
  case (resize_moves s Q x)
  with assms(4) show ?thesis
    by (auto simp: app_inv_def sidebar_resize_move_def tabs_ok_def sub_inv_def fi_inv_def split: option.split)
qed (use assms(2,4) in \<open>simp_all add: app_inv_kept app_inv_tab_steps launches_inv[OF launches_effects(1)]
    launches_inv[OF launches_effects(2)] launches_inv[OF launches_effects(3)] launches_inv[OF launches_effects(4)]
    launches_inv[OF launches_effects(5)] launches_inv[OF launches_effects(6)]\<close>)

lemma app_reachable_inv:
  assumes "app_reachable M move subMove x" and "permutes_elements move" and "permutes_elements subMove"
  shows "app_inv x"
  using assms(1)
proof (induction rule: app_reachable.induct)
  case (initial d w h)
  have "tabs_ok d" using initial(1) by (cases w) (auto simp: useTabManager_init_def tabs_ok_def)
  moreover have "sub_inv (App_init d h)"
    by (auto simp: sub_inv_def App_init_def horizontal_init_def app_state.defs data_state.defs split: option.splits horizontal_kind.splits)
  ultimately show ?case using initial(2)
    by (simp add: app_inv_def tabs_ok_def fi_inv_def App_init_def app_state.defs data_state.defs fetch_control_def)
qed (rule app_step_inv[OF _ assms(2,3)])

section \<open>What the window shows\<close>

lemma one_highlighted:
  "distinct (map key ts) \<Longrightarrow> length (filter (\<lambda>t. key t = i) ts) = (if i \<in> set (map key ts) then 1 else 0)"
  by (induction ts) (auto simp: filter_empty_conv)

lemma header_highlight: "length (filter st_active (snd (WorkspaceHeader M shown s))) = length (filter (\<lambda>t. tab_id t = activeTabId s) (openTabs s))"
  by (simp add: WorkspaceHeader_def filter_map comp_def header_tab_def Let_def)

lemma sub_highlight: "filter (hst_active \<circ> HorizontalSortableTab i) ts = filter (\<lambda>t. sub_id t = i) ts"
  by (rule filter_cong) (auto simp: HorizontalSortableTab_def)

lemma sub_body_shown: "sub_inv s \<Longrightarrow> horizontalTabs s \<noteq> [] \<Longrightarrow> sub_window_body s \<noteq> NoBody"
  by (auto simp: sub_inv_def sub_window_body_def activeSubWindowTab_def find_None_iff split: option.split sub_content.split)


text \<open>The kind of resource a table area is about, where it is about one.\<close>

fun pane_kind :: "table_pane \<Rightarrow> string option" where
  "pane_kind (RbacPane kind _ _) = Some kind"
| "pane_kind (EventPane _ _ _ _) = Some ''Event''"
| "pane_kind (NodePane _ _) = Some ''Node''"
| "pane_kind (GroupConfigPane _ _) = Some ''GroupConfig''"
| "pane_kind (UnavailablePane _) = None"
| "pane_kind (FetchStatePane _ kind _) = Some kind"

lemma pane_kind_active: "pane_kind (table_pane_of M s) = None \<or> pane_kind (table_pane_of M s) = Some (activeKind s)"
  by (auto simp: table_pane_of_def Let_def split: option.split)

lemma highlighted_leaf:
  "(leaf, True, icon) \<in> set (tree_main (ClusterTree cid kind cluster shown items open_group)) \<Longrightarrow>
     leaf_kind leaf = kind \<and> cluster_id cluster = cid"
  by (auto simp: ClusterTree_def leaf_view_def Let_def split: if_splits)


section \<open>A concrete window\<close>

lemma demo_app_reachable: "app_reachable M move subMove (demo_app, {#})"
  unfolding demo_app_def
  by (rule app_reachable.initial[of _ None]) (simp_all add: demo_data_defs fetch_control_def useTabManager_init_def)



end
