(* ===== verification/EventView.thy ===== *)
theory EventView
  imports Application
begin

text \<open>
  What \<open>modules/events/EventTable.tsx\<close> renders, with the JSON text of its detail pane, and the
  scroll listener of \<open>SchemaDataTable.tsx\<close> that asks it for more events: connecting to the scroll
  element, possibly some frames later, and disconnecting before every run of the effect.
\<close>

section \<open>The text of the detail pane\<close>

text \<open>\<open>JSON.stringify(value, null, 2)\<close> at a depth of indentation.\<close>

definition line_break :: "nat \<Rightarrow> string" where
  "line_break n = newline # replicate n CHR '' ''"

fun JSON_pretty :: "nat \<Rightarrow> js_value \<Rightarrow> string" where
  "JSON_pretty n Undefined = ''null''"
| "JSON_pretty n Null = ''null''"
| "JSON_pretty n (Str s) = json_string s"
| "JSON_pretty n (Num i) = show_int i"
| "JSON_pretty n (Bool b) = (if b then ''true'' else ''false'')"
| "JSON_pretty n (Arr items) =
     (if items = [] then ''[]''
      else ''['' @ line_break (n + 2) @ join_with ('','' @ line_break (n + 2)) (map (JSON_pretty (n + 2)) items) @
        line_break n @ '']'')"
| "JSON_pretty n (Obj props) =
     (let defined = filter (\<lambda>(k, v). v \<noteq> Undefined) props in
      if defined = [] then ''{}''
      else ''{'' @ line_break (n + 2) @ join_with ('','' @ line_break (n + 2))
          (map (\<lambda>(k, v). json_string k @ '': '' @ JSON_pretty (n + 2) v) defined) @
        line_break n @ ''}'')"

section \<open>The event table\<close>

record EventTable_view =
  et_activeKey :: "string option"
  et_columns :: "IdeTableColumn list"
  et_rows :: "IdeTableRow list"
  et_pager :: "string option"
  et_width :: int
  et_detail :: "(string \<times> (string + string)) option"

text \<open>The content of the pane: the JSON text of the active event (\<open>Inr\<close>), or the hint that none is chosen.\<close>

definition detail_content :: "EventLogEntry list \<Rightarrow> event_table_state \<Rightarrow> string + string" where
  "detail_content orderedRows s =
     (case activeEvent orderedRows s of
        Some e \<Rightarrow> Inr (JSON_pretty 0 (event_value e))
      | None \<Rightarrow> Inl ''Select an event row to inspect full details.'')"

definition EventTable ::
  "(string \<Rightarrow> string \<Rightarrow> int) \<Rightarrow> (rat \<Rightarrow> string) \<Rightarrow> ManifestTable \<Rightarrow> bool \<Rightarrow> bool \<Rightarrow> EventLogEntry list \<Rightarrow>
   event_table_state \<Rightarrow> EventTable_view" where
  "EventTable collate numtext tableSchema hasMore loadingMore rows s =
     (let orderedRows = ordered_events collate numtext tableSchema rows in
      \<lparr>et_activeKey = activeEventId s, et_columns = schemaColumnsToTableColumns (table_columns tableSchema),
       et_rows = EventTable_rows collate numtext tableSchema rows, et_pager = pager_text hasMore loadingMore,
       et_width = detailWidth s,
       et_detail = map_option (\<lambda>title. (title, detail_content orderedRows s)) (detail_title orderedRows s)\<rparr>)"

section \<open>The scroll listener\<close>

text \<open>
  The browser's side: the frame callback that is pending, the next frame id, and how many listeners the
  scroll element has. The side of the effect that is running: its \<open>frameId\<close>, zero at first, and whether
  \<open>detach\<close> is set.
\<close>

record scroll_wiring =
  pendingFrame :: "nat option"
  nextFrame :: nat
  listeners :: nat
  running :: "(nat \<times> bool) option"

text \<open>
  \<open>connect\<close>, for the scroll element if it is there; the boolean tells whether \<open>onReachEnd\<close> is called.
\<close>

definition connect :: "scroll_element option \<Rightarrow> scroll_wiring \<Rightarrow> scroll_wiring \<times> bool" where
  "connect scrollElement w =
     (case scrollElement of
       None \<Rightarrow> (w\<lparr>pendingFrame := Some (nextFrame w), nextFrame := nextFrame w + 1,
          running := map_option (\<lambda>(frameId, detach). (nextFrame w, detach)) (running w)\<rparr>, False)
     | Some element \<Rightarrow> (w\<lparr>listeners := listeners w + 1,
          running := map_option (\<lambda>(frameId, detach). (frameId, True)) (running w)\<rparr>, reach_end_on_connect element))"

definition reach_effect :: "bool \<Rightarrow> scroll_element option \<Rightarrow> scroll_wiring \<Rightarrow> scroll_wiring \<times> bool" where
  "reach_effect hasReachEnd scrollElement w =
     (if \<not> hasReachEnd then (w, False) else connect scrollElement (w\<lparr>running := Some (0, False)\<rparr>))"

definition reach_cleanup :: "scroll_wiring \<Rightarrow> scroll_wiring" where
  "reach_cleanup w =
     (case running w of
       None \<Rightarrow> w
     | Some (frameId, detach) \<Rightarrow>
         w\<lparr>pendingFrame := (if frameId \<noteq> 0 \<and> pendingFrame w = Some frameId then None else pendingFrame w),
           listeners := (if detach then listeners w - 1 else listeners w), running := None\<rparr>)"

text \<open>The browser runs the pending callback, and a scroll reaches every listener.\<close>

definition frame_fires :: "scroll_element option \<Rightarrow> scroll_wiring \<Rightarrow> scroll_wiring \<times> bool" where
  "frame_fires scrollElement w =
     (if pendingFrame w = None then (w, False) else connect scrollElement (w\<lparr>pendingFrame := None\<rparr>))"

definition scroll_calls :: "scroll_element \<Rightarrow> scroll_wiring \<Rightarrow> nat" where
  "scroll_calls element w = (if isNearBottom element then listeners w else 0)"

definition wiring_init :: scroll_wiring where
  "wiring_init = \<lparr>pendingFrame = None, nextFrame = 1, listeners = 0, running = None\<rparr>"

inductive wiring_step :: "scroll_wiring \<Rightarrow> scroll_wiring \<Rightarrow> bool" where
  rerun: "wiring_step w (fst (reach_effect hasReachEnd scrollElement (reach_cleanup w)))"
| unmount: "wiring_step w (reach_cleanup w)"
| frame: "wiring_step w (fst (frame_fires scrollElement w))"

inductive wiring_reachable :: "scroll_wiring \<Rightarrow> bool" where
  initial: "wiring_reachable wiring_init"
| step: "wiring_reachable w \<Longrightarrow> wiring_step w w' \<Longrightarrow> wiring_reachable w'"

section \<open>The detail pane: correctness\<close>

text \<open>Dropping the white space between the tokens of a JSON text; the boolean tells whether inside a string.\<close>

fun minify :: "bool \<Rightarrow> string \<Rightarrow> string" where
  "minify q [] = []"
| "minify False (c # s) = (if c = CHR '' '' \<or> c = newline then minify False s else c # minify (c = CHR 0x22) s)"
| "minify True (c # s) =
     (if c = CHR 0x5C then (case s of [] \<Rightarrow> [c] | d # t \<Rightarrow> c # d # minify True t) else c # minify (c \<noteq> CHR 0x22) s)"

named_theorems minify_simps \<open>equations that move the scanner over the parts of a text\<close>

lemma char_code: "c = CHR 0x22 \<longleftrightarrow> (of_char c :: nat) = 34" "c = CHR 0x5C \<longleftrightarrow> (of_char c :: nat) = 92"
  using of_char_eq_iff[of c "CHR 0x22", where 'a = nat] of_char_eq_iff[of c "CHR 0x5C", where 'a = nat] by simp_all

lemma hex_char_plain: "n < 16 \<Longrightarrow> hex_char n \<noteq> CHR 0x22 \<and> hex_char n \<noteq> CHR 0x5C"
  by (simp add: hex_char_def char_code)

lemma minify_json_char: "minify True (json_char c @ r) = json_char c @ minify True r"
proof -
  have "(of_char c :: nat) div 16 < 16" "(of_char c :: nat) mod 16 < 16" if "(of_char c :: nat) < 32" using that by simp_all
  then show ?thesis using hex_char_plain by (auto simp: json_char_def Let_def char_code)
qed

lemma minify_string [minify_simps]: "minify False (json_string s @ r) = json_string s @ minify False r"
proof -
  have "minify True (concat (map json_char s) @ CHR 0x22 # r) = concat (map json_char s) @ CHR 0x22 # minify False r"
    by (induction s) (simp_all add: minify_json_char)
  then show ?thesis by (simp add: json_string_def newline_def)
qed

definition token_char :: "char \<Rightarrow> bool" where
  "token_char c = (c \<noteq> CHR '' '' \<and> c \<noteq> newline \<and> c \<noteq> CHR 0x22)"

lemma minify_token: "list_all token_char t \<Longrightarrow> minify False (t @ r) = t @ minify False r"
  by (induction t) (simp_all add: token_char_def)

lemma digit_token: "is_digit c \<Longrightarrow> token_char c"
  by (auto simp: is_digit_def token_char_def newline_def)

lemma minify_int [minify_simps]: "minify False (show_int i @ r) = show_int i @ minify False r"
proof -
  have "list_all token_char (show_nat n)" for n by (auto simp: list_all_iff intro: digit_token dest: show_nat_digits)
  then have "list_all token_char (show_int i)" by (simp add: show_int_def) (simp add: token_char_def newline_def)
  then show ?thesis by (rule minify_token)
qed

lemma minify_break [minify_simps]: "minify False (line_break n @ r) = minify False r"
proof -
  have "minify False (replicate n CHR '' '' @ r) = minify False r" by (induction n) simp_all
  then show ?thesis by (simp add: line_break_def)
qed

lemma minify_join [minify_simps]:
  assumes "\<And>x r. x \<in> set xs \<Longrightarrow> minify False (f x @ r) = g x @ minify False r"
  shows "minify False (join_with (CHR '','' # line_break n) (map f xs) @ r) = join_with '','' (map g xs) @ minify False r"
  using assms
proof (induction "CHR '','' # line_break n" "map f xs" arbitrary: xs r rule: join_with.induct)
  case (3 a b cs)
  then obtain x y ys where xs: "xs = x # y # ys" by (auto simp: map_eq_Cons_conv)
  have "minify False (f x @ CHR '','' # line_break n @ join_with (CHR '','' # line_break n) (map f (y # ys)) @ r) =
      g x @ '','' @ join_with '','' (map g (y # ys)) @ minify False r"
    using 3(1)[of "y # ys" r] 3(2,3) xs by (simp add: minify_break newline_def)
  then show ?case by (simp add: xs)
qed auto

lemma minify_punct [minify_simps]:
  "c \<in> set ''[]{},:'' \<Longrightarrow> minify False (c # r) = c # minify False r" "minify False (CHR '' '' # r) = minify False r"
  by (auto simp: newline_def)

text \<open>The text of the pane differs from the compact JSON text in its layout only.\<close>

lemma minify_pretty: "minify False (JSON_pretty n v @ r) = JSON_stringify v @ minify False r"
proof (induction n v arbitrary: r rule: JSON_pretty.induct)
  case (6 n items)
  then show ?case by (cases "items = []") (simp_all add: minify_simps newline_def)
next
  case (7 n props)
  let ?defined = "filter (\<lambda>(k, v). v \<noteq> Undefined) props"
  have ih: "minify False (JSON_pretty (n + 2) v @ r) = JSON_stringify v @ minify False r" if "(k, v) \<in> set ?defined" for k v r
    using 7[OF refl, of "(k, v)" k v] that by fastforce
  have e: "minify False ((case x of (k, v) \<Rightarrow> json_string k @ '': '' @ JSON_pretty (n + 2) v) @ r) =
      (case x of (k, v) \<Rightarrow> json_string k @ '':'' @ JSON_stringify v) @ minify False r" if "x \<in> set ?defined" for x r
  proof -
    obtain k v where x: "x = (k, v)" by (cases x)
    show ?thesis using ih[of k v r] that unfolding x by (simp add: minify_simps newline_def del: add_2_eq_Suc')
  qed
  show ?case
  proof (cases "?defined = []")
    case True
    then show ?thesis by (simp add: Let_def minify_simps newline_def)
  next
    case False
    then show ?thesis using minify_join[of ?defined, OF e] by (simp add: Let_def minify_simps newline_def)
  qed
qed (simp_all add: minify_simps minify_token token_char_def newline_def)


text \<open>Clicking an event shows this event: when the sequence numbers are distinct, the click opens the pane
  on the event whose row was clicked, under its number, and the text of the pane is the JSON text of that
  row's event in all but the white space between the tokens.\<close>

theorem click_shows_the_event:
  assumes "newest_first t" and "distinct (map event_sequence events)"
    and "row \<in> set (et_rows (EventTable collate numtext t hasMore loadingMore events s))"
  shows "let v = EventTable collate numtext t hasMore loadingMore events (event_row_click row s) in
    et_rows v = et_rows (EventTable collate numtext t hasMore loadingMore events s) \<and>
    et_activeKey v = Some (row_key row) \<and>
    (\<exists>json. et_detail v = Some (''Event #'' @ row_key row, Inr json) \<and> minify False json = JSON_stringify (row_raw row)) \<and>
    row_raw row \<in> event_value ` set events"
proof -
  let ?es = "ordered_events collate numtext t events"
  note rows = event_table_newest_first[OF assms(1), of collate numtext events, unfolded Let_def]
  let ?rows = "EventTable_rows collate numtext t events"
  obtain i where i: "i < length ?rows" "row = ?rows ! i"
    using assms(3) by (auto simp: EventTable_def Let_def in_set_conv_nth)
  have len: "length ?rows = length ?es" using rows by (metis length_map)
  have e: "row_raw row = event_value (?es ! i)" "row_key row = show_int (event_sequence (?es ! i))"
    using i rows len by (metis nth_map)+
  have "mset (map event_sequence ?es) = mset (map event_sequence events)" using rows by simp
  then have "distinct (map event_sequence ?es)" using assms(2) by (metis mset_eq_imp_distinct_iff)
  then have "\<forall>x \<in> set ?es. event_sequence x = event_sequence (?es ! i) \<longrightarrow> x = ?es ! i"
    using i(1) len by (metis distinct_map inj_onD nth_mem)
  moreover have mem: "?es ! i \<in> set ?es" using i(1) len by simp
  ultimately have "List.find (\<lambda>x. show_int (event_sequence x) = row_key row) ?es = Some (?es ! i)"
    using e(2) by (cases "List.find (\<lambda>x. show_int (event_sequence x) = row_key row) ?es")
      (auto simp: find_None_iff show_int_inject dest!: find_SomeD)
  then have active: "activeEvent ?es (event_row_click row s) = Some (?es ! i)"
    by (simp add: activeEvent_def event_row_click_def)
  have "?es ! i \<in> set events" using mem rows by (metis mset_eq_setD)
  with active e show ?thesis using minify_pretty[of 0 "event_value (?es ! i)" "[]"]
    by (auto simp: EventTable_def Let_def event_row_click_def[of row s] detail_title_def detail_content_def)
qed

theorem click_shows_the_event_witness:
  "\<exists>json. et_detail (EventTable code_unit_order (\<lambda>q. []) demo_event_table False False [demo_log_entry 3]
     (event_row_click \<lparr>row_key = ''3'', row_values = row_values (EventTable_rows code_unit_order (\<lambda>q. []) demo_event_table
        [demo_log_entry 3] ! 0), row_raw = event_value (demo_log_entry 3)\<rparr> EventTable_init)) = Some (''Event #3'', Inr json)"
proof -
  let ?rows = "EventTable_rows code_unit_order (\<lambda>q. []) demo_event_table [demo_log_entry 3]"
  have t: "newest_first demo_event_table" by (simp add: newest_first_def demo_event_table_def)
  have "show_int 3 = ''3''" by code_simp
  moreover have "?rows ! 0 \<in> set ?rows" by (rule nth_mem) (simp add: EventTable_rows_def ordered_events_def)
  moreover have "row_key (?rows ! 0) = show_int 3" "row_raw (?rows ! 0) = event_value (demo_log_entry 3)"
    by (simp_all add: EventTable_rows_def ordered_events_def rows_nth row_key_of_def demo_event_table_def demo_log_entry_def Let_def)
  ultimately show ?thesis
    using click_shows_the_event[OF t, of "[demo_log_entry 3]" "?rows ! 0" code_unit_order "\<lambda>q. []" False False EventTable_init]
    by (cases "?rows ! 0") (auto simp: EventTable_def Let_def)
qed

section \<open>The scroll listener: correctness\<close>

definition wiring_inv :: "scroll_wiring \<Rightarrow> bool" where
  "wiring_inv w = (0 < nextFrame w \<and>
     (case running w of
       None \<Rightarrow> pendingFrame w = None \<and> listeners w = 0
     | Some (frameId, detach) \<Rightarrow>
         (pendingFrame w = None \<or> pendingFrame w = Some frameId \<and> 0 < frameId \<and> \<not> detach) \<and>
         listeners w = (if detach then 1 else 0) \<and> (pendingFrame w = None \<longrightarrow> detach)))"

lemma cleanup_clean: "wiring_inv w \<Longrightarrow> wiring_inv (reach_cleanup w) \<and> running (reach_cleanup w) = None"
  by (auto simp: wiring_inv_def reach_cleanup_def split: option.splits)

lemma reach_effect_inv: "wiring_inv w \<Longrightarrow> running w = None \<Longrightarrow> wiring_inv (fst (reach_effect r el w))"
  by (auto simp: wiring_inv_def reach_effect_def connect_def split: option.splits)

lemma frame_fires_inv: "wiring_inv w \<Longrightarrow> wiring_inv (fst (frame_fires el w))"
  by (auto simp: wiring_inv_def frame_fires_def connect_def split: option.splits)

lemma wiring_reachable_inv: "wiring_reachable w \<Longrightarrow> wiring_inv w"
proof (induction rule: wiring_reachable.induct)
  case (step w w')
  from step.hyps(2) step.IH show ?case
    by (cases rule: wiring_step.cases) (use cleanup_clean reach_effect_inv frame_fires_inv in blast)+
qed (simp add: wiring_inv_def wiring_init_def)

text \<open>A table never listens twice and never stops listening: in every state it can reach there is at most
  one listener and at most one pending frame, not both, and one of them while the effect runs; the
  cleanup leaves neither; and a scroll asks for more at most once.\<close>

theorem scroll_listener_safe:
  assumes "wiring_reachable w"
  shows "listeners w + (if pendingFrame w = None then 0 else 1) = (if running w = None then 0 else 1) \<and>
    listeners (reach_cleanup w) = 0 \<and> pendingFrame (reach_cleanup w) = None \<and> scroll_calls element w \<le> 1"
proof -
  note inv = wiring_reachable_inv[OF assms]
  have "listeners w + (if pendingFrame w = None then 0 else 1) = (if running w = None then 0 else 1)"
    using inv by (auto simp: wiring_inv_def split: option.splits)
  moreover have "listeners (reach_cleanup w) = 0 \<and> pendingFrame (reach_cleanup w) = None"
    using cleanup_clean[OF inv] by (auto simp: wiring_inv_def)
  ultimately show ?thesis by (auto simp: scroll_calls_def split: if_splits)
qed

section \<open>Retrying at the end of the table\<close>

text \<open>
  A failing page is fetched again at once. \<open>EventTable\<close> passes a new \<open>onReachEnd\<close> in every render, so that
  the effect connects again after every one; if the table is scrolled to its end, or does not fill its
  window, while an older page fails, the render after the failure asks for the same page again.
\<close>

theorem failing_page_refetched:
  assumes "resolvedClusterId s = cid" and "find_connection cid s = Some c"
    and "obj_get (clusterEvents s) cid = Some cache" and "cache_has_more cache"
    and "reach_end_on_connect element"
  shows "let s' = fetchEventPage_end cid Older (Inl e) s; cache' = obj_get (clusterEvents s') cid in
    snd (reach_effect True (Some element) (reach_cleanup w)) \<and>
    reach_end_loads_more (cache_field cache' cache_has_more False) (cache_field cache' cache_loading False) \<and>
    snd (onLoadMoreEvents M s') =
      [(EventRequest cid Older, FetchEventPageFromYaml (conn_yaml c) (oldest_sequence cache) (eventPageSize M))]"
proof -
  let ?s = "fetchEventPage_end cid Older (Inl e) s"
  have v: "view_fields ?s = view_fields s"
    by (simp add: fetchEventPage_end_def fetchEventPage_finally_def Let_def)
      (simp add: view_fields_def set_events_def markDataFetchError_def Let_def)
  have cache: "obj_get (clusterEvents ?s) cid = Some (cache_with_loading False (Some cache))"
    "obj_get (clusterEventsRef ?s) cid = Some (cache_with_loading False (Some cache))"
    using assms(3) by (simp_all add: fetchEventPage_end_def fetchEventPage_finally_def endDataFetch_def set_events_def
        markDataFetchError_def Let_def)
  have free: "\<not> is_set (clusterEventLoadingRef ?s) cid"
    by (simp add: fetchEventPage_end_def fetchEventPage_finally_def endDataFetch_def set_events_def
        markDataFetchError_def Let_def is_set_def)
  have view: "find_connection cid ?s = Some c" "resolvedClusterId ?s = cid"
    using assms(1,2) view_fields_cong[OF v] by simp_all
  have "snd (onLoadMoreEvents M ?s) =
      [(EventRequest cid Older, FetchEventPageFromYaml (conn_yaml c) (oldest_sequence cache) (eventPageSize M))]"
    using view free cache assms(4)
    by (simp add: onLoadMoreEvents_def start_events_def fetchEventPage_begin_def Let_def cache_field_def
        cache_with_loading_def)
  moreover have "snd (reach_effect True (Some element) (reach_cleanup w))"
    using assms(5) by (simp add: reach_effect_def connect_def)
  ultimately show ?thesis using cache(1) assms(4)
    by (simp add: Let_def reach_end_loads_more_def cache_field_def cache_with_loading_def)
qed

end
