(* ===== verification/ConnectionYaml.thy ===== *)
theory ConnectionYaml
  imports ApiTypes
begin

text \<open>
  The connection YAML in the backend, \<open>src-tauri/src/cluster_connection.rs\<close> (Rust): the reader
  and the writer of a connection, the merging of control-plane URLs, and the two normalisations of names
  and colours. White space is what Rust's \<open>trim\<close> takes for it, which in the alphabet of the model is that
  of ECMAScript and the control character 133. The theorems relate the reader to the writer, and both
  to the scan and the merging loop of the GUI.
\<close>

section \<open>Strings of the Rust library\<close>

definition is_rust_space :: "char \<Rightarrow> bool" where
  "is_rust_space c = (of_char c \<in> {9, 10, 11, 12, 13, 32, 133, 160 :: nat})"

definition rust_trim_start :: "string \<Rightarrow> string" where
  "rust_trim_start s = dropWhile is_rust_space s"

definition rust_trim_end :: "string \<Rightarrow> string" where
  "rust_trim_end s = rev (dropWhile is_rust_space (rev s))"

definition rust_trim :: "string \<Rightarrow> string" where
  "rust_trim s = rust_trim_end (rust_trim_start s)"

text \<open>\<open>lines()\<close>: as the splitting at line breaks, without the empty rest after the last one.\<close>

definition rust_lines :: "string \<Rightarrow> string list" where
  "rust_lines s = (let ls = split_lines s in if last ls = [] then butlast ls else ls)"

fun split_once :: "char \<Rightarrow> string \<Rightarrow> (string \<times> string) option" where
  "split_once d [] = None"
| "split_once d (c # s) = (if c = d then Some ([], s) else map_option (\<lambda>(a, b). (c # a, b)) (split_once d s))"

definition trim_matches :: "char \<Rightarrow> string \<Rightarrow> string" where
  "trim_matches q s = rev (dropWhile (\<lambda>c. c = q) (rev (dropWhile (\<lambda>c. c = q) s)))"

text \<open>\<open>trim_start_matches("- ")\<close> takes the prefix away as often as it is there.\<close>

function trim_items :: "string \<Rightarrow> string" where
  "trim_items s = (if starts_with s ''- '' then trim_items (drop 2 s) else s)"
  by pat_completeness auto
termination
  by (relation "measure length") (auto simp: starts_with_iff)

declare trim_items.simps [simp del]

definition ascii_lower :: "string \<Rightarrow> string" where
  "ascii_lower s = map (\<lambda>c. let n = of_char c :: nat in if 65 \<le> n \<and> n \<le> 90 then char_of (n + 32) else c) s"

section \<open>Reading\<close>

record GuiConnectionConfig =
  cfg_cluster_name :: string
  cfg_urls :: "string list"
  cfg_user_id :: string
  cfg_role :: string
  cfg_public_key :: string
  cfg_private_key :: string

definition looks_like_rfc3339 :: "string \<Rightarrow> bool" where
  "looks_like_rfc3339 token =
     (20 \<le> length token \<and> CHR ''T'' \<in> set token \<and> ends_with token ''Z'' \<and>
      list_all (\<lambda>c. is_digit c \<or> c \<in> set ''-:.TZ'') token)"

text \<open>A line without its white space and without the time stamp a log may have put in front of it.\<close>

definition compact_line :: "string \<Rightarrow> string" where
  "compact_line line =
     (let compact = rust_trim_start (rust_trim_end line) in
      case split_once CHR '' '' compact of
        Some (first_token, rest) \<Rightarrow> if looks_like_rfc3339 first_token then rust_trim_start rest else compact
      | None \<Rightarrow> compact)"

record yaml_reader =
  rd_fields :: "string \<Rightarrow> string option"
  rd_urls :: "string list"
  rd_in_urls :: bool

definition field_value :: "string \<Rightarrow> string" where
  "field_value raw = trim_matches CHR 0x27 (trim_matches CHR 0x22 (rust_trim raw))"

definition read_line :: "string \<Rightarrow> yaml_reader \<Rightarrow> yaml_reader" where
  "read_line line s =
     (let compact = compact_line line in
      if compact = [] \<or> starts_with compact ''#'' then s
      else if compact = ''controlPlaneUrls:'' \<or> compact = ''control_plane_urls:'' then s\<lparr>rd_in_urls := True\<rparr>
      else if rd_in_urls s \<and> starts_with compact ''- ''
      then s\<lparr>rd_urls := rd_urls s @ [rust_trim (trim_items compact)]\<rparr>
      else
        let s1 = s\<lparr>rd_in_urls := False\<rparr> in
        case split_once CHR '':'' compact of
          None \<Rightarrow> s1
        | Some (key, raw) \<Rightarrow> s1\<lparr>rd_fields := (rd_fields s1)(rust_trim key \<mapsto> field_value raw)\<rparr>)"

definition either_field :: "(string \<Rightarrow> string option) \<Rightarrow> string \<Rightarrow> string \<Rightarrow> string option" where
  "either_field fs a b = (case fs a of Some v \<Rightarrow> Some v | None \<Rightarrow> fs b)"

definition read_lines :: "string \<Rightarrow> yaml_reader" where
  "read_lines config_yaml =
     fold read_line (rust_lines config_yaml) \<lparr>rd_fields = (\<lambda>k. None), rd_urls = [], rd_in_urls = False\<rparr>"

definition config_of :: "yaml_reader \<Rightarrow> string + GuiConnectionConfig" where
  "config_of s =
     (let fs = rd_fields s;
          urls = (if rd_urls s = [] then (case either_field fs ''controlPlaneUrl'' ''control_plane_url'' of
                    Some u \<Rightarrow> [u] | None \<Rightarrow> []) else rd_urls s) in
      if urls = [] then Inl ''missing controlPlaneUrls''
      else case either_field fs ''publicKey'' ''public_key'' of
        None \<Rightarrow> Inl ''missing publicKey''
      | Some public_key \<Rightarrow>
          (case either_field fs ''privateKey'' ''private_key'' of
            None \<Rightarrow> Inl ''missing privateKey''
          | Some private_key \<Rightarrow> Inr
              \<lparr>cfg_cluster_name = nullish (either_field fs ''clusterName'' ''cluster_name'') ''demo'',
               cfg_urls = urls,
               cfg_user_id = nullish (either_field fs ''id'' ''user_id'') ''admin'',
               cfg_role = nullish (fs ''role'') ''admin'',
               cfg_public_key = public_key, cfg_private_key = private_key\<rparr>))"

definition parse_gui_connection_yaml :: "string \<Rightarrow> string + GuiConnectionConfig" where
  "parse_gui_connection_yaml config_yaml = config_of (read_lines config_yaml)"

section \<open>Writing\<close>

definition config_name :: "GuiConnectionConfig \<Rightarrow> string" where
  "config_name c = map (\<lambda>ch. if ch = CHR ''_'' then CHR ''-'' else ch)
     (ascii_lower (cfg_cluster_name c @ ''-'' @ cfg_user_id c))"

definition dump_lines :: "GuiConnectionConfig \<Rightarrow> string list" where
  "dump_lines c =
     [''apiVersion: xenage.io/v1alpha1'', ''kind: ClusterConnection'', ''metadata:'', ''  name: '' @ config_name c,
      ''spec:'', ''  clusterName: '' @ cfg_cluster_name c, ''  controlPlaneUrls:''] @
     map (\<lambda>url. ''    - '' @ url) (cfg_urls c) @
     [''  user:'', ''    id: '' @ cfg_user_id c, ''    role: '' @ cfg_role c,
      ''    publicKey: '' @ cfg_public_key c, ''    privateKey: '' @ cfg_private_key c]"

definition dump_gui_connection_yaml :: "GuiConnectionConfig \<Rightarrow> string" where
  "dump_gui_connection_yaml c = join_with [newline] (dump_lines c) @ [newline]"

section \<open>URLs, colours and names\<close>

definition rust_normalize_url :: "string \<Rightarrow> string" where
  "rust_normalize_url raw_url = rev (dropWhile (\<lambda>c. c = CHR ''/'') (rev (rust_trim raw_url)))"

fun merge_source :: "string list \<Rightarrow> string set \<times> string list \<Rightarrow> string set \<times> string list" where
  "merge_source [] (seen, merged) = (seen, merged)"
| "merge_source (raw_url # urls) (seen, merged) =
     (let normalized = rust_normalize_url raw_url in
      if normalized = [] \<or> normalized \<in> seen then merge_source urls (seen, merged)
      else merge_source urls (insert normalized seen, merged @ [normalized]))"

definition merge_control_plane_urls :: "string list \<Rightarrow> string list \<Rightarrow> string list" where
  "merge_control_plane_urls existing discovered = snd (merge_source discovered (merge_source existing ({}, [])))"

definition is_hex_digit :: "char \<Rightarrow> bool" where
  "is_hex_digit c = (is_digit c \<or> c \<in> set ''abcdefABCDEF'')"

definition normalize_hex_color :: "string \<Rightarrow> string" where
  "normalize_hex_color v =
     (let trimmed = rust_trim v in
      if length trimmed = 7 \<and> starts_with trimmed ''#'' \<and> list_all is_hex_digit (drop 1 trimmed)
      then ascii_lower trimmed else ''#22c55e'')"

definition is_ascii_alphanumeric :: "char \<Rightarrow> bool" where
  "is_ascii_alphanumeric c =
     (let n = of_char c :: nat in 48 \<le> n \<and> n \<le> 57 \<or> 65 \<le> n \<and> n \<le> 90 \<or> 97 \<le> n \<and> n \<le> 122)"

definition safe_slug :: "string \<Rightarrow> string" where
  "safe_slug v = trim_matches CHR ''-''
     (concat (map (\<lambda>c. if is_ascii_alphanumeric c then ascii_lower [c] else ''-'') v))"


section \<open>Lines of keys and values\<close>

definition yaml_key :: "string \<Rightarrow> bool" where
  "yaml_key k = (k \<noteq> [] \<and> 97 \<le> (of_char (hd k) :: nat) \<and> (of_char (hd k) :: nat) \<le> 122 \<and> CHR '':'' \<notin> set k \<and>
     list_all (\<lambda>c. \<not> is_rust_space c) k)"

definition edge_ok :: "(char \<Rightarrow> bool) \<Rightarrow> string \<Rightarrow> bool" where
  "edge_ok Q s = (s = [] \<or> \<not> Q (hd s) \<and> \<not> Q (last s))"

text \<open>A value that stands in one line, without white space or quotes around it.\<close>

definition value_ok :: "string \<Rightarrow> bool" where
  "value_ok v = (newline \<notin> set v \<and> carriage \<notin> set v \<and> edge_ok (\<lambda>c. is_rust_space c \<or> is_quote c) v)"

definition url_ok :: "string \<Rightarrow> bool" where
  "url_ok u = (u \<noteq> [] \<and> newline \<notin> set u \<and> carriage \<notin> set u \<and> edge_ok is_rust_space u \<and> \<not> starts_with u ''- '')"

lemma rust_space_chars [simp]:
  "is_rust_space CHR '' ''" "\<not> is_rust_space CHR '':''" "\<not> is_rust_space CHR ''-''" "\<not> is_rust_space CHR ''/''"
  "is_rust_space newline" "is_rust_space carriage"
  by (simp_all add: is_rust_space_def newline_def carriage_def)

lemma dropWhile_both:
  assumes "s = [] \<or> \<not> Q (hd s) \<and> \<not> Q (last s)"
  shows "dropWhile Q s = s" "rev (dropWhile Q (rev s)) = s"
proof -
  have "dropWhile Q (rev s) = rev s" using assms by (auto simp: dropWhile_eq_self_iff hd_rev)
  then show "rev (dropWhile Q (rev s)) = s" by simp
qed (use assms in \<open>auto simp: dropWhile_eq_self_iff\<close>)

lemma trim_matches_id: "s = [] \<or> hd s \<noteq> q \<and> last s \<noteq> q \<Longrightarrow> trim_matches q s = s"
  using dropWhile_both[of s "\<lambda>c. c = q"] by (simp add: trim_matches_def)

lemma rust_trim_id: "edge_ok is_rust_space s \<Longrightarrow> rust_trim s = s"
  using dropWhile_both[of s is_rust_space] by (simp add: rust_trim_def rust_trim_end_def rust_trim_start_def edge_ok_def)

lemma rust_trim_end_id: "edge_ok is_rust_space s \<Longrightarrow> rust_trim_end s = s"
  using dropWhile_both[of s is_rust_space] by (simp add: rust_trim_end_def edge_ok_def)

lemma rust_trim_end_last: "s \<noteq> [] \<Longrightarrow> \<not> is_rust_space (last s) \<Longrightarrow> rust_trim_end s = s"
  unfolding rust_trim_end_def by (metis dropWhile_eq_self_iff hd_rev rev_rev_ident)

lemma rust_trim_end_mid: "\<not> is_rust_space c \<Longrightarrow> rust_trim_end (p @ c # s) = p @ c # rust_trim_end s"
  by (simp add: rust_trim_end_def dropWhile_append3)

lemma rust_trim_start_spaces: "rust_trim_start (replicate n CHR '' '' @ s) = rust_trim_start s"
  by (induction n) (auto simp: rust_trim_start_def)

lemma rust_trim_start_head: "\<not> is_rust_space c \<Longrightarrow> rust_trim_start (c # s) = c # s"
  by (simp add: rust_trim_start_def)

lemma split_once_head: "split_once d (c # s) = Some (a, b) \<Longrightarrow> c \<noteq> d \<Longrightarrow> \<exists>a'. a = c # a'"
  by (auto split: if_splits)

lemma split_once_key: "d \<notin> set k \<Longrightarrow> split_once d (k @ d # r) = Some (k, r)"
  by (induction k) auto

lemma trim_start_end_swap: "rust_trim (rust_trim_end w) = rust_trim w"
proof -
  have sw: "rust_trim_start (rust_trim_end w) = rust_trim_end (rust_trim_start w)" for w
  proof (induction w)
    case (Cons c w)
    show ?case
    proof (cases "is_rust_space c")
      case False
      then show ?thesis using rust_trim_end_mid[of c "[]" w] by (simp add: rust_trim_start_def)
    next
      case True
      show ?thesis
      proof (cases "list_all is_rust_space w")
        case True
        then have "dropWhile is_rust_space (rev (c # w)) = []" "dropWhile is_rust_space (c # w) = []"
          using \<open>is_rust_space c\<close> by (auto simp: list_all_iff simp del: dropWhile.simps rev.simps)
        then show ?thesis by (simp only: rust_trim_end_def rust_trim_start_def list.size rev.simps dropWhile.simps)
      next
        case nall: False
        then have "rust_trim_end (c # w) = c # rust_trim_end w"
          by (auto simp: rust_trim_end_def list_all_iff)
        then show ?thesis using Cons True by (simp add: rust_trim_start_def)
      qed
    qed
  qed (simp add: rust_trim_end_def rust_trim_start_def)
  have "rust_trim (rust_trim_end w) = rust_trim_end (rust_trim_start (rust_trim_end w))" by (simp add: rust_trim_def)
  also have "\<dots> = rust_trim_end (rust_trim_end (rust_trim_start w))" by (simp add: sw)
  also have "\<dots> = rust_trim w" by (simp add: rust_trim_end_def rust_trim_def)
  finally show ?thesis .
qed

lemma field_value_end: "field_value (rust_trim_end w) = field_value w"
  by (simp add: field_value_def trim_start_end_swap)

lemma field_value_ok:
  assumes "value_ok v"
  shows "field_value (CHR '' '' # v) = v"
proof -
  have "rust_trim (CHR '' '' # v) = v"
    using assms rust_trim_id[of v] by (auto simp: rust_trim_def rust_trim_start_def value_ok_def edge_ok_def)
  moreover have "trim_matches q v = v" if "is_quote q" for q
    using assms that by (intro trim_matches_id) (auto simp: value_ok_def edge_ok_def is_quote_def)
  ultimately show ?thesis by (simp add: field_value_def is_quote_def)
qed

text \<open>A line with a key: whatever follows the colon becomes the value, and a list of URLs ends.\<close>

lemma read_key_line:
  assumes "yaml_key k" "k \<noteq> ''controlPlaneUrls''" "k \<noteq> ''control_plane_urls''"
  shows "read_line (replicate n CHR '' '' @ k @ CHR '':'' # w) s =
     s\<lparr>rd_in_urls := False, rd_fields := (rd_fields s)(k \<mapsto> field_value w)\<rparr>"
proof -
  obtain h t where k: "k = h # t" using assms(1) by (cases k) (auto simp: yaml_key_def)
  with assms(1) have h: "\<not> is_rust_space h" "97 \<le> (of_char h :: nat)" by (auto simp: yaml_key_def)
  let ?b = "k @ CHR '':'' # rust_trim_end w"
  have "rust_trim_end (replicate n CHR '' '' @ k @ CHR '':'' # w) = replicate n CHR '' '' @ ?b"
    using rust_trim_end_mid[of "CHR '':''" "replicate n CHR '' '' @ k" w] by simp
  then have tr: "rust_trim_start (rust_trim_end (replicate n CHR '' '' @ k @ CHR '':'' # w)) = ?b"
    using h by (simp add: rust_trim_start_spaces k rust_trim_start_head)
  have "\<not> looks_like_rfc3339 a" if "split_once CHR '' '' ?b = Some (a, r)" for a r
  proof -
    have "h \<noteq> CHR '' ''" using h(1) by auto
    moreover have "split_once CHR '' '' (h # (t @ CHR '':'' # rust_trim_end w)) = Some (a, r)"
      using that unfolding k by (simp only: append_Cons)
    ultimately obtain a' where "a = h # a'" using split_once_head by blast
    then show ?thesis using h(2) by (auto simp: looks_like_rfc3339_def is_digit_def)
  qed
  then have c: "compact_line (replicate n CHR '' '' @ k @ CHR '':'' # w) = ?b"
    by (auto simp: compact_line_def tr Let_def split: option.splits)
  have colon: "CHR '':'' \<notin> set k" using assms(1) by (simp add: yaml_key_def)
  have ne: "?b \<noteq> c @ CHR '':'' # []" if "CHR '':'' \<notin> set c" "k \<noteq> c" for c
  proof
    assume "?b = c @ CHR '':'' # []"
    then have "split_once CHR '':'' ?b = split_once CHR '':'' (c @ CHR '':'' # [])" by (rule arg_cong)
    with that show False by (simp only: split_once_key[OF colon] split_once_key[OF that(1)]) simp
  qed
  have ne': "?b \<noteq> ''controlPlaneUrls:''" "?b \<noteq> ''control_plane_urls:''"
    using ne[of "''controlPlaneUrls''"] ne[of "''control_plane_urls''"] assms(2,3) by simp_all
  have st: "\<not> starts_with ?b ''#''" "\<not> starts_with ?b ''- ''" "?b \<noteq> []"
    using h(2) by (auto simp: k starts_with_def)
  have "split_once CHR '':'' ?b = Some (k, rust_trim_end w)" using assms(1) by (intro split_once_key) (simp add: yaml_key_def)
  moreover have "rust_trim k = k"
    using assms(1) by (intro rust_trim_id) (auto simp: edge_ok_def yaml_key_def list_all_iff dest: hd_in_set last_in_set)
  ultimately show ?thesis using ne' st unfolding read_line_def c by (simp add: Let_def field_value_end)
qed

lemma read_urls_line: "read_line ''  controlPlaneUrls:'' s = s\<lparr>rd_in_urls := True\<rparr>"
proof -
  have "compact_line ''  controlPlaneUrls:'' = ''controlPlaneUrls:''"
    by (simp add: compact_line_def rust_trim_end_def rust_trim_start_def is_rust_space_def Let_def)
  then show ?thesis by (simp add: read_line_def Let_def starts_with_def)
qed

lemma read_url_line:
  assumes "url_ok u" "rd_in_urls s"
  shows "read_line (''    - '' @ u) s = s\<lparr>rd_urls := rd_urls s @ [u]\<rparr>"
proof -
  have "rust_trim_end (''    - '' @ u) = ''    - '' @ u"
    using assms(1) by (intro rust_trim_end_last) (auto simp: url_ok_def edge_ok_def)
  then have "rust_trim_start (rust_trim_end (''    - '' @ u)) = ''- '' @ u"
    by (simp add: rust_trim_start_def)
  then have c: "compact_line (''    - '' @ u) = ''- '' @ u"
    by (simp add: compact_line_def Let_def looks_like_rfc3339_def)
  have "trim_items (''- '' @ u) = u"
    using assms(1) by (subst trim_items.simps, subst trim_items.simps) (auto simp: starts_with_def url_ok_def)
  with assms show ?thesis
    unfolding read_line_def c by (simp add: Let_def starts_with_def rust_trim_id url_ok_def)
qed

lemma read_url_lines:
  assumes "list_all url_ok us" "rd_in_urls s"
  shows "fold read_line (map (\<lambda>u. ''    - '' @ u) us) s = s\<lparr>rd_urls := rd_urls s @ us\<rparr>"
  using assms by (induction us arbitrary: s) (simp_all add: read_url_line del: append_Cons)


section \<open>The writer and the reader agree\<close>

definition config_ok :: "GuiConnectionConfig \<Rightarrow> bool" where
  "config_ok c = (cfg_urls c \<noteq> [] \<and> list_all url_ok (cfg_urls c) \<and>
     list_all value_ok [cfg_cluster_name c, cfg_user_id c, cfg_role c, cfg_public_key c, cfg_private_key c])"

lemma ascii_lower_set: "d \<in> set (ascii_lower s) \<Longrightarrow> d \<in> set s \<or> 97 \<le> (of_char d :: nat)"
  by (auto simp: ascii_lower_def Let_def)

lemma line_breaks_low: "(of_char newline :: nat) = 10" "(of_char carriage :: nat) = 13"
  by (simp_all add: newline_def carriage_def)

lemma config_name_lines:
  assumes "config_ok c"
  shows "newline \<notin> set (config_name c)" "carriage \<notin> set (config_name c)"
  using assms ascii_lower_set[of newline "cfg_cluster_name c @ ''-'' @ cfg_user_id c"]
    ascii_lower_set[of carriage "cfg_cluster_name c @ ''-'' @ cfg_user_id c"] line_breaks_low
  by (auto simp: config_name_def config_ok_def value_ok_def newline_def carriage_def split: if_splits)

lemma join_with_snoc: "ls \<noteq> [] \<Longrightarrow> join_with [d] (ls @ [l]) = join_with [d] ls @ d # l"
  by (induction "[d]" ls rule: join_with.induct) auto

lemma rust_lines_join:
  assumes "ls \<noteq> []" "\<forall>l \<in> set ls. newline \<notin> set l \<and> carriage \<notin> set l"
  shows "split_lines (join_with [newline] ls @ [newline]) = ls @ [[]]" "rust_lines (join_with [newline] ls @ [newline]) = ls"
  using assms split_lines_join[of "ls @ [[]]"] by (auto simp: join_with_snoc rust_lines_def Let_def)

lemma dump_lines_ok: "config_ok c \<Longrightarrow> \<forall>l \<in> set (dump_lines c). newline \<notin> set l \<and> carriage \<notin> set l"
  using config_name_lines[of c]
  by (auto simp: dump_lines_def config_ok_def value_ok_def url_ok_def list_all_iff newline_def carriage_def)

lemma rust_lines_dump: "config_ok c \<Longrightarrow> rust_lines (dump_gui_connection_yaml c) = dump_lines c"
  using rust_lines_join(2)[OF _ dump_lines_ok] by (simp add: dump_gui_connection_yaml_def dump_lines_def)

lemma yaml_keys [simp]:
  "yaml_key ''apiVersion''" "yaml_key ''kind''" "yaml_key ''metadata''" "yaml_key ''name''" "yaml_key ''spec''"
  "yaml_key ''clusterName''" "yaml_key ''user''" "yaml_key ''id''" "yaml_key ''role''" "yaml_key ''publicKey''"
  "yaml_key ''privateKey''"
  by (simp_all add: yaml_key_def is_rust_space_def)

lemmas read_keys =
  read_key_line[of "''apiVersion''" 0 "'' xenage.io/v1alpha1''", simplified]
  read_key_line[of "''kind''" 0 "'' ClusterConnection''", simplified]
  read_key_line[of "''metadata''" 0 "[]", simplified] read_key_line[of "''spec''" 0 "[]", simplified]
  read_key_line[of "''name''" 2 "CHR '' '' # v" for v, simplified numeral_2_eq_2, simplified]
  read_key_line[of "''clusterName''" 2 "CHR '' '' # v" for v, simplified numeral_2_eq_2, simplified]
  read_key_line[of "''user''" 2 "[]", simplified numeral_2_eq_2, simplified]
  read_key_line[of "''id''" "Suc (Suc (Suc (Suc 0)))" "CHR '' '' # v" for v, simplified]
  read_key_line[of "''role''" "Suc (Suc (Suc (Suc 0)))" "CHR '' '' # v" for v, simplified]
  read_key_line[of "''publicKey''" "Suc (Suc (Suc (Suc 0)))" "CHR '' '' # v" for v, simplified]
  read_key_line[of "''privateKey''" "Suc (Suc (Suc (Suc 0)))" "CHR '' '' # v" for v, simplified]

lemma read_dump:
  assumes "config_ok c"
  shows "read_lines (dump_gui_connection_yaml c) =
    \<lparr>rd_fields = [''apiVersion'' \<mapsto> field_value '' xenage.io/v1alpha1'', ''kind'' \<mapsto> field_value '' ClusterConnection'',
       ''metadata'' \<mapsto> field_value [], ''name'' \<mapsto> field_value (CHR '' '' # config_name c), ''spec'' \<mapsto> field_value [],
       ''clusterName'' \<mapsto> cfg_cluster_name c, ''user'' \<mapsto> field_value [], ''id'' \<mapsto> cfg_user_id c, ''role'' \<mapsto> cfg_role c,
       ''publicKey'' \<mapsto> cfg_public_key c, ''privateKey'' \<mapsto> cfg_private_key c],
     rd_urls = cfg_urls c, rd_in_urls = False\<rparr>"
proof -
  have v: "field_value (CHR '' '' # cfg_cluster_name c) = cfg_cluster_name c"
    "field_value (CHR '' '' # cfg_user_id c) = cfg_user_id c" "field_value (CHR '' '' # cfg_role c) = cfg_role c"
    "field_value (CHR '' '' # cfg_public_key c) = cfg_public_key c"
    "field_value (CHR '' '' # cfg_private_key c) = cfg_private_key c"
    using assms by (auto simp: config_ok_def intro: field_value_ok)
  have us: "list_all url_ok (cfg_urls c)" using assms by (simp add: config_ok_def)
  show ?thesis
    unfolding read_lines_def rust_lines_dump[OF assms] dump_lines_def
    by (simp add: read_keys read_urls_line[simplified] read_url_lines[OF us] v)
qed

lemma parse_dump: "config_ok c \<Longrightarrow> parse_gui_connection_yaml (dump_gui_connection_yaml c) = Inr c"
  by (simp add: parse_gui_connection_yaml_def read_dump config_of_def Let_def either_field_def config_ok_def)

text \<open>C25: what the backend writes it reads back: for every configuration whose values stand in one line
  without white space or quotes around them, and whose URLs are not blank and do not look like items
  themselves, parsing the dumped text gives the configuration again, field by field, so that no two such
  configurations are written as the same text.\<close>

theorem dump_parse_roundtrip:
  assumes "config_ok c"
  shows "parse_gui_connection_yaml (dump_gui_connection_yaml c) = Inr c \<and>
    (\<forall>d. config_ok d \<and> dump_gui_connection_yaml d = dump_gui_connection_yaml c \<longrightarrow> d = c)"
  using parse_dump[OF assms] by (metis parse_dump sum.inject(2))

theorem dump_parse_roundtrip_witness:
  "let c = \<lparr>cfg_cluster_name = ''demo'', cfg_urls = [''http://10.0.0.1:8734'', ''https://b''], cfg_user_id = ''admin'',
            cfg_role = ''admin'', cfg_public_key = ''cHVi'', cfg_private_key = ''cHJpdg==''\<rparr> in
   parse_gui_connection_yaml (dump_gui_connection_yaml c) = Inr c"
  unfolding Let_def
  by (rule dump_parse_roundtrip[THEN conjunct1])
     (simp add: config_ok_def url_ok_def value_ok_def edge_ok_def is_quote_def is_rust_space_def starts_with_def
        newline_def carriage_def)

lemma config_name_printable:
  assumes "printable (cfg_cluster_name c)" "printable (cfg_user_id c)"
  shows "printable (config_name c)"
proof -
  have low: "\<not> is_js_space (char_of (of_char d + (32 :: nat)))" if "65 \<le> (of_char d :: nat)" "(of_char d :: nat) \<le> 90" for d
    using that by (simp add: is_js_space_def)
  have "\<not> is_js_space e" if "e \<in> set (ascii_lower s)" "\<forall>d \<in> set s. \<not> is_js_space d" for e s
    using that low by (auto simp: ascii_lower_def Let_def split: if_splits)
  moreover have "ascii_lower s \<noteq> []" if "s \<noteq> []" for s using that by (simp add: ascii_lower_def)
  ultimately show ?thesis
    using assms by (fastforce simp: printable_def config_name_def is_js_space_def[of "CHR ''-''"])
qed

text \<open>C27: the user the status bar shows is the user the backend signs as: on a text the backend has written,
  the scan of the GUI for \<open>spec.user.id\<close> finds the user that the parser of the backend gives to the
  requests.\<close>

theorem gui_and_backend_same_user:
  assumes "config_ok c" "list_all printable (cfg_user_id c # cfg_cluster_name c # cfg_urls c)"
  shows "extractClusterUserId (dump_gui_connection_yaml c) = Some (cfg_user_id c) \<and>
    (\<exists>d. parse_gui_connection_yaml (dump_gui_connection_yaml c) = Inr d \<and> cfg_user_id d = cfg_user_id c)"
proof -
  let ?rest = "[''    role: '' @ cfg_role c, ''    publicKey: '' @ cfg_public_key c,
                ''    privateKey: '' @ cfg_private_key c, []]"
  have "dump_lines c @ [[]] = connection_lines (config_name c) (cfg_cluster_name c) (cfg_urls c) (cfg_user_id c) ?rest"
    by (simp add: dump_lines_def connection_lines_def yaml_line_def numeral_eq_Suc)
  then have "split_lines (dump_gui_connection_yaml c) =
      connection_lines (config_name c) (cfg_cluster_name c) (cfg_urls c) (cfg_user_id c) ?rest"
    using rust_lines_join(1)[OF _ dump_lines_ok[OF assms(1)]]
    by (simp add: dump_gui_connection_yaml_def dump_lines_def)
  moreover have "\<not> is_quote (hd (cfg_user_id c))" "\<not> is_quote (last (cfg_user_id c))"
    using assms by (auto simp: config_ok_def value_ok_def edge_ok_def printable_def)
  ultimately have "extractClusterUserId (dump_gui_connection_yaml c) = Some (cfg_user_id c)"
    using assms(2) connection_lines_scan[of "config_name c" "cfg_cluster_name c" "cfg_urls c" "cfg_user_id c" ?rest]
      config_name_printable[of c]
    by (simp add: extractClusterUserId_def list_all_iff)
  then show ?thesis using parse_dump[OF assms(1)] by simp
qed

theorem gui_and_backend_same_user_witness:
  "let c = \<lparr>cfg_cluster_name = ''demo'', cfg_urls = [''http://b''], cfg_user_id = ''admin'',
            cfg_role = ''admin'', cfg_public_key = ''cHVi'', cfg_private_key = ''cHJpdg==''\<rparr> in
   extractClusterUserId (dump_gui_connection_yaml c) = Some (cfg_user_id c) \<and>
   (\<exists>d. parse_gui_connection_yaml (dump_gui_connection_yaml c) = Inr d \<and> cfg_user_id d = cfg_user_id c)"
  unfolding Let_def
  by (rule gui_and_backend_same_user)
     (simp_all add: config_ok_def url_ok_def value_ok_def edge_ok_def is_quote_def is_rust_space_def starts_with_def
        newline_def carriage_def printable_def is_js_space_def)

text \<open>On other texts they differ: the backend forgets the nesting, so that an \<open>id\<close> of any later
  mapping replaces the user's, while the GUI stays with \<open>spec.user.id\<close>.\<close>

lemma backend_takes_last_id:
  assumes "config_ok c" "value_ok v"
  shows "parse_gui_connection_yaml (dump_gui_connection_yaml c @ ''    id: '' @ v @ [newline]) =
     Inr (c\<lparr>cfg_user_id := v\<rparr>)"
proof -
  have "dump_gui_connection_yaml c @ ''    id: '' @ v @ [newline] =
      join_with [newline] (dump_lines c @ [''    id: '' @ v]) @ [newline]"
  proof -
    show ?thesis using join_with_snoc[of "dump_lines c" newline] by (simp add: dump_gui_connection_yaml_def dump_lines_def)
  qed
  moreover have "\<forall>l \<in> set (dump_lines c @ [''    id: '' @ v]). newline \<notin> set l \<and> carriage \<notin> set l"
    using dump_lines_ok[OF assms(1)] assms(2) by (auto simp: value_ok_def newline_def carriage_def)
  ultimately have "rust_lines (dump_gui_connection_yaml c @ ''    id: '' @ v @ [newline]) = dump_lines c @ [''    id: '' @ v]"
    using rust_lines_join(2)[of "dump_lines c @ [''    id: '' @ v]"] by (simp only: append_is_Nil_conv list.distinct) blast
  then have "read_lines (dump_gui_connection_yaml c @ ''    id: '' @ v @ [newline]) =
      read_line (''    id: '' @ v) (read_lines (dump_gui_connection_yaml c))"
    by (simp add: read_lines_def rust_lines_dump[OF assms(1)])
  then show ?thesis
    using assms by (simp add: parse_gui_connection_yaml_def read_dump read_keys field_value_ok config_of_def Let_def
        either_field_def config_ok_def)
qed

text \<open>Quotes around the item of a list stay in the URL, though they are taken from every other value.\<close>

lemma quoted_url_kept:
  assumes "rd_in_urls s"
  shows "read_line (''    - '' @ (CHR 0x22 # ''http://a'' @ [CHR 0x22])) s =
    s\<lparr>rd_urls := rd_urls s @ [CHR 0x22 # ''http://a'' @ [CHR 0x22]]\<rparr>"
  using assms
  by (intro read_url_line) (simp_all add: url_ok_def edge_ok_def is_rust_space_def starts_with_def newline_def carriage_def)

section \<open>Merging URLs as the GUI does\<close>

lemma merge_source_append: "merge_source (a @ b) st = merge_source b (merge_source a st)"
  by (induction a st rule: merge_source.induct) (auto simp: Let_def)

lemma rust_space_js: "c \<noteq> CHR 0x85 \<Longrightarrow> is_rust_space c = is_js_space c"
proof -
  assume "c \<noteq> CHR 0x85"
  then have "(of_char c :: nat) \<noteq> of_char CHR 0x85" using of_char_eq_iff by blast
  then show ?thesis by (simp add: is_rust_space_def is_js_space_def)
qed

lemma rust_normalize_js:
  assumes "CHR 0x85 \<notin> set u"
  shows "rust_normalize_url u = normalizeUrl u"
proof -
  have d: "dropWhile is_rust_space v = dropWhile is_js_space v" if "CHR 0x85 \<notin> set v" for v
  proof (rule dropWhile_cong[OF refl])
    show "is_rust_space x = is_js_space x" if "x \<in> set v" for x
      using that \<open>CHR 0x85 \<notin> set v\<close> by (intro rust_space_js) blast
  qed
  have "CHR 0x85 \<notin> set (rev (dropWhile is_js_space u))" using assms by (auto dest: set_dropWhileD)
  then have "rust_trim u = trim u"
    by (simp add: rust_trim_def rust_trim_end_def rust_trim_start_def trim_def trim_end_def trim_start_def d[OF assms] d)
  then show ?thesis by (simp add: rust_normalize_url_def normalizeUrl_def strip_slashes_def)
qed

lemma merge_source_loop:
  "\<forall>u \<in> set us. CHR 0x85 \<notin> set u \<Longrightarrow> snd (merge_source us st) = uniqueUrlsLoop us (fst st) (snd st)"
  by (induction us st rule: merge_source.induct) (simp_all add: rust_normalize_js Let_def)

text \<open>The backend merges as the GUI does: the URLs of the file followed by those discovered go through two
  loops of a Rust set, and the result is what the GUI's \<open>uniqueControlPlaneUrls\<close> makes of the two lists
  together, for all URLs without the control character that the two languages trim differently.\<close>

theorem merge_is_unique:
  assumes "\<forall>u \<in> set (existing @ discovered). CHR 0x85 \<notin> set u"
  shows "merge_control_plane_urls existing discovered = uniqueControlPlaneUrls (existing @ discovered)"
  using merge_source_loop[OF assms, of "({}, [])"]
  by (simp add: merge_control_plane_urls_def uniqueControlPlaneUrls_def merge_source_append)

theorem merge_is_unique_witness:
  "merge_control_plane_urls ['' http://a/'', ''http://b''] [''http://a'', [], ''http://c//''] =
   uniqueControlPlaneUrls (['' http://a/'', ''http://b''] @ [''http://a'', [], ''http://c//''])"
  by (rule merge_is_unique) simp

end
