(* ===== verification/ConnectionStore.thy ===== *)
theory ConnectionStore
  imports ConnectionYaml Connections "HOL-Library.Char_ord" "HOL-Library.List_Lexorder" "HOL-Library.Product_Lexorder"
begin

text \<open>
  The store of connections in the backend, the rest of \<open>src-tauri/src/cluster_connection.rs\<close> (Rust): the
  commands that save, list, synchronise and delete connections and the preferences of their clusters.
  The directory \<open>cluster-connections\<close> is an object from file stems to texts, in the order in which the
  directory is read; the preferences file is missing, unreadable, or holds its entries. What a
  write or a removal settles with is an argument of the command (\<open>Inl\<close>: the error of the file system,
  which then leaves the file as it was), and the digest of a text is the parameter \<open>sha\<close>.
  The locale states what the GUI relies on, and the client's lemmas are those of
  \<open>useClusterConnections.ts\<close> run against the backend.
\<close>

section \<open>The store\<close>

record backend_store =
  st_files :: "string js_obj"
  st_prefs :: "(string + StoredClusterUiPrefs list) option"

definition empty_store :: backend_store where
  "empty_store = \<lparr>st_files = [], st_prefs = None\<rparr>"

definition not_found :: "string \<Rightarrow> string" where
  "not_found connection_id = ''Cluster connection not found: '' @ connection_id"

section \<open>Connections\<close>

definition connection_stem :: "(string \<Rightarrow> string) \<Rightarrow> string \<Rightarrow> GuiConnectionConfig \<Rightarrow> string" where
  "connection_stem sha yaml c =
     safe_slug (cfg_cluster_name c) @ ''-'' @ safe_slug (cfg_user_id c) @ ''-'' @ take 10 (sha yaml)"

definition save_cluster_connection_yaml ::
  "(string \<Rightarrow> string) \<Rightarrow> string + unit \<Rightarrow> string \<Rightarrow> backend_store \<Rightarrow> (string + StoredClusterConnection) \<times> backend_store" where
  "save_cluster_connection_yaml sha written config_yaml st =
     (case parse_gui_connection_yaml config_yaml of
       Inl e \<Rightarrow> (Inl e, st)
     | Inr config \<Rightarrow>
         (let stem = connection_stem sha config_yaml config in
          case written of
            Inl e \<Rightarrow> (Inl e, st)
          | Inr _ \<Rightarrow>
              (Inr \<lparr>conn_id = stem, conn_name = cfg_cluster_name config, conn_yaml = config_yaml\<rparr>,
               st\<lparr>st_files := obj_set stem config_yaml (st_files st)\<rparr>)))"

definition listed_file :: "string \<times> string \<Rightarrow> StoredClusterConnection option" where
  "listed_file f =
     (case parse_gui_connection_yaml (snd f) of
       Inl e \<Rightarrow> None
     | Inr config \<Rightarrow> Some \<lparr>conn_id = fst f, conn_name = cfg_cluster_name config, conn_yaml = snd f\<rparr>)"

definition list_cluster_connection_yamls :: "backend_store \<Rightarrow> StoredClusterConnection list" where
  "list_cluster_connection_yamls st =
     sort_key (\<lambda>c. (conn_name c, conn_id c)) (List.map_filter listed_file (st_files st))"

definition sync_cluster_connection_control_plane_urls ::
  "string + unit \<Rightarrow> string \<Rightarrow> string list \<Rightarrow> backend_store \<Rightarrow> (string + StoredClusterConnection) \<times> backend_store" where
  "sync_cluster_connection_control_plane_urls written connection_id control_plane_urls st =
     (case obj_get (st_files st) connection_id of
       None \<Rightarrow> (Inl (not_found connection_id), st)
     | Some current_yaml \<Rightarrow>
         (case parse_gui_connection_yaml current_yaml of
           Inl e \<Rightarrow> (Inl e, st)
         | Inr config \<Rightarrow>
             (let merged_urls = merge_control_plane_urls (cfg_urls config) control_plane_urls in
              if merged_urls = [] then (Inl ''control plane URL sync produced an empty URL list'', st)
              else if merged_urls \<noteq> cfg_urls config then
                (let updated_yaml = dump_gui_connection_yaml (config\<lparr>cfg_urls := merged_urls\<rparr>) in
                 case written of
                   Inl e \<Rightarrow> (Inl e, st)
                 | Inr _ \<Rightarrow>
                     (Inr \<lparr>conn_id = connection_id, conn_name = cfg_cluster_name config, conn_yaml = updated_yaml\<rparr>,
                      st\<lparr>st_files := obj_set connection_id updated_yaml (st_files st)\<rparr>))
              else (Inr \<lparr>conn_id = connection_id, conn_name = cfg_cluster_name config, conn_yaml = current_yaml\<rparr>, st))))"

section \<open>Preferences\<close>

definition load_cluster_ui_prefs_file :: "backend_store \<Rightarrow> string + StoredClusterUiPrefs list" where
  "load_cluster_ui_prefs_file st = (case st_prefs st of None \<Rightarrow> Inr [] | Some read \<Rightarrow> read)"

definition save_cluster_ui_prefs_file ::
  "string + unit \<Rightarrow> StoredClusterUiPrefs list \<Rightarrow> backend_store \<Rightarrow> (string + unit) \<times> backend_store" where
  "save_cluster_ui_prefs_file written entries st =
     (case written of Inl e \<Rightarrow> (Inl e, st) | Inr _ \<Rightarrow> (Inr (), st\<lparr>st_prefs := Some (Inr entries)\<rparr>))"

definition list_cluster_ui_prefs :: "backend_store \<Rightarrow> string + StoredClusterUiPrefs list" where
  "list_cluster_ui_prefs st = load_cluster_ui_prefs_file st"

fun replace_or_push :: "StoredClusterUiPrefs \<Rightarrow> StoredClusterUiPrefs list \<Rightarrow> StoredClusterUiPrefs list" where
  "replace_or_push n [] = [n]"
| "replace_or_push n (e # es) =
     (if pref_connection_id e = pref_connection_id n then n # es else e # replace_or_push n es)"

definition save_cluster_ui_prefs_entry ::
  "string + unit \<Rightarrow> string \<Rightarrow> string \<Rightarrow> string \<Rightarrow> backend_store \<Rightarrow> (string + StoredClusterUiPrefs) \<times> backend_store" where
  "save_cluster_ui_prefs_entry written connection_id name accent st =
     (case load_cluster_ui_prefs_file st of
       Inl e \<Rightarrow> (Inl e, st)
     | Inr entries \<Rightarrow>
         (let normalized = \<lparr>pref_connection_id = connection_id, pref_name = rust_trim name,
                            pref_accent = normalize_hex_color accent\<rparr>;
              entries' = sort_key pref_connection_id (replace_or_push normalized entries) in
          case save_cluster_ui_prefs_file written entries' st of
            (Inl e, st') \<Rightarrow> (Inl e, st')
          | (Inr _, st') \<Rightarrow> (Inr normalized, st')))"

text \<open>Deleting removes the file first; what follows may still fail.\<close>

definition delete_cluster_connection ::
  "string + unit \<Rightarrow> string + unit \<Rightarrow> string \<Rightarrow> backend_store \<Rightarrow> (string + unit) \<times> backend_store" where
  "delete_cluster_connection removed written connection_id st =
     (if obj_get (st_files st) connection_id = None then (Inl (not_found connection_id), st)
      else case removed of
        Inl e \<Rightarrow> (Inl e, st)
      | Inr _ \<Rightarrow>
          (let st1 = st\<lparr>st_files := obj_del connection_id (st_files st)\<rparr> in
           case load_cluster_ui_prefs_file st1 of
             Inl e \<Rightarrow> (Inl e, st1)
           | Inr ui_entries \<Rightarrow>
               save_cluster_ui_prefs_file written
                 (filter (\<lambda>entry. pref_connection_id entry \<noteq> connection_id) ui_entries) st1))"

section \<open>The invariant of the store\<close>

definition lower_hex :: "char \<Rightarrow> bool" where
  "lower_hex c = (is_digit c \<or> c \<in> set ''abcdef'')"

definition accent_ok :: "string \<Rightarrow> bool" where
  "accent_ok a = (length a = 7 \<and> hd a = CHR ''#'' \<and> list_all lower_hex (tl a))"

definition prefs_ok :: "StoredClusterUiPrefs list \<Rightarrow> bool" where
  "prefs_ok es = (sorted (map pref_connection_id es) \<and> distinct (map pref_connection_id es) \<and>
     list_all (\<lambda>e. accent_ok (pref_accent e)) es)"

definition store_ok :: "backend_store \<Rightarrow> bool" where
  "store_ok st = (obj_ok (st_files st) \<and> (case st_prefs st of Some (Inr es) \<Rightarrow> prefs_ok es | _ \<Rightarrow> True))"

text \<open>One command of the backend, whatever the file system settles with.\<close>

inductive store_step :: "(string \<Rightarrow> string) \<Rightarrow> backend_store \<Rightarrow> backend_store \<Rightarrow> bool" for sha where
  step_save: "store_step sha st (snd (save_cluster_connection_yaml sha w yaml st))"
| step_sync: "store_step sha st (snd (sync_cluster_connection_control_plane_urls w i urls st))"
| step_prefs: "store_step sha st (snd (save_cluster_ui_prefs_entry w i name accent st))"
| step_delete: "store_step sha st (snd (delete_cluster_connection r w i st))"

lemma ascii_lower_Cons: "ascii_lower (c # s) = hd (ascii_lower [c]) # ascii_lower s"
  by (simp add: ascii_lower_def)

lemma ascii_lower_length [simp]: "length (ascii_lower s) = length s"
  by (simp add: ascii_lower_def)

lemma hex_lower: "is_hex_digit c \<Longrightarrow> lower_hex (hd (ascii_lower [c]))"
proof (cases "is_digit c")
  case True
  then have "ascii_lower [c] = [c]" by (simp add: ascii_lower_def is_digit_def Let_def)
  with True show ?thesis by (simp add: lower_hex_def)
next
  case False
  assume "is_hex_digit c"
  with False have "c \<in> set ''abcdefABCDEF''" by (simp add: is_hex_digit_def)
  then show ?thesis
    unfolding list.set insert_iff empty_iff
    by (elim disjE FalseE) (simp_all add: ascii_lower_def lower_hex_def Let_def char_of_eq_iff)
qed

lemma normalized_accent: "accent_ok (normalize_hex_color v)"
proof -
  have hex: "list_all lower_hex (ascii_lower s)" if "list_all is_hex_digit s" for s
    using that
  proof (induction s)
    case (Cons c s)
    then show ?case by (subst ascii_lower_Cons) (simp add: hex_lower)
  qed (simp add: ascii_lower_def)
  obtain t where t: "rust_trim v = t" by blast
  show ?thesis
  proof (cases "length t = 7 \<and> starts_with t ''#'' \<and> list_all is_hex_digit (drop 1 t)")
    case True
    then obtain r where r: "t = CHR ''#'' # r" by (auto simp: starts_with_iff)
    with True have "list_all is_hex_digit r" "length r = 6" by auto
    moreover have "ascii_lower (CHR ''#'' # r) = CHR ''#'' # ascii_lower r" by (simp add: ascii_lower_def)
    ultimately show ?thesis using True r hex[of r]
      unfolding normalize_hex_color_def t Let_def by (simp add: accent_ok_def)
  next
    case False
    show ?thesis unfolding normalize_hex_color_def t Let_def if_not_P[OF False]
      by (simp add: accent_ok_def lower_hex_def is_digit_def)
  qed
qed

lemma replace_or_push_ids:
  "set (map pref_connection_id (replace_or_push n es)) = insert (pref_connection_id n) (set (map pref_connection_id es))"
  by (induction es) auto

lemma replace_or_push_distinct:
  "distinct (map pref_connection_id es) \<Longrightarrow> distinct (map pref_connection_id (replace_or_push n es))"
proof (induction es)
  case (Cons e es)
  then show ?case using replace_or_push_ids[of n es] by auto
qed simp

lemma replace_or_push_set: "set (replace_or_push n es) \<subseteq> insert n (set es)" "n \<in> set (replace_or_push n es)"
  by (induction es) auto

lemma distinct_sort_key: "distinct (map f (sort_key k xs)) = distinct (map f xs)"
  by (rule mset_eq_imp_distinct_iff) simp

lemma prefs_ok_push:
  assumes "prefs_ok es" "accent_ok (pref_accent n)"
  shows "prefs_ok (sort_key pref_connection_id (replace_or_push n es))"
  using assms replace_or_push_distinct[of es n] replace_or_push_set(1)[of n es]
  by (auto simp: prefs_ok_def distinct_sort_key list_all_iff)

lemma loaded_ok: "store_ok st \<Longrightarrow> load_cluster_ui_prefs_file st = Inr es \<Longrightarrow> prefs_ok es"
  by (auto simp: store_ok_def load_cluster_ui_prefs_file_def prefs_ok_def split: option.splits sum.splits)

lemma saved_prefs_ok:
  "store_ok st \<Longrightarrow> prefs_ok es \<Longrightarrow> store_ok (snd (save_cluster_ui_prefs_file w es st))"
  by (auto simp: save_cluster_ui_prefs_file_def store_ok_def split: sum.splits)

lemma prefs_ok_filter: "prefs_ok es \<Longrightarrow> prefs_ok (filter P es)"
  by (auto simp: prefs_ok_def list_all_iff sorted_filter distinct_map inj_on_def)

lemma store_ok_save: "store_ok st \<Longrightarrow> store_ok (snd (save_cluster_connection_yaml sha w y st))"
  by (auto simp: save_cluster_connection_yaml_def store_ok_def Let_def split: sum.splits)

lemma store_ok_delete: "store_ok st \<Longrightarrow> store_ok (snd (delete_cluster_connection r w i st))"
proof -
  assume ok: "store_ok st"
  then have "store_ok (st\<lparr>st_files := obj_del i (st_files st)\<rparr>)" by (auto simp: store_ok_def)
  with ok show ?thesis
    using loaded_ok saved_prefs_ok prefs_ok_filter
    by (auto simp: delete_cluster_connection_def Let_def split: sum.splits)
qed

lemma store_ok_sync: "store_ok st \<Longrightarrow> store_ok (snd (sync_cluster_connection_control_plane_urls w i urls st))"
  by (auto simp: sync_cluster_connection_control_plane_urls_def store_ok_def Let_def split: sum.splits option.splits)

lemma store_ok_prefs: "store_ok st \<Longrightarrow> store_ok (snd (save_cluster_ui_prefs_entry w i name accent st))"
proof (cases "load_cluster_ui_prefs_file st")
  case (Inr es)
  assume ok: "store_ok st"
  let ?n = "\<lparr>pref_connection_id = i, pref_name = rust_trim name, pref_accent = normalize_hex_color accent\<rparr>"
  have "prefs_ok (sort_key pref_connection_id (replace_or_push ?n es))"
    using loaded_ok[OF ok Inr] normalized_accent by (intro prefs_ok_push) simp_all
  from saved_prefs_ok[OF ok this, of w] Inr show ?thesis
    by (auto simp: save_cluster_ui_prefs_entry_def Let_def split: sum.splits prod.splits)
qed (simp add: save_cluster_ui_prefs_entry_def)

lemma store_ok_empty [simp]: "store_ok empty_store"
  by (simp add: store_ok_def empty_store_def)

lemma store_step_ok: "store_step sha st st' \<Longrightarrow> store_ok st \<Longrightarrow> store_ok st'"
  by (induction rule: store_step.induct) (blast intro: store_ok_save store_ok_sync store_ok_prefs store_ok_delete)+

text \<open>C13: the store stays well-formed: whatever commands run, in whatever order, and whichever of their writes
  and removals fail, no two files have one id, and the preferences are sorted by connection, with at
  most one entry for each, whose colour is a hash sign with six lower-case hexadecimal digits.\<close>

theorem store_invariant:
  assumes "(store_step sha)\<^sup>*\<^sup>* empty_store st"
  shows "store_ok st"
  using assms
  by (induction rule: rtranclp_induct) (auto intro: store_step_ok)

theorem store_invariant_witness:
  "store_ok (snd (save_cluster_ui_prefs_entry (Inr ()) ''a'' ''n'' ''#FFF'' (snd (save_cluster_connection_yaml
     (\<lambda>t. ''0123456789abcdef'') (Inr ()) DEFAULT_GUI_CONNECTION_YAML empty_store))))"
  by (rule store_invariant[of "\<lambda>t. ''0123456789abcdef''"])
     (meson rtranclp.intros store_step.intros)

section \<open>Names of files\<close>

definition slug_char :: "char \<Rightarrow> bool" where
  "slug_char c = (is_ascii_alphanumeric c \<and> ascii_lower [c] = [c] \<or> c = CHR ''-'')"

lemma lower_alnum: "is_ascii_alphanumeric c \<Longrightarrow> \<exists>d. ascii_lower [c] = [d] \<and> slug_char d"
proof (cases "65 \<le> (of_char c :: nat) \<and> (of_char c :: nat) \<le> 90")
  case True
  then have "ascii_lower [c] = [char_of (of_char c + (32 :: nat))]" by (simp add: ascii_lower_def Let_def)
  moreover have "slug_char (char_of (of_char c + (32 :: nat)))"
    using True by (simp add: slug_char_def is_ascii_alphanumeric_def Let_def ascii_lower_def)
  ultimately show ?thesis by blast
next
  case False
  assume "is_ascii_alphanumeric c"
  moreover have "ascii_lower [c] = [c]" using False by (auto simp: ascii_lower_def Let_def)
  ultimately show ?thesis by (auto simp: slug_char_def)
qed

lemma trim_matches_subset: "set (trim_matches q s) \<subseteq> set s"
  by (auto simp: trim_matches_def dest!: set_dropWhileD)

lemma safe_slug_chars: "list_all slug_char (safe_slug v)"
proof -
  have "list_all slug_char (if is_ascii_alphanumeric c then ascii_lower [c] else ''-'')" for c
    using lower_alnum[of c] by (auto simp: slug_char_def)
  then have "list_all slug_char (concat (map (\<lambda>c. if is_ascii_alphanumeric c then ascii_lower [c] else ''-'') v))"
    by (induction v) auto
  then show ?thesis
    using trim_matches_subset unfolding safe_slug_def by (fastforce simp: list_all_iff)
qed

text \<open>A connection cannot be written outside its directory: whatever a cluster and a user are called, the
  name of the file they are saved under is made of lower-case letters, digits and dashes, so that it
  holds neither a separator nor a dot.\<close>

theorem saved_file_name_safe:
  assumes "list_all slug_char (sha yaml)"
    and "save_cluster_connection_yaml sha w yaml st = (Inr c, st')"
  shows "list_all slug_char (conn_id c) \<and> CHR ''/'' \<notin> set (conn_id c) \<and> CHR ''.'' \<notin> set (conn_id c) \<and>
    obj_get (st_files st') (conn_id c) = Some yaml"
proof -
  obtain config where c: "parse_gui_connection_yaml yaml = Inr config" "conn_id c = connection_stem sha yaml config"
    "obj_get (st_files st') (conn_id c) = Some yaml"
    using assms(2) by (auto simp: save_cluster_connection_yaml_def Let_def split: sum.splits)
  have "list_all slug_char (take 10 (sha yaml))" using assms(1) by (auto simp: list_all_iff dest: in_set_takeD)
  then have "list_all slug_char (conn_id c)"
    using c(2) safe_slug_chars by (simp add: connection_stem_def slug_char_def)
  moreover have "\<not> slug_char CHR ''/''" "\<not> slug_char CHR ''.''"
    by (simp_all add: slug_char_def is_ascii_alphanumeric_def)
  ultimately show ?thesis using c(3) by (auto simp: list_all_iff)
qed

lemma default_yaml_parses:
  "parse_gui_connection_yaml DEFAULT_GUI_CONNECTION_YAML = Inr
     \<lparr>cfg_cluster_name = ''demo'', cfg_urls = [''http://127.0.0.1:8734''], cfg_user_id = ''admin'', cfg_role = ''admin'',
      cfg_public_key = ''REPLACE_WITH_GENERATED_PUBLIC_KEY'', cfg_private_key = ''REPLACE_WITH_GENERATED_PRIVATE_KEY''\<rparr>"
  by code_simp

lemma save_default:
  "save_cluster_connection_yaml sha (Inr ()) DEFAULT_GUI_CONNECTION_YAML st =
    (let i = ''demo-admin-'' @ take 10 (sha DEFAULT_GUI_CONNECTION_YAML) in
     (Inr \<lparr>conn_id = i, conn_name = ''demo'', conn_yaml = DEFAULT_GUI_CONNECTION_YAML\<rparr>,
      st\<lparr>st_files := obj_set i DEFAULT_GUI_CONNECTION_YAML (st_files st)\<rparr>))"
proof -
  have "safe_slug ''demo'' = ''demo''" "safe_slug ''admin'' = ''admin''" by code_simp+
  then show ?thesis
    by (simp add: save_cluster_connection_yaml_def default_yaml_parses connection_stem_def Let_def)
qed

theorem saved_file_name_safe_witness:
  "list_all slug_char (conn_id (projr (fst (save_cluster_connection_yaml (\<lambda>t. ''0123456789abcdef'') (Inr ())
     DEFAULT_GUI_CONNECTION_YAML empty_store))))"
proof -
  have "list_all slug_char ''0123456789abcdef''" by code_simp
  then show ?thesis
    using saved_file_name_safe[of "\<lambda>t. ''0123456789abcdef''" DEFAULT_GUI_CONNECTION_YAML "Inr ()" empty_store]
      save_default[of "\<lambda>t. ''0123456789abcdef''" empty_store] by (simp add: Let_def)
qed

section \<open>Listing\<close>

lemma map_filter_mem: "y \<in> set (List.map_filter f xs) \<longleftrightarrow> (\<exists>x \<in> set xs. f x = Some y)"
  by (induction xs) (auto simp: map_filter_simps split: option.splits)

lemma listed_file_Some: "listed_file f = Some c \<longleftrightarrow> f = (conn_id c, conn_yaml c) \<and>
    (\<exists>g. parse_gui_connection_yaml (conn_yaml c) = Inr g \<and> conn_name c = cfg_cluster_name g)"
  by (cases f; cases c) (auto simp: listed_file_def split: sum.splits)

lemma listed_iff:
  assumes "obj_ok (st_files st)"
  shows "c \<in> set (list_cluster_connection_yamls st) \<longleftrightarrow>
    obj_get (st_files st) (conn_id c) = Some (conn_yaml c) \<and>
    (\<exists>g. parse_gui_connection_yaml (conn_yaml c) = Inr g \<and> conn_name c = cfg_cluster_name g)"
proof -
  have "c \<in> set (list_cluster_connection_yamls st) \<longleftrightarrow> (\<exists>f \<in> set (st_files st). listed_file f = Some c)"
    by (simp add: list_cluster_connection_yamls_def map_filter_mem)
  also have "\<dots> \<longleftrightarrow> (conn_id c, conn_yaml c) \<in> set (st_files st) \<and>
      (\<exists>g. parse_gui_connection_yaml (conn_yaml c) = Inr g \<and> conn_name c = cfg_cluster_name g)"
    by (auto simp: listed_file_Some)
  finally show ?thesis
    using assms map_of_eq_Some_iff[of "st_files st"] by (simp add: obj_ok_def obj_keys_def obj_get_def)
qed

lemma listed_ids:
  assumes "obj_ok (st_files st)"
  shows "distinct (map conn_id (list_cluster_connection_yamls st))"
proof -
  have fst_in: "conn_id c \<in> fst ` set fs" if "c \<in> set (List.map_filter listed_file fs)" for c fs
    using that by (force simp: map_filter_mem listed_file_Some)
  have "distinct (map conn_id (List.map_filter listed_file fs))" if "distinct (map fst fs)" for fs
    using that
  proof (induction fs)
    case (Cons f fs)
    then have IH: "distinct (map conn_id (List.map_filter listed_file fs))" "fst f \<notin> fst ` set fs" by auto
    have "fst f = conn_id c" if "listed_file f = Some c" for c using that by (simp add: listed_file_Some)
    with IH fst_in[of _ fs] show ?case by (cases "listed_file f") (auto simp: map_filter_simps)
  qed (simp add: map_filter_simps)
  then have "distinct (map conn_id (List.map_filter listed_file (st_files st)))"
    using assms unfolding obj_ok_def obj_keys_def by blast
  then show ?thesis by (simp add: list_cluster_connection_yamls_def distinct_sort_key)
qed

section \<open>What the GUI relies on\<close>

text \<open>
  The contract between the backend and \<open>useClusterConnections\<close>: a saved connection is listed, with the
  text it was given; saving leaves the others alone; a failed save leaves everything; ids are unique;
  after a deletion exactly the deleted connection is missing, and the preferences can be read and
  do not mention it.
\<close>

locale connection_backend =
  fixes ok :: "'st \<Rightarrow> bool"
    and saving :: "string \<Rightarrow> 'st \<Rightarrow> (string + StoredClusterConnection) \<times> 'st"
    and listing :: "'st \<Rightarrow> StoredClusterConnection list"
    and preferences :: "'st \<Rightarrow> string + StoredClusterUiPrefs list"
    and deleting :: "string \<Rightarrow> 'st \<Rightarrow> (string + unit) \<times> 'st"
  assumes ids_distinct: "ok st \<Longrightarrow> distinct (map conn_id (listing st))"
    and saving_ok: "ok st \<Longrightarrow> ok (snd (saving y st))"
    and saving_lists: "ok st \<Longrightarrow> saving y st = (Inr c, st') \<Longrightarrow> c \<in> set (listing st') \<and> conn_yaml c = y"
    and saving_others: "ok st \<Longrightarrow> saving y st = (Inr c, st') \<Longrightarrow> conn_id d \<noteq> conn_id c \<Longrightarrow>
      d \<in> set (listing st') \<longleftrightarrow> d \<in> set (listing st)"
    and saving_fails: "saving y st = (Inl e, st') \<Longrightarrow> st' = st"
    and deleting_ok: "ok st \<Longrightarrow> ok (snd (deleting i st))"
    and deleting_lists: "ok st \<Longrightarrow> deleting i st = (Inr u, st') \<Longrightarrow>
      d \<in> set (listing st') \<longleftrightarrow> d \<in> set (listing st) \<and> conn_id d \<noteq> i"
    and deleting_prefs: "ok st \<Longrightarrow> deleting i st = (Inr u, st') \<Longrightarrow>
      \<exists>es. preferences st' = Inr es \<and> i \<notin> set (map pref_connection_id es)"

text \<open>The rejection of a command is the string the backend returns, not an \<open>Error\<close> object.\<close>

definition service_rejection :: "string + 'a \<Rightarrow> js_error + 'a" where
  "service_rejection r = map_sum OtherReason (\<lambda>x. x) r"

text \<open>\<open>connectGui\<close> and \<open>deleteClusterFromEditor\<close> with the service calls answered by a backend.\<close>

definition connect_with ::
  "(string \<Rightarrow> 'st \<Rightarrow> (string + StoredClusterConnection) \<times> 'st) \<Rightarrow> ('st \<Rightarrow> StoredClusterConnection list) \<Rightarrow>
   js_error + GuiClusterSnapshot \<Rightarrow> 'st \<Rightarrow> 'a conn_state_scheme \<Rightarrow>
   ('a conn_state_scheme \<times> (StoredClusterConnection \<times> GuiClusterSnapshot) option) \<times> 'st" where
  "connect_with saving listing fetched st s =
     (let yaml = guiConnectionYaml s; s1 = connectGui_begin s in
      case fetched of
        Inl e \<Rightarrow> (connectGui_end (Inl e) s1, st)
      | Inr snapshot \<Rightarrow>
          (let (saved, st') = saving yaml st in
           (connectGui_end (fst (connect_calls yaml fetched (service_rejection saved) (Inr (listing st')))) s1, st')))"

definition delete_with ::
  "(string \<Rightarrow> 'st \<Rightarrow> (string + unit) \<times> 'st) \<Rightarrow> ('st \<Rightarrow> StoredClusterConnection list) \<Rightarrow>
   ('st \<Rightarrow> string + StoredClusterUiPrefs list) \<Rightarrow> 'st \<Rightarrow> 'a conn_state_scheme \<Rightarrow>
   ('a conn_state_scheme \<times> string option) \<times> 'st" where
  "delete_with deleting listing preferences st s =
     (case editing s of
       None \<Rightarrow> ((s, None), st)
     | Some i \<Rightarrow>
         (let (deleted, st') = deleting i st in
          (deleteClusterFromEditor (service_rejection deleted)
             (map_sum (\<lambda>e. e) (Pair (listing st')) (service_rejection (preferences st'))) s, st')))"

context connection_backend
begin

lemma connect_lists:
  assumes "ok st" "connect_with saving listing (Inr snapshot) st s = ((s', opened), st')"
    and "fst (saving (guiConnectionYaml s) st) = Inr c"
  shows "connectionConfigs s' = listing st'" "opened = Some (c, snapshot)" "activeClusterId s' = conn_id c"
    "active_ok s'" "c \<in> set (connectionConfigs s')" "conn_yaml c = guiConnectionYaml s" "ok st'"
    "distinct (map conn_id (connectionConfigs s'))"
    "\<And>d. d \<in> set (listing st) \<Longrightarrow> conn_id d \<noteq> conn_id c \<Longrightarrow> d \<in> set (connectionConfigs s')"
proof -
  have sv: "saving (guiConnectionYaml s) st = (Inr c, st')"
    using assms(2,3) by (auto simp: connect_with_def Let_def split: prod.splits)
  have s': "connectionConfigs s' = listing st' \<and> activeClusterId s' = conn_id c \<and> opened = Some (c, snapshot)"
    using assms(2) sv by (auto simp: connect_with_def Let_def connect_calls_def connectGui_end_def service_rejection_def)
  then show l: "connectionConfigs s' = listing st'" "opened = Some (c, snapshot)" "activeClusterId s' = conn_id c" by auto
  show ok': "ok st'" using saving_ok[OF assms(1)] sv by (metis snd_conv)
  show c: "c \<in> set (connectionConfigs s')" "conn_yaml c = guiConnectionYaml s"
    using saving_lists[OF assms(1) sv] l by auto
  show "active_ok s'" using c(1) l by (auto simp: active_ok_def)
  show "distinct (map conn_id (connectionConfigs s'))" using ids_distinct[OF ok'] l by simp
  show "d \<in> set (connectionConfigs s')" if "d \<in> set (listing st)" "conn_id d \<noteq> conn_id c" for d
    using saving_others[OF assms(1) sv that(2)] that(1) l by simp
qed

lemma connect_fails:
  assumes "connect_with saving listing fetched st s = ((s', opened), st')"
    and "(\<exists>e. fetched = Inl e) \<or> (\<exists>e. fst (saving (guiConnectionYaml s) st) = Inl e)"
  shows "connectionConfigs s' = connectionConfigs s" "activeClusterId s' = activeClusterId s" "opened = None" "st' = st"
  using assms saving_fails
  by (auto simp: connect_with_def Let_def connect_calls_def connectGui_end_def connectGui_begin_def service_rejection_def
      split: sum.splits prod.splits)

lemma delete_leaves_backend_list:
  assumes "ok st" "editing s = Some i" "deleting i st = (Inr u, st')"
    and "delete_with deleting listing preferences st s = ((s', r), st'')"
  shows "st'' = st'" "r = Some i" "connectionConfigs s' = listing st'" "active_ok s'"
    "i \<notin> set (map conn_id (connectionConfigs s'))" "obj_get (clusterUiPrefs s') i = None"
    "\<And>d. d \<in> set (listing st) \<Longrightarrow> conn_id d \<noteq> i \<Longrightarrow> d \<in> set (connectionConfigs s')"
proof -
  obtain es where es: "preferences st' = Inr es" "i \<notin> set (map pref_connection_id es)"
    using deleting_prefs[OF assms(1,3)] by blast
  have run: "s' = loadConnections (Inr (listing st', es)) (forget_cluster i s) \<and> r = Some i \<and> st'' = st'"
    using assms(2-4) es(1) by (auto simp: delete_with_def deleteClusterFromEditor_def service_rejection_def)
  then show "st'' = st'" "r = Some i" by auto
  show l: "connectionConfigs s' = listing st'" "active_ok s'" using run loadConnections_lists by auto
  show "i \<notin> set (map conn_id (connectionConfigs s'))" using deleting_lists[OF assms(1,3)] l by auto
  have "obj_get (prefs_record es) i = None" using es(2) by (auto simp: prefs_record_def)
  moreover have "clusterUiPrefs s' = prefs_record es"
    using run by (cases "listing st'") (auto simp: loadConnections_def Let_def)
  ultimately show "obj_get (clusterUiPrefs s') i = None" by simp
  show "d \<in> set (connectionConfigs s')" if "d \<in> set (listing st)" "conn_id d \<noteq> i" for d
    using deleting_lists[OF assms(1,3)] that l by simp
qed

end

section \<open>The store keeps the contract\<close>

lemma save_Inr:
  assumes "save_cluster_connection_yaml sha w y st = (Inr c, st')"
  shows "conn_yaml c = y" "st' = st\<lparr>st_files := obj_set (conn_id c) y (st_files st)\<rparr>"
    "\<exists>g. parse_gui_connection_yaml y = Inr g \<and> conn_name c = cfg_cluster_name g \<and> conn_id c = connection_stem sha y g"
  using assms by (auto simp: save_cluster_connection_yaml_def Let_def split: sum.splits)

lemma delete_Inr:
  assumes "delete_cluster_connection r w i st = (Inr u, st')"
  shows "\<exists>es. load_cluster_ui_prefs_file st = Inr es \<and> st' = st\<lparr>st_files := obj_del i (st_files st),
    st_prefs := Some (Inr (filter (\<lambda>e. pref_connection_id e \<noteq> i) es))\<rparr>"
  using assms
  by (auto simp: delete_cluster_connection_def Let_def save_cluster_ui_prefs_file_def load_cluster_ui_prefs_file_def
      split: sum.splits if_splits option.splits)

interpretation gui: connection_backend store_ok "save_cluster_connection_yaml sha w" list_cluster_connection_yamls
  list_cluster_ui_prefs "delete_cluster_connection r w'"
  for sha w r w'
proof unfold_locales
  show "distinct (map conn_id (list_cluster_connection_yamls st))" if "store_ok st" for st
    using that by (intro listed_ids) (simp add: store_ok_def)
  show "store_ok (snd (save_cluster_connection_yaml sha w y st))" if "store_ok st" for st y
    by (rule store_ok_save[OF that])
  show "store_ok (snd (delete_cluster_connection r w' i st))" if "store_ok st" for st i
    by (rule store_ok_delete[OF that])
  show "st' = st" if "save_cluster_connection_yaml sha w y st = (Inl e, st')" for y st e st'
    using that by (auto simp: save_cluster_connection_yaml_def Let_def split: sum.splits)
  fix st y c st'
  assume ok: "store_ok st" and sv: "save_cluster_connection_yaml sha w y st = (Inr c, st')"
  then have oks: "obj_ok (st_files st)" "obj_ok (st_files st')"
    using save_Inr(2)[OF sv] by (auto simp: store_ok_def)
  show "c \<in> set (list_cluster_connection_yamls st') \<and> conn_yaml c = y"
    using save_Inr[OF sv] listed_iff[OF oks(2), of c] by auto
  show "(d \<in> set (list_cluster_connection_yamls st')) = (d \<in> set (list_cluster_connection_yamls st))"
    if "conn_id d \<noteq> conn_id c" for d
    using that save_Inr(2)[OF sv] listed_iff[OF oks(1)] listed_iff[OF oks(2)] by simp
next
  fix st i u st'
  assume ok: "store_ok st" and dl: "delete_cluster_connection r w' i st = (Inr u, st')"
  obtain es where es: "load_cluster_ui_prefs_file st = Inr es" "st' = st\<lparr>st_files := obj_del i (st_files st),
    st_prefs := Some (Inr (filter (\<lambda>e. pref_connection_id e \<noteq> i) es))\<rparr>" using delete_Inr[OF dl] by blast
  then have oks: "obj_ok (st_files st)" "obj_ok (st_files st')" using ok by (auto simp: store_ok_def)
  show "(d \<in> set (list_cluster_connection_yamls st')) = (d \<in> set (list_cluster_connection_yamls st) \<and> conn_id d \<noteq> i)" for d
    using es(2) listed_iff[OF oks(1)] listed_iff[OF oks(2)] by auto
  show "\<exists>es. list_cluster_ui_prefs st' = Inr es \<and> i \<notin> set (map pref_connection_id es)"
    using es(2) by (auto simp: list_cluster_ui_prefs_def load_cluster_ui_prefs_file_def)
qed





text \<open>A rejection of the backend is a string, so that the handlers never show it: whatever the reason, the
  status is the general one.\<close>

lemma backend_reason_hidden:
  assumes "fst (save_cluster_connection_yaml sha w (guiConnectionYaml s) st) = Inl e"
  shows "guiConnectionStatus (fst (fst (connect_with (save_cluster_connection_yaml sha w) list_cluster_connection_yamls
     (Inr snapshot) st s))) = Some ''Failed to connect using provided YAML config.''"
  using assms
  by (auto simp: connect_with_def Let_def connect_calls_def connectGui_end_def service_rejection_def error_text_def split: prod.splits)

text \<open>A deletion whose preferences cannot be read removes the file and reports an error: the GUI keeps
  showing a connection that the backend no longer has, and every further attempt to delete it fails.\<close>

lemma half_deleted:
  assumes "st_prefs st = Some (Inl e)" "obj_get (st_files st) i \<noteq> None"
  shows "\<exists>st'. delete_cluster_connection (Inr ()) w i st = (Inl e, st') \<and> obj_get (st_files st') i = None \<and>
    delete_cluster_connection r' w' i st' = (Inl (not_found i), st')"
  using assms by (auto simp: delete_cluster_connection_def Let_def load_cluster_ui_prefs_file_def)

section \<open>Synchronising the URLs\<close>

definition plain_url :: "string \<Rightarrow> bool" where
  "plain_url u = (\<forall>c \<in> set u. \<not> is_rust_space c)"

lemma plain_url_js: "plain_url u \<Longrightarrow> CHR 0x85 \<notin> set u \<and> (\<forall>c \<in> set u. \<not> is_js_space c)"
  by (auto simp: plain_url_def is_rust_space_def is_js_space_def)

lemma normalizeUrl_subset: "set (normalizeUrl u) \<subseteq> set u"
  using strip_slashes_subset[of "trim u"] trim_subset[of u] by (auto simp: normalizeUrl_def)

lemma plain_url_ok: "plain_url u \<Longrightarrow> u \<noteq> [] \<Longrightarrow> url_ok u"
  using rust_space_chars by (auto simp: plain_url_def url_ok_def edge_ok_def starts_with_iff)

lemma unique_urls_set: "set (uniqueControlPlaneUrls us) = normalizeUrl ` set us - {[]}"
  using uniqueUrlsLoop_spec[of us "[]"] by (auto simp: uniqueControlPlaneUrls_def)

lemma merged_config_ok:
  assumes "config_ok c" "\<forall>u \<in> set us. plain_url u" "uniqueControlPlaneUrls us \<noteq> []"
  shows "config_ok (c\<lparr>cfg_urls := uniqueControlPlaneUrls us\<rparr>)"
proof -
  have "url_ok v" if "v \<in> set (uniqueControlPlaneUrls us)" for v
    using that assms(2) normalizeUrl_subset unfolding unique_urls_set
    by (intro plain_url_ok) (auto simp: plain_url_def)
  with assms show ?thesis by (auto simp: config_ok_def list_all_iff)
qed

lemma merge_plain:
  assumes "\<forall>u \<in> set (a @ b). plain_url u"
  shows "merge_control_plane_urls a b = uniqueControlPlaneUrls (a @ b)"
  using merge_source_loop[of "a @ b" "({}, [])"] assms plain_url_js
  by (simp add: merge_control_plane_urls_def uniqueControlPlaneUrls_def merge_source_append)

text \<open>C26: synchronising a connection adds the discovered URLs and touches nothing else: after it the file of
  the connection, and only that file, holds the same configuration with the merged URLs (those of the
  file first, in the GUI's normal form, none lost and none twice), the answer carries the id, the
  name and the text of the file, and synchronising again with the same URLs writes nothing.\<close>

theorem sync_spec:
  assumes "obj_get (st_files st) i = Some t" "parse_gui_connection_yaml t = Inr c" "config_ok c"
    and "\<forall>u \<in> set (cfg_urls c @ urls). plain_url u" "uniqueControlPlaneUrls (cfg_urls c @ urls) \<noteq> []"
  shows "\<exists>r st'. sync_cluster_connection_control_plane_urls (Inr ()) i urls st = (Inr r, st') \<and>
    conn_id r = i \<and> conn_name r = cfg_cluster_name c \<and>
    parse_gui_connection_yaml (conn_yaml r) = Inr (c\<lparr>cfg_urls := uniqueControlPlaneUrls (cfg_urls c @ urls)\<rparr>) \<and>
    (\<forall>j. obj_get (st_files st') j = (if j = i then Some (conn_yaml r) else obj_get (st_files st) j)) \<and>
    st_prefs st' = st_prefs st \<and>
    sync_cluster_connection_control_plane_urls w i urls st' = (Inr r, st')"
proof -
  let ?m = "uniqueControlPlaneUrls (cfg_urls c @ urls)"
  let ?d = "c\<lparr>cfg_urls := ?m\<rparr>"
  have m: "merge_control_plane_urls (cfg_urls c) urls = ?m" by (rule merge_plain[OF assms(4)])
  have parse_d: "parse_gui_connection_yaml (dump_gui_connection_yaml ?d) = Inr ?d"
    by (rule parse_dump[OF merged_config_ok[OF assms(3-5)]])
  have "\<forall>u \<in> set (?m @ urls). plain_url u"
    using assms(4) normalizeUrl_subset unfolding set_append unique_urls_set by (fastforce simp: plain_url_def)
  moreover have "uniqueControlPlaneUrls (?m @ urls) = ?m"
    using assms(4) plain_url_js by (intro uniqueControlPlaneUrls_stable) auto
  ultimately have again: "merge_control_plane_urls ?m urls = ?m" using merge_plain by metis
  show ?thesis
  proof (cases "?m = cfg_urls c")
    case True
    then have "?d = c" by simp
    with True show ?thesis using assms m
      by (simp add: sync_cluster_connection_control_plane_urls_def Let_def)
  next
    case False
    then show ?thesis using assms(1,2,5) m parse_d again
      by (simp add: sync_cluster_connection_control_plane_urls_def Let_def)
  qed
qed

theorem sync_spec_witness:
  "let st = empty_store\<lparr>st_files := [(''a'', DEFAULT_GUI_CONNECTION_YAML)]\<rparr> in
   \<exists>r st'. sync_cluster_connection_control_plane_urls (Inr ()) ''a'' [''http://10.0.0.2:8734/''] st = (Inr r, st') \<and>
     conn_name r = ''demo'' \<and> st_prefs st' = None"
proof -
  let ?st = "empty_store\<lparr>st_files := [(''a'', DEFAULT_GUI_CONNECTION_YAML)]\<rparr>"
  let ?us = "[''http://127.0.0.1:8734'', ''http://10.0.0.2:8734/'']"
  have pl: "\<forall>u \<in> set ?us. plain_url u" by (simp add: plain_url_def is_rust_space_def)
  have "trim ''http://127.0.0.1:8734'' = ''http://127.0.0.1:8734''" by (rule trim_no_space) (simp add: is_js_space_def)
  then have "normalizeUrl ''http://127.0.0.1:8734'' = ''http://127.0.0.1:8734''"
    by (simp add: normalizeUrl_def strip_slashes_id)
  then have "''http://127.0.0.1:8734'' \<in> set (uniqueControlPlaneUrls ?us)" by (simp add: unique_urls_set)
  then have ne: "uniqueControlPlaneUrls ?us \<noteq> []" by (metis empty_iff empty_set)
  let ?c = "\<lparr>cfg_cluster_name = ''demo'', cfg_urls = [''http://127.0.0.1:8734''], cfg_user_id = ''admin'', cfg_role = ''admin'',
    cfg_public_key = ''REPLACE_WITH_GENERATED_PUBLIC_KEY'', cfg_private_key = ''REPLACE_WITH_GENERATED_PRIVATE_KEY''\<rparr>"
  have c: "config_ok ?c"
    by (simp add: config_ok_def url_ok_def value_ok_def edge_ok_def is_quote_def is_rust_space_def starts_with_def
        newline_def carriage_def)
  have g: "obj_get (st_files ?st) ''a'' = Some DEFAULT_GUI_CONNECTION_YAML" by (simp add: obj_get_def)
  obtain r st' where "sync_cluster_connection_control_plane_urls (Inr ()) ''a'' [''http://10.0.0.2:8734/''] ?st = (Inr r, st')"
    "conn_name r = cfg_cluster_name ?c" "st_prefs st' = st_prefs ?st"
    using sync_spec[OF g default_yaml_parses c, of "[''http://10.0.0.2:8734/'']" "Inr ()"] pl ne by auto
  then show ?thesis by (auto simp: Let_def empty_store_def)
qed

end
