(* ===== verification/DetachedWindows.thy ===== *)
theory DetachedWindows
  imports AppShell ConnectionYaml
begin

text \<open>
  The windows the backend opens for detached tabs, \<open>src-tauri/src/main.rs\<close> (Rust): the label and the title
  of the window, and the query by which it is told its tab. The start-up code that reads the query is in
  \<open>WindowState\<close>, the callback that detaches in \<open>AppShell\<close>; here the two ends are put together.
\<close>

section \<open>Labels and titles\<close>

definition label_char :: "char \<Rightarrow> bool" where
  "label_char c = (is_ascii_alphanumeric c \<or> c = CHR ''-'' \<or> c = CHR ''_'')"

definition sanitize_tab_id_for_window_label :: "string \<Rightarrow> string" where
  "sanitize_tab_id_for_window_label tid =
     (let sanitized = map (\<lambda>ch. if label_char ch then ch else CHR ''-'') tid in
      if sanitized = [] then ''tab'' else sanitized)"

definition tab_window_label :: "string \<Rightarrow> nat \<Rightarrow> string" where
  "tab_window_label tid epoch_ms =
     ''xenage-'' @ sanitize_tab_id_for_window_label tid @ ''-'' @ show_nat epoch_ms"

definition subwindow_label :: "string \<Rightarrow> nat \<Rightarrow> string" where
  "subwindow_label tid epoch_ms =
     ''xenage-subwindow-'' @ sanitize_tab_id_for_window_label tid @ ''-'' @ show_nat epoch_ms"

definition window_title :: "string \<Rightarrow> string \<Rightarrow> string" where
  "window_title title clusterLabel =
     (if rust_trim clusterLabel = [] then title else title @ '' '' @ [CHR 0xB7] @ '' '' @ clusterLabel)"

text \<open>A label is one the window manager accepts, and windows opened at different times for one tab have
  different labels.\<close>

lemma window_label_chars: "list_all label_char (tab_window_label i t)" "list_all label_char (subwindow_label i t)"
proof -
  have d: "list_all label_char (show_nat t)"
    using show_nat_digits[of _ t] by (auto simp: list_all_iff label_char_def is_ascii_alphanumeric_def is_digit_def Let_def)
  have s: "list_all label_char (sanitize_tab_id_for_window_label i)"
    by (auto simp: sanitize_tab_id_for_window_label_def Let_def list_all_iff label_char_def is_ascii_alphanumeric_def)
  show "list_all label_char (tab_window_label i t)" "list_all label_char (subwindow_label i t)"
    using d s by (simp_all add: tab_window_label_def subwindow_label_def label_char_def is_ascii_alphanumeric_def)
qed

section \<open>The query of a sub-window\<close>

definition window_keys :: "string set" where
  "window_keys = {''tabPopout'', ''tabKind'', ''clusterId'', ''tabId'', ''subWindowPopout'', ''subWindowKind'', ''subWindowTabId'',
     ''subWindowTitle'', ''subWindowIcon'', ''subWindowClusterId'', ''subWindowClusterYaml'', ''subWindowResourceKind'',
     ''subWindowResourceName'', ''subWindowYaml''}"

definition append_nonblank :: "string \<Rightarrow> string option \<Rightarrow> (string \<times> string) list" where
  "append_nonblank key v = (case v of Some x \<Rightarrow> if rust_trim x \<noteq> [] then [(key, x)] else [] | None \<Rightarrow> [])"

definition kind_text :: "horizontal_kind \<Rightarrow> string" where
  "kind_text k = (case k of ConsoleWindow \<Rightarrow> ''console'' | RbacEditorWindow \<Rightarrow> ''rbac-editor'')"

text \<open>The request of a console has none of the optional values; that of an editor has all of them, the name of a
  resource that has none as the empty text.\<close>

definition detached_subwindow_query ::
  "DetachedHorizontalTabWindowRequest \<Rightarrow> (string \<times> string) list \<Rightarrow> (string \<times> string) list" where
  "detached_subwindow_query req pairs =
     filter (\<lambda>p. fst p \<notin> window_keys) pairs @
     [(''subWindowPopout'', ''1''), (''subWindowKind'', kind_text (dh_kind req)), (''subWindowTabId'', dh_tabId req),
      (''subWindowTitle'', dh_tabTitle req), (''subWindowIcon'', dh_tabIcon req), (''subWindowClusterId'', dh_clusterId req)] @
     append_nonblank ''subWindowClusterYaml'' (map_option pl_clusterYaml (dh_resource req)) @
     append_nonblank ''subWindowResourceKind'' (map_option pl_kind (dh_resource req)) @
     append_nonblank ''subWindowResourceName'' (map_option (\<lambda>p. nullish (pl_resourceName p) []) (dh_resource req)) @
     append_nonblank ''subWindowYaml'' (map_option pl_yaml (dh_resource req))"

section \<open>Detaching and starting\<close>

lemma rust_trim_nil: "rust_trim [] = []"
  by (simp add: rust_trim_def rust_trim_end_def rust_trim_start_def)

lemma rust_blank_js: "trim v = [] \<Longrightarrow> rust_trim v = []"
proof -
  assume "trim v = []"
  then have "\<forall>c \<in> set v. is_js_space c"
    by (auto simp: trim_def trim_end_def trim_start_def dropWhile_eq_Nil_conv)
       (metis dropWhile_eq_Nil_conv dropWhile_idem hd_dropWhile hd_in_set trim_start_def)
  then have "\<forall>c \<in> set v. is_rust_space c" by (auto simp: is_js_space_def is_rust_space_def)
  then show "rust_trim v = []"
    by (auto simp: rust_trim_def rust_trim_end_def rust_trim_start_def dropWhile_eq_Nil_conv dest: set_dropWhileD)
qed

lemma query_get_cons: "query_get ((k, v) # r) n = (if k = n then Some v else query_get r n)"
  by (simp add: query_get_def)

lemma query_get_nil: "query_get [] n = None"
  by (simp add: query_get_def)

definition nonblank :: "string option \<Rightarrow> string option" where
  "nonblank v = (case v of Some x \<Rightarrow> if rust_trim x \<noteq> [] then Some x else None | None \<Rightarrow> None)"

lemma query_get_nonblank:
  "query_get (append_nonblank k v @ r) n =
     (if k = n then (case nonblank v of Some x \<Rightarrow> Some x | None \<Rightarrow> query_get r n) else query_get r n)"
  by (auto simp: append_nonblank_def nonblank_def query_get_def split: option.splits)

lemmas query_gets = query_get_cons query_get_nil query_get_nonblank query_get_nonblank[where r = "[]", simplified]

lemma query_get_subwindow:
  assumes "n \<in> window_keys"
  shows "query_get (detached_subwindow_query req pairs) n = query_get (detached_subwindow_query req []) n"
proof -
  have "map_of (filter (\<lambda>p. fst p \<notin> window_keys) pairs) n = None" using assms by (auto simp: map_of_eq_None_iff)
  then show ?thesis by (simp add: detached_subwindow_query_def query_get_def map_add_def)
qed

lemma query_get_window_keys:
  "query_get (detached_subwindow_query req pairs) ''subWindowPopout'' = Some ''1''"
  "query_get (detached_subwindow_query req pairs) ''subWindowKind'' = Some (kind_text (dh_kind req))"
  "query_get (detached_subwindow_query req pairs) ''subWindowTabId'' = Some (dh_tabId req)"
  "query_get (detached_subwindow_query req pairs) ''subWindowTitle'' = Some (dh_tabTitle req)"
  "query_get (detached_subwindow_query req pairs) ''subWindowIcon'' = Some (dh_tabIcon req)"
  "query_get (detached_subwindow_query req pairs) ''subWindowClusterId'' = Some (dh_clusterId req)"
  by (subst query_get_subwindow, simp add: window_keys_def, simp add: detached_subwindow_query_def query_gets)+

lemma query_get_window_values:
  "query_get (detached_subwindow_query req pairs) ''subWindowClusterYaml'' = nonblank (map_option pl_clusterYaml (dh_resource req))"
  "query_get (detached_subwindow_query req pairs) ''subWindowResourceKind'' = nonblank (map_option pl_kind (dh_resource req))"
  "query_get (detached_subwindow_query req pairs) ''subWindowResourceName'' =
     nonblank (map_option (\<lambda>p. nullish (pl_resourceName p) []) (dh_resource req))"
  "query_get (detached_subwindow_query req pairs) ''subWindowYaml'' = nonblank (map_option pl_yaml (dh_resource req))"
  by (subst query_get_subwindow, simp add: window_keys_def,
      simp add: detached_subwindow_query_def query_gets split: option.splits)+

text \<open>What can be handed over: an identifier, title and names without white space around them, and texts that are
  not blank for either end.\<close>

definition name_ok :: "string \<Rightarrow> bool" where
  "name_ok v = (plain v \<and> v \<noteq> [] \<and> rust_trim v \<noteq> [])"

definition text_ok :: "string \<Rightarrow> bool" where
  "text_ok v = (trim v \<noteq> [] \<and> rust_trim v \<noteq> [])"

definition can_detach :: "SubWindowTab \<Rightarrow> bool" where
  "can_detach tab =
     (name_ok (sub_id tab) \<and> name_ok (sub_title tab) \<and>
      sub_icon tab \<in> {''session'', ''user'', ''role'', ''roleBinding'', ''overview''} \<and>
      (case sub_content tab of
        ConsoleContent \<Rightarrow> True
      | RbacContent p st \<Rightarrow> name_ok (pl_clusterId p) \<and> name_ok (pl_kind p) \<and> text_ok (pl_clusterYaml p) \<and>
          text_ok (pl_yaml p) \<and> (case pl_resourceName p of None \<Rightarrow> True | Some n \<Rightarrow> name_ok n)))"

definition without_status :: "SubWindowTab \<Rightarrow> SubWindowTab" where
  "without_status tab = tab\<lparr>sub_content := (case sub_content tab of
     ConsoleContent \<Rightarrow> ConsoleContent | RbacContent p st \<Rightarrow> RbacContent p None)\<rparr>"

lemma known_icon:
  "i \<in> {''session'', ''user'', ''role'', ''roleBinding'', ''overview''} \<Longrightarrow> parseHorizontalIcon (Some i) = i"
  by (auto simp: parseHorizontalIcon_def)

lemma kind_text_trimmed:
  "trim ''console'' = ''console''" "trim ''rbac-editor'' = ''rbac-editor''"
  by code_simp+

lemmas window_start_simps = parseInitialHorizontalWindowTab_def trimmed_param_def raw_param_def query_get_window_keys
  query_get_window_values kind_text_def kind_text_trimmed Let_def


definition demo_editor :: SubWindowTab where
  "demo_editor = \<lparr>sub_id = ''rbac:c1'', sub_title = ''Role'', sub_icon = ''role'', sub_content =
     RbacContent \<lparr>pl_clusterId = ''c1'', pl_clusterYaml = ''id: c1'', pl_kind = ''Role'', pl_resourceName = None, pl_yaml = ''kind: Role''\<rparr>
       (Some ''Applied'')\<rparr>"


text \<open>Not every tab can be detached: for an editor whose text has been deleted the backend leaves out the text, the new window
  reads no tab from its query, and the source window, told that the window was opened, closes the tab it had.\<close>

lemma emptied_editor_lost:
  assumes "List.find (\<lambda>item. sub_id item = i) renderTabs = Some tab" "sub_content tab = RbacContent p st" "trim (pl_yaml p) = []"
    and "detachHorizontalTab renderTabs i s = Some req"
    and "parse_url url = Some (detached_subwindow_query req pairs)"
  shows "map_sum id horizontal_init (parseInitialHorizontalWindowTab parse_url url) = Inr ([], [])"
    and "i \<notin> sub_id ` set (horizontalTabs (detachHorizontalTab_end i True s))"
proof -
  have "dh_kind req = RbacEditorWindow" "dh_resource req = Some p"
    using assms(1,2,4) by (auto simp: detachHorizontalTab_def Let_def)
  moreover from this have "raw_param (detached_subwindow_query req pairs) ''subWindowYaml'' = []"
    using rust_blank_js[OF assms(3)] by (simp add: raw_param_def query_get_window_values nonblank_def)
  moreover have "trim [] = []" by (simp add: trim_def trim_start_def trim_end_def)
  ultimately have "parseInitialHorizontalWindowTab parse_url url = Inr None"
    using assms(5) by (simp add: parseInitialHorizontalWindowTab_def trimmed_param_def query_get_window_keys(1,2)
        kind_text_def kind_text_trimmed Let_def)
  then show "map_sum id horizontal_init (parseInitialHorizontalWindowTab parse_url url) = Inr ([], [])"
    by (simp add: horizontal_init_def)
  show "i \<notin> sub_id ` set (horizontalTabs (detachHorizontalTab_end i True s))"
    by (auto simp: detachHorizontalTab_end_def closeHorizontalTab_def remove_sub_def remove_key_def Let_def)
qed

text \<open>A workspace tab that is detached from a window that itself was opened for a sub-window tab takes that tab along: the
  command removes only the keys of workspace tabs from the query.\<close>

lemma subwindow_follows_tab:
  assumes "parse_url url = Some (detached_query req pairs)" "parse_url source = Some pairs"
  shows "parseInitialHorizontalWindowTab parse_url url = parseInitialHorizontalWindowTab parse_url source"
proof -
  have "query_get (detached_query req pairs) n = query_get pairs n"
    if "n \<notin> {''tabPopout'', ''tabKind'', ''clusterId'', ''tabId''}" for n
  proof -
    have "map_of (filter (\<lambda>p. fst p \<notin> {''tabPopout'', ''tabKind'', ''clusterId'', ''tabId''}) pairs) n = map_of pairs n"
      using that by (induction pairs) auto
    then show ?thesis using that by (auto simp: query_get_def detached_query_def map_add_def split: option.split)
  qed
  with assms show ?thesis by (simp add: parseInitialHorizontalWindowTab_def trimmed_param_def raw_param_def Let_def)
qed

end
