(* ===== verification/SchemaGenerator.thy ===== *)
theory SchemaGenerator
  imports ManifestCopy
begin

text \<open>
  The generator of the manifest (Python): the structures of the resources and the table rows
  (\<open>structures/common.py\<close>, \<open>structures/resources\<close>), what the GUI shows of them
  (\<open>resources/manifest/gui.py\<close>), and the functions that turn the two into the manifest
  (\<open>resources/manifest/generator.py\<close>). An annotation is a datatype, a class the record of its fields. What
  \<open>msgspec.structs.fields\<close> returns is the parameter \<open>structs_fields\<close>; the hypothesis \<open>msgspec_fields\<close> is its
  documented order: the fields of the base class, then those of the class, a redeclared field in its
  first place, and the keyword-only fields after all others. The theorem is that the generator, run
  on the structures, gives the manifest the GUI is built with, value for value.
\<close>

section \<open>Annotations, values and classes\<close>

datatype annotation =
    TType string
  | TList annotation
  | TDict annotation annotation
  | TUnion "annotation list"
  | TAnnotated annotation "string list"
  | TLiteral "string list"

datatype py_value =
    PyNone
  | PyBool bool
  | PyInt int
  | PyStr string
  | PyList "py_value list"
  | PyDict "(string \<times> py_value) list"
  | PyStruct string "(string \<times> py_value) list"

record field_info =
  fi_name :: string
  fi_type :: annotation
  fi_default :: "py_value option"
  fi_factory :: "py_value option"
  fi_kw_only :: bool

record struct_class =
  cls_name :: string
  cls_kind :: string
  cls_base :: "field_info list"
  cls_own :: "field_info list"

definition fld :: "string \<Rightarrow> annotation \<Rightarrow> field_info" where
  "fld n t = \<lparr>fi_name = n, fi_type = t, fi_default = None, fi_factory = None, fi_kw_only = False\<rparr>"

definition dflt :: "string \<Rightarrow> annotation \<Rightarrow> py_value option \<Rightarrow> field_info" where
  "dflt n t v = \<lparr>fi_name = n, fi_type = t, fi_default = v, fi_factory = None, fi_kw_only = False\<rparr>"

definition fact :: "string \<Rightarrow> annotation \<Rightarrow> py_value \<Rightarrow> field_info" where
  "fact n t v = \<lparr>fi_name = n, fi_type = t, fi_default = None, fi_factory = Some v, fi_kw_only = False\<rparr>"

text \<open>The order in which msgspec documents the fields of a class.\<close>

fun declare_field :: "field_info \<Rightarrow> field_info list \<Rightarrow> field_info list" where
  "declare_field f [] = [f]"
| "declare_field f (g # gs) = (if fi_name g = fi_name f then f # gs else g # declare_field f gs)"

definition documented_fields :: "struct_class \<Rightarrow> field_info list" where
  "documented_fields c =
     (let fs = fold declare_field (cls_own c) (cls_base c) in
      filter (\<lambda>f. \<not> fi_kw_only f) fs @ filter fi_kw_only fs)"

definition msgspec_fields :: "(struct_class \<Rightarrow> field_info list) \<Rightarrow> bool" where
  "msgspec_fields structs_fields = (\<forall>c. structs_fields c = documented_fields c)"

text \<open>An instance: every field has the argument given for it or its default; a field without either is
  a \<open>TypeError\<close>.\<close>

fun construct_fields :: "field_info list \<Rightarrow> (string \<times> py_value) list \<Rightarrow> (string \<times> py_value) list option" where
  "construct_fields [] args = Some []"
| "construct_fields (f # fs) args =
     (case (case map_of args (fi_name f) of Some v \<Rightarrow> Some v
            | None \<Rightarrow> (case fi_default f of Some v \<Rightarrow> Some v | None \<Rightarrow> fi_factory f)) of
       None \<Rightarrow> None
     | Some v \<Rightarrow> map_option ((#) (fi_name f, v)) (construct_fields fs args))"

definition construct :: "struct_class \<Rightarrow> (string \<times> py_value) list \<Rightarrow> py_value option" where
  "construct c args = map_option (PyStruct (cls_name c)) (construct_fields (documented_fields c) args)"

section \<open>The structures\<close>

definition t_str :: annotation where "t_str = TType ''str''"
definition t_int :: annotation where "t_int = TType ''int''"
definition t_bool :: annotation where "t_bool = TType ''bool''"
definition t_opt_str :: annotation where "t_opt_str = TUnion [t_str, TType ''NoneType'']"
definition t_labels :: annotation where "t_labels = TDict t_str t_str"

definition plain_class :: "string \<Rightarrow> field_info list \<Rightarrow> struct_class" where
  "plain_class n fs = \<lparr>cls_name = n, cls_kind = n, cls_base = [], cls_own = fs\<rparr>"

definition ResourceDocument_fields :: "field_info list" where
  "ResourceDocument_fields =
     [(fld ''metadata'' (TType ''ObjectMeta''))\<lparr>fi_kw_only := True\<rparr>,
      (dflt ''apiVersion'' t_str (Some (PyStr ''xenage.io/v1alpha1'')))\<lparr>fi_kw_only := True\<rparr>]"

definition document_class :: "string \<Rightarrow> field_info list \<Rightarrow> struct_class" where
  "document_class n fs = \<lparr>cls_name = n, cls_kind = n, cls_base = ResourceDocument_fields, cls_own = fs\<rparr>"

definition meta_tail :: "field_info list" where
  "meta_tail = [fact ''labels'' t_labels (PyDict []), fact ''annotations'' t_labels (PyDict []),
     dflt ''uid'' t_opt_str (Some PyNone), dflt ''generation'' t_int (Some (PyInt 1)), dflt ''createdAt'' t_opt_str (Some PyNone)]"

definition ObjectMeta :: struct_class where
  "ObjectMeta = plain_class ''ObjectMeta''
     (fld ''name'' t_str # dflt ''namespace'' t_str (Some (PyStr ''default'')) # meta_tail)"

definition NodeMeta :: struct_class where
  "NodeMeta = plain_class ''NodeMeta'' (fld ''name'' t_str # meta_tail)"

definition t_node_role :: annotation where "t_node_role = TLiteral [''control-plane'', ''runtime'']"

definition NodeSpec :: struct_class where
  "NodeSpec = plain_class ''NodeSpec''
     [fld ''nodeId'' t_str, fld ''role'' t_node_role, fld ''publicKey'' t_str, fact ''endpoints'' (TList t_str) (PyList [])]"

definition NodeStatus :: struct_class where
  "NodeStatus = plain_class ''NodeStatus''
     [fld ''phase'' (TLiteral [''Connected'', ''Unreachable'']), fld ''leader'' t_bool, fld ''lastSeenAt'' t_str]"

definition Node :: struct_class where
  "Node = document_class ''Node''
     [dflt ''metadata'' (TType ''NodeMeta'') (construct NodeMeta [(''name'', PyStr ''cp-1'')]),
      dflt ''spec'' (TType ''NodeSpec'') (construct NodeSpec
        [(''nodeId'', PyStr ''cp-1''), (''role'', PyStr ''control-plane''), (''publicKey'', PyStr ''base64-public-key''),
         (''endpoints'', PyList [PyStr ''http://127.0.0.1:8734''])]),
      dflt ''status'' (TType ''NodeStatus'') (construct NodeStatus
        [(''phase'', PyStr ''Connected''), (''leader'', PyBool True), (''lastSeenAt'', PyStr ''2026-03-14T12:24:00Z'')])]"

definition NodeRecord_class :: struct_class where
  "NodeRecord_class = plain_class ''NodeRecord''
     [fld ''node_id'' t_str, fld ''role'' t_node_role, fld ''public_key'' t_str, fact ''endpoints'' (TList t_str) (PyList [])]"

definition GroupEndpoint :: struct_class where
  "GroupEndpoint = plain_class ''GroupEndpoint'' [fld ''node_id'' t_str, fld ''url'' t_str]"

definition GroupNodeSyncStatus :: struct_class where
  "GroupNodeSyncStatus = plain_class ''GroupNodeSyncStatus''
     [fld ''node_id'' t_str, dflt ''status'' (TLiteral [''unknown'', ''syncing'', ''synced'', ''broken'']) (Some (PyStr ''unknown'')),
      dflt ''reason'' t_str (Some (PyStr [])), dflt ''updated_at'' t_str (Some (PyStr []))]"

definition GroupConfigSpec :: struct_class where
  "GroupConfigSpec = plain_class ''GroupConfigSpec''
     [fld ''groupId'' t_str, fld ''stateVersion'' t_int, fld ''leaderEpoch'' t_int, fld ''leaderNodeId'' t_str,
      fld ''leaderPubkey'' t_str, fld ''controlPlanes'' (TList (TType ''NodeRecord'')),
      fld ''runtimes'' (TList (TType ''NodeRecord'')), fld ''endpoints'' (TList (TType ''GroupEndpoint'')),
      fld ''expiresAt'' t_str, fact ''nodeStatuses'' (TList (TType ''GroupNodeSyncStatus'')) (PyList [])]"

definition GroupConfigStatus :: struct_class where
  "GroupConfigStatus = plain_class ''GroupConfigStatus''
     [fld ''phase'' (TLiteral [''Active'', ''Stale'']), fld ''controlPlaneCount'' t_int, fld ''runtimeCount'' t_int]"

text \<open>A list of constructed instances: failing as soon as one does.\<close>

definition instances :: "py_value option list \<Rightarrow> py_value option" where
  "instances vs = (if None \<in> set vs then None else Some (PyList (map the vs)))"

definition arg :: "string \<Rightarrow> py_value option \<Rightarrow> (string \<times> py_value) list" where
  "arg n v = (case v of None \<Rightarrow> [] | Some x \<Rightarrow> [(n, x)])"

definition GroupConfig :: struct_class where
  "GroupConfig = document_class ''GroupConfig''
     [dflt ''metadata'' (TType ''ObjectMeta'') (construct ObjectMeta [(''name'', PyStr ''main'')]),
      dflt ''spec'' (TType ''GroupConfigSpec'') (construct GroupConfigSpec
        ([(''groupId'', PyStr ''demo''), (''stateVersion'', PyInt 42), (''leaderEpoch'', PyInt 3),
          (''leaderNodeId'', PyStr ''cp-1''), (''leaderPubkey'', PyStr ''base64-public-key'')] @
         arg ''controlPlanes'' (instances [construct NodeRecord_class
           [(''node_id'', PyStr ''cp-1''), (''role'', PyStr ''control-plane''), (''public_key'', PyStr ''base64-public-key''),
            (''endpoints'', PyList [PyStr ''http://127.0.0.1:8734''])]]) @
         arg ''runtimes'' (instances [construct NodeRecord_class
           [(''node_id'', PyStr ''rt-1''), (''role'', PyStr ''runtime''), (''public_key'', PyStr ''base64-runtime-key''),
            (''endpoints'', PyList [PyStr ''http://127.0.0.1:8735''])]]) @
         arg ''endpoints'' (instances
           [construct GroupEndpoint [(''node_id'', PyStr ''cp-1''), (''url'', PyStr ''http://127.0.0.1:8734'')],
            construct GroupEndpoint [(''node_id'', PyStr ''rt-1''), (''url'', PyStr ''http://127.0.0.1:8735'')]]) @
         [(''expiresAt'', PyStr ''2026-03-14T12:30:00Z'')])),
      dflt ''status'' (TType ''GroupConfigStatus'') (construct GroupConfigStatus
        [(''phase'', PyStr ''Active''), (''controlPlaneCount'', PyInt 1), (''runtimeCount'', PyInt 1)])]"

definition EventSpec :: struct_class where
  "EventSpec = plain_class ''EventSpec''
     [fld ''regarding'' t_str, fld ''type'' (TLiteral [''Normal'', ''Warning'']), fld ''reason'' t_str, fld ''message'' t_str]"

definition EventStatus :: struct_class where
  "EventStatus = plain_class ''EventStatus''
     [fld ''phase'' (TLiteral [''Observed'']), fld ''count'' t_int, fld ''lastSeenAt'' t_str]"

definition Event :: struct_class where
  "Event = document_class ''Event''
     [dflt ''metadata'' (TType ''ObjectMeta'') (construct ObjectMeta [(''name'', PyStr ''event-1d2f'')]),
      dflt ''spec'' (TType ''EventSpec'') (construct EventSpec
        [(''regarding'', PyStr ''Node/cp-1''), (''type'', PyStr ''Normal''), (''reason'', PyStr ''Joined''),
         (''message'', PyStr ''Node cp-1 joined the group'')]),
      dflt ''status'' (TType ''EventStatus'') (construct EventStatus
        [(''phase'', PyStr ''Observed''), (''count'', PyInt 1), (''lastSeenAt'', PyStr ''2026-03-14T12:24:00Z'')])]"

definition RbacObjectMeta :: struct_class where
  "RbacObjectMeta = plain_class ''RbacObjectMeta'' (fld ''name'' t_str # meta_tail)"

definition ServiceAccountSpec :: struct_class where
  "ServiceAccountSpec = plain_class ''ServiceAccountSpec''
     [fld ''engine'' t_str, fld ''publicKey'' t_str, dflt ''enabled'' t_bool (Some (PyBool True))]"

definition ServiceAccountStatus :: struct_class where
  "ServiceAccountStatus = plain_class ''ServiceAccountStatus'' [dflt ''phase'' t_str (Some (PyStr ''Active''))]"

definition User :: struct_class where
  "User = document_class ''User''
     [dflt ''apiVersion'' t_str (Some (PyStr ''xenage.dev/v1'')),
      dflt ''metadata'' (TType ''RbacObjectMeta'') (construct RbacObjectMeta [(''name'', PyStr ''default'')]),
      dflt ''spec'' (TType ''ServiceAccountSpec'') (construct ServiceAccountSpec
        [(''engine'', PyStr ''runtime/v1''), (''publicKey'', PyStr [])]),
      dflt ''status'' (TType ''ServiceAccountStatus'') (construct ServiceAccountStatus [])]"

definition EventLogEntry_class :: struct_class where
  "EventLogEntry_class = plain_class ''EventLogEntry''
     [fld ''sequence'' t_int, fld ''happened_at'' t_str, fld ''actor_id'' t_str,
      fld ''actor_type'' (TLiteral [''node'', ''user'', ''system'']), fld ''action'' t_str, fact ''details'' t_labels (PyDict [])]"

definition ClusterNodeTableRow_class :: struct_class where
  "ClusterNodeTableRow_class = plain_class ''ClusterNodeTableRow''
     [fld ''node_id'' t_str, fld ''role'' t_node_role, fld ''leader'' t_bool,
      fld ''public_key'' (TAnnotated t_str [''display_only'']), fact ''endpoints'' (TList t_str) (PyList []),
      dflt ''status'' t_str (Some (PyStr [])), dflt ''name'' t_str (Some (PyStr [])),
      dflt ''version'' t_str (Some (PyStr [])), dflt ''age'' t_str (Some (PyStr [])),
      dflt ''last_poll_at'' t_str (Some (PyStr []))]"

definition GroupConfigKeyTableRow_class :: struct_class where
  "GroupConfigKeyTableRow_class = plain_class ''GroupConfigKeyTableRow'' [fld ''key'' t_str, fld ''value'' t_str]"

definition UserTableRow :: struct_class where
  "UserTableRow = plain_class ''UserTableRow''
     [fld ''name'' t_str, fld ''engine'' t_str, fld ''enabled'' t_bool, fld ''public_key'' (TAnnotated t_str [''display_only''])]"

definition RoleTableRow :: struct_class where
  "RoleTableRow = plain_class ''RoleTableRow'' [fld ''name'' t_str, fld ''rule_count'' t_int]"

definition RoleBindingTableRow :: struct_class where
  "RoleBindingTableRow = plain_class ''RoleBindingTableRow''
     [fld ''name'' t_str, fld ''role'' t_str, fld ''subject_count'' t_int]"

text \<open>The class a name in an annotation stands for.\<close>

definition class_named :: "string \<Rightarrow> struct_class option" where
  "class_named n =
     (if n = ''ObjectMeta'' then Some ObjectMeta
      else if n = ''NodeMeta'' then Some NodeMeta
      else if n = ''NodeSpec'' then Some NodeSpec
      else if n = ''NodeStatus'' then Some NodeStatus
      else if n = ''Node'' then Some Node
      else if n = ''NodeRecord'' then Some NodeRecord_class
      else if n = ''GroupEndpoint'' then Some GroupEndpoint
      else if n = ''GroupNodeSyncStatus'' then Some GroupNodeSyncStatus
      else if n = ''GroupConfigSpec'' then Some GroupConfigSpec
      else if n = ''GroupConfigStatus'' then Some GroupConfigStatus
      else if n = ''GroupConfig'' then Some GroupConfig
      else if n = ''EventSpec'' then Some EventSpec
      else if n = ''EventStatus'' then Some EventStatus
      else if n = ''Event'' then Some Event
      else if n = ''RbacObjectMeta'' then Some RbacObjectMeta
      else if n = ''ServiceAccountSpec'' then Some ServiceAccountSpec
      else if n = ''ServiceAccountStatus'' then Some ServiceAccountStatus
      else if n = ''User'' then Some User
      else if n = ''EventLogEntry'' then Some EventLogEntry_class
      else if n = ''ClusterNodeTableRow'' then Some ClusterNodeTableRow_class
      else if n = ''GroupConfigKeyTableRow'' then Some GroupConfigKeyTableRow_class
      else if n = ''UserTableRow'' then Some UserTableRow
      else if n = ''RoleTableRow'' then Some RoleTableRow
      else if n = ''RoleBindingTableRow'' then Some RoleBindingTableRow
      else None)"

section \<open>The generator\<close>

fun type_label :: "annotation \<Rightarrow> string \<times> bool" where
  "type_label (TList a) = (fst (type_label a), True)"
| "type_label (TAnnotated a marks) = type_label a"
| "type_label (TUnion as) =
     (let options = filter (\<lambda>l. l \<noteq> ''NoneType'') (map (\<lambda>a. fst (type_label a)) as) in
      case options of
        [] \<Rightarrow> (''unknown'', False)
      | [l] \<Rightarrow> (l @ ''?'', False)
      | _ \<Rightarrow> (join_with '' | '' options, False))"
| "type_label (TLiteral vs) = (''literal'', False)"
| "type_label (TType n) = (n, False)"
| "type_label (TDict k v) = (''map'', False)"

definition field_doc :: "field_info \<Rightarrow> ManifestField" where
  "field_doc f = \<lparr>field_name = fi_name f, field_type = fst (type_label (fi_type f)),
     field_required = (fi_default f = None \<and> fi_factory f = None), field_isArray = snd (type_label (fi_type f))\<rparr>"

definition field_docs :: "field_info list \<Rightarrow> ManifestField list" where
  "field_docs fs = map field_doc fs"

definition is_upper :: "char \<Rightarrow> bool" where "is_upper c = (65 \<le> (of_char c :: nat) \<and> (of_char c :: nat) \<le> 90)"
definition is_lower :: "char \<Rightarrow> bool" where "is_lower c = (97 \<le> (of_char c :: nat) \<and> (of_char c :: nat) \<le> 122)"
definition to_upper_char :: "char \<Rightarrow> char" where
  "to_upper_char c = (if is_lower c then char_of (of_char c - (32 :: nat)) else c)"

text \<open>\<open>re.sub("([a-z0-9])([A-Z])", "\1 \2", name)\<close>\<close>

fun space_words :: "string \<Rightarrow> string" where
  "space_words (a # b # s) =
     (if (is_lower a \<or> is_digit a) \<and> is_upper b then a # CHR '' '' # b # space_words s else a # space_words (b # s))"
| "space_words s = s"

definition capitalize :: "string \<Rightarrow> string" where
  "capitalize s = (case s of [] \<Rightarrow> [] | c # r \<Rightarrow> to_upper_char c # to_lower r)"

definition field_label :: "string \<Rightarrow> string" where
  "field_label name = join_with '' '' (map capitalize (filter (\<lambda>w. w \<noteq> [])
     (split_on CHR '' '' (space_words (map (\<lambda>c. if c = CHR ''_'' then CHR '' '' else c) name)))))"

definition column_width :: "string \<Rightarrow> string \<Rightarrow> bool \<Rightarrow> int" where
  "column_width name ty is_array =
     (let lowered = to_lower name in
      if lowered = ''sequence'' then 90
      else if lowered \<in> {''details'', ''endpoints''} then 440
      else if ends_with lowered ''_at'' \<or> ends_with lowered ''at'' then 220
      else if ends_with lowered ''_id'' \<or> ends_with lowered ''id'' \<or> ends_with lowered ''_key'' then 220
      else if is_array then 360
      else if ty \<in> {''int'', ''float''} then 140
      else if ty = ''bool'' then 100
      else 220)"

definition column_min_width :: "int \<Rightarrow> int" where
  "column_min_width width =
     (if 400 \<le> width then 220 else if 300 \<le> width then 180 else if 220 \<le> width then 140 else 100)"

definition display_only :: "annotation \<Rightarrow> bool" where
  "display_only a = (case a of TAnnotated t marks \<Rightarrow> ''display_only'' \<in> set marks | _ \<Rightarrow> False)"

definition table_column :: "field_info \<Rightarrow> ManifestTableColumn" where
  "table_column f =
     (let (ty, is_array) = type_label (fi_type f); width = column_width (fi_name f) ty is_array in
     \<lparr>col_key = fi_name f, col_label = field_label (fi_name f), col_path = fi_name f, col_type = ty,
      col_isArray = is_array, col_width = width, col_minWidth = column_min_width width,
      col_displayOnly = display_only (fi_type f)\<rparr>)"

definition table_columns_of :: "field_info list \<Rightarrow> ManifestTableColumn list" where
  "table_columns_of fs = map table_column fs"

definition field_sample :: "(string \<times> js_value) list \<Rightarrow> field_info \<Rightarrow> string \<times> js_value" where
  "field_sample samples f = (fi_name f, nullish (map_of samples (fi_name f)) Undefined)"

text \<open>A value as JSON: an instance has its fields in the order of its class.\<close>

fun sample_object :: "(struct_class \<Rightarrow> field_info list) \<Rightarrow> py_value \<Rightarrow> js_value" where
  "sample_object sf (PyStruct n attrs) =
     (let samples = map (\<lambda>(k, v). (k, sample_object sf v)) attrs in
      case class_named n of
        None \<Rightarrow> Undefined
      | Some c \<Rightarrow> Obj (map (field_sample samples) (sf c)))"
| "sample_object sf (PyList vs) = Arr (map (sample_object sf) vs)"
| "sample_object sf (PyDict kvs) = Obj (map (\<lambda>(k, v). (k, sample_object sf v)) kvs)"
| "sample_object sf PyNone = Null"
| "sample_object sf (PyBool b) = Bool b"
| "sample_object sf (PyInt i) = Num i"
| "sample_object sf (PyStr s) = Str s"

text \<open>A value for a field without default. Classes may mention each other, so the recursion has fuel;
  \<open>None\<close> is a recursion that is cut off.\<close>

fun sample_value :: "(struct_class \<Rightarrow> field_info list) \<Rightarrow> nat \<Rightarrow> annotation \<Rightarrow> js_value option"
and sample_struct :: "(struct_class \<Rightarrow> field_info list) \<Rightarrow> nat \<Rightarrow> field_info list \<Rightarrow> js_value js_obj option" where
  "sample_value sf fuel (TAnnotated a marks) = sample_value sf fuel a"
| "sample_value sf fuel (TUnion as) =
     (case filter (\<lambda>a. a \<noteq> TType ''NoneType'') as of [] \<Rightarrow> Some Null
      | c # _ \<Rightarrow> (case fuel of 0 \<Rightarrow> None | Suc n \<Rightarrow> sample_value sf n c))"
| "sample_value sf fuel (TLiteral vs) = Some (Str (case vs of [] \<Rightarrow> [] | v # _ \<Rightarrow> v))"
| "sample_value sf fuel (TList a) = Some (Arr [])"
| "sample_value sf fuel (TDict k v) = Some (Obj [])"
| "sample_value sf fuel (TType n) =
     (case class_named n of
        Some c \<Rightarrow> (case fuel of 0 \<Rightarrow> None | Suc m \<Rightarrow> map_option Obj (sample_struct sf m (sf c)))
      | None \<Rightarrow> Some (if n = ''bool'' then Bool False else if n \<in> {''int'', ''float''} then Num 0 else Str []))"
| "sample_struct sf fuel [] = Some []"
| "sample_struct sf fuel (f # fs) =
     (case (case fi_default f of Some v \<Rightarrow> Some (sample_object sf v)
            | None \<Rightarrow> (case fi_factory f of Some v \<Rightarrow> Some (sample_object sf v)
                     | None \<Rightarrow> sample_value sf fuel (fi_type f))) of
        None \<Rightarrow> None
      | Some s \<Rightarrow> map_option ((#) (fi_name f, s)) (sample_struct sf fuel fs))"

datatype generator_error = MissingArgument string | NoSection string | InvalidRowType | NotAStructure | SampleDepth

definition attr :: "string \<Rightarrow> (string \<times> py_value) list \<Rightarrow> generator_error + py_value" where
  "attr n attrs = (case map_of attrs n of None \<Rightarrow> Inl (NoSection n) | Some v \<Rightarrow> Inr v)"

definition docs_of_type :: "(struct_class \<Rightarrow> field_info list) \<Rightarrow> py_value \<Rightarrow> ManifestField list" where
  "docs_of_type sf v = (case v of PyStruct n _ \<Rightarrow> (case class_named n of Some c \<Rightarrow> field_docs (sf c) | None \<Rightarrow> []) | _ \<Rightarrow> [])"

definition obj_of :: "js_value \<Rightarrow> js_value js_obj" where
  "obj_of v = (case v of Obj ps \<Rightarrow> ps | _ \<Rightarrow> [])"

definition str_of :: "js_value \<Rightarrow> string" where
  "str_of v = (case v of Str s \<Rightarrow> s | _ \<Rightarrow> [])"

text \<open>\<open>kind.replace("API", "API ")\<close>\<close>

fun space_API :: "string \<Rightarrow> string" where
  "space_API [] = []"
| "space_API (c # s) =
     (if starts_with (c # s) ''API'' then ''API '' @ space_API (drop 2 s) else c # space_API s)"

definition sample_part :: "js_value js_obj \<Rightarrow> string \<Rightarrow> js_value" where
  "sample_part sample k = nullish (obj_get sample k) Undefined"

definition sample_parts :: "js_value js_obj \<Rightarrow> ManifestSample" where
  "sample_parts sample =
     \<lparr>sample_apiVersion = str_of (sample_part sample ''apiVersion''), sample_metadata = obj_of (sample_part sample ''metadata''),
      sample_spec = obj_of (sample_part sample ''spec''), sample_status = obj_of (sample_part sample ''status'')\<rparr>"

definition resource_manifest :: "(struct_class \<Rightarrow> field_info list) \<Rightarrow> struct_class \<Rightarrow> generator_error + ManifestResource" where
  "resource_manifest sf c =
     (case construct c [] of
       Some (PyStruct n attrs) \<Rightarrow>
         (case attr ''metadata'' attrs of Inl e \<Rightarrow> Inl e | Inr metadata \<Rightarrow>
         (case attr ''spec'' attrs of Inl e \<Rightarrow> Inl e | Inr spec \<Rightarrow>
         (case attr ''status'' attrs of Inl e \<Rightarrow> Inl e | Inr status \<Rightarrow> Inr
           \<lparr>resource_kind = cls_kind c, resource_title = space_API (cls_kind c), resource_fields = field_docs (sf c),
            resource_sections = \<lparr>section_metadata = docs_of_type sf metadata, section_spec = docs_of_type sf spec,
              section_status = docs_of_type sf status\<rparr>,
            resource_sample = sample_parts (obj_of (sample_object sf (PyStruct n attrs)))\<rparr>)))
     | _ \<Rightarrow> Inl (MissingArgument (cls_name c)))"

record gui_table =
  gt_kind :: string
  gt_title :: string
  gt_source :: string
  gt_row_type :: annotation
  gt_row_key :: string
  gt_default_sort :: ManifestSort
  gt_page_size :: "int option"

definition table_manifest :: "(struct_class \<Rightarrow> field_info list) \<Rightarrow> nat \<Rightarrow> gui_table \<Rightarrow> generator_error + ManifestTable" where
  "table_manifest sf fuel item =
     (case gt_row_type item of
       TType n \<Rightarrow>
         (case class_named n of
           None \<Rightarrow> Inl NotAStructure
         | Some row_type \<Rightarrow>
             (case sample_struct sf fuel (sf row_type) of
               None \<Rightarrow> Inl SampleDepth
             | Some sample \<Rightarrow> Inr
                 \<lparr>table_kind = gt_kind item, table_title = gt_title item, table_source = gt_source item,
                  table_rowKind = cls_kind row_type, table_rowKey = gt_row_key item, table_defaultSort = gt_default_sort item,
                  table_pageSize = gt_page_size item, table_columns = table_columns_of (sf row_type), table_sample = sample\<rparr>))
     | _ \<Rightarrow> Inl InvalidRowType)"

fun all_results :: "('e + 'a) list \<Rightarrow> 'e + 'a list" where
  "all_results [] = Inr []"
| "all_results (r # rs) = (case r of Inl e \<Rightarrow> Inl e
     | Inr x \<Rightarrow> (case all_results rs of Inl e \<Rightarrow> Inl e | Inr xs \<Rightarrow> Inr (x # xs)))"

section \<open>What the GUI shows\<close>

definition RESOURCE_TYPES :: "struct_class list" where
  "RESOURCE_TYPES = [Node, GroupConfig, Event, User]"

definition NAVIGATION :: NavigationNode where
  "NAVIGATION = \<lparr>nav_label = ''Cluster'', nav_children =
     [\<lparr>leaf_label = ''Nodes'', leaf_kind = ''Node''\<rparr>, \<lparr>leaf_label = ''Group Config'', leaf_kind = ''GroupConfig''\<rparr>,
      \<lparr>leaf_label = ''Events'', leaf_kind = ''Event''\<rparr>, \<lparr>leaf_label = ''Users'', leaf_kind = ''User''\<rparr>,
      \<lparr>leaf_label = ''Roles'', leaf_kind = ''Role''\<rparr>, \<lparr>leaf_label = ''Role Bindings'', leaf_kind = ''RoleBinding''\<rparr>]\<rparr>"

definition gui_table_of ::
  "string \<Rightarrow> string \<Rightarrow> string \<Rightarrow> string \<Rightarrow> string \<Rightarrow> sort_direction \<Rightarrow> int option \<Rightarrow> gui_table" where
  "gui_table_of k t src row key dir page = \<lparr>gt_kind = k, gt_title = t, gt_source = src, gt_row_type = TType row,
     gt_row_key = key, gt_default_sort = \<lparr>sort_field = key, sort_dir = dir\<rparr>, gt_page_size = page\<rparr>"

definition GUI_TABLES :: "gui_table list" where
  "GUI_TABLES =
     [gui_table_of ''Node'' ''Nodes'' ''snapshot.nodes'' ''ClusterNodeTableRow'' ''node_id'' Asc None,
      gui_table_of ''GroupConfig'' ''Group Config'' ''snapshot.group_config'' ''GroupConfigKeyTableRow'' ''key'' Asc None,
      gui_table_of ''Event'' ''Events'' ''events.items'' ''EventLogEntry'' ''sequence'' Desc (Some 200),
      gui_table_of ''User'' ''Users'' ''rbac.users'' ''UserTableRow'' ''name'' Asc None,
      gui_table_of ''Role'' ''Roles'' ''rbac.roles'' ''RoleTableRow'' ''name'' Asc None,
      gui_table_of ''RoleBinding'' ''Role Bindings'' ''rbac.role_bindings'' ''RoleBindingTableRow'' ''name'' Asc None]"

definition build_release_manifest :: "(struct_class \<Rightarrow> field_info list) \<Rightarrow> nat \<Rightarrow> generator_error + ControlPlaneManifest" where
  "build_release_manifest sf fuel =
     (case all_results (map (resource_manifest sf) RESOURCE_TYPES) of Inl e \<Rightarrow> Inl e | Inr resources \<Rightarrow>
     (case all_results (map (table_manifest sf fuel) GUI_TABLES) of Inl e \<Rightarrow> Inl e | Inr tables \<Rightarrow> Inr
       \<lparr>manifest_apiVersion = ''xenage.io/v1alpha1'', manifest_kind = ''ControlPlaneRelease'',
        manifest_generatedAt = ''2026-03-14T12:30:00Z'', product_name = ''Xenage'',
        product_tagline = ''AI Agent Control Plane'', manifest_navigation = NAVIGATION,
        manifest_resources = resources, manifest_tables = tables\<rparr>))"

section \<open>The committed manifest is the generated one\<close>

lemma generated_resources:
  "resource_manifest documented_fields Node = Inr node_resource"
  "resource_manifest documented_fields GroupConfig = Inr groupConfig_resource"
  "resource_manifest documented_fields Event = Inr event_resource"
  "resource_manifest documented_fields User = Inr user_resource"
  by code_simp+

lemma generated_tables:
  "all_results (map (table_manifest documented_fields fuel) GUI_TABLES) =
     Inr [node_table, groupConfig_table, event_table, user_table, role_table, roleBinding_table]"
  by code_simp

lemma generated_navigation: "NAVIGATION = controlPlane_navigation"
  by code_simp

text \<open>C24: the GUI runs on what the structures say: building the release manifest from the structures, the row
  types and the navigation of the Python packages succeeds and gives exactly the manifest compiled into
  the GUI, every field, label, type, width, default sort and sample value included; no sample needs the
  recursion into another structure.\<close>

theorem generated_manifest:
  assumes "msgspec_fields structs_fields"
  shows "build_release_manifest structs_fields fuel = Inr controlPlaneManifest"
proof -
  have "structs_fields = documented_fields" using assms by (auto simp: msgspec_fields_def)
  then show ?thesis
    by (simp add: build_release_manifest_def RESOURCE_TYPES_def generated_resources generated_tables generated_navigation
        controlPlaneManifest_def)
qed

theorem generated_manifest_witness: "build_release_manifest documented_fields 0 = Inr controlPlaneManifest"
  by (rule generated_manifest) (simp add: msgspec_fields_def)

text \<open>The widths of a column: at least ninety pixels wide, and at least as wide as its minimum in every case
  but one: a field called \<open>sequence\<close> gets ninety pixels and the minimum of a hundred.\<close>

theorem column_width_bounds:
  "90 \<le> column_width name ty arr \<and> column_width name ty arr \<le> 440 \<and>
   (column_min_width (column_width name ty arr) \<le> column_width name ty arr \<longleftrightarrow> to_lower name \<noteq> ''sequence'')"
  by (auto simp: column_width_def column_min_width_def Let_def)

section \<open>The copy\<close>

text \<open>The second committed copy is the manifest of an earlier state: it has the first three navigation
  items, resources and tables of the manifest the GUI is built with, unchanged, and nothing of users,
  roles and role bindings.\<close>

theorem copied_manifest_is_prefix:
  "copiedManifest = controlPlaneManifest
     \<lparr>manifest_navigation := (manifest_navigation controlPlaneManifest)
        \<lparr>nav_children := take 3 (nav_children (manifest_navigation controlPlaneManifest))\<rparr>,
      manifest_resources := take 3 (manifest_resources controlPlaneManifest),
      manifest_tables := take 3 (manifest_tables controlPlaneManifest)\<rparr>"
  by (simp add: copiedManifest_def controlPlaneManifest_def copied_navigation_def controlPlane_navigation_def
      copied_node_resource_def node_resource_def copied_groupConfig_resource_def groupConfig_resource_def
      copied_event_resource_def event_resource_def copied_node_table_def node_table_def copied_groupConfig_table_def
      groupConfig_table_def copied_event_table_def event_table_def)

end
