(* ===== verification/SiteMarkup.thy ===== *)
theory SiteMarkup
  imports Prelude
begin

text \<open>
  What the components of the web site render: a tree of elements with their attributes. A style is the list
  of its properties, a handler that only sets style properties is the list of its assignments, any
  other JavaScript in an attribute is kept as its source text. Texts are bytes in UTF-8. The rules of a
  style sheet are not modelled. The entrance animations are the calls of gsap with their options.
\<close>

datatype js_lit = LStr string | LNum rat | LBool bool | LObj "(string \<times> js_lit) list" | LArr "js_lit list"

datatype attr_value =
    AttrText string
  | AttrNum rat
  | AttrFlag
  | AttrCode string
  | AttrStyle "(string \<times> js_lit) list"
  | AttrAssign "(string \<times> js_lit) list"

datatype markup =
    Element string "(string \<times> attr_value) list" "markup list"
  | Chars string
  | StyleSheet

datatype gsap_call =
    GsapFrom string "(string \<times> js_lit) list"
  | GsapFromTo string "(string \<times> js_lit) list" "(string \<times> js_lit) list"

record site_item =
  item_icon :: string
  item_title :: string
  item_description :: string

record site_node =
  node_icon :: string
  node_label :: string

record site_package =
  pkg_name :: string
  pkg_description :: string
  pkg_install :: string
  pkg_icon :: string

section \<open>Reading a tree\<close>

text \<open>The elements of a tree, in document order.\<close>

fun elements :: "markup \<Rightarrow> markup list" where
  "elements (Element t as cs) = Element t as cs # concat (map elements cs)"
| "elements (Chars s) = []"
| "elements StyleSheet = []"

fun tag_of :: "markup \<Rightarrow> string" where
  "tag_of (Element t as cs) = t"
| "tag_of m = []"

fun text_attr :: "string \<Rightarrow> markup \<Rightarrow> string option" where
  "text_attr k (Element t as cs) = (case map_of as k of Some (AttrText v) \<Rightarrow> Some v | _ \<Rightarrow> None)"
| "text_attr k m = None"

fun text_content :: "markup \<Rightarrow> string" where
  "text_content (Element t as cs) = concat (map text_content cs)"
| "text_content (Chars s) = s"
| "text_content StyleSheet = []"

definition has_class :: "string \<Rightarrow> markup \<Rightarrow> bool" where
  "has_class c m = (case text_attr ''className'' m of None \<Rightarrow> False | Some v \<Rightarrow> c \<in> set (split_on CHR '' '' v))"

definition ids_of :: "markup list \<Rightarrow> string list" where
  "ids_of ms = List.map_filter (text_attr ''id'') ms"

text \<open>A link inside the page leads to an id of the page; a link to another site opens in a new tab and
  withholds the opener or the referrer; every other link is a path of the site.\<close>

definition link_ok :: "string list \<Rightarrow> markup \<Rightarrow> bool" where
  "link_ok page_ids m =
     (if tag_of m = ''a'' \<or> tag_of m = ''Link'' then
        (case text_attr ''href'' m of
           None \<Rightarrow> False
         | Some h \<Rightarrow>
             if starts_with h ''#'' then drop 1 h \<in> set page_ids
             else if starts_with h ''https://'' then text_attr ''target'' m = Some ''_blank'' \<and>
               (case text_attr ''rel'' m of None \<Rightarrow> False
                | Some r \<Rightarrow> ''noreferrer'' \<in> set (split_on CHR '' '' r))
             else starts_with h ''/'' \<and> text_attr ''target'' m = None)
      else True)"

definition matches :: "string \<Rightarrow> markup \<Rightarrow> bool" where
  "matches sel m = (starts_with sel ''.'' \<and> has_class (drop 1 sel) m)"

section \<open>Animations\<close>

fun animated :: "gsap_call \<Rightarrow> string" where
  "animated (GsapFrom sel vars) = sel"
| "animated (GsapFromTo sel from to_vars) = sel"

fun final_vars :: "gsap_call \<Rightarrow> (string \<times> js_lit) list" where
  "final_vars (GsapFrom sel vars) = vars"
| "final_vars (GsapFromTo sel from to_vars) = to_vars"

text \<open>The element whose position starts the animation, where there is one.\<close>

definition trigger_of :: "gsap_call \<Rightarrow> string option" where
  "trigger_of c = (case map_of (final_vars c) ''scrollTrigger'' of
     Some (LObj o1) \<Rightarrow> (case map_of o1 ''trigger'' of Some (LStr s) \<Rightarrow> Some s | _ \<Rightarrow> None)
   | _ \<Rightarrow> None)"

definition animation_ok :: "markup list \<Rightarrow> gsap_call \<Rightarrow> bool" where
  "animation_ok ms c = (list_ex (matches (animated c)) ms \<and>
     (case trigger_of c of None \<Rightarrow> True | Some s \<Rightarrow> list_ex (matches s) ms))"

end
