(* ===== verification/InstallResolver.thy ===== *)
theory InstallResolver
  imports Schema
begin

text \<open>
  The installer redirect of the web site: \<open>landing/app/api/install/_lib/resolver.ts\<close>, its routes,
  and \<open>landing/proxy.ts\<close>. The network and the URL parser are arguments: \<open>fetch_url\<close> gives
  how a request settles (a rejection, or a response with its \<open>ok\<close> flag and what its JSON body
  parses to), \<open>pathname\<close> the path of a URL or nothing where \<open>new URL\<close> throws. Reading a
  property of \<open>null\<close> or \<open>undefined\<close>, calling a string method on another value and
  iterating over what is not iterable throw a \<open>TypeError\<close>, the argument \<open>type_error\<close>.
\<close>

datatype Channel = Latest | Development

datatype ManifestKind = LatestCli | LatestGui

record http_response =
  ok :: bool
  json :: "js_error + js_value"

record network =
  fetch_url :: "string \<Rightarrow> js_error + http_response"
  pathname :: "string \<Rightarrow> string option"
  type_error :: js_error

definition TARGETS :: "string list" where
  "TARGETS = [''linux-x86_64'', ''linux-aarch64'', ''darwin-x86_64'', ''darwin-aarch64'', ''windows-x86_64'', ''windows-aarch64'']"

definition release_url :: "string \<Rightarrow> string" where
  "release_url rest = ''https://github.com/xenage/xenage/releases/'' @ rest"

fun MANIFESTS :: "ManifestKind \<Rightarrow> Channel \<Rightarrow> string list" where
  "MANIFESTS LatestCli Latest = map release_url
     [''download/nightly/latest_cli.json'', ''latest/download/latest_cli.json'',
      ''download/nightly/latest.json'', ''latest/download/latest.json'']"
| "MANIFESTS LatestCli Development = map release_url
     [''download/xenage-standalone-dev/latest_cli.json'', ''download/nightly/latest_cli.json'',
      ''download/xenage-standalone-dev/latest.json'', ''download/nightly/latest.json'']"
| "MANIFESTS LatestGui Latest = map release_url
     [''download/nightly/latest.json'', ''latest/download/latest.json'']"
| "MANIFESTS LatestGui Development = map release_url
     [''download/xenage-gui-dev/latest.json'', ''download/nightly/latest.json'']"

datatype failure = HttpError int string | Thrown js_error

definition parseChannel :: "string option \<Rightarrow> Channel" where
  "parseChannel raw = (if raw = Some ''development'' then Development else Latest)"

definition fallbackTargets :: "string \<Rightarrow> string list" where
  "fallbackTargets target =
     (if target = ''darwin-aarch64'' then [target, ''darwin-x86_64'']
      else if target = ''windows-aarch64'' then [target, ''windows-x86_64''] else [target])"

definition sanitizeAssetUrl :: "string \<Rightarrow> string" where
  "sanitizeAssetUrl url = concat (map (\<lambda>c. if c = CHR '' '' then ''%20'' else [c]) url)"

definition kind_name :: "ManifestKind \<Rightarrow> string" where
  "kind_name k = (case k of LatestCli \<Rightarrow> ''latest_cli'' | LatestGui \<Rightarrow> ''latest'')"

definition channel_name :: "Channel \<Rightarrow> string" where
  "channel_name c = (case c of Latest \<Rightarrow> ''latest'' | Development \<Rightarrow> ''development'')"

section \<open>Fetching the manifest\<close>

fun fetch_first :: "network \<Rightarrow> failure \<Rightarrow> string list \<Rightarrow> failure + (js_value \<times> string)" where
  "fetch_first net missing [] = Inl missing"
| "fetch_first net missing (manifestUrl # urls) =
     (case fetch_url net manifestUrl of
       Inl e \<Rightarrow> Inl (Thrown e)
     | Inr response \<Rightarrow>
         if \<not> ok response then fetch_first net missing urls
         else case json response of Inl e \<Rightarrow> Inl (Thrown e) | Inr manifest \<Rightarrow> Inr (manifest, manifestUrl))"

definition fetchManifest :: "network \<Rightarrow> Channel \<Rightarrow> ManifestKind \<Rightarrow> failure + (js_value \<times> string)" where
  "fetchManifest net ch manifestKind =
     fetch_first net (HttpError 404 (''Manifest not found for '' @ kind_name manifestKind @ ''/'' @ channel_name ch))
       (MANIFESTS manifestKind ch)"

section \<open>Reading it\<close>

text \<open>\<open>value.name\<close>, which throws on \<open>null\<close> and \<open>undefined\<close>.\<close>

definition member :: "network \<Rightarrow> js_value \<Rightarrow> string \<Rightarrow> failure + js_value" where
  "member net v name = (if v = Undefined \<or> v = Null then Inl (Thrown (type_error net)) else Inr (get_property v name))"

definition falsy :: "js_value \<Rightarrow> bool" where
  "falsy v = (v \<in> {Undefined, Null, Str [], Num 0, Bool False})"

fun manifest_candidates :: "js_value \<Rightarrow> string list \<Rightarrow> string option" where
  "manifest_candidates platforms [] = None"
| "manifest_candidates platforms (candidate # rest) =
     (let entry = get_property platforms candidate in
      if falsy entry then manifest_candidates platforms rest
      else case get_property entry ''url'' of
        Str url \<Rightarrow> if url = [] then manifest_candidates platforms rest else Some (sanitizeAssetUrl url)
      | _ \<Rightarrow> manifest_candidates platforms rest)"

definition resolveAssetUrlFromManifest :: "network \<Rightarrow> js_value \<Rightarrow> string \<Rightarrow> failure + string option" where
  "resolveAssetUrlFromManifest net manifest target =
     (case member net manifest ''platforms'' of
       Inl e \<Rightarrow> Inl e
     | Inr platforms \<Rightarrow> Inr (if falsy platforms then None else manifest_candidates platforms (fallbackTargets target)))"

definition index_of :: "string \<Rightarrow> string list \<Rightarrow> nat option" where
  "index_of x xs = find_index (\<lambda>y. y = x) xs"

definition releaseTagFromDownloadUrl :: "network \<Rightarrow> string \<Rightarrow> string option" where
  "releaseTagFromDownloadUrl net url =
     (case pathname net url of
       None \<Rightarrow> None
     | Some path \<Rightarrow>
         let parts = filter (\<lambda>p. p \<noteq> []) (split_on CHR ''/'' path) in
         case index_of ''download'' parts of
           None \<Rightarrow> None | Some downloadIndex \<Rightarrow> nth_opt parts (downloadIndex + 1))"

section \<open>Guessing the target of an asset\<close>

definition inferCliTargetFromAssetName :: "string \<Rightarrow> string option" where
  "inferCliTargetFromAssetName name =
     (let l = to_lower name in
      if str_includes l ''xenage gui'' \<or> ends_with l ''.sig'' then None
      else if starts_with l ''win_x86_xenage_'' \<and> ends_with l ''.exe'' then Some ''windows-x86_64''
      else if starts_with l ''win_aarch_xenage_'' \<and> ends_with l ''.exe'' then Some ''windows-aarch64''
      else if starts_with l ''mac_x86_xenage_'' then Some ''darwin-x86_64''
      else if starts_with l ''mac_aarch_xenage_'' then Some ''darwin-aarch64''
      else if starts_with l ''linux_x86_xenage_'' then Some ''linux-x86_64''
      else if starts_with l ''linux_aarch_xenage_'' then Some ''linux-aarch64''
      else None)"

definition arm_name :: "string \<Rightarrow> bool" where
  "arm_name l = (str_includes l ''aarch64'' \<or> str_includes l ''arm64'' \<or> str_includes l ''aarch'')"

definition inferGuiTargetFromAssetName :: "string \<Rightarrow> string option" where
  "inferGuiTargetFromAssetName name =
     (let l = to_lower name in
      if ends_with l ''.sig'' then None
      else if ends_with l ''.appimage'' then Some (if arm_name l then ''linux-aarch64'' else ''linux-x86_64'')
      else if ends_with l ''.app.tar.gz'' then Some (if arm_name l then ''darwin-aarch64'' else ''darwin-x86_64'')
      else if ends_with l ''-setup.exe'' \<or> ends_with l ''_en-us.msi'' \<or> ends_with l ''.msi.zip''
      then Some (if arm_name l then ''windows-aarch64'' else ''windows-x86_64'')
      else None)"

definition inferTargetFromAssetName :: "string \<Rightarrow> ManifestKind \<Rightarrow> string option" where
  "inferTargetFromAssetName name manifestKind =
     (if manifestKind = LatestCli then inferCliTargetFromAssetName name else inferGuiTargetFromAssetName name)"

section \<open>Falling back to the release\<close>

definition hex_upper :: "nat \<Rightarrow> char" where
  "hex_upper n = (if n < 10 then char_of (48 + n) else char_of (55 + n))"

definition percent :: "nat \<Rightarrow> string" where
  "percent b = [CHR ''%'', hex_upper (b div 16), hex_upper (b mod 16)]"

definition unreserved :: "char \<Rightarrow> bool" where
  "unreserved c = (let n = of_char c :: nat in is_digit c \<or> 65 \<le> n \<and> n \<le> 90 \<or> 97 \<le> n \<and> n \<le> 122 \<or>
     n \<in> {45, 95, 46, 33, 126, 42, 39, 40, 41})"

text \<open>\<open>encodeURIComponent\<close>: the UTF-8 bytes of every character that is not unreserved.\<close>

definition encodeURIComponent :: "string \<Rightarrow> string" where
  "encodeURIComponent s = concat (map (\<lambda>c. let n = of_char c :: nat in
     if unreserved c then [c] else if n < 128 then percent n
     else percent (192 + n div 64) @ percent (128 + n mod 64)) s)"

fun object_values :: "js_value \<Rightarrow> js_value list" where
  "object_values (Obj props) = map snd props"
| "object_values (Arr items) = items"
| "object_values (Str s) = map (\<lambda>c. Str [c]) s"
| "object_values _ = []"

fun platform_urls :: "network \<Rightarrow> js_value list \<Rightarrow> failure + js_value list" where
  "platform_urls net [] = Inr []"
| "platform_urls net (entry # rest) =
     (case member net entry ''url'' of
       Inl e \<Rightarrow> Inl e
     | Inr u \<Rightarrow> (case platform_urls net rest of Inl e \<Rightarrow> Inl e | Inr us \<Rightarrow> Inr (u # us)))"

fun is_url_text :: "js_value \<Rightarrow> bool" where
  "is_url_text (Str s) = (s \<noteq> [])"
| "is_url_text _ = False"

fun iterate :: "network \<Rightarrow> js_value \<Rightarrow> failure + js_value list" where
  "iterate net (Arr items) = Inr items"
| "iterate net (Str s) = Inr (map (\<lambda>c. Str [c]) s)"
| "iterate net _ = Inl (Thrown (type_error net))"

text \<open>A value used as a string: its method calls throw on anything else.\<close>

fun as_string :: "network \<Rightarrow> js_value \<Rightarrow> failure + string" where
  "as_string net (Str s) = Inr s"
| "as_string net _ = Inl (Thrown (type_error net))"

fun search_assets :: "network \<Rightarrow> string \<Rightarrow> ManifestKind \<Rightarrow> js_value list \<Rightarrow> failure + string option" where
  "search_assets net target manifestKind [] = Inr None"
| "search_assets net target manifestKind (asset # assets) =
     (case member net asset ''name'' of
       Inl e \<Rightarrow> Inl e
     | Inr nameValue \<Rightarrow>
         (case as_string net nameValue of
           Inl e \<Rightarrow> Inl e
         | Inr name \<Rightarrow>
             if inferTargetFromAssetName name manifestKind = Some target
             then (case as_string net (get_property asset ''browser_download_url'') of
                     Inl e \<Rightarrow> Inl e | Inr url \<Rightarrow> Inr (Some (sanitizeAssetUrl url)))
             else search_assets net target manifestKind assets))"

definition release_tag :: "network \<Rightarrow> js_value \<Rightarrow> string \<Rightarrow> failure + string option" where
  "release_tag net manifest manifestUrl =
     (case member net manifest ''platforms'' of
       Inl e \<Rightarrow> Inl e
     | Inr platforms \<Rightarrow>
         (case platform_urls net (if platforms = Undefined \<or> platforms = Null then [] else object_values platforms) of
           Inl e \<Rightarrow> Inl e
         | Inr urls \<Rightarrow>
             let primaryTag = releaseTagFromDownloadUrl net manifestUrl;
                 anyPlatformUrl = List.find is_url_text urls;
                 fallbackTag = (case anyPlatformUrl of Some (Str u) \<Rightarrow> releaseTagFromDownloadUrl net u | _ \<Rightarrow> None)
             in Inr (case primaryTag of Some t \<Rightarrow> Some t | None \<Rightarrow> fallbackTag)))"

definition resolveAssetUrlFromRelease ::
  "network \<Rightarrow> js_value \<Rightarrow> string \<Rightarrow> string \<Rightarrow> ManifestKind \<Rightarrow> failure + string option" where
  "resolveAssetUrlFromRelease net manifest manifestUrl target manifestKind =
     (case release_tag net manifest manifestUrl of
       Inl e \<Rightarrow> Inl e
     | Inr None \<Rightarrow> Inr None
     | Inr (Some releaseTag) \<Rightarrow>
         if releaseTag = [] then Inr None
         else (case fetch_url net (''https://api.github.com/repos/xenage/xenage/releases/tags/'' @ encodeURIComponent releaseTag) of
           Inl e \<Rightarrow> Inl (Thrown e)
         | Inr response \<Rightarrow>
             if \<not> ok response then Inr None
             else (case json response of
               Inl e \<Rightarrow> Inl (Thrown e)
             | Inr release \<Rightarrow>
                 (case member net release ''assets'' of
                   Inl e \<Rightarrow> Inl e
                 | Inr assets \<Rightarrow>
                     (case (if assets = Undefined \<or> assets = Null then Inr [] else iterate net assets) of
                       Inl e \<Rightarrow> Inl e | Inr items \<Rightarrow> search_assets net target manifestKind items)))))"

section \<open>The handler\<close>

definition some_url :: "string option \<Rightarrow> string option" where
  "some_url u = (case u of Some t \<Rightarrow> if t \<noteq> [] then Some t else None | None \<Rightarrow> None)"

definition resolveDownloadUrl :: "network \<Rightarrow> Channel \<Rightarrow> string \<Rightarrow> ManifestKind \<Rightarrow> failure + (string \<times> string)" where
  "resolveDownloadUrl net ch target manifestKind =
     (case fetchManifest net ch manifestKind of
       Inl e \<Rightarrow> Inl e
     | Inr (manifest, manifestUrl) \<Rightarrow>
         (case member net manifest ''version'' of
           Inl e \<Rightarrow> Inl e
         | Inr v \<Rightarrow>
             let version = (case v of Str t \<Rightarrow> t | _ \<Rightarrow> ''unknown'') in
             (case resolveAssetUrlFromManifest net manifest target of
               Inl e \<Rightarrow> Inl e
             | Inr m \<Rightarrow>
                 (case some_url m of
                   Some url \<Rightarrow> Inr (url, version)
                 | None \<Rightarrow>
                     (case resolveAssetUrlFromRelease net manifest manifestUrl target manifestKind of
                       Inl e \<Rightarrow> Inl e
                     | Inr r \<Rightarrow>
                         (case some_url r of
                           Some url \<Rightarrow> Inr (url, version)
                         | None \<Rightarrow> Inl (HttpError 404 (''No asset found for target '' @ target))))))))"

record install_response =
  status :: int
  body :: "string option"
  headers :: "(string \<times> string) list"

text \<open>A header value: white space at its ends is dropped, and a line break or a NUL inside is refused.\<close>

definition header_space :: "char \<Rightarrow> bool" where
  "header_space c = ((of_char c :: nat) \<in> {9, 10, 13, 32})"

definition header_trim :: "string \<Rightarrow> string" where
  "header_trim v = rev (dropWhile header_space (rev (dropWhile header_space v)))"

definition header_ok :: "string \<Rightarrow> bool" where
  "header_ok v = list_all (\<lambda>c. (of_char c :: nat) \<notin> {0, 10, 13}) (header_trim v)"

definition redirect_response :: "network \<Rightarrow> (string \<times> string) list \<Rightarrow> failure + install_response" where
  "redirect_response net hs =
     (if list_all (\<lambda>(n, v). header_ok v) hs
      then Inr \<lparr>status = 302, body = None, headers = map (\<lambda>(n, v). (n, header_trim v)) hs\<rparr>
      else Inl (Thrown (type_error net)))"

definition install_attempt :: "network \<Rightarrow> ManifestKind \<Rightarrow> Channel \<Rightarrow> string \<Rightarrow> failure + install_response" where
  "install_attempt net manifestKind ch target =
     (case resolveDownloadUrl net ch target manifestKind of
       Inl e \<Rightarrow> Inl e
     | Inr (url, version) \<Rightarrow> redirect_response net
          [(''location'', url), (''cache-control'', ''no-store''), (''x-xenage-channel'', channel_name ch),
           (''x-xenage-version'', version), (''x-xenage-manifest'', kind_name manifestKind)])"

definition createInstallHandler :: "network \<Rightarrow> ManifestKind \<Rightarrow> (string \<times> string) list \<Rightarrow> install_response" where
  "createInstallHandler net manifestKind searchParams =
     (let target = nullish (map_of searchParams ''target'') [];
          ch = parseChannel (map_of searchParams ''channel'') in
      if target \<notin> set TARGETS then \<lparr>status = 400, body = Some ''Unsupported target'', headers = []\<rparr>
      else case install_attempt net manifestKind ch target of
        Inr response \<Rightarrow> response
      | Inl (HttpError st message) \<Rightarrow> \<lparr>status = st, body = Some message, headers = []\<rparr>
      | Inl (Thrown e) \<Rightarrow> \<lparr>status = 502, body = Some (error_text ''Unexpected backend error'' e), headers = []\<rparr>)"

text \<open>The routes.\<close>

definition GET_xenage_cli :: "network \<Rightarrow> (string \<times> string) list \<Rightarrow> install_response" where
  "GET_xenage_cli net = createInstallHandler net LatestCli"

definition GET_xenage_gui :: "network \<Rightarrow> (string \<times> string) list \<Rightarrow> install_response" where
  "GET_xenage_gui net = createInstallHandler net LatestGui"

definition GET_xenage :: "network \<Rightarrow> (string \<times> string) list \<Rightarrow> install_response" where
  "GET_xenage net = createInstallHandler net LatestCli"

section \<open>The proxy\<close>

text \<open>\<open>/(^|\s)curl\//i\<close>: at the start or after white space.\<close>

fun curl_token :: "bool \<Rightarrow> string \<Rightarrow> bool" where
  "curl_token start [] = False"
| "curl_token start (c # s) = (start \<and> starts_with (to_lower (c # s)) ''curl/'' \<or> curl_token (is_js_space c) s)"

datatype routing = Next | RewriteToInstaller

definition proxy :: "string \<Rightarrow> string option \<Rightarrow> string option \<Rightarrow> routing" where
  "proxy path userAgentHeader acceptHeader =
     (if path \<noteq> ''/'' then Next
      else
        let userAgent = nullish userAgentHeader [];
            acceptsHtml = str_includes (nullish acceptHeader []) ''text/html'';
            isCurl = (curl_token True userAgent \<or> to_lower userAgent = ''curl'')
        in if isCurl \<and> \<not> acceptsHtml then RewriteToInstaller else Next)"

section \<open>Correctness\<close>

lemma sanitize_no_space: "CHR '' '' \<notin> set (sanitizeAssetUrl url)"
  by (auto simp: sanitizeAssetUrl_def split: if_splits)

lemma sanitize_Nil [simp]: "sanitizeAssetUrl url = [] \<longleftrightarrow> url = []"
  by (induction url) (auto simp: sanitizeAssetUrl_def)

lemma manifest_candidates_Some:
  assumes "manifest_candidates platforms cs = Some u"
  shows "\<exists>c \<in> set cs. \<exists>url. get_property (get_property platforms c) ''url'' = Str url \<and> url \<noteq> [] \<and> u = sanitizeAssetUrl url"
  using assms by (induction platforms cs rule: manifest_candidates.induct)
    (auto simp: Let_def split: if_splits js_value.splits)

lemma search_assets_Some:
  assumes "search_assets net target k assets = Inr (Some u)"
  shows "\<exists>asset \<in> set assets. \<exists>name url. get_property asset ''name'' = Str name \<and> inferTargetFromAssetName name k = Some target \<and>
    get_property asset ''browser_download_url'' = Str url \<and> u = sanitizeAssetUrl url"
  using assms
proof (induction net target k assets rule: search_assets.induct)
  case (2 net target k asset assets)
  obtain n where m: "member net asset ''name'' = Inr n" using 2(2) by (cases "member net asset ''name''") auto
  then have n: "get_property asset ''name'' = n" by (auto simp: member_def split: if_splits)
  obtain name where s: "as_string net n = Inr name" using 2(2) m by (cases "as_string net n") auto
  then have name: "n = Str name" by (cases n) auto
  show ?case
  proof (cases "inferTargetFromAssetName name k = Some target")
    case True
    then obtain url where u: "as_string net (get_property asset ''browser_download_url'') = Inr url" "u = sanitizeAssetUrl url"
      using 2(2) m s by (auto split: sum.splits)
    then have "get_property asset ''browser_download_url'' = Str url"
      by (cases "get_property asset ''browser_download_url''") auto
    with True n name u(2) show ?thesis by auto
  next
    case False
    with 2 m s show ?thesis by auto
  qed
qed simp

definition same_system :: "string \<Rightarrow> string \<Rightarrow> bool" where
  "same_system a b = (takeWhile (\<lambda>c. c \<noteq> CHR ''-'') a = takeWhile (\<lambda>c. c \<noteq> CHR ''-'') b)"

lemma fallback_same_system: "c \<in> set (fallbackTargets target) \<Longrightarrow> same_system c target \<and> (c = target \<or> ends_with c ''x86_64'')"
  by (auto simp: fallbackTargets_def same_system_def ends_with_def split: if_splits)

definition redirect_of :: "install_response \<Rightarrow> string option" where
  "redirect_of r = (if status r = 302 then map_of (headers r) ''location'' else None)"

lemma resolveDownloadUrl_Inr:
  assumes "resolveDownloadUrl net ch target k = Inr (url, version)"
  shows "\<exists>manifest manifestUrl. fetchManifest net ch k = Inr (manifest, manifestUrl) \<and> url \<noteq> [] \<and>
    (resolveAssetUrlFromManifest net manifest target = Inr (Some url) \<or>
     resolveAssetUrlFromRelease net manifest manifestUrl target k = Inr (Some url))"
  using assms
  by (auto simp: resolveDownloadUrl_def some_url_def Let_def split: sum.splits option.splits if_splits prod.splits)

lemma resolveAssetUrlFromManifest_Some:
  "resolveAssetUrlFromManifest net manifest target = Inr (Some url) \<Longrightarrow>
     manifest_candidates (get_property manifest ''platforms'') (fallbackTargets target) = Some url"
  by (auto simp: resolveAssetUrlFromManifest_def member_def split: sum.splits if_splits)

lemma resolveAssetUrlFromRelease_Some:
  "resolveAssetUrlFromRelease net manifest mu target k = Inr (Some url) \<Longrightarrow>
     \<exists>assets. search_assets net target k assets = Inr (Some url)"
  by (auto simp: resolveAssetUrlFromRelease_def split: sum.splits option.splits if_splits)

text \<open>Which errors there are: only a missing manifest and a missing asset have a status of their own, 404.\<close>

definition not_found_or_thrown :: "failure \<Rightarrow> bool" where
  "not_found_or_thrown e = (case e of HttpError st m \<Rightarrow> st = 404 | Thrown _ \<Rightarrow> True)"

lemma not_found_or_thrown_simps [simp]:
  "not_found_or_thrown (Thrown e)" "not_found_or_thrown (HttpError st m) \<longleftrightarrow> st = 404"
  by (simp_all add: not_found_or_thrown_def)

lemma fetch_first_error: "fetch_first net missing us = Inl e \<Longrightarrow> not_found_or_thrown missing \<Longrightarrow> not_found_or_thrown e"
  by (induction us) (auto split: sum.splits if_splits)

lemma fetchManifest_error: "fetchManifest net ch k = Inl e \<Longrightarrow> not_found_or_thrown e"
  unfolding fetchManifest_def by (erule fetch_first_error) simp

lemma member_error: "member net v name = Inl e \<Longrightarrow> not_found_or_thrown e"
  by (auto simp: member_def split: if_splits)

lemma as_string_error: "as_string net v = Inl e \<Longrightarrow> not_found_or_thrown e"
  by (cases v) auto

lemma iterate_error: "iterate net v = Inl e \<Longrightarrow> not_found_or_thrown e"
  by (cases v) auto

lemma platform_urls_error: "platform_urls net vs = Inl e \<Longrightarrow> not_found_or_thrown e"
  by (induction vs) (auto split: sum.splits dest: member_error)

lemma search_assets_error: "search_assets net target k vs = Inl e \<Longrightarrow> not_found_or_thrown e"
  by (induction vs) (auto split: sum.splits if_splits dest: member_error as_string_error)

lemma resolveAssetUrlFromManifest_error: "resolveAssetUrlFromManifest net v t = Inl e \<Longrightarrow> not_found_or_thrown e"
  by (auto simp: resolveAssetUrlFromManifest_def split: sum.splits dest: member_error)

lemma release_tag_error: "release_tag net v u = Inl e \<Longrightarrow> not_found_or_thrown e"
  by (auto simp: release_tag_def Let_def split: sum.splits if_splits dest: member_error platform_urls_error)

lemma resolveAssetUrlFromRelease_error: "resolveAssetUrlFromRelease net v u t k = Inl e \<Longrightarrow> not_found_or_thrown e"
  by (auto simp: resolveAssetUrlFromRelease_def split: sum.splits option.splits if_splits
      dest: member_error iterate_error search_assets_error release_tag_error)

lemma resolveDownloadUrl_error: "resolveDownloadUrl net ch t k = Inl e \<Longrightarrow> not_found_or_thrown e"
  by (auto simp: resolveDownloadUrl_def Let_def split: sum.splits option.splits if_splits prod.splits
      dest: member_error fetchManifest_error resolveAssetUrlFromManifest_error resolveAssetUrlFromRelease_error)

lemma install_attempt_Inl: "install_attempt net k ch t = Inl e \<Longrightarrow> not_found_or_thrown e"
  by (auto simp: install_attempt_def redirect_response_def split: sum.splits prod.splits if_splits dest: resolveDownloadUrl_error)

lemma install_attempt_Inr:
  assumes "install_attempt net k ch t = Inr r"
  shows "\<exists>url version. resolveDownloadUrl net ch t k = Inr (url, version) \<and> status r = 302 \<and> body r = None \<and>
    map_of (headers r) ''location'' = Some (header_trim url) \<and> header_ok url \<and>
    map_of (headers r) ''x-xenage-version'' = Some (header_trim version) \<and> header_ok version"
  using assms
  by (auto simp: install_attempt_def redirect_response_def split: sum.splits prod.splits if_splits)

lemma supported_not_400:
  assumes "nullish (map_of params ''target'') [] \<in> set TARGETS"
  shows "status (createInstallHandler net k params) \<noteq> 400"
proof (cases "install_attempt net k (parseChannel (map_of params ''channel'')) (nullish (map_of params ''target'') [])")
  case (Inl e)
  with assms install_attempt_Inl[OF Inl] show ?thesis by (cases e) (auto simp: createInstallHandler_def Let_def)
next
  case (Inr r)
  with assms install_attempt_Inr[OF Inr] show ?thesis by (auto simp: createInstallHandler_def Let_def)
qed

lemma header_trim_set: "set (header_trim v) \<subseteq> set v"
  by (auto simp: header_trim_def) (metis set_dropWhileD set_rev)


text \<open>A concrete network: the first manifest is missing, the second has one platform.\<close>

definition example_manifest :: js_value where
  "example_manifest = Obj [(''version'', Str ''1.2.3''), (''platforms'', Obj [(''darwin-x86_64'', Obj [(''url'', Str ''https://x/Xenage GUI.tgz'')])])]"

definition example_network :: network where
  "example_network = \<lparr>fetch_url = (\<lambda>u. if u = release_url ''download/nightly/latest_cli.json''
      then Inr \<lparr>ok = False, json = Inr Null\<rparr> else Inr \<lparr>ok = True, json = Inr example_manifest\<rparr>),
    pathname = (\<lambda>u. Some ''/xenage/xenage/releases/latest/download/latest_cli.json''),
    type_error = ErrorObject ''not an object''\<rparr>"


text \<open>Every request is answered: with 400 exactly where the target is not supported, otherwise with a
  redirect, with 404 where no manifest or no asset was found, or with 502; only a redirect has no body.\<close>

theorem install_status:
  "status (createInstallHandler net k params) \<in> {302, 400, 404, 502} \<and>
   (status (createInstallHandler net k params) = 400 \<longleftrightarrow> nullish (map_of params ''target'') [] \<notin> set TARGETS) \<and>
   (body (createInstallHandler net k params) = None \<longleftrightarrow> status (createInstallHandler net k params) = 302)"
proof (cases "install_attempt net k (parseChannel (map_of params ''channel'')) (nullish (map_of params ''target'') [])")
  case (Inl e)
  with install_attempt_Inl[OF Inl] show ?thesis
    by (cases e) (auto simp: createInstallHandler_def Let_def)
next
  case (Inr x)
  with install_attempt_Inr[OF Inr] show ?thesis
    by (auto simp: createInstallHandler_def Let_def)
qed

text \<open>The release fallback of a \<open>latest/download\<close> manifest asks for the wrong tag: the path segment after
  \<open>download\<close> is the tag in \<open>releases/download/<tag>/...\<close>, but the file name in
  \<open>releases/latest/download/<file>\<close>, and the tag of the platform URLs is then never consulted.\<close>

theorem latest_manifest_wrong_tag:
  assumes "release_tag net manifest manifestUrl = Inr tag"
  shows "(pathname net manifestUrl = Some ''/xenage/xenage/releases/latest/download/latest_cli.json'' \<longrightarrow>
       tag = Some ''latest_cli.json'') \<and>
    (pathname net manifestUrl = Some ''/xenage/xenage/releases/download/nightly/latest_cli.json'' \<longrightarrow>
       tag = Some ''nightly'')"
proof -
  have "pathname net manifestUrl = Some ''/xenage/xenage/releases/latest/download/latest_cli.json'' \<Longrightarrow>
      releaseTagFromDownloadUrl net manifestUrl = Some ''latest_cli.json''"
    unfolding releaseTagFromDownloadUrl_def by (simp, code_simp)
  moreover have "pathname net manifestUrl = Some ''/xenage/xenage/releases/download/nightly/latest_cli.json'' \<Longrightarrow>
      releaseTagFromDownloadUrl net manifestUrl = Some ''nightly''"
    unfolding releaseTagFromDownloadUrl_def by (simp, code_simp)
  ultimately show ?thesis
    using assms by (auto simp: release_tag_def Let_def split: sum.splits)
qed

lemma latest_manifest_wrong_tag_witness:
  "pathname example_network (release_url ''latest/download/latest_cli.json'') =
     Some ''/xenage/xenage/releases/latest/download/latest_cli.json'' \<and>
   projr (release_tag example_network example_manifest (release_url ''latest/download/latest_cli.json'')) = Some ''latest_cli.json''"
proof -
  have "\<not> isl (release_tag example_network example_manifest (release_url ''latest/download/latest_cli.json''))" by code_simp
  then obtain t where t: "release_tag example_network example_manifest (release_url ''latest/download/latest_cli.json'') = Inr t"
    by (cases "release_tag example_network example_manifest (release_url ''latest/download/latest_cli.json'')") auto
  have path: "pathname example_network (release_url ''latest/download/latest_cli.json'') =
     Some ''/xenage/xenage/releases/latest/download/latest_cli.json''" by (simp add: example_network_def)
  with latest_manifest_wrong_tag[OF t] t show ?thesis by simp
qed

end
