(* ===== verification/InstallPage.thy ===== *)
theory InstallPage
  imports InstallResolver
begin

text \<open>
  The download section of the web site, \<open>landing/app/components/InstallSection.tsx\<close>: the platforms
  it offers, the one it recommends for the visitor's browser, the links of the cards, which are
  requests to the installer route of the GUI, and the notice of the copy button.
\<close>

record platform =
  platform_id :: string
  platform_name :: string
  platform_target :: string

definition platforms :: "platform list" where
  "platforms =
    [\<lparr>platform_id = ''win-x64'', platform_name = ''Windows x86_64'', platform_target = ''windows-x86_64''\<rparr>,
     \<lparr>platform_id = ''win-arm'', platform_name = ''Windows ARM64'', platform_target = ''windows-aarch64''\<rparr>,
     \<lparr>platform_id = ''linux-x64'', platform_name = ''Linux x86_64'', platform_target = ''linux-x86_64''\<rparr>,
     \<lparr>platform_id = ''linux-arm'', platform_name = ''Linux ARM64'', platform_target = ''linux-aarch64''\<rparr>,
     \<lparr>platform_id = ''mac-x64'', platform_name = ''macOS Intel'', platform_target = ''darwin-x86_64''\<rparr>,
     \<lparr>platform_id = ''mac-arm'', platform_name = ''macOS Apple Silicon'', platform_target = ''darwin-aarch64''\<rparr>]"

section \<open>The recommended platform\<close>

definition isArm :: "string \<Rightarrow> bool" where
  "isArm ua = (str_includes ua ''arm64'' \<or> str_includes ua ''aarch64'' \<or> str_includes ua ''apple'' \<or> str_includes ua ''silicon'')"

definition recommended_for :: "string \<Rightarrow> string option" where
  "recommended_for userAgent =
     (let ua = to_lower userAgent in
      if str_includes ua ''windows'' then Some (if isArm ua then ''win-arm'' else ''win-x64'')
      else if str_includes ua ''mac os'' \<or> str_includes ua ''macintosh'' then Some (if isArm ua then ''mac-arm'' else ''mac-x64'')
      else if str_includes ua ''linux'' then Some (if isArm ua then ''linux-arm'' else ''linux-x64'')
      else None)"

section \<open>State and view\<close>

record install_section =
  recommendedPlatform :: "string option"
  copied :: bool

definition InstallSection_init :: install_section where
  "InstallSection_init = \<lparr>recommendedPlatform = None, copied = False\<rparr>"

definition platform_effect :: "string \<Rightarrow> install_section \<Rightarrow> install_section" where
  "platform_effect userAgent s = s\<lparr>recommendedPlatform := recommended_for userAgent\<rparr>"

text \<open>The copy button: a rejected write to the clipboard shows nothing.\<close>

definition copyInstall :: "js_error + unit \<Rightarrow> install_section \<Rightarrow> install_section" where
  "copyInstall written s = (case written of Inl e \<Rightarrow> s | Inr _ \<Rightarrow> s\<lparr>copied := True\<rparr>)"

definition copied_timeout :: "install_section \<Rightarrow> install_section" where
  "copied_timeout s = s\<lparr>copied := False\<rparr>"

record platform_card =
  card_id :: string
  card_href :: string
  card_recommended :: bool

definition download_url :: "platform \<Rightarrow> string" where
  "download_url p = ''/api/install/xenage-gui?target='' @ platform_target p @ ''&channel=latest''"

definition InstallSection :: "install_section \<Rightarrow> platform_card list" where
  "InstallSection s = map (\<lambda>p. \<lparr>card_id = platform_id p, card_href = download_url p,
     card_recommended = (recommendedPlatform s = Some (platform_id p))\<rparr>) platforms"

section \<open>Correctness\<close>

text \<open>\<open>URLSearchParams\<close> on a query without escapes: pairs at \<open>&\<close>, cut at the first \<open>=\<close>.\<close>

definition query_pair :: "string \<Rightarrow> string \<times> string" where
  "query_pair s = (takeWhile (\<lambda>c. c \<noteq> CHR ''='') s, drop 1 (dropWhile (\<lambda>c. c \<noteq> CHR ''='') s))"

definition query_of :: "string \<Rightarrow> (string \<times> string) list" where
  "query_of url = map query_pair (split_on CHR ''&'' (drop 1 (dropWhile (\<lambda>c. c \<noteq> CHR ''?'') url)))"

lemma str_includes_trans: "str_includes s p \<Longrightarrow> str_includes p q \<Longrightarrow> str_includes s q"
  unfolding str_includes_iff by (metis append.assoc)

lemma recommended_known: "recommended_for ua = Some i \<Longrightarrow> i \<in> set (map platform_id platforms)"
  by (auto simp: recommended_for_def Let_def platforms_def split: if_splits)

text \<open>At most one card is marked as the visitor's, the one recommended.\<close>

theorem one_card_recommended:
  "map card_id (filter card_recommended (InstallSection (platform_effect ua s))) = (case recommended_for ua of None \<Rightarrow> [] | Some i \<Rightarrow> [i])"
proof (cases "recommended_for ua")
  case None
  then show ?thesis by (simp add: InstallSection_def platform_effect_def)
next
  case (Some i)
  have marked: "list_all (\<lambda>c. list_all (\<lambda>i. map card_id (filter card_recommended (InstallSection
      \<lparr>recommendedPlatform = Some i, copied = c\<rparr>)) = [i]) (map platform_id platforms)) [True, False]" by code_simp
  have "platform_effect ua s = \<lparr>recommendedPlatform = Some i, copied = copied s\<rparr>"
    using Some by (simp add: platform_effect_def)
  with marked recommended_known[OF Some] Some show ?thesis
    by (cases "copied s") (auto simp: list_all_iff)
qed

text \<open>Every download card is a request the installer supports: its link names the target of its
  platform and the channel for releases, the route never answers that the target is unsupported, and
  the cards cover every target the installer knows.\<close>

theorem download_cards_supported:
  assumes "p \<in> set platforms"
  shows "query_of (download_url p) = [(''target'', platform_target p), (''channel'', ''latest'')] \<and>
    status (GET_xenage_gui net (query_of (download_url p))) \<noteq> 400 \<and>
    set (map platform_target platforms) = set TARGETS"
proof -
  have q: "list_all (\<lambda>p. query_of (download_url p) = [(''target'', platform_target p), (''channel'', ''latest'')] \<and>
      platform_target p \<in> set TARGETS) platforms" by code_simp
  have t: "set (map platform_target platforms) = set TARGETS" by (auto simp: platforms_def TARGETS_def)
  from q assms have p: "query_of (download_url p) = [(''target'', platform_target p), (''channel'', ''latest'')]"
    "platform_target p \<in> set TARGETS" by (auto simp: list_all_iff)
  then have "nullish (map_of (query_of (download_url p)) ''target'') [] \<in> set TARGETS" by (simp add: nullish_def)
  then have "status (GET_xenage_gui net (query_of (download_url p))) \<noteq> 400"
    unfolding GET_xenage_gui_def by (rule supported_not_400)
  with p t show ?thesis by simp
qed

theorem download_cards_supported_witness:
  "query_of ''/api/install/xenage-gui?target=windows-x86_64&channel=latest'' = [(''target'', ''windows-x86_64''), (''channel'', ''latest'')]"
proof -
  have "hd platforms \<in> set platforms" by (simp add: platforms_def)
  from download_cards_supported[OF this] show ?thesis by (simp add: platforms_def download_url_def)
qed

text \<open>A browser built on WebKit or Chromium is taken for an ARM machine: its user agent names
  AppleWebKit on every processor, and the test for Apple silicon looks for the word apple, so that on
  Windows, Linux and the Mac alike the ARM build is recommended whatever else the user agent says.\<close>

theorem webkit_reads_as_arm:
  assumes "str_includes (to_lower ua) ''applewebkit''"
  shows "recommended_for ua \<in> {None, Some ''win-arm'', Some ''mac-arm'', Some ''linux-arm''} \<and>
    (str_includes (to_lower ua) ''windows'' \<longrightarrow> recommended_for ua = Some ''win-arm'')"
proof -
  have "str_includes ''applewebkit'' ''apple''" by code_simp
  with str_includes_trans[OF assms] have "isArm (to_lower ua)" by (simp add: isArm_def)
  then show ?thesis by (simp add: recommended_for_def Let_def)
qed

theorem webkit_reads_as_arm_witness:
  "recommended_for ''Mozilla/5.0 (Windows NT 10.0; Win64; x64) AppleWebKit/537.36 (KHTML, like Gecko) Chrome/120.0.0.0 Safari/537.36'' = Some ''win-arm''"
proof -
  let ?ua = "''Mozilla/5.0 (Windows NT 10.0; Win64; x64) AppleWebKit/537.36 (KHTML, like Gecko) Chrome/120.0.0.0 Safari/537.36''"
  have a: "str_includes (to_lower ?ua) ''applewebkit''" by code_simp
  have w: "str_includes (to_lower ?ua) ''windows''" by code_simp
  from webkit_reads_as_arm[OF a] w show ?thesis by blast
qed

end
