(* ===== verification/SiteSections.thy ===== *)
theory SiteSections
  imports SiteMarkup InstallPage
begin

text \<open>
  The sections of the front page as they are rendered, element by element: the components of
  \<open>landing/app/components\<close> with the data they map over and the animations they register. The parameters are
  the states of the components: whether the install command was just copied, the recommended platform,
  whether the page is scrolled, whether the mobile menu is open, and the year.
\<close>

text \<open>The icon of a platform in the table of \<open>InstallSection.tsx\<close>.\<close>

definition platform_icon :: "platform \<Rightarrow> string" where
  "platform_icon p = (if platform_id p = ''win-arm'' then ''Smartphone''
     else if platform_id p = ''linux-x64'' \<or> platform_id p = ''linux-arm'' then ''Globe'' else ''Monitor'')"

text \<open>The mark of X.com, \<open>Navigation.tsx\<close>.\<close>

definition XSocialIcon :: markup where
  "XSocialIcon =
    Element ''svg'' [(''viewBox'', AttrText ''0 0 24 24''), (''fill'', AttrText ''currentColor''), (''aria-hidden'', AttrText ''true'')]
     [Element ''path'' [(''d'', AttrText (''M18.901 1.153h3.68l-8.04 9.19L24 22.847h-7.406l-5.8-7.584-6.64 7.584H.47l8.6-9.83L0 '' @
       ''1.154h7.594l5.243 6.932 6.064-6.933Zm-1.3 19.477h2.04L6.477 3.133H4.29L17.6 20.63Z''))] []]"

section \<open>Why: \<open>ProblemsSection.tsx\<close>\<close>

definition problems :: "site_item list" where
  "problems =
    [\<lparr>item_icon = ''Users'',
      item_title = ''Not a personal assistant'',
      item_description = (''You don'' @
           [CHR 0x27] @ ''t need another chatbot. You need agents that build products, test hypotheses, and deploy to production.'')\<rparr>,
     \<lparr>item_icon = ''Layers'',
      item_title = ''Multi-cluster chaos'',
      item_description = (''Different tasks require different clusters '' @
           [CHR 0xE2] @ [CHR 0x80] @
           [CHR 0x94] @ '' personal, games, finance, separate projects. Copying configurations between them should be trivial.'')\<rparr>,
     \<lparr>item_icon = ''GitBranch'',
      item_title = ''Git-style everything'',
      item_description = ''Agents can modify their configs and improve themselves. The system must show diffs, store history, allow rollbacks, and give full control over changes.''\<rparr>,
     \<lparr>item_icon = ''Lock'',
      item_title = ''Isolated execution'',
      item_description = (''Agents spawn sub-agents, share context and filesystems, sessions and secrets '' @
           [CHR 0xE2] @ [CHR 0x80] @ [CHR 0x94] @ '' while staying isolated from other agents and projects.'')\<rparr>,
     \<lparr>item_icon = ''Server'',
      item_title = ''HA + Cluster Mode'',
      item_description = (''Agents shouldn'' @
           [CHR 0x27] @ ''t crash if a server goes down. Run them on different machines '' @
           [CHR 0xE2] @ [CHR 0x80] @
           [CHR 0x94] @ '' servers, laptops, phones '' @
           [CHR 0xE2] @ [CHR 0x80] @ [CHR 0x94] @ '' without opening ports.'')\<rparr>,
     \<lparr>item_icon = ''Shield'',
      item_title = ''RBAC Security'',
      item_description = ''Grant access to agents and workflows to others, while strictly limiting scope of visibility, changes, and permissions.''\<rparr>]"

definition ProblemsSection_animations :: "gsap_call list" where
  "ProblemsSection_animations =
    [GsapFromTo ''.problem-card'' [(''y'', LNum 40), (''opacity'', LNum 0)] [(''y'', LNum 0), (''opacity'', LNum 1),
     (''duration'', LNum (3 / 5)), (''stagger'', LNum (2 / 25)), (''ease'', LStr ''power3.out''),
     (''clearProps'', LStr ''transform,opacity''), (''scrollTrigger'', LObj [(''trigger'', LStr ''.problems-grid''),
     (''start'', LStr ''top 80%''), (''once'', LBool True)])]]"

definition ProblemsSection_grid :: markup where
  "ProblemsSection_grid =
    Element ''div'' [(''className'', AttrText ''problems-grid''), (''style'', AttrStyle [(''display'', LStr ''grid''),
     (''gridTemplateColumns'', LStr ''repeat(3, minmax(0, 1fr))''), (''gap'', LStr ''1rem''), (''width'', LStr ''100%''),
     (''alignItems'', LStr ''stretch'')])]
     (map (\<lambda>(i, problem). Element ''div'' [(''key'', AttrNum (of_nat i)), (''className'', AttrText ''problem-card''),
          (''style'', AttrStyle [(''position'', LStr ''relative''), (''zIndex'', LNum 50), (''display'', LStr ''flex''),
          (''gap'', LStr ''1rem''), (''height'', LStr ''100%''), (''padding'', LStr ''1.25rem''),
          (''background'', LStr ''rgba(255, 255, 255, 0.8)''), (''border'', LStr ''1px solid rgba(0, 0, 0, 0.06)''),
          (''borderRadius'', LStr ''12px''), (''transition'', LStr ''all 0.4s cubic-bezier(0.16, 1, 0.3, 1)'')])]
         [Element ''div'' [(''style'', AttrStyle [(''width'', LStr ''40px''), (''height'', LStr ''40px''),
              (''display'', LStr ''flex''), (''alignItems'', LStr ''center''), (''justifyContent'', LStr ''center''),
              (''background'', LStr ''rgba(0, 102, 255, 0.08)''), (''border'', LStr ''1px solid rgba(0, 102, 255, 0.15)''),
              (''borderRadius'', LStr ''8px''), (''color'', LStr ''#0066ff''), (''flexShrink'', LNum 0)])]
           [Element (item_icon problem) [(''size'', AttrNum 18)] []],
          Element ''div'' []
           [Element ''h3'' [(''style'', AttrStyle [(''fontFamily'', LStr ''Space Grotesk, sans-serif''),
                (''fontSize'', LStr ''0.9rem''), (''fontWeight'', LNum 600), (''color'', LStr ''#0d0d0d''),
                (''marginBottom'', LStr ''0.35rem'')])]
             [Chars (item_title problem)],
            Element ''p'' [(''style'', AttrStyle [(''fontFamily'', LStr ''Space Grotesk, sans-serif''),
                 (''fontSize'', LStr ''0.8rem''), (''color'', LStr ''#4a4a4a''), (''lineHeight'', LNum (3 / 2)),
                 (''margin'', LNum 0)])]
             [Chars (item_description problem)]]]) (enumerate 0 problems))"

definition ProblemsSection :: markup where
  "ProblemsSection =
    Element ''section'' [(''ref'', AttrCode ''sectionRef''), (''id'', AttrText ''problems''),
     (''className'', AttrText ''scroll-section''), (''style'', AttrStyle [(''position'', LStr ''relative''),
     (''padding'', LStr ''4rem 2rem'')])]
     [Element ''div'' [(''className'', AttrText ''problems-container''), (''style'', AttrStyle [(''maxWidth'', LStr ''1120px''),
          (''width'', LStr ''100%''), (''display'', LStr ''flex''), (''flexDirection'', LStr ''column'')])]
       [Element ''div'' [(''className'', AttrText ''problems-intro''), (''style'', AttrStyle [(''maxWidth'', LStr ''760px'')])]
         [Element ''p'' [(''style'', AttrStyle [(''fontFamily'', LStr ''JetBrains Mono, monospace''),
              (''fontSize'', LStr ''0.75rem''), (''color'', LStr ''#0066ff''), (''letterSpacing'', LStr ''0.15em''),
              (''textTransform'', LStr ''uppercase''), (''marginBottom'', LStr ''0.75rem'')])]
           [Chars ''The Problem''],
          Element ''h2'' [(''style'', AttrStyle [(''fontFamily'', LStr ''Space Grotesk, sans-serif''),
               (''fontSize'', LStr ''clamp(1.5rem, 3.5vw, 2rem)''), (''fontWeight'', LNum 700),
               (''lineHeight'', LNum (23 / 20)), (''letterSpacing'', LStr ''-0.02em''), (''color'', LStr ''#0d0d0d''),
               (''marginBottom'', LStr ''2rem'')])]
           [Chars ''Personal assistants are'',
            Chars '' '',
            Element ''span'' [(''style'', AttrStyle [(''color'', LStr ''#0066ff'')])]
             [Chars ''not enough'']]],
        ProblemsSection_grid,
        StyleSheet]]"

section \<open>Features: \<open>FeaturesSection.tsx\<close>\<close>

definition site_features :: "site_item list" where
  "site_features =
    [\<lparr>item_icon = ''Network'',
      item_title = ''Zero-Config Connectivity'',
      item_description = ''Agents auto-discover and connect to control plane. No open ports, no VPN, no hassle.''\<rparr>,
     \<lparr>item_icon = ''Eye'',
      item_title = ''Full Observability'',
      item_description = ''Real-time monitoring, event logging, and execution traces for all agent systems.''\<rparr>,
     \<lparr>item_icon = ''Box'',
      item_title = ''Isolated Environments'',
      item_description = ''Agents create other agents, sharing context while staying strictly isolated from other projects.''\<rparr>,
     \<lparr>item_icon = ''Layers'',
      item_title = ''Event-Driven Architecture'',
      item_description = ''Built for HA with automatic failover and event sourcing for complete audit trails.''\<rparr>]"

definition FeaturesSection_animations :: "gsap_call list" where
  "FeaturesSection_animations =
    [GsapFrom ''.feature-card'' [(''y'', LNum 40), (''duration'', LNum (3 / 5)), (''stagger'', LNum (1 / 10)),
     (''ease'', LStr ''power3.out''), (''scrollTrigger'', LObj [(''trigger'', LStr ''.features-grid''),
     (''start'', LStr ''top 80%'')])]]"

definition FeaturesSection_grid :: markup where
  "FeaturesSection_grid =
    Element ''div'' [(''className'', AttrText ''features-grid''), (''style'', AttrStyle [(''display'', LStr ''grid''),
     (''gridTemplateColumns'', LStr ''repeat(auto-fit, minmax(280px, 1fr))''), (''gap'', LStr ''1rem''),
     (''width'', LStr ''100%'')])]
     (map (\<lambda>(i, feature). Element ''div'' [(''key'', AttrNum (of_nat i)), (''className'', AttrText ''feature-card''),
          (''style'', AttrStyle [(''padding'', LStr ''1.25rem''), (''background'', LStr ''rgba(255, 255, 255, 0.9)''),
          (''border'', LStr ''1px solid rgba(0, 0, 0, 0.06)''), (''borderRadius'', LStr ''12px''),
          (''transition'', LStr ''all 0.4s cubic-bezier(0.16, 1, 0.3, 1)'')])]
         [Element ''div'' [(''style'', AttrStyle [(''width'', LStr ''40px''), (''height'', LStr ''40px''),
              (''display'', LStr ''flex''), (''alignItems'', LStr ''center''), (''justifyContent'', LStr ''center''),
              (''background'', LStr ''rgba(0, 102, 255, 0.08)''), (''border'', LStr ''1px solid rgba(0, 102, 255, 0.15)''),
              (''borderRadius'', LStr ''10px''), (''color'', LStr ''#0066ff''), (''marginBottom'', LStr ''0.875rem'')])]
           [Element (item_icon feature) [(''size'', AttrNum 20)] []],
          Element ''h3'' [(''style'', AttrStyle [(''fontFamily'', LStr ''Space Grotesk, sans-serif''),
               (''fontSize'', LStr ''0.95rem''), (''fontWeight'', LNum 600), (''color'', LStr ''#0d0d0d''),
               (''marginBottom'', LStr ''0.375rem'')])]
           [Chars (item_title feature)],
          Element ''p'' [(''style'', AttrStyle [(''fontFamily'', LStr ''Space Grotesk, sans-serif''),
               (''fontSize'', LStr ''0.8rem''), (''color'', LStr ''#4a4a4a''), (''lineHeight'', LNum (3 / 2)),
               (''margin'', LNum 0)])]
           [Chars (item_description feature)]]) (enumerate 0 site_features))"

definition FeaturesSection :: markup where
  "FeaturesSection =
    Element ''section'' [(''ref'', AttrCode ''sectionRef''), (''id'', AttrText ''features''),
     (''className'', AttrText ''scroll-section''), (''style'', AttrStyle [(''padding'', LStr ''4rem 2rem'')])]
     [Element ''div'' [(''style'', AttrStyle [(''maxWidth'', LStr ''760px''), (''width'', LStr ''100%''),
          (''display'', LStr ''flex''), (''flexDirection'', LStr ''column''), (''alignItems'', LStr ''inherit'')])]
       [Element ''p'' [(''style'', AttrStyle [(''fontFamily'', LStr ''JetBrains Mono, monospace''),
            (''fontSize'', LStr ''0.75rem''), (''color'', LStr ''#0066ff''), (''letterSpacing'', LStr ''0.15em''),
            (''textTransform'', LStr ''uppercase''), (''marginBottom'', LStr ''0.75rem'')])]
         [Chars ''Features''],
        Element ''h2'' [(''style'', AttrStyle [(''fontFamily'', LStr ''Space Grotesk, sans-serif''),
             (''fontSize'', LStr ''clamp(1.5rem, 3.5vw, 2rem)''), (''fontWeight'', LNum 700), (''lineHeight'', LNum (23 / 20)),
             (''letterSpacing'', LStr ''-0.02em''), (''color'', LStr ''#0d0d0d''), (''marginBottom'', LStr ''2rem'')])]
         [Chars ''Everything you need to'',
          Chars '' '',
          Element ''span'' [(''style'', AttrStyle [(''background'', LStr ''linear-gradient(135deg, #0066ff 0%, #00d4ff 50%, #7b61ff 100%)''),
               (''WebkitBackgroundClip'', LStr ''text''), (''WebkitTextFillColor'', LStr ''transparent''),
               (''backgroundClip'', LStr ''text'')])]
           [Chars ''orchestrate agents'']],
        FeaturesSection_grid]]"

section \<open>Scale: \<open>ScaleSection.tsx\<close>\<close>

definition scalePoints :: "site_item list" where
  "scalePoints =
    [\<lparr>item_icon = ''Globe'',
      item_title = ''Multi-Cluster'',
      item_description = ''Deploy across custom clusters. Copy & Paste configs between them.''\<rparr>,
     \<lparr>item_icon = ''Server'',
      item_title = ''HA Mode'',
      item_description = ''Agents run on servers, laptops, phones. Auto-connect to control plane.''\<rparr>,
     \<lparr>item_icon = ''Lock'',
      item_title = ''Scoped RBAC'',
      item_description = ''Grant granular access to agents. Full audit trail, zero trust.''\<rparr>,
     \<lparr>item_icon = ''Zap'',
      item_title = ''Event-Driven'',
      item_description = ''Automatic failover, event sourcing, complete observability.''\<rparr>]"

definition scaleNodes :: "site_node list" where
  "scaleNodes = [\<lparr>node_icon = ''Server'', node_label = ''Server''\<rparr>, \<lparr>node_icon = ''Laptop'', node_label = ''Laptop''\<rparr>,
     \<lparr>node_icon = ''Smartphone'', node_label = ''Mobile''\<rparr>, \<lparr>node_icon = ''Cpu'', node_label = ''Edge''\<rparr>]"

definition ScaleSection_animations :: "gsap_call list" where
  "ScaleSection_animations =
    [GsapFrom ''.scale-header'' [(''y'', LNum 30), (''opacity'', LNum 0), (''duration'', LNum (3 / 5)),
     (''stagger'', LNum (1 / 10)), (''ease'', LStr ''power3.out''),
     (''scrollTrigger'', LObj [(''trigger'', LStr ''.scale-header''), (''start'', LStr ''top 80%'')])],
     GsapFrom ''.scale-diagram'' [(''y'', LNum 40), (''opacity'', LNum 0), (''duration'', LNum (4 / 5)),
          (''ease'', LStr ''power3.out''), (''scrollTrigger'', LObj [(''trigger'', LStr ''.scale-diagram''),
          (''start'', LStr ''top 80%'')])],
     GsapFrom ''.scale-point'' [(''x'', LNum (-30)), (''duration'', LNum (1 / 2)), (''stagger'', LNum (1 / 10)),
          (''ease'', LStr ''power3.out''), (''scrollTrigger'', LObj [(''trigger'', LStr ''.scale-points''),
          (''start'', LStr ''top 80%'')])]]"

definition ScaleSection_diagram :: markup where
  "ScaleSection_diagram =
    Element ''div'' [(''className'', AttrText ''scale-diagram''), (''style'', AttrStyle [(''display'', LStr ''flex''),
     (''flexDirection'', LStr ''column''), (''alignItems'', LStr ''center''), (''gap'', LStr ''1.5rem''),
     (''marginBottom'', LStr ''2.5rem'')])]
     [Element ''div'' [(''style'', AttrStyle [(''display'', LStr ''flex''), (''flexDirection'', LStr ''column''),
          (''alignItems'', LStr ''center''), (''gap'', LStr ''0.75rem'')])]
       [Element ''div'' [(''style'', AttrStyle [(''display'', LStr ''flex''), (''alignItems'', LStr ''center''),
            (''gap'', LStr ''0.75rem''), (''padding'', LStr ''0.875rem 1.75rem''),
            (''background'', LStr ''rgba(0, 102, 255, 0.15)''), (''border'', LStr ''1px solid rgba(0, 102, 255, 0.4)''),
            (''borderRadius'', LStr ''12px'')])]
         [Element ''Shield'' [(''size'', AttrNum 18), (''style'', AttrStyle [(''color'', LStr ''#00d4ff'')])] [],
          Element ''span'' [(''style'', AttrStyle [(''fontFamily'', LStr ''Space Grotesk, sans-serif''),
               (''fontSize'', LStr ''0.9rem''), (''fontWeight'', LNum 600), (''color'', LStr ''#0d0d0d'')])]
           [Chars ''xenage control-plane'']],
        Element ''div'' [(''style'', AttrStyle [(''display'', LStr ''flex''), (''gap'', LStr ''3.5rem'')])]
         (map (\<lambda>i. Element ''div'' [(''key'', AttrNum (of_nat i)), (''style'', AttrStyle [(''width'', LStr ''2px''),
              (''height'', LStr ''30px''),
              (''background'', LStr ''linear-gradient(180deg, rgba(0, 102, 255, 0.6), transparent)'')])] []) [0 :: nat, 1, 2])],
      Element ''div'' [(''style'', AttrStyle [(''display'', LStr ''flex''), (''gap'', LStr ''1rem''),
           (''flexWrap'', LStr ''wrap''), (''justifyContent'', LStr ''center'')])]
       (map (\<lambda>(i, node). Element ''div'' [(''key'', AttrNum (of_nat i)), (''className'', AttrText ''scale-node-card''),
            (''style'', AttrStyle [(''display'', LStr ''flex''), (''flexDirection'', LStr ''column''),
            (''alignItems'', LStr ''center''), (''gap'', LStr ''0.375rem''), (''padding'', LStr ''1rem''),
            (''background'', LStr ''rgba(255, 255, 255, 0.92)''), (''border'', LStr ''1px solid rgba(0, 0, 0, 0.08)''),
            (''borderRadius'', LStr ''10px''), (''minWidth'', LStr ''85px'')])]
           [Element (node_icon node) [(''size'', AttrNum 20),
                (''style'', AttrStyle [(''color'', LStr ''rgba(13, 13, 13, 0.72)'')])] [],
            Element ''span'' [(''style'', AttrStyle [(''fontFamily'', LStr ''Space Grotesk, sans-serif''),
                 (''fontSize'', LStr ''0.7rem''), (''color'', LStr ''#4a4a4a''), (''textTransform'', LStr ''uppercase''),
                 (''letterSpacing'', LStr ''0.05em'')])]
             [Chars (node_label node)]]) (enumerate 0 scaleNodes))]"

definition ScaleSection_points :: markup where
  "ScaleSection_points =
    Element ''div'' [(''className'', AttrText ''scale-points''), (''style'', AttrStyle [(''display'', LStr ''grid''),
     (''gridTemplateColumns'', LStr ''repeat(auto-fit, minmax(280px, 1fr))''), (''gap'', LStr ''0.875rem''),
     (''width'', LStr ''100%'')])]
     (map (\<lambda>(i, point). Element ''div'' [(''key'', AttrNum (of_nat i)), (''className'', AttrText ''scale-point''),
          (''style'', AttrStyle [(''display'', LStr ''flex''), (''gap'', LStr ''0.875rem''), (''padding'', LStr ''1rem''),
          (''background'', LStr ''rgba(255, 255, 255, 0.94)''), (''border'', LStr ''1px solid rgba(0, 0, 0, 0.08)''),
          (''borderRadius'', LStr ''10px'')])]
         [Element ''div'' [(''style'', AttrStyle [(''width'', LStr ''36px''), (''height'', LStr ''36px''),
              (''display'', LStr ''flex''), (''alignItems'', LStr ''center''), (''justifyContent'', LStr ''center''),
              (''background'', LStr ''rgba(0, 102, 255, 0.1)''), (''border'', LStr ''1px solid rgba(0, 102, 255, 0.2)''),
              (''borderRadius'', LStr ''8px''), (''color'', LStr ''#00d4ff''), (''flexShrink'', LNum 0)])]
           [Element (item_icon point) [(''size'', AttrNum 16)] []],
          Element ''div'' []
           [Element ''h4'' [(''style'', AttrStyle [(''fontFamily'', LStr ''Space Grotesk, sans-serif''),
                (''fontSize'', LStr ''0.85rem''), (''fontWeight'', LNum 600), (''color'', LStr ''#0d0d0d''),
                (''marginBottom'', LStr ''0.25rem'')])]
             [Chars (item_title point)],
            Element ''p'' [(''style'', AttrStyle [(''fontFamily'', LStr ''Space Grotesk, sans-serif''),
                 (''fontSize'', LStr ''0.75rem''), (''color'', LStr ''#4a4a4a''), (''lineHeight'', LNum (7 / 5)),
                 (''margin'', LNum 0)])]
             [Chars (item_description point)]]]) (enumerate 0 scalePoints))"

definition ScaleSection :: markup where
  "ScaleSection =
    Element ''section'' [(''ref'', AttrCode ''sectionRef''), (''id'', AttrText ''scale''),
     (''className'', AttrText ''scroll-section''), (''style'', AttrStyle [(''padding'', LStr ''4rem 2rem'')])]
     [Element ''div'' [(''style'', AttrStyle [(''maxWidth'', LStr ''760px''), (''width'', LStr ''100%''),
          (''display'', LStr ''flex''), (''flexDirection'', LStr ''column''), (''alignItems'', LStr ''inherit'')])]
       [Element ''p'' [(''className'', AttrText ''scale-header''),
            (''style'', AttrStyle [(''fontFamily'', LStr ''JetBrains Mono, monospace''), (''fontSize'', LStr ''0.75rem''),
            (''color'', LStr ''#00d4ff''), (''letterSpacing'', LStr ''0.15em''), (''textTransform'', LStr ''uppercase''),
            (''marginBottom'', LStr ''0.75rem'')])]
         [Chars ''Architecture''],
        Element ''h2'' [(''className'', AttrText ''scale-header''),
             (''style'', AttrStyle [(''fontFamily'', LStr ''Space Grotesk, sans-serif''),
             (''fontSize'', LStr ''clamp(1.5rem, 3.5vw, 2rem)''), (''fontWeight'', LNum 700), (''lineHeight'', LNum (23 / 20)),
             (''letterSpacing'', LStr ''-0.02em''), (''color'', LStr ''#0d0d0d''), (''marginBottom'', LStr ''1rem'')])]
         [Chars ''Built for'',
          Chars '' '',
          Element ''span'' [(''style'', AttrStyle [(''background'', LStr ''linear-gradient(135deg, #0066ff 0%, #00d4ff 50%, #7b61ff 100%)''),
               (''WebkitBackgroundClip'', LStr ''text''), (''WebkitTextFillColor'', LStr ''transparent''),
               (''backgroundClip'', LStr ''text'')])]
           [Chars ''infinite scale'']],
        Element ''p'' [(''className'', AttrText ''scale-header''),
             (''style'', AttrStyle [(''fontFamily'', LStr ''Space Grotesk, sans-serif''), (''fontSize'', LStr ''0.95rem''),
             (''color'', LStr ''#4a4a4a''), (''marginBottom'', LStr ''2.5rem'')])]
         [Chars ''The IDE for startups and teams. Manage agent systems that build and test products.''],
        ScaleSection_diagram,
        ScaleSection_points]]"

section \<open>GUI: \<open>GuiSection.tsx\<close>\<close>

definition guiFeatures :: "site_item list" where
  "guiFeatures =
    [\<lparr>item_icon = ''Layout'',
      item_title = ''Xenage IDE'',
      item_description = ''The unified IDE for startups and teams. Manage agent systems that build and test products. Visual workflow builder with real-time agent monitoring.''\<rparr>,
     \<lparr>item_icon = ''Server'',
      item_title = ''Control Plane GUI'',
      item_description = ''Install xenage control-plane on your devices to form a cluster. Monitor all connected agents, manage configurations, and deploy changes.''\<rparr>,
     \<lparr>item_icon = ''Box'',
      item_title = ''Runtime Environment'',
      item_description = ''Lightweight runtime for executing agent code. Spawn isolated environments, share context between agents, maintain strict isolation.''\<rparr>]"

definition GuiSection_animations :: "gsap_call list" where
  "GuiSection_animations =
    [GsapFrom ''.gui-header'' [(''y'', LNum 40), (''opacity'', LNum 0), (''duration'', LNum (4 / 5)),
     (''ease'', LStr ''power3.out''), (''scrollTrigger'', LObj [(''trigger'', LStr ''.gui-header''),
     (''start'', LStr ''top 80%'')])],
     GsapFrom ''.gui-card'' [(''y'', LNum 60), (''duration'', LNum (4 / 5)), (''stagger'', LNum (3 / 20)),
          (''ease'', LStr ''power3.out''), (''scrollTrigger'', LObj [(''trigger'', LStr ''.gui-grid''),
          (''start'', LStr ''top 80%'')])]]"

definition GuiSection_grid :: markup where
  "GuiSection_grid =
    Element ''div'' [(''className'', AttrText ''gui-grid''), (''style'', AttrStyle [(''display'', LStr ''flex''),
     (''flexDirection'', LStr ''column''), (''gap'', LStr ''1.25rem'')])]
     (map (\<lambda>(i, feature). Element ''div'' [(''key'', AttrNum (of_nat i)), (''className'', AttrText ''gui-card''),
          (''style'', AttrStyle [(''display'', LStr ''flex''), (''flexDirection'', LStr ''row''), (''flexWrap'', LStr ''wrap''),
          (''gap'', LStr ''1.5rem''), (''padding'', LStr ''1.75rem''), (''background'', LStr ''rgba(255, 255, 255, 0.94)''),
          (''border'', LStr ''1px solid rgba(0, 0, 0, 0.08)''), (''borderRadius'', LStr ''16px''),
          (''transition'', LStr ''all 0.4s cubic-bezier(0.16, 1, 0.3, 1)'')])]
         [Element ''div'' [(''style'', AttrStyle [(''width'', LStr ''56px''), (''height'', LStr ''56px''),
              (''display'', LStr ''flex''), (''alignItems'', LStr ''center''), (''justifyContent'', LStr ''center''),
              (''background'', LStr ''rgba(0, 102, 255, 0.1)''), (''border'', LStr ''1px solid rgba(0, 102, 255, 0.25)''),
              (''borderRadius'', LStr ''12px''), (''color'', LStr ''#00d4ff''), (''flexShrink'', LNum 0)])]
           [Element (item_icon feature) [(''size'', AttrNum 26)] []],
          Element ''div'' [(''style'', AttrStyle [(''flex'', LNum 1)])]
           [Element ''h3'' [(''style'', AttrStyle [(''fontFamily'', LStr ''Space Grotesk, sans-serif''),
                (''fontSize'', LStr ''1.1rem''), (''fontWeight'', LNum 600), (''color'', LStr ''#0d0d0d''),
                (''marginBottom'', LStr ''0.5rem'')])]
             [Chars (item_title feature)],
            Element ''p'' [(''style'', AttrStyle [(''fontFamily'', LStr ''Space Grotesk, sans-serif''),
                 (''fontSize'', LStr ''0.9rem''), (''color'', LStr ''#4a4a4a''), (''lineHeight'', LNum (33 / 20)),
                 (''margin'', LNum 0)])]
             [Chars (item_description feature)]]]) (enumerate 0 guiFeatures))"

definition GuiSection :: markup where
  "GuiSection =
    Element ''section'' [(''ref'', AttrCode ''sectionRef''), (''id'', AttrText ''gui''),
     (''className'', AttrText ''scroll-section''), (''style'', AttrStyle [(''padding'', LStr ''5rem 2rem'')])]
     [Element ''div'' [(''style'', AttrStyle [(''maxWidth'', LStr ''760px''), (''width'', LStr ''100%''),
          (''display'', LStr ''flex''), (''flexDirection'', LStr ''column''), (''alignItems'', LStr ''inherit'')])]
       [Element ''p'' [(''className'', AttrText ''gui-header''),
            (''style'', AttrStyle [(''fontFamily'', LStr ''JetBrains Mono, monospace''), (''fontSize'', LStr ''0.8rem''),
            (''color'', LStr ''#00d4ff''), (''letterSpacing'', LStr ''0.15em''), (''textTransform'', LStr ''uppercase''),
            (''marginBottom'', LStr ''1rem'')])]
         [Chars ''Graphical Interface''],
        Element ''h2'' [(''className'', AttrText ''gui-header''),
             (''style'', AttrStyle [(''fontFamily'', LStr ''Space Grotesk, sans-serif''),
             (''fontSize'', LStr ''clamp(1.75rem, 4vw, 2.5rem)''), (''fontWeight'', LNum 700), (''lineHeight'', LNum (23 / 20)),
             (''letterSpacing'', LStr ''-0.02em''), (''color'', LStr ''#0d0d0d''), (''marginBottom'', LStr ''1rem'')])]
         [Chars ''The complete'',
          Element ''br'' [] [],
          Element ''span'' [(''style'', AttrStyle [(''background'', LStr ''linear-gradient(135deg, #0066ff 0%, #00d4ff 50%, #7b61ff 100%)''),
               (''WebkitBackgroundClip'', LStr ''text''), (''WebkitTextFillColor'', LStr ''transparent''),
               (''backgroundClip'', LStr ''text'')])]
           [Chars ''GUI experience'']],
        Element ''p'' [(''className'', AttrText ''gui-header''),
             (''style'', AttrStyle [(''fontFamily'', LStr ''Space Grotesk, sans-serif''), (''fontSize'', LStr ''1rem''),
             (''color'', LStr ''#4a4a4a''), (''marginBottom'', LStr ''3rem'')])]
         [Chars ''Three components work together: IDE for orchestration, control-plane for cluster management, runtime for agent execution.''],
        GuiSection_grid]]"

section \<open>The call to action: \<open>CtaSection.tsx\<close>\<close>

definition CtaSection_animations :: "gsap_call list" where
  "CtaSection_animations =
    [GsapFrom ''.cta-content'' [(''y'', LNum 40), (''opacity'', LNum 0), (''duration'', LNum (4 / 5)),
     (''ease'', LStr ''power3.out''), (''scrollTrigger'', LObj [(''trigger'', LStr ''.cta-content''),
     (''start'', LStr ''top 80%'')])]]"

definition CtaSection :: markup where
  "CtaSection =
    Element ''section'' [(''ref'', AttrCode ''sectionRef''), (''className'', AttrText ''scroll-section''),
     (''style'', AttrStyle [(''padding'', LStr ''5rem 2rem''), (''textAlign'', LStr ''center'')])]
     [Element ''div'' [(''style'', AttrStyle [(''maxWidth'', LStr ''560px''), (''width'', LStr ''100%''),
          (''margin'', LStr ''0 auto''), (''display'', LStr ''flex''), (''flexDirection'', LStr ''column''),
          (''alignItems'', LStr ''inherit'')])]
       [Element ''h2'' [(''className'', AttrText ''cta-content''),
            (''style'', AttrStyle [(''fontFamily'', LStr ''Space Grotesk, sans-serif''),
            (''fontSize'', LStr ''clamp(1.75rem, 4vw, 2.5rem)''), (''fontWeight'', LNum 700), (''lineHeight'', LNum (23 / 20)),
            (''letterSpacing'', LStr ''-0.02em''), (''color'', LStr ''#0d0d0d''), (''marginBottom'', LStr ''1rem'')])]
         [Chars ''Ready to'',
          Chars '' '',
          Element ''span'' [(''style'', AttrStyle [(''background'', LStr ''linear-gradient(135deg, #0066ff 0%, #00d4ff 50%, #7b61ff 100%)''),
               (''WebkitBackgroundClip'', LStr ''text''), (''WebkitTextFillColor'', LStr ''transparent''),
               (''backgroundClip'', LStr ''text'')])]
           [Chars ''orchestrate''],
          Chars ''?''],
        Element ''p'' [(''className'', AttrText ''cta-content''),
             (''style'', AttrStyle [(''fontFamily'', LStr ''Space Grotesk, sans-serif''), (''fontSize'', LStr ''1rem''),
             (''color'', LStr ''#4a4a4a''), (''lineHeight'', LNum (8 / 5)), (''marginBottom'', LStr ''2rem'')])]
         [Chars ''Join the future of agent infrastructure.'',
          Element ''br'' [] [],
          Chars ''Ship faster, scale infinitely, maintain control.''],
        Element ''div'' [(''className'', AttrText ''cta-content''), (''style'', AttrStyle [(''display'', LStr ''flex''),
             (''gap'', LStr ''1rem''), (''justifyContent'', LStr ''center''), (''flexWrap'', LStr ''wrap'')])]
         [Element ''a'' [(''href'', AttrText ''#install''), (''style'', AttrStyle [(''display'', LStr ''inline-flex''),
              (''alignItems'', LStr ''center''), (''gap'', LStr ''0.5rem''), (''padding'', LStr ''0.875rem 1.75rem''),
              (''background'', LStr ''linear-gradient(135deg, #0066ff 0%, #0a7dff 100%)''), (''border'', LStr ''none''),
              (''borderRadius'', LStr ''8px''), (''color'', LStr ''#fafafa''),
              (''fontFamily'', LStr ''Space Grotesk, sans-serif''), (''fontSize'', LStr ''0.9rem''), (''fontWeight'', LNum 500),
              (''textDecoration'', LStr ''none''), (''cursor'', LStr ''pointer''), (''transition'', LStr ''all 0.3s ease'')])]
           [Element ''span'' []
             [Chars ''Start Building''],
            Element ''ArrowRight'' [(''size'', AttrNum 18)] []],
          Element ''a'' [(''href'', AttrText ''https://docs.xenage.dev''), (''target'', AttrText ''_blank''),
               (''rel'', AttrText ''noopener noreferrer''), (''style'', AttrStyle [(''display'', LStr ''inline-flex''),
               (''alignItems'', LStr ''center''), (''gap'', LStr ''0.5rem''), (''padding'', LStr ''0.875rem 1.75rem''),
               (''background'', LStr ''transparent''), (''border'', LStr ''1.5px solid #0d0d0d''),
               (''borderRadius'', LStr ''8px''), (''color'', LStr ''#0d0d0d''),
               (''fontFamily'', LStr ''Space Grotesk, sans-serif''), (''fontSize'', LStr ''0.9rem''),
               (''fontWeight'', LNum 500), (''textDecoration'', LStr ''none''), (''cursor'', LStr ''pointer''),
               (''transition'', LStr ''all 0.3s ease'')])]
           [Chars ''Documentation'']]]]"

section \<open>The head of the page: \<open>HeroSection.tsx\<close>\<close>

definition HeroSection_animations :: "gsap_call list" where
  "HeroSection_animations =
    [GsapFrom ''.hero-badge'' [(''y'', LNum 30), (''opacity'', LNum 0), (''duration'', LNum (4 / 5)), (''delay'', LNum (1 / 5)),
     (''ease'', LStr ''power3.out'')],
     GsapFrom ''.hero-title'' [(''y'', LNum 50), (''opacity'', LNum 0), (''duration'', LNum 1), (''delay'', LNum (7 / 20)),
          (''ease'', LStr ''power3.out'')],
     GsapFrom ''.hero-subtitle'' [(''y'', LNum 30), (''opacity'', LNum 0), (''duration'', LNum (4 / 5)),
          (''delay'', LNum (1 / 2)), (''ease'', LStr ''power3.out'')],
     GsapFrom ''.hero-install'' [(''y'', LNum 40), (''opacity'', LNum 0), (''duration'', LNum (4 / 5)),
          (''delay'', LNum (13 / 20)), (''ease'', LStr ''power3.out'')],
     GsapFrom ''.hero-actions'' [(''y'', LNum 30), (''opacity'', LNum 0), (''duration'', LNum (4 / 5)),
          (''delay'', LNum (4 / 5)), (''ease'', LStr ''power3.out'')]]"

definition HeroSection_install :: "bool \<Rightarrow> markup" where
  "HeroSection_install is_copied =
    Element ''div'' [(''className'', AttrText ''hero-install''),
     (''style'', AttrStyle [(''background'', LStr ''rgba(255, 255, 255, 0.96)''),
     (''border'', LStr ''1px solid rgba(0, 102, 255, 0.3)''), (''borderRadius'', LStr ''12px''),
     (''padding'', LStr ''1rem 1.5rem''), (''marginBottom'', LStr ''2rem''), (''maxWidth'', LStr ''420px'')])]
     [Element ''div'' [(''style'', AttrStyle [(''display'', LStr ''flex''), (''alignItems'', LStr ''center''),
          (''gap'', LStr ''0.75rem''), (''marginBottom'', LStr ''0.5rem'')])]
       [Element ''Terminal'' [(''size'', AttrNum 18), (''style'', AttrStyle [(''color'', LStr ''#00d4ff'')])] [],
        Element ''code'' [(''style'', AttrStyle [(''fontFamily'', LStr ''JetBrains Mono, monospace''),
             (''fontSize'', LStr ''0.95rem''), (''color'', LStr ''#0d0d0d''), (''flex'', LNum 1), (''minWidth'', LNum 0)])]
         [Chars ''curl https://xenage.dev | sh''],
        Element ''button'' [(''type'', AttrText ''button''), (''onClick'', AttrCode ''copyInstall''),
             (''style'', AttrStyle [(''display'', LStr ''inline-flex''), (''alignItems'', LStr ''center''),
             (''justifyContent'', LStr ''center''), (''width'', LStr ''34px''), (''height'', LStr ''34px''),
             (''borderRadius'', LStr ''8px''), (''border'', LStr ''1px solid rgba(0, 212, 255, 0.35)''),
             (''background'', LStr ''rgba(0, 102, 255, 0.08)''), (''color'',
             (if is_copied then LStr ''#0066ff'' else LStr ''rgba(13, 13, 13, 0.68)'')), (''cursor'', LStr ''pointer''),
             (''flexShrink'', LNum 0)]), (''aria-label'', AttrText ''Copy install command''),
             (''title'', AttrText ''Copy command'')]
         (if is_copied then [Element ''CheckCircle2'' [(''size'', AttrNum 16)] []] else [Element ''Copy'' [(''size'', AttrNum 16)] []])],
      Element ''p'' [(''style'', AttrStyle [(''fontSize'', LStr ''0.8rem''), (''color'', LStr ''#4a4a4a''), (''margin'', LNum 0)])]
       [Chars ''One-command installation'']]"

definition HeroSection_actions :: markup where
  "HeroSection_actions =
    Element ''div'' [(''className'', AttrText ''hero-actions''), (''style'', AttrStyle [(''display'', LStr ''flex''),
     (''gap'', LStr ''1rem''), (''flexWrap'', LStr ''wrap'')])]
     [Element ''a'' [(''href'', AttrText ''#install''), (''style'', AttrStyle [(''display'', LStr ''inline-flex''),
          (''alignItems'', LStr ''center''), (''gap'', LStr ''0.5rem''), (''padding'', LStr ''0.875rem 1.5rem''),
          (''background'', LStr ''linear-gradient(135deg, #0066ff 0%, #0a7dff 100%)''), (''border'', LStr ''none''),
          (''borderRadius'', LStr ''8px''), (''color'', LStr ''#fafafa''), (''fontFamily'', LStr ''Space Grotesk, sans-serif''),
          (''fontSize'', LStr ''0.9rem''), (''fontWeight'', LNum 500), (''textDecoration'', LStr ''none''),
          (''cursor'', LStr ''pointer''), (''transition'', LStr ''all 0.3s ease'')])]
       [Element ''span'' []
         [Chars ''Quick Start''],
        Element ''ArrowRight'' [(''size'', AttrNum 18)] []],
      Element ''a'' [(''href'', AttrText ''#problems''), (''style'', AttrStyle [(''display'', LStr ''inline-flex''),
           (''alignItems'', LStr ''center''), (''gap'', LStr ''0.5rem''), (''padding'', LStr ''0.875rem 1.5rem''),
           (''background'', LStr ''transparent''), (''border'', LStr ''1.5px solid #0d0d0d''), (''borderRadius'', LStr ''8px''),
           (''color'', LStr ''#0d0d0d''), (''fontFamily'', LStr ''Space Grotesk, sans-serif''), (''fontSize'', LStr ''0.9rem''),
           (''fontWeight'', LNum 500), (''textDecoration'', LStr ''none''), (''cursor'', LStr ''pointer''),
           (''transition'', LStr ''all 0.3s ease'')])]
       [Chars ''Learn More'']]"

definition HeroSection :: "bool \<Rightarrow> markup" where
  "HeroSection is_copied =
    Element ''section'' [(''ref'', AttrCode ''sectionRef''), (''className'', AttrText ''scroll-section''),
     (''style'', AttrStyle [(''padding'', LStr ''8rem 2rem 5rem'')])]
     [Element ''div'' [(''style'', AttrStyle [(''maxWidth'', LStr ''760px''), (''display'', LStr ''flex''),
          (''flexDirection'', LStr ''column''), (''alignItems'', LStr ''inherit'')])]
       [StyleSheet,
        Element ''div'' [(''className'', AttrText ''hero-badge''), (''style'', AttrStyle [(''display'', LStr ''inline-flex''),
             (''alignItems'', LStr ''center''), (''width'', LStr ''fit-content''), (''gap'', LStr ''0.5rem''),
             (''padding'', LStr ''0.5rem 1rem''), (''background'', LStr ''rgba(0, 102, 255, 0.08)''),
             (''border'', LStr ''1px solid rgba(0, 102, 255, 0.2)''), (''borderRadius'', LStr ''100px''),
             (''fontSize'', LStr ''0.8rem''), (''color'', LStr ''#0066ff''), (''marginBottom'', LStr ''1.5rem'')])]
         [Element ''Zap'' [(''size'', AttrNum 14)] [],
          Element ''span'' []
           [Chars ''Agent Orchestration Platform'']],
        Element ''h1'' [(''className'', AttrText ''hero-title''),
             (''style'', AttrStyle [(''fontFamily'', LStr ''Space Grotesk, sans-serif''),
             (''fontSize'', LStr ''clamp(2.5rem, 5vw, 4rem)''), (''fontWeight'', LNum 700), (''lineHeight'', LNum (21 / 20)),
             (''letterSpacing'', LStr ''-0.03em''), (''color'', LStr ''#0d0d0d''), (''marginBottom'', LStr ''1.5rem'')])]
         [Chars ''Run, control and'',
          Element ''br'' [] [],
          Element ''span'' [(''style'', AttrStyle [(''background'', LStr ''linear-gradient(135deg, #0066ff 0%, #00d4ff 50%, #7b61ff 100%)''),
               (''WebkitBackgroundClip'', LStr ''text''), (''WebkitTextFillColor'', LStr ''transparent''),
               (''backgroundClip'', LStr ''text'')])]
           [Chars ''observe AI agents'']],
        Element ''p'' [(''className'', AttrText ''hero-subtitle''),
             (''style'', AttrStyle [(''fontFamily'', LStr ''Space Grotesk, sans-serif''), (''fontSize'', LStr ''1.15rem''),
             (''color'', LStr ''#4a4a4a''), (''lineHeight'', LNum (17 / 10)), (''marginBottom'', LStr ''2rem'')])]
         [Chars (''Inspired by Kubernetes and Lens '' @ [CHR 0xE2] @ [CHR 0x80] @ [CHR 0x94] @ '' but built for agents.''),
          Element ''br'' [] [],
          Chars ''The infrastructure platform for teams building with AI.''],
        HeroSection_install is_copied,
        HeroSection_actions]]"

section \<open>Packages: \<open>PackagesSection.tsx\<close>\<close>

definition packages :: "site_package list" where
  "packages =
    [\<lparr>pkg_name = ''@xenage/core'',
      pkg_description = ''Control plane and agent runtime'',
      pkg_install = ''npm install @xenage/core'',
      pkg_icon = ''Server''\<rparr>,
     \<lparr>pkg_name = ''@xenage/cli'',
      pkg_description = ''Command-line interface'',
      pkg_install = ''npm install -g @xenage/cli'',
      pkg_icon = ''Terminal''\<rparr>,
     \<lparr>pkg_name = ''@xenage/sdk'',
      pkg_description = ''SDK for agent development'',
      pkg_install = ''npm install @xenage/sdk'',
      pkg_icon = ''Code''\<rparr>,
     \<lparr>pkg_name = ''@xenage/ui'',
      pkg_description = ''Web dashboard components'',
      pkg_install = ''npm install @xenage/ui'',
      pkg_icon = ''Layout''\<rparr>]"

definition PackagesSection_animations :: "gsap_call list" where
  "PackagesSection_animations =
    [GsapFrom ''.pkg-header'' [(''y'', LNum 30), (''opacity'', LNum 0), (''duration'', LNum (3 / 5)),
     (''ease'', LStr ''power3.out''), (''scrollTrigger'', LObj [(''trigger'', LStr ''.pkg-header''),
     (''start'', LStr ''top 80%'')])],
     GsapFrom ''.pkg-card'' [(''y'', LNum 30), (''duration'', LNum (1 / 2)), (''stagger'', LNum (2 / 25)),
          (''ease'', LStr ''power3.out''), (''scrollTrigger'', LObj [(''trigger'', LStr ''.pkg-grid''),
          (''start'', LStr ''top 80%'')])]]"

definition PackagesSection_grid :: "nat option \<Rightarrow> markup" where
  "PackagesSection_grid copied_index =
    Element ''div'' [(''className'', AttrText ''pkg-grid''), (''style'', AttrStyle [(''display'', LStr ''grid''),
     (''gridTemplateColumns'', LStr ''repeat(auto-fit, minmax(320px, 1fr))''), (''gap'', LStr ''0.875rem''),
     (''width'', LStr ''100%'')])]
     (map (\<lambda>(i, pkg). Element ''div'' [(''key'', AttrNum (of_nat i)), (''className'', AttrText ''pkg-card''),
          (''style'', AttrStyle [(''padding'', LStr ''1.125rem''), (''background'', LStr ''rgba(255, 255, 255, 0.9)''),
          (''border'', LStr ''1px solid rgba(0, 0, 0, 0.06)''), (''borderRadius'', LStr ''12px''),
          (''transition'', LStr ''all 0.3s cubic-bezier(0.16, 1, 0.3, 1)'')])]
         [Element ''div'' [(''style'', AttrStyle [(''display'', LStr ''flex''), (''alignItems'', LStr ''center''),
              (''gap'', LStr ''0.75rem''), (''marginBottom'', LStr ''0.875rem'')])]
           [Element ''div'' [(''style'', AttrStyle [(''width'', LStr ''36px''), (''height'', LStr ''36px''),
                (''display'', LStr ''flex''), (''alignItems'', LStr ''center''), (''justifyContent'', LStr ''center''),
                (''background'', LStr ''rgba(0, 102, 255, 0.08)''), (''border'', LStr ''1px solid rgba(0, 102, 255, 0.15)''),
                (''borderRadius'', LStr ''8px''), (''color'', LStr ''#0066ff'')])]
             [Element (pkg_icon pkg) [(''size'', AttrNum 18)] []],
            Element ''div'' []
             [Element ''p'' [(''style'', AttrStyle [(''fontFamily'', LStr ''JetBrains Mono, monospace''),
                  (''fontSize'', LStr ''0.8rem''), (''color'', LStr ''#0d0d0d''), (''margin'', LNum 0),
                  (''fontWeight'', LNum 500)])]
               [Chars (pkg_name pkg)],
              Element ''p'' [(''style'', AttrStyle [(''fontFamily'', LStr ''Space Grotesk, sans-serif''),
                   (''fontSize'', LStr ''0.75rem''), (''color'', LStr ''#8a8a8a''), (''margin'', LNum 0)])]
               [Chars (pkg_description pkg)]]],
          Element ''div'' [(''style'', AttrStyle [(''display'', LStr ''flex''), (''alignItems'', LStr ''center''),
               (''gap'', LStr ''0.5rem''), (''padding'', LStr ''0.5rem 0.625rem''),
               (''background'', LStr ''rgba(0, 102, 255, 0.08)''), (''borderRadius'', LStr ''6px'')])]
           [Element ''code'' [(''style'', AttrStyle [(''fontFamily'', LStr ''JetBrains Mono, monospace''),
                (''fontSize'', LStr ''0.7rem''), (''color'', LStr ''#0d0d0d''), (''flex'', LNum 1),
                (''overflow'', LStr ''hidden''), (''textOverflow'', LStr ''ellipsis''), (''whiteSpace'', LStr ''nowrap'')])]
             [Chars (pkg_install pkg)],
            Element ''button'' [(''onClick'', AttrCode ''() => copyInstall(pkg.install, i)''),
                 (''style'', AttrStyle [(''display'', LStr ''flex''), (''alignItems'', LStr ''center''),
                 (''justifyContent'', LStr ''center''), (''padding'', LStr ''4px''), (''background'', LStr ''transparent''),
                 (''border'', LStr ''none''), (''cursor'', LStr ''pointer''), (''borderRadius'', LStr ''4px''),
                 (''transition'', LStr ''all 0.2s ease'')])]
             (if copied_index = Some i then [Element ''CheckCircle2'' [(''size'', AttrNum 14),
                  (''style'', AttrStyle [(''color'', LStr ''#0066ff'')])] []] else [Element ''Copy'' [(''size'', AttrNum 14),
                  (''style'', AttrStyle [(''color'', LStr ''rgba(255, 255, 255, 0.72)'')])] []])]]) (enumerate 0 packages))"

definition PackagesSection :: "nat option \<Rightarrow> markup" where
  "PackagesSection copied_index =
    Element ''section'' [(''ref'', AttrCode ''sectionRef''), (''id'', AttrText ''packages''),
     (''className'', AttrText ''scroll-section''), (''style'', AttrStyle [(''padding'', LStr ''4rem 2rem'')])]
     [Element ''div'' [(''style'', AttrStyle [(''maxWidth'', LStr ''760px''), (''width'', LStr ''100%''),
          (''display'', LStr ''flex''), (''flexDirection'', LStr ''column''), (''alignItems'', LStr ''inherit'')])]
       [Element ''p'' [(''className'', AttrText ''pkg-header''),
            (''style'', AttrStyle [(''fontFamily'', LStr ''JetBrains Mono, monospace''), (''fontSize'', LStr ''0.75rem''),
            (''color'', LStr ''#0066ff''), (''letterSpacing'', LStr ''0.15em''), (''textTransform'', LStr ''uppercase''),
            (''marginBottom'', LStr ''0.75rem'')])]
         [Chars ''Packages''],
        Element ''h2'' [(''className'', AttrText ''pkg-header''),
             (''style'', AttrStyle [(''fontFamily'', LStr ''Space Grotesk, sans-serif''),
             (''fontSize'', LStr ''clamp(1.5rem, 3.5vw, 2rem)''), (''fontWeight'', LNum 700), (''lineHeight'', LNum (23 / 20)),
             (''letterSpacing'', LStr ''-0.02em''), (''color'', LStr ''#0d0d0d''), (''marginBottom'', LStr ''0.75rem'')])]
         [Chars ''Individual packages''],
        Element ''p'' [(''className'', AttrText ''pkg-header''),
             (''style'', AttrStyle [(''fontFamily'', LStr ''Space Grotesk, sans-serif''), (''fontSize'', LStr ''0.9rem''),
             (''color'', LStr ''#4a4a4a''), (''marginBottom'', LStr ''1.5rem'')])]
         [Chars ''Install only what you need. Each package is independently versioned.''],
        PackagesSection_grid copied_index]]"

section \<open>Downloads: \<open>InstallSection.tsx\<close>\<close>

definition InstallSection_animations :: "gsap_call list" where
  "InstallSection_animations =
    [GsapFrom ''.install-header'' [(''y'', LNum 40), (''opacity'', LNum 0), (''duration'', LNum (4 / 5)),
     (''ease'', LStr ''power3.out''), (''scrollTrigger'', LObj [(''trigger'', LStr ''.install-header''),
     (''start'', LStr ''top 80%'')])],
     GsapFrom ''.platform-card'' [(''y'', LNum 24), (''duration'', LNum (1 / 2)), (''stagger'', LNum (2 / 25)),
          (''ease'', LStr ''power3.out''), (''scrollTrigger'', LObj [(''trigger'', LStr ''.platforms-grid''),
          (''start'', LStr ''top 80%'')])]]"

definition InstallSection_command :: "bool \<Rightarrow> markup" where
  "InstallSection_command is_copied =
    Element ''div'' [(''className'', AttrText ''install-command-card''),
     (''style'', AttrStyle [(''background'', LStr ''rgba(255, 255, 255, 0.96)''),
     (''border'', LStr ''1px solid rgba(0, 102, 255, 0.3)''), (''borderRadius'', LStr ''12px''),
     (''padding'', LStr ''1.25rem 1.5rem''), (''marginBottom'', LStr ''2rem'')])]
     [Element ''div'' [(''style'', AttrStyle [(''display'', LStr ''flex''), (''alignItems'', LStr ''center''),
          (''gap'', LStr ''0.75rem'')])]
       [Element ''Terminal'' [(''size'', AttrNum 20), (''style'', AttrStyle [(''color'', LStr ''#00d4ff'')])] [],
        Element ''code'' [(''style'', AttrStyle [(''fontFamily'', LStr ''JetBrains Mono, monospace''),
             (''fontSize'', LStr ''1rem''), (''color'', LStr ''#0d0d0d''), (''flex'', LNum 1), (''minWidth'', LNum 0)])]
         [Chars ''curl https://xenage.dev | sh''],
        Element ''button'' [(''type'', AttrText ''button''), (''onClick'', AttrCode ''copyInstall''),
             (''style'', AttrStyle [(''display'', LStr ''inline-flex''), (''alignItems'', LStr ''center''),
             (''justifyContent'', LStr ''center''), (''width'', LStr ''34px''), (''height'', LStr ''34px''),
             (''borderRadius'', LStr ''8px''), (''border'', LStr ''1px solid rgba(0, 212, 255, 0.35)''),
             (''background'', LStr ''rgba(0, 102, 255, 0.08)''), (''color'',
             (if is_copied then LStr ''#0066ff'' else LStr ''rgba(13, 13, 13, 0.68)'')), (''cursor'', LStr ''pointer''),
             (''flexShrink'', LNum 0)]), (''aria-label'', AttrText ''Copy install command''),
             (''title'', AttrText ''Copy command'')]
         (if is_copied then [Element ''CheckCircle2'' [(''size'', AttrNum 16)] []] else [Element ''Copy'' [(''size'', AttrNum 16)] []])]]"

definition InstallSection_card :: "bool \<Rightarrow> platform \<Rightarrow> markup" where
  "InstallSection_card isRecommended platform =
    Element ''a'' [(''key'', AttrText (platform_id platform)), (''className'', AttrText ''platform-card''),
     (''href'', AttrText (download_url platform)), (''style'', AttrStyle [(''display'', LStr ''flex''),
     (''flexDirection'', LStr ''column''), (''alignItems'', LStr ''center''), (''gap'', LStr ''0.5rem''),
     (''padding'', LStr ''1rem 0.75rem''), (''background'',
     (if isRecommended then LStr ''linear-gradient(180deg, rgba(0,102,255,0.11), rgba(255,255,255,0.95))'' else LStr ''rgba(255, 255, 255, 0.94)'')),
     (''border'', (if isRecommended then LStr ''1px solid rgba(0, 102, 255, 0.46)'' else LStr ''1px solid rgba(0, 0, 0, 0.06)'')),
     (''borderRadius'', LStr ''10px''), (''cursor'', LStr ''pointer''),
     (''transition'', LStr ''all 0.3s cubic-bezier(0.16, 1, 0.3, 1)''), (''textDecoration'', LStr ''none'')]),
     (''onMouseEnter'', AttrAssign [(''transform'', LStr ''translateY(-3px)''),
     (''borderColor'', LStr ''rgba(0, 102, 255, 0.3)'')]),
     (''onMouseLeave'', AttrAssign [(''transform'', LStr ''translateY(0)''), (''borderColor'',
     (if isRecommended then LStr ''rgba(0, 102, 255, 0.46)'' else LStr ''rgba(0, 0, 0, 0.06)''))])]
     ([Element (platform_icon platform) [(''size'', AttrNum 24), (''style'', AttrStyle [(''color'', LStr ''#0066ff'')])] [],
      Element ''span'' [(''style'', AttrStyle [(''fontFamily'', LStr ''Space Grotesk, sans-serif''),
           (''fontSize'', LStr ''0.8rem''), (''fontWeight'', LNum 500), (''color'', LStr ''#0d0d0d''),
           (''textAlign'', LStr ''center'')])]
       [Chars (platform_name platform)],
      Element ''Download'' [(''size'', AttrNum 14), (''style'', AttrStyle [(''color'', LStr ''#4a4a4a'')])] []] @
      (if isRecommended then [Element ''span'' [(''style'', AttrStyle [(''fontFamily'', LStr ''JetBrains Mono, monospace''),
           (''fontSize'', LStr ''0.65rem''), (''color'', LStr ''#0066ff''), (''letterSpacing'', LStr ''0.05em''),
           (''textTransform'', LStr ''uppercase'')])]
         [Chars ''Your platform'']] else []))"

definition InstallSection_cards :: "string option \<Rightarrow> markup" where
  "InstallSection_cards recommended_id =
    Element ''div'' [(''className'', AttrText ''platforms-grid''), (''style'', AttrStyle [(''display'', LStr ''grid''),
     (''gridTemplateColumns'', LStr ''repeat(auto-fit, minmax(200px, 1fr))''), (''gap'', LStr ''0.75rem''),
     (''width'', LStr ''100%''), (''marginBottom'', LStr ''2rem'')])]
     (map (\<lambda>platform. let isRecommended = (recommended_id = Some (platform_id platform)) in
        InstallSection_card isRecommended platform) platforms)"

definition InstallSection_more :: markup where
  "InstallSection_more =
    Element ''div'' [(''style'', AttrStyle [(''display'', LStr ''flex''), (''alignItems'', LStr ''center''),
     (''gap'', LStr ''0.5rem'')])]
     [Element ''a'' [(''href'', AttrText ''#features''), (''style'', AttrStyle [(''display'', LStr ''inline-flex''),
          (''alignItems'', LStr ''center''), (''gap'', LStr ''0.5rem''), (''fontFamily'', LStr ''Space Grotesk, sans-serif''),
          (''fontSize'', LStr ''0.9rem''), (''color'', LStr ''#0066ff''), (''textDecoration'', LStr ''none''),
          (''fontWeight'', LNum 500)])]
       [Chars ''Explore all features'']]"

definition InstallSection_page :: "bool \<Rightarrow> string option \<Rightarrow> markup" where
  "InstallSection_page is_copied recommended_id =
    Element ''section'' [(''ref'', AttrCode ''sectionRef''), (''id'', AttrText ''install''),
     (''className'', AttrText ''scroll-section''), (''style'', AttrStyle [(''padding'', LStr ''5rem 2rem'')])]
     [Element ''div'' [(''style'', AttrStyle [(''maxWidth'', LStr ''760px''), (''width'', LStr ''100%''),
          (''display'', LStr ''flex''), (''flexDirection'', LStr ''column''), (''alignItems'', LStr ''inherit'')])]
       [Element ''p'' [(''className'', AttrText ''install-header''),
            (''style'', AttrStyle [(''fontFamily'', LStr ''JetBrains Mono, monospace''), (''fontSize'', LStr ''0.8rem''),
            (''color'', LStr ''#0066ff''), (''letterSpacing'', LStr ''0.15em''), (''textTransform'', LStr ''uppercase''),
            (''marginBottom'', LStr ''1rem'')])]
         [Chars ''Installation''],
        Element ''h2'' [(''className'', AttrText ''install-header''),
             (''style'', AttrStyle [(''fontFamily'', LStr ''Space Grotesk, sans-serif''),
             (''fontSize'', LStr ''clamp(1.75rem, 4vw, 2.5rem)''), (''fontWeight'', LNum 700), (''lineHeight'', LNum (23 / 20)),
             (''letterSpacing'', LStr ''-0.02em''), (''color'', LStr ''#0d0d0d''), (''marginBottom'', LStr ''1rem'')])]
         [Chars ''Choose your'',
          Element ''br'' [] [],
          Element ''span'' [(''style'', AttrStyle [(''background'', LStr ''linear-gradient(135deg, #0066ff 0%, #00d4ff 50%, #7b61ff 100%)''),
               (''WebkitBackgroundClip'', LStr ''text''), (''WebkitTextFillColor'', LStr ''transparent''),
               (''backgroundClip'', LStr ''text'')])]
           [Chars ''starting point'']],
        Element ''p'' [(''className'', AttrText ''install-header''),
             (''style'', AttrStyle [(''fontFamily'', LStr ''Space Grotesk, sans-serif''), (''fontSize'', LStr ''1rem''),
             (''color'', LStr ''#4a4a4a''), (''marginBottom'', LStr ''2rem'')])]
         [Chars ''Download Xenage GUI for your platform or use the quick CLI install''],
        InstallSection_command is_copied,
        InstallSection_cards recommended_id,
        InstallSection_more]]"

section \<open>Navigation and footer: \<open>Navigation.tsx\<close>, \<open>Footer.tsx\<close>\<close>

definition Navigation_brand :: markup where
  "Navigation_brand =
    Element ''Link'' [(''href'', AttrText ''/''), (''style'', AttrStyle [(''display'', LStr ''flex''),
     (''alignItems'', LStr ''center''), (''gap'', LStr ''0.75rem''), (''textDecoration'', LStr ''none'')])]
     [Element ''div'' [(''style'', AttrStyle [(''width'', LStr ''32px''), (''height'', LStr ''32px''),
          (''position'', LStr ''relative'')])]
       [Element ''Image'' [(''src'', AttrText ''/xenage.png''), (''alt'', AttrText ''Xenage''), (''fill'', AttrFlag),
            (''style'', AttrStyle [(''objectFit'', LStr ''contain'')])] []],
      Element ''span'' [(''style'', AttrStyle [(''fontFamily'', LStr ''Space Grotesk, sans-serif''), (''fontWeight'', LNum 700),
           (''fontSize'', LStr ''1.25rem''), (''letterSpacing'', LStr ''-0.02em''), (''color'', LStr ''#0d0d0d'')])]
       [Chars ''xenage'']]"

definition Navigation_links :: markup where
  "Navigation_links =
    Element ''div'' [(''style'', AttrStyle [(''display'', LStr ''flex''), (''alignItems'', LStr ''center''),
     (''gap'', LStr ''2rem'')]), (''className'', AttrText ''nav-links'')]
     [Element ''a'' [(''href'', AttrText ''#problems''),
          (''style'', AttrStyle [(''fontFamily'', LStr ''Space Grotesk, sans-serif''), (''fontSize'', LStr ''0.9rem''),
          (''fontWeight'', LNum 500), (''color'', LStr ''#4a4a4a''), (''textDecoration'', LStr ''none''),
          (''transition'', LStr ''color 0.3s ease'')])]
       [Chars ''Why''],
      Element ''a'' [(''href'', AttrText ''#features''),
           (''style'', AttrStyle [(''fontFamily'', LStr ''Space Grotesk, sans-serif''), (''fontSize'', LStr ''0.9rem''),
           (''fontWeight'', LNum 500), (''color'', LStr ''#4a4a4a''), (''textDecoration'', LStr ''none''),
           (''transition'', LStr ''color 0.3s ease'')])]
       [Chars ''Features''],
      Element ''a'' [(''href'', AttrText ''#install''),
           (''style'', AttrStyle [(''fontFamily'', LStr ''Space Grotesk, sans-serif''), (''fontSize'', LStr ''0.9rem''),
           (''fontWeight'', LNum 500), (''color'', LStr ''#4a4a4a''), (''textDecoration'', LStr ''none''),
           (''transition'', LStr ''color 0.3s ease'')])]
       [Chars ''Install''],
      Element ''a'' [(''href'', AttrText ''#scale''),
           (''style'', AttrStyle [(''fontFamily'', LStr ''Space Grotesk, sans-serif''), (''fontSize'', LStr ''0.9rem''),
           (''fontWeight'', LNum 500), (''color'', LStr ''#4a4a4a''), (''textDecoration'', LStr ''none''),
           (''transition'', LStr ''color 0.3s ease'')])]
       [Chars ''Scale''],
      Element ''a'' [(''href'', AttrText ''#gui''), (''style'', AttrStyle [(''fontFamily'', LStr ''Space Grotesk, sans-serif''),
           (''fontSize'', LStr ''0.9rem''), (''fontWeight'', LNum 500), (''color'', LStr ''#4a4a4a''),
           (''textDecoration'', LStr ''none''), (''transition'', LStr ''color 0.3s ease'')])]
       [Chars ''GUI''],
      Element ''a'' [(''href'', AttrText ''#install''),
           (''style'', AttrStyle [(''fontFamily'', LStr ''Space Grotesk, sans-serif''), (''fontSize'', LStr ''0.85rem''),
           (''fontWeight'', LNum 500), (''padding'', LStr ''0.6rem 1.25rem''),
           (''background'', LStr ''linear-gradient(135deg, #0066ff 0%, #0a7dff 100%)''), (''border'', LStr ''none''),
           (''color'', LStr ''#fafafa''), (''cursor'', LStr ''pointer''), (''borderRadius'', LStr ''8px''),
           (''transition'', LStr ''all 0.3s ease''), (''textDecoration'', LStr ''none'')])]
       [Chars ''Get Started''],
      Element ''div'' [(''className'', AttrText ''nav-socials'')]
       [Element ''a'' [(''href'', AttrText ''https://github.com/xenage''), (''target'', AttrText ''_blank''),
            (''rel'', AttrText ''noreferrer''), (''className'', AttrText ''social-link''),
            (''aria-label'', AttrText ''Xenage on GitHub''), (''title'', AttrText ''GitHub'')]
         [Element ''Github'' [(''size'', AttrNum 17)] []],
        Element ''a'' [(''href'', AttrText ''https://x.com/xenage_dev''), (''target'', AttrText ''_blank''),
             (''rel'', AttrText ''noreferrer''), (''className'', AttrText ''social-link social-link--x''),
             (''aria-label'', AttrText ''Xenage on X.com''), (''title'', AttrText ''X.com'')]
         [XSocialIcon]]]"

definition Navigation_menu_button :: "bool \<Rightarrow> markup" where
  "Navigation_menu_button menu_open =
    Element ''button'' [(''onClick'', AttrCode ''() => setMobileMenuOpen(!mobileMenuOpen)''),
     (''style'', AttrStyle [(''display'', LStr ''none''), (''background'', LStr ''transparent''), (''border'', LStr ''none''),
     (''color'', LStr ''#0d0d0d''), (''cursor'', LStr ''pointer'')]), (''className'', AttrText ''mobile-menu-btn'')]
     (if menu_open then [Element ''X'' [(''size'', AttrNum 24)] []] else [Element ''Menu'' [(''size'', AttrNum 24)] []])"

definition Navigation_mobile :: markup where
  "Navigation_mobile =
    Element ''div'' [(''style'', AttrStyle [(''display'', LStr ''flex''), (''flexDirection'', LStr ''column''),
     (''gap'', LStr ''1rem''), (''padding'', LStr ''1rem 2rem''), (''background'', LStr ''rgba(255, 255, 255, 0.98)''),
     (''borderTop'', LStr ''1px solid rgba(0, 0, 0, 0.06)'')]), (''className'', AttrText ''mobile-menu'')]
     [Element ''a'' [(''href'', AttrText ''#problems''),
          (''style'', AttrStyle [(''fontFamily'', LStr ''Space Grotesk, sans-serif''), (''fontSize'', LStr ''1rem''),
          (''color'', LStr ''#4a4a4a''), (''textDecoration'', LStr ''none'')])]
       [Chars ''Why''],
      Element ''a'' [(''href'', AttrText ''#features''),
           (''style'', AttrStyle [(''fontFamily'', LStr ''Space Grotesk, sans-serif''), (''fontSize'', LStr ''1rem''),
           (''color'', LStr ''#4a4a4a''), (''textDecoration'', LStr ''none'')])]
       [Chars ''Features''],
      Element ''a'' [(''href'', AttrText ''#install''),
           (''style'', AttrStyle [(''fontFamily'', LStr ''Space Grotesk, sans-serif''), (''fontSize'', LStr ''1rem''),
           (''color'', LStr ''#4a4a4a''), (''textDecoration'', LStr ''none'')])]
       [Chars ''Install''],
      Element ''a'' [(''href'', AttrText ''#scale''),
           (''style'', AttrStyle [(''fontFamily'', LStr ''Space Grotesk, sans-serif''), (''fontSize'', LStr ''1rem''),
           (''color'', LStr ''#4a4a4a''), (''textDecoration'', LStr ''none'')])]
       [Chars ''Scale''],
      Element ''a'' [(''href'', AttrText ''#gui''), (''style'', AttrStyle [(''fontFamily'', LStr ''Space Grotesk, sans-serif''),
           (''fontSize'', LStr ''1rem''), (''color'', LStr ''#4a4a4a''), (''textDecoration'', LStr ''none'')])]
       [Chars ''GUI''],
      Element ''a'' [(''href'', AttrText ''#install''),
           (''style'', AttrStyle [(''fontFamily'', LStr ''Space Grotesk, sans-serif''), (''fontSize'', LStr ''0.85rem''),
           (''fontWeight'', LNum 500), (''padding'', LStr ''0.6rem 1.2rem''),
           (''background'', LStr ''linear-gradient(135deg, #0066ff 0%, #0a7dff 100%)''), (''border'', LStr ''none''),
           (''color'', LStr ''#fafafa''), (''cursor'', LStr ''pointer''), (''borderRadius'', LStr ''8px''),
           (''textDecoration'', LStr ''none'')])]
       [Chars ''Get Started''],
      Element ''div'' [(''className'', AttrText ''mobile-socials'')]
       [Element ''a'' [(''href'', AttrText ''https://github.com/xenage''), (''target'', AttrText ''_blank''),
            (''rel'', AttrText ''noreferrer''), (''className'', AttrText ''social-link''),
            (''aria-label'', AttrText ''Xenage on GitHub'')]
         [Element ''Github'' [(''size'', AttrNum 18)] [],
          Chars ''GitHub''],
        Element ''a'' [(''href'', AttrText ''https://x.com/xenage_dev''), (''target'', AttrText ''_blank''),
             (''rel'', AttrText ''noreferrer''), (''className'', AttrText ''social-link social-link--x''),
             (''aria-label'', AttrText ''Xenage on X.com'')]
         [XSocialIcon,
          Chars ''X.com'']]]"

definition Navigation :: "bool \<Rightarrow> bool \<Rightarrow> markup" where
  "Navigation scrolled menu_open =
    Element ''nav'' [(''aria-label'', AttrText ''Primary''),
     (''className'', AttrText (''nav '' @ (if scrolled then ''nav-scrolled'' else []))),
     (''style'', AttrStyle [(''width'', LStr ''100%''), (''padding'', LStr ''1.5rem 0''),
     (''transition'', LStr ''all 0.4s cubic-bezier(0.16, 1, 0.3, 1)'')])]
     ([Element ''div'' [(''style'', AttrStyle [(''maxWidth'', LStr ''1200px''), (''margin'', LStr ''0 auto''),
          (''padding'', LStr ''0 2rem''), (''display'', LStr ''flex''), (''alignItems'', LStr ''center''),
          (''justifyContent'', LStr ''space-between'')])]
       [Navigation_brand,
        Navigation_links,
        Navigation_menu_button menu_open]] @
      (if menu_open then [Navigation_mobile] else []) @
      [StyleSheet])"

definition Footer_columns :: markup where
  "Footer_columns =
    Element ''div'' [(''style'', AttrStyle [(''display'', LStr ''flex''), (''justifyContent'', LStr ''space-between''),
     (''gap'', LStr ''3rem''), (''marginBottom'', LStr ''3rem''), (''flexWrap'', LStr ''wrap'')])]
     [Element ''div'' []
       [Element ''Link'' [(''href'', AttrText ''/''), (''style'', AttrStyle [(''display'', LStr ''flex''),
            (''alignItems'', LStr ''center''), (''gap'', LStr ''0.75rem''), (''textDecoration'', LStr ''none''),
            (''marginBottom'', LStr ''1rem'')])]
         [Element ''div'' [(''style'', AttrStyle [(''width'', LStr ''28px''), (''height'', LStr ''28px''),
              (''position'', LStr ''relative'')])]
           [Element ''Image'' [(''src'', AttrText ''/xenage.png''), (''alt'', AttrText ''Xenage''), (''fill'', AttrFlag),
                (''style'', AttrStyle [(''objectFit'', LStr ''contain'')])] []],
          Element ''span'' [(''style'', AttrStyle [(''fontFamily'', LStr ''Space Grotesk, sans-serif''),
               (''fontWeight'', LNum 700), (''fontSize'', LStr ''1.1rem''), (''letterSpacing'', LStr ''-0.02em''),
               (''color'', LStr ''#0d0d0d'')])]
           [Chars ''xenage'']],
        Element ''p'' [(''style'', AttrStyle [(''fontFamily'', LStr ''Space Grotesk, sans-serif''),
             (''fontSize'', LStr ''0.85rem''), (''color'', LStr ''#4a4a4a''), (''margin'', LNum 0),
             (''maxWidth'', LStr ''200px'')])]
         [Chars ''Agent orchestration for teams who ship.'']],
      Element ''div'' [(''style'', AttrStyle [(''display'', LStr ''flex''), (''gap'', LStr ''4rem'')])]
       [Element ''div'' []
         [Element ''h4'' [(''style'', AttrStyle [(''fontFamily'', LStr ''Space Grotesk, sans-serif''),
              (''fontSize'', LStr ''0.75rem''), (''fontWeight'', LNum 600), (''color'', LStr ''#0d0d0d''),
              (''textTransform'', LStr ''uppercase''), (''letterSpacing'', LStr ''0.1em''), (''marginBottom'', LStr ''1rem'')])]
           [Chars ''Resources''],
          Element ''div'' [(''style'', AttrStyle [(''display'', LStr ''flex''), (''flexDirection'', LStr ''column''),
               (''gap'', LStr ''0.5rem'')])]
           [Element ''a'' [(''href'', AttrText ''https://docs.xenage.dev''), (''target'', AttrText ''_blank''),
                (''rel'', AttrText ''noopener noreferrer''),
                (''style'', AttrStyle [(''fontFamily'', LStr ''Space Grotesk, sans-serif''), (''fontSize'', LStr ''0.85rem''),
                (''color'', LStr ''#4a4a4a''), (''textDecoration'', LStr ''none''), (''transition'', LStr ''color 0.2s ease'')])]
             [Chars ''Documentation''],
            Element ''a'' [(''href'', AttrText ''https://github.com/xenage''), (''target'', AttrText ''_blank''),
                 (''rel'', AttrText ''noopener noreferrer''),
                 (''style'', AttrStyle [(''fontFamily'', LStr ''Space Grotesk, sans-serif''), (''fontSize'', LStr ''0.85rem''),
                 (''color'', LStr ''#4a4a4a''), (''textDecoration'', LStr ''none''), (''transition'', LStr ''color 0.2s ease'')])]
             [Chars ''GitHub''],
            Element ''a'' [(''href'', AttrText ''https://x.com/xenage_dev''), (''target'', AttrText ''_blank''),
                 (''rel'', AttrText ''noopener noreferrer''),
                 (''style'', AttrStyle [(''fontFamily'', LStr ''Space Grotesk, sans-serif''), (''fontSize'', LStr ''0.85rem''),
                 (''color'', LStr ''#4a4a4a''), (''textDecoration'', LStr ''none''), (''transition'', LStr ''color 0.2s ease'')])]
             [Chars ''X.com'']]]]]"

definition Footer_notice :: "int \<Rightarrow> markup" where
  "Footer_notice year =
    Element ''p'' [(''style'', AttrStyle [(''fontFamily'', LStr ''Space Grotesk, sans-serif''), (''fontSize'', LStr ''0.8rem''),
     (''color'', LStr ''#8a8a8a''), (''textAlign'', LStr ''center''), (''margin'', LNum 0)])]
     [Chars ([CHR 0xC2] @ [CHR 0xA9] @ '' ''),
      Chars (show_int year),
      Chars '' Xenage. All rights reserved.'']"

definition Footer :: "int \<Rightarrow> markup" where
  "Footer year =
    Element ''footer'' [(''style'', AttrStyle [(''width'', LStr ''100%''), (''background'', LStr ''rgba(255, 255, 255, 0.96)''),
     (''borderTop'', LStr ''1px solid rgba(0, 0, 0, 0.08)'')])]
     [Element ''div'' [(''style'', AttrStyle [(''maxWidth'', LStr ''1200px''), (''margin'', LStr ''0 auto''),
          (''padding'', LStr ''4rem 2rem 2rem'')])]
       [Footer_columns,
        Element ''div'' [(''style'', AttrStyle [(''width'', LStr ''100%''), (''height'', LStr ''1px''),
             (''background'', LStr ''linear-gradient(90deg, transparent, rgba(0, 102, 255, 0.2), transparent)''),
             (''marginBottom'', LStr ''1.5rem'')])] [],
        Footer_notice year]]"

end
