(* ===== verification/LandingPage.thy ===== *)
theory LandingPage
  imports Prelude Complex_Main
begin

text \<open>
  The front page of the web site: \<open>landing/app/page.tsx\<close> (which section is active),
  \<open>HeroCanvas.tsx\<close> (the ribbon and the animation), \<open>Navigation.tsx\<close> and the copy button of
  \<open>HeroSection.tsx\<close>. Points of the ribbon are real numbers, as in the formula; positions, angles and
  times are rational numbers, without the rounding of floating point. Three.js draws what the state says.
\<close>

section \<open>The ribbon\<close>

definition segmentsU :: nat where "segmentsU = 124"
definition segmentsV :: nat where "segmentsV = 412"

text \<open>The point of the grid, in the order in which its coordinates are stored.\<close>

definition mobius_point :: "real \<Rightarrow> nat \<Rightarrow> nat \<Rightarrow> real list" where
  "mobius_point detail iu iv =
     (let width = 34 / 100 + detail * (2 / 100); radius = 145 / 100;
          u = (real iu / real segmentsU) * 2 - 1;
          v = (real iv / real segmentsV) * pi * 2;
          t = u * width;
          x = (radius + t * cos (v * (1 / 2))) * cos v;
          y = (radius + t * cos (v * (1 / 2))) * sin v;
          z = t * sin (v * (1 / 2))
      in [x, z * (135 / 100), y])"

definition mobius_positions :: "real \<Rightarrow> real list" where
  "mobius_positions detail =
     concat (concat (map (\<lambda>iu. map (mobius_point detail iu) [0..<segmentsV + 1]) [0..<segmentsU + 1]))"

definition grid_row :: nat where "grid_row = segmentsV + 1"

definition cell_indices :: "nat \<Rightarrow> nat \<Rightarrow> nat list" where
  "cell_indices iu iv =
     (let a = iu * grid_row + iv; b = (iu + 1) * grid_row + iv;
          c = (iu + 1) * grid_row + iv + 1; d = iu * grid_row + iv + 1
      in [a, b, d, b, c, d])"

definition mobius_indices :: "nat list" where
  "mobius_indices = concat (concat (map (\<lambda>iu. map (cell_indices iu) [0..<segmentsV]) [0..<segmentsU]))"

text \<open>The arguments of the knot: radius, tube, segments along and around it, and its two windings.\<close>

definition knot_parameters :: "rat \<Rightarrow> rat \<Rightarrow> rat list" where
  "knot_parameters detail scale =
     (let radius = 118 / 100 + detail * (1 / 100); tube = 7 / 100 + detail * (2 / 1000)
      in [radius * scale, tube * scale, 720, 32, 2, 3])"

section \<open>The animation\<close>

text \<open>The geometries are kept by what they were made from: the detail of the ribbon and the arguments of the knot.\<close>

record canvas_state =
  mouse_x :: rat
  mouse_y :: rat
  drag_x :: rat
  drag_y :: rat
  target_x :: rat
  target_y :: rat
  dragging :: bool
  scrollProgress :: rat
  zoom :: rat
  targetZoom :: rat
  lastComplexity :: rat
  rotation_x :: rat
  rotation_y :: rat
  position_x :: rat
  position_y :: rat
  ribbon_detail :: rat
  knot :: "rat list"
  materials :: "rat list"
  knot_rotation_x :: rat
  knot_rotation_z :: rat
  particles_rotation :: rat
  cursor :: string

definition clamp :: "rat \<Rightarrow> rat \<Rightarrow> rat \<Rightarrow> rat" where
  "clamp x lo hi = max lo (min hi x)"

text \<open>The opacities of the ribbon, the knot and the particles, and the size of the particles.\<close>

definition applyComplexity :: "rat \<Rightarrow> canvas_state \<Rightarrow> canvas_state" where
  "applyComplexity complexity s = s\<lparr>ribbon_detail := complexity, knot := knot_parameters complexity 1, materials :=
     [44 / 100 + min (32 / 100) (complexity * (8 / 100)), 42 / 100 + min (24 / 100) (complexity * (6 / 100)),
      18 / 100 + min (28 / 100) (complexity * (6 / 100)), 2 / 100 + min (35 / 1000) (complexity * (5 / 1000))]\<rparr>"

definition handlePointerDown :: "canvas_state \<Rightarrow> canvas_state" where
  "handlePointerDown s = s\<lparr>dragging := True, cursor := ''grabbing''\<rparr>"

definition handlePointerMove :: "rat \<Rightarrow> rat \<Rightarrow> canvas_state \<Rightarrow> canvas_state" where
  "handlePointerMove movementX movementY s =
     (if \<not> dragging s then s
      else s\<lparr>target_x := clamp (target_x s + movementX * (4 / 1000)) (- 135 / 100) (135 / 100),
             target_y := clamp (target_y s + movementY * (4 / 1000)) (- 12 / 10) (12 / 10)\<rparr>)"

definition handlePointerUp :: "canvas_state \<Rightarrow> canvas_state" where
  "handlePointerUp s = s\<lparr>dragging := False, cursor := ''grab''\<rparr>"

text \<open>The boolean tells whether the default action, scrolling or zooming the page, is prevented.\<close>

definition handleWheel :: "bool \<Rightarrow> bool \<Rightarrow> rat \<Rightarrow> rat \<Rightarrow> rat \<Rightarrow> rat \<Rightarrow> canvas_state \<Rightarrow> canvas_state \<times> bool" where
  "handleWheel ctrlKey metaKey clientX rectLeft rectWidth deltaY s =
     (if \<not> ctrlKey \<and> \<not> metaKey then (s, False)
      else if clientX - rectLeft < rectWidth * (1 / 2) then (s, False)
      else (s\<lparr>targetZoom := clamp (targetZoom s + deltaY * (3 / 1000)) (32 / 10) (56 / 10)\<rparr>, True))"

definition handleMouseMove :: "rat \<Rightarrow> rat \<Rightarrow> rat \<Rightarrow> rat \<Rightarrow> canvas_state \<Rightarrow> canvas_state" where
  "handleMouseMove clientX clientY innerWidth innerHeight s =
     s\<lparr>mouse_x := (clientX / innerWidth - 1 / 2) * 2, mouse_y := (clientY / innerHeight - 1 / 2) * 2\<rparr>"

definition handleScroll :: "rat \<Rightarrow> rat \<Rightarrow> rat \<Rightarrow> canvas_state \<Rightarrow> canvas_state" where
  "handleScroll documentHeight innerHeight scrollY s =
     s\<lparr>scrollProgress := scrollY / max 1 (documentHeight - innerHeight)\<rparr>"

definition targetComplexity :: "canvas_state \<Rightarrow> rat" where
  "targetComplexity s = 1 + scrollProgress s * (3 / 2)"

definition currentComplexity :: "canvas_state \<Rightarrow> rat" where
  "currentComplexity s = (if lastComplexity s = - 1 then targetComplexity s
     else lastComplexity s + (targetComplexity s - lastComplexity s) * (5 / 100))"

text \<open>The first part of a frame: the geometry is rebuilt when the complexity has moved enough.\<close>

definition rebuilds :: "canvas_state \<Rightarrow> bool" where
  "rebuilds s = (\<bar>currentComplexity s - lastComplexity s\<bar> > 1 / 1000)"

definition animate_complexity :: "canvas_state \<Rightarrow> canvas_state" where
  "animate_complexity s =
     (if rebuilds s then (applyComplexity (currentComplexity s) s)\<lparr>lastComplexity := currentComplexity s\<rparr> else s)"

definition animate_drag :: "canvas_state \<Rightarrow> canvas_state" where
  "animate_drag s =
     (let s1 = s\<lparr>drag_x := drag_x s + (target_x s - drag_x s) * (9 / 100),
                 drag_y := drag_y s + (target_y s - drag_y s) * (9 / 100)\<rparr> in
      if dragging s then s1
      else s1\<lparr>target_x := target_x s * (985 / 1000), target_y := target_y s * (985 / 1000)\<rparr>)"

definition animate_root :: "rat \<Rightarrow> canvas_state \<Rightarrow> canvas_state" where
  "animate_root innerWidth s =
     (let isMobile = (innerWidth \<le> 1024);
          baseX = (if isMobile then 0 else - 14 / 100);
          topY = (if isMobile then - 32 / 100 else 42 / 100);
          scrollY = (if isMobile then 0 else 11 / 10);
          targetY = topY - scrollProgress s * scrollY - mouse_y s * (3 / 100)
      in s\<lparr>rotation_x := rotation_x s + (16 / 10000 + mouse_y s * (7 / 10000) + drag_y s * (28 / 10000)),
           rotation_y := rotation_y s + (24 / 10000 + mouse_x s * (7 / 10000) + drag_x s * (28 / 10000)),
           position_x := position_x s + (baseX + mouse_x s * (7 / 100) - position_x s) * (28 / 1000),
           position_y := position_y s + (targetY - position_y s) * (28 / 1000)\<rparr>)"

definition animate_rest :: "canvas_state \<Rightarrow> canvas_state" where
  "animate_rest s = s\<lparr>knot_rotation_x := knot_rotation_x s + 12 / 10000, knot_rotation_z := knot_rotation_z s + 17 / 10000,
     particles_rotation := particles_rotation s + 6 / 10000\<rparr>"

definition animate_zoom :: "canvas_state \<Rightarrow> canvas_state" where
  "animate_zoom s = s\<lparr>zoom := zoom s + (targetZoom s - zoom s) * (8 / 100)\<rparr>"

definition animate :: "rat \<Rightarrow> canvas_state \<Rightarrow> canvas_state" where
  "animate innerWidth s = animate_zoom (animate_rest (animate_root innerWidth (animate_drag (animate_complexity s))))"

definition canvas_init :: canvas_state where
  "canvas_init = applyComplexity 1 \<lparr>mouse_x = 0, mouse_y = 0, drag_x = 0, drag_y = 0, target_x = 0, target_y = 0,
     dragging = False, scrollProgress = 0, zoom = 385 / 100, targetZoom = 385 / 100, lastComplexity = - 1,
     rotation_x = 0, rotation_y = 0, position_x = 0, position_y = 0, ribbon_detail = 1, knot = knot_parameters 1 1,
     materials = [52 / 100, 45 / 100, 24 / 100, 28 / 1000], knot_rotation_x = 0, knot_rotation_z = 0,
     particles_rotation = 0, cursor = ''grab''\<rparr>"

text \<open>The dots beside the canvas: whether each is drawn as active.\<close>

definition pagination_dots :: "nat \<Rightarrow> bool list" where
  "pagination_dots activeSection = map (\<lambda>i. activeSection = i) [0, 1, 2, 3, 4, 5]"

section \<open>The page\<close>

text \<open>The elements of class \<open>scroll-section\<close> in the order of the page, with their ids.\<close>

definition scroll_sections :: "string option list" where
  "scroll_sections = [None, Some ''problems'', Some ''install'', Some ''features'', Some ''scale'', Some ''gui'', None]"

record rect_y =
  rect_top :: rat
  rect_bottom :: rat

definition isVisible :: "rat \<Rightarrow> rect_y \<Rightarrow> bool" where
  "isVisible innerHeight r = (rect_top r < innerHeight * (6 / 10) \<and> innerHeight * (4 / 10) < rect_bottom r)"

text \<open>The scroll handler: every visible section sets the active one.\<close>

definition page_handleScroll :: "rat \<Rightarrow> rect_y list \<Rightarrow> nat \<Rightarrow> nat" where
  "page_handleScroll innerHeight rects activeSection =
     fold (\<lambda>(i, r) active. if isVisible innerHeight r then i else active) (enumerate 0 rects) activeSection"

section \<open>Navigation and the copy button\<close>

record nav_state =
  isScrolled :: bool
  mobileMenuOpen :: bool

definition nav_scroll :: "rat \<Rightarrow> nav_state \<Rightarrow> nav_state" where
  "nav_scroll scrollY s = s\<lparr>isScrolled := (scrollY > 50)\<rparr>"

definition nav_toggle :: "nav_state \<Rightarrow> nav_state" where
  "nav_toggle s = s\<lparr>mobileMenuOpen := \<not> mobileMenuOpen s\<rparr>"

definition nav_links :: "(string \<times> string) list" where
  "nav_links = [(''Why'', ''#problems''), (''Features'', ''#features''), (''Install'', ''#install''), (''Scale'', ''#scale''),
     (''GUI'', ''#gui''), (''Get Started'', ''#install'')]"

definition mobile_links :: "nav_state \<Rightarrow> (string \<times> string) list" where
  "mobile_links s = (if mobileMenuOpen s then nav_links else [])"

text \<open>The copy button: a timer is started for every copy that succeeds, and each clears the notice.\<close>

record copy_state =
  copied :: bool
  copy_timers :: nat

definition hero_copied :: "js_error + unit \<Rightarrow> copy_state \<Rightarrow> copy_state" where
  "hero_copied settled s = (case settled of Inr _ \<Rightarrow> s\<lparr>copied := True, copy_timers := copy_timers s + 1\<rparr> | Inl _ \<Rightarrow> s)"

definition hero_timeout :: "copy_state \<Rightarrow> copy_state" where
  "hero_timeout s = (if copy_timers s = 0 then s else s\<lparr>copied := False, copy_timers := copy_timers s - 1\<rparr>)"

section \<open>The ribbon: correctness\<close>

lemma concat_length_const: "(\<And>x. x \<in> set xs \<Longrightarrow> length (f x) = n) \<Longrightarrow> length (concat (map f xs)) = n * length xs"
  by (induction xs) simp_all

lemma concat_nested: "concat (concat (map f xs)) = concat (map (\<lambda>x. concat (f x)) xs)"
  by (induction xs) simp_all

lemma mobius_positions_length: "length (mobius_positions detail) = 3 * ((segmentsU + 1) * grid_row)"
proof -
  have row: "length (concat (map (mobius_point detail iu) [0..<segmentsV + 1])) = 3 * grid_row" for iu
    by (subst concat_length_const[where n = 3]) (simp_all add: mobius_point_def Let_def grid_row_def)
  have "mobius_positions detail = concat (map (\<lambda>iu. concat (map (mobius_point detail iu) [0..<segmentsV + 1])) [0..<segmentsU + 1])"
    by (simp only: mobius_positions_def concat_nested)
  also have "length \<dots> = (3 * grid_row) * length [0..<segmentsU + 1]" by (rule concat_length_const) (rule row)
  finally show ?thesis by (simp del: upt_Suc)
qed

lemma cell_index_bound:
  assumes "iu < segmentsU" and "iv < segmentsV" and "i \<in> set (cell_indices iu iv)"
  shows "i < (segmentsU + 1) * grid_row"
proof -
  have "(iu + 1) * grid_row + iv + 1 < (iu + 1) * grid_row + grid_row" using assms(2) by (simp add: grid_row_def)
  also have "(iu + 1) * grid_row + grid_row = (iu + 2) * grid_row" by simp
  also have "(iu + 2) * grid_row \<le> (segmentsU + 1) * grid_row" using assms(1) by (intro mult_le_mono1) simp
  finally have "(iu + 1) * grid_row + iv + 1 < (segmentsU + 1) * grid_row" .
  then show ?thesis using assms(3) by (auto simp: cell_indices_def Let_def)
qed

text \<open>The ribbon is a closed one-sided band: every index of the mesh is that of a stored point, three
  coordinates being stored for each, and there are two triangles for each of the cells of the grid; and
  the last column of the grid is the first one turned over, so that the band closes with half a twist,
  for every width.\<close>

theorem mobius_band:
  "length (mobius_positions detail) = 3 * ((segmentsU + 1) * grid_row) \<and>
   (\<forall>i \<in> set mobius_indices. 3 * i + 2 < length (mobius_positions detail)) \<and>
   length mobius_indices = 3 * (2 * (segmentsU * segmentsV)) \<and>
   (iu \<le> segmentsU \<longrightarrow> mobius_point detail iu segmentsV = mobius_point detail (segmentsU - iu) 0)"
proof -
  have "3 * i + 2 < length (mobius_positions detail)" if "i \<in> set mobius_indices" for i
  proof -
    have "i < (segmentsU + 1) * grid_row" using that cell_index_bound by (auto simp: mobius_indices_def)
    then show ?thesis unfolding mobius_positions_length by linarith
  qed
  moreover have "length mobius_indices = 3 * (2 * (segmentsU * segmentsV))"
  proof -
    have row: "length (concat (map (cell_indices iu) [0..<segmentsV])) = 6 * segmentsV" for iu
      by (subst concat_length_const[where n = 6]) (simp_all add: cell_indices_def Let_def)
    have "mobius_indices = concat (map (\<lambda>iu. concat (map (cell_indices iu) [0..<segmentsV])) [0..<segmentsU])"
      by (simp only: mobius_indices_def concat_nested)
    also have "length \<dots> = (6 * segmentsV) * length [0..<segmentsU]" by (rule concat_length_const) (rule row)
    finally show ?thesis by simp
  qed
  moreover have "mobius_point detail iu segmentsV = mobius_point detail (segmentsU - iu) 0" if "iu \<le> segmentsU"
  proof -
    have "real (segmentsU - iu) = real segmentsU - real iu" using that by simp
    then have u: "(real (segmentsU - iu) / real segmentsU) * 2 - 1 = - ((real iu / real segmentsU) * 2 - 1)"
      by (simp add: segmentsU_def field_simps)
    obtain q where q: "q = (real iu / real segmentsU) * 2 - 1" by simp
    show ?thesis unfolding mobius_point_def Let_def u q[symmetric] by (simp add: segmentsV_def)
  qed
  ultimately show ?thesis using mobius_positions_length by blast
qed

theorem mobius_band_witness: "mobius_point 1 124 412 = mobius_point 1 0 0"
  using mobius_band[of 1 124] by (simp add: segmentsU_def segmentsV_def)

section \<open>The animation: correctness\<close>

text \<open>Anything the visitor and the clock can do; a page scrolls between its start and its end.\<close>

inductive canvas_step :: "canvas_state \<Rightarrow> canvas_state \<Rightarrow> bool" where
  down: "canvas_step s (handlePointerDown s)"
| move: "canvas_step s (handlePointerMove dx dy s)"
| up: "canvas_step s (handlePointerUp s)"
| wheel: "canvas_step s (fst (handleWheel ctrl meta x l w d s))"
| mouse: "canvas_step s (handleMouseMove x y w h s)"
| scroll: "0 \<le> y \<Longrightarrow> y \<le> max 1 (d - h) \<Longrightarrow> canvas_step s (handleScroll d h y s)"
| frame: "canvas_step s (animate w s)"

inductive canvas_reachable :: "canvas_state \<Rightarrow> bool" where
  initial: "canvas_reachable canvas_init"
| step: "canvas_reachable s \<Longrightarrow> canvas_step s s' \<Longrightarrow> canvas_reachable s'"

definition inside :: "rat \<Rightarrow> rat \<Rightarrow> rat \<Rightarrow> bool" where
  "inside lo x hi = (lo \<le> x \<and> x \<le> hi)"

definition canvas_inv :: "canvas_state \<Rightarrow> bool" where
  "canvas_inv s = (inside (- 135 / 100) (target_x s) (135 / 100) \<and> inside (- 135 / 100) (drag_x s) (135 / 100) \<and>
     inside (- 12 / 10) (target_y s) (12 / 10) \<and> inside (- 12 / 10) (drag_y s) (12 / 10) \<and>
     inside (32 / 10) (targetZoom s) (56 / 10) \<and> inside (32 / 10) (zoom s) (56 / 10) \<and>
     inside 0 (scrollProgress s) 1 \<and> (lastComplexity s = - 1 \<or> inside 1 (lastComplexity s) (5 / 2)))"

lemma inside_clamp: "lo \<le> hi \<Longrightarrow> inside lo (clamp x lo hi) hi"
  by (simp add: inside_def clamp_def)

text \<open>A step of a fixed part of the way towards a point of an interval stays in it.\<close>

lemma inside_step: "inside lo x hi \<Longrightarrow> inside lo y hi \<Longrightarrow> 0 \<le> k \<Longrightarrow> k \<le> 1 \<Longrightarrow> inside lo (x + (y - x) * k) hi"
proof -
  assume a: "inside lo x hi" "inside lo y hi" "0 \<le> k" "k \<le> 1"
  have e: "x + (y - x) * k = (1 - k) * x + k * y" by (simp add: algebra_simps)
  have "(1 - k) * lo \<le> (1 - k) * x" "k * lo \<le> k * y" "(1 - k) * x \<le> (1 - k) * hi" "k * y \<le> k * hi"
    using a by (auto simp: inside_def intro: mult_left_mono)
  then show ?thesis unfolding inside_def e by (auto simp: algebra_simps)
qed

lemma inside_shrink: "inside (- b) x b \<Longrightarrow> 0 \<le> k \<Longrightarrow> k \<le> 1 \<Longrightarrow> inside (- b) (x * k) b"
  using inside_step[of "- b" x b 0 "1 - k"] by (auto simp: inside_def algebra_simps)

lemma complexity_within:
  "canvas_inv s \<Longrightarrow> inside 1 (targetComplexity s) (5 / 2) \<and> inside 1 (currentComplexity s) (5 / 2)"
  using inside_step[of 1 "lastComplexity s" "5 / 2" "targetComplexity s" "5 / 100"]
  by (auto simp: canvas_inv_def currentComplexity_def targetComplexity_def inside_def)

lemma animate_complexity_inv: "canvas_inv s \<Longrightarrow> canvas_inv (animate_complexity s)"
  using complexity_within[of s] by (simp add: animate_complexity_def applyComplexity_def canvas_inv_def)

lemma animate_drag_inv: "canvas_inv s \<Longrightarrow> canvas_inv (animate_drag s)"
  using inside_step[of "- 135 / 100" "drag_x s" "135 / 100" "target_x s" "9 / 100"]
    inside_step[of "- 12 / 10" "drag_y s" "12 / 10" "target_y s" "9 / 100"]
    inside_shrink[of "135 / 100" "target_x s" "985 / 1000"] inside_shrink[of "12 / 10" "target_y s" "985 / 1000"]
  by (simp add: animate_drag_def canvas_inv_def Let_def)

lemma animate_rest_inv: "canvas_inv s \<Longrightarrow> canvas_inv (animate_root w s)" "canvas_inv s \<Longrightarrow> canvas_inv (animate_rest s)"
  "canvas_inv s \<Longrightarrow> canvas_inv (animate_zoom s)"
  using inside_step[of "32 / 10" "zoom s" "56 / 10" "targetZoom s" "8 / 100"]
  by (simp_all add: animate_root_def animate_rest_def animate_zoom_def canvas_inv_def Let_def)

lemma canvas_step_inv: "canvas_step s s' \<Longrightarrow> canvas_inv s \<Longrightarrow> canvas_inv s'"
proof (induction rule: canvas_step.induct)
  case (move s dx dy)
  then show ?case using inside_clamp[of "- 135 / 100" "135 / 100"] inside_clamp[of "- 12 / 10" "12 / 10"]
    by (simp add: handlePointerMove_def canvas_inv_def)
next
  case (wheel s ctrl meta x l w d)
  then show ?case using inside_clamp[of "32 / 10" "56 / 10"] by (simp add: handleWheel_def canvas_inv_def)
next
  case (scroll y d h s)
  have "0 < max 1 (d - h)" by (simp add: less_max_iff_disj)
  with scroll show ?case by (simp add: handleScroll_def canvas_inv_def inside_def divide_le_eq_1)
next
  case (frame s w)
  then show ?case by (simp add: animate_def animate_complexity_inv animate_drag_inv animate_rest_inv)
qed (simp_all add: handlePointerDown_def handlePointerUp_def handleMouseMove_def canvas_inv_def)

lemma canvas_reachable_inv: "canvas_reachable s \<Longrightarrow> canvas_inv s"
proof (induction rule: canvas_reachable.induct)
  case initial
  show ?case by (simp add: canvas_init_def applyComplexity_def canvas_inv_def inside_def)
qed (rule canvas_step_inv)

text \<open>Without scrolling the complexity approaches its target, and the geometry is rebuilt for some frames only.\<close>

lemma animate_complexity_frame:
  "targetComplexity (animate_complexity s) = targetComplexity s"
  by (simp add: animate_complexity_def applyComplexity_def targetComplexity_def)

lemma rebuild_distance:
  assumes "lastComplexity s \<noteq> - 1" and "rebuilds s"
  shows "\<bar>targetComplexity s - lastComplexity (animate_complexity s)\<bar> = \<bar>targetComplexity s - lastComplexity s\<bar> * (95 / 100)"
    and "1 / 50 < \<bar>targetComplexity s - lastComplexity s\<bar>"
proof -
  have "targetComplexity s - lastComplexity (animate_complexity s) = (targetComplexity s - lastComplexity s) * (95 / 100)"
    using assms by (simp add: animate_complexity_def currentComplexity_def field_simps)
  then show "\<bar>targetComplexity s - lastComplexity (animate_complexity s)\<bar> = \<bar>targetComplexity s - lastComplexity s\<bar> * (95 / 100)"
    by (simp only: abs_mult)
  have e: "currentComplexity s - lastComplexity s = (targetComplexity s - lastComplexity s) * (5 / 100)"
    using assms(1) by (simp add: currentComplexity_def)
  have "1 / 1000 < \<bar>(targetComplexity s - lastComplexity s) * (5 / 100)\<bar>" using assms(2) unfolding rebuilds_def e .
  then show "1 / 50 < \<bar>targetComplexity s - lastComplexity s\<bar>" by (simp only: abs_mult) simp
qed

lemma lastComplexity_animate: "lastComplexity (animate w s) = lastComplexity (animate_complexity s)"
  by (simp add: animate_def animate_zoom_def animate_rest_def animate_root_def animate_drag_def Let_def)

lemma target_animate: "targetComplexity (animate w s) = targetComplexity s"
  by (simp add: animate_def animate_zoom_def animate_rest_def animate_root_def animate_drag_def Let_def targetComplexity_def
      animate_complexity_def applyComplexity_def)

lemma animate_inv: "canvas_inv s \<Longrightarrow> canvas_inv (animate w s)"
  by (simp add: animate_def animate_complexity_inv animate_drag_inv animate_rest_inv)

lemma settled_stays:
  "\<not> rebuilds s \<Longrightarrow> \<not> rebuilds (animate w s) \<and> lastComplexity (animate w s) = lastComplexity s"
proof -
  assume r: "\<not> rebuilds s"
  then have l: "lastComplexity (animate w s) = lastComplexity s" by (simp add: lastComplexity_animate animate_complexity_def)
  then have "currentComplexity (animate w s) = currentComplexity s" by (simp add: currentComplexity_def target_animate)
  with l r show ?thesis by (simp add: rebuilds_def)
qed

lemma frames_approach:
  assumes "canvas_inv s" and "lastComplexity s \<noteq> - 1"
  shows "let t = (animate w ^^ n) s in canvas_inv t \<and> lastComplexity t \<noteq> - 1 \<and> targetComplexity t = targetComplexity s \<and>
    (\<not> rebuilds t \<or> \<bar>targetComplexity s - lastComplexity t\<bar> \<le> 3 / 2 * (95 / 100) ^ n)"
proof (induction n)
  case 0
  have "inside 1 (targetComplexity s) (5 / 2)" "inside 1 (lastComplexity s) (5 / 2)"
    using assms complexity_within[OF assms(1)] by (auto simp: canvas_inv_def)
  then have "\<bar>targetComplexity s - lastComplexity s\<bar> \<le> 3 / 2" unfolding inside_def abs_le_iff by linarith
  then show ?case using assms by simp
next
  case (Suc n)
  let ?t = "(animate w ^^ n) s"
  have t: "canvas_inv ?t" "lastComplexity ?t \<noteq> - 1" "targetComplexity ?t = targetComplexity s"
    "\<not> rebuilds ?t \<or> \<bar>targetComplexity s - lastComplexity ?t\<bar> \<le> 3 / 2 * (95 / 100) ^ n"
    using Suc by (simp_all add: Let_def)
  show ?case
  proof (cases "rebuilds ?t")
    case False
    with t settled_stays[OF False, of w] show ?thesis by (simp add: Let_def animate_inv target_animate)
  next
    case True
    have "lastComplexity (animate w ?t) = currentComplexity ?t"
      using True by (simp add: lastComplexity_animate animate_complexity_def)
    then have "lastComplexity (animate w ?t) \<noteq> - 1" using complexity_within[OF t(1)] by (auto simp: inside_def)
    moreover have "\<bar>targetComplexity s - lastComplexity (animate w ?t)\<bar> \<le> 3 / 2 * (95 / 100) ^ Suc n"
      using rebuild_distance(1)[OF t(2) True] t(3,4) True by (simp add: lastComplexity_animate)
    ultimately show ?thesis using t by (simp add: Let_def animate_inv target_animate)
  qed
qed

text \<open>The animation stays in its frame and comes to rest: whatever the visitor does, the drag stays
  within 1.35 and 1.2, the camera between 3.2 and 5.6, and the complexity between 1 and 2.5; and without
  scrolling the geometry is not rebuilt any more after 85 frames, with the complexity within a fiftieth
  of its target.\<close>

theorem canvas_settles:
  assumes "canvas_reachable s" and "85 \<le> n" and "lastComplexity s \<noteq> - 1"
  shows "\<bar>drag_x s\<bar> \<le> 135 / 100 \<and> \<bar>drag_y s\<bar> \<le> 12 / 10 \<and> 32 / 10 \<le> zoom s \<and> zoom s \<le> 56 / 10 \<and>
    1 \<le> lastComplexity s \<and> lastComplexity s \<le> 5 / 2 \<and>
    (let t = (animate w ^^ n) s in \<not> rebuilds t \<and> \<bar>targetComplexity s - lastComplexity t\<bar> \<le> 1 / 50)"
proof -
  note inv = canvas_reachable_inv[OF assms(1)]
  have bounds: "\<bar>drag_x s\<bar> \<le> 135 / 100" "\<bar>drag_y s\<bar> \<le> 12 / 10" "32 / 10 \<le> zoom s" "zoom s \<le> 56 / 10"
    "1 \<le> lastComplexity s" "lastComplexity s \<le> 5 / 2"
    using inv assms(3) by (auto simp: canvas_inv_def inside_def)
  let ?t = "(animate w ^^ n) s"
  note f = frames_approach[OF inv assms(3), where w = w and n = n, unfolded Let_def]
  have small: "3 / 2 * (95 / 100) ^ n \<le> (1 / 50 :: rat)"
  proof -
    have "(95 / 100 :: rat) ^ n \<le> (95 / 100) ^ 85" by (intro power_decreasing assms(2)) simp_all
    moreover have "3 / 2 * (95 / 100 :: rat) ^ 85 \<le> 1 / 50" by (simp add: power_divide)
    ultimately show ?thesis by linarith
  qed
  have stop: "\<not> rebuilds ?t"
  proof
    assume r: "rebuilds ?t"
    then have "\<bar>targetComplexity s - lastComplexity ?t\<bar> \<le> 1 / 50" using f small by linarith
    moreover have "1 / 50 < \<bar>targetComplexity s - lastComplexity ?t\<bar>" using rebuild_distance(2)[of ?t] f r by simp
    ultimately show False by linarith
  qed
  moreover have "\<bar>targetComplexity s - lastComplexity ?t\<bar> \<le> 1 / 50"
  proof -
    have e: "currentComplexity ?t - lastComplexity ?t = (targetComplexity s - lastComplexity ?t) * (5 / 100)"
      using f by (simp add: currentComplexity_def)
    have "\<bar>(targetComplexity s - lastComplexity ?t) * (5 / 100)\<bar> \<le> 1 / 1000"
      using stop unfolding rebuilds_def e by linarith
    then show ?thesis by (simp only: abs_mult) simp
  qed
  ultimately show ?thesis using bounds by (simp add: Let_def)
qed

section \<open>The page: correctness\<close>

lemma fold_last_visible:
  "fold (\<lambda>(i, r) active. if isVisible h r then i else active) rs a =
     (case filter (\<lambda>(i, r). isVisible h r) (rev rs) of [] \<Rightarrow> a | (i, r) # _ \<Rightarrow> i)"
  by (induction rs arbitrary: a rule: rev_induct) (auto split: list.split prod.splits)

text \<open>The last visible section is the active one; if none is visible it stays.\<close>

lemma page_handleScroll_last:
  "page_handleScroll h rects a =
     (case filter (\<lambda>(i, r). isVisible h r) (rev (enumerate 0 rects)) of [] \<Rightarrow> a | (i, r) # _ \<Rightarrow> i)"
  by (simp add: page_handleScroll_def fold_last_visible)

lemma page_handleScroll_visible:
  assumes "i < length rects" and "isVisible h (rects ! i)" and "\<forall>j < length rects. i < j \<longrightarrow> \<not> isVisible h (rects ! j)"
  shows "page_handleScroll h rects a = i"
proof -
  have split: "enumerate 0 rects = enumerate 0 (take i rects) @ (i, rects ! i) # enumerate (Suc i) (drop (Suc i) rects)"
    using id_take_nth_drop[OF assms(1)] assms(1)
    by (metis (no_types, lifting) add_0 enumerate_append_eq enumerate_simps(2) length_take min.absorb4)
  have "\<not> isVisible h r" if "(j, r) \<in> set (enumerate (Suc i) (drop (Suc i) rects))" for j r
    using that assms(3) by (auto simp: in_set_enumerate_eq)
  then have "filter (\<lambda>(i, r). isVisible h r) (rev (enumerate (Suc i) (drop (Suc i) rects))) = []"
    by (auto simp: filter_empty_conv)
  then show ?thesis using assms(2) by (simp add: page_handleScroll_last split)
qed

text \<open>The dot of the active section is lit, but for the last: on a page whose sections are laid out one
  below the other, the active section after a scroll is the one that reaches over the line at 60 percent
  of the window; exactly one dot is lit for the first six, and none for the seventh, the end of the page.\<close>

theorem active_section_dot:
  assumes "length rects = length scroll_sections" and "i < length rects" and "0 < h"
    and "\<forall>j < length rects. rect_top (rects ! j) \<le> rect_bottom (rects ! j)"
    and "\<forall>j k. j < k \<and> k < length rects \<longrightarrow> rect_bottom (rects ! j) \<le> rect_top (rects ! k)"
    and "rect_top (rects ! i) < h * (6 / 10)" and "h * (6 / 10) \<le> rect_bottom (rects ! i)"
  shows "page_handleScroll h rects a = i \<and>
    length (filter id (pagination_dots i)) = (if i = length scroll_sections - 1 then 0 else 1)"
proof -
  have vis: "isVisible h (rects ! i)" using assms(3,6,7) by (simp add: isVisible_def)
  have "\<not> isVisible h (rects ! j)" if "j < length rects" "i < j" for j
  proof -
    have "rect_bottom (rects ! i) \<le> rect_top (rects ! j)" using assms(5) that by blast
    with assms(7) show ?thesis by (simp add: isVisible_def)
  qed
  then have "page_handleScroll h rects a = i" using page_handleScroll_visible[OF assms(2) vis] by blast
  moreover have "i \<in> {0, 1, 2, 3, 4, 5, 6}" using assms(1,2) by (auto simp: scroll_sections_def)
  then have "length (filter id (pagination_dots i)) = (if i = length scroll_sections - 1 then 0 else 1)"
    by (auto simp: pagination_dots_def scroll_sections_def)
  ultimately show ?thesis by blast
qed

definition demo_rects :: "rat \<Rightarrow> rect_y list" where
  "demo_rects y = map (\<lambda>i. \<lparr>rect_top = of_nat i * 1000 - y, rect_bottom = of_nat (i + 1) * 1000 - y\<rparr>) [0..<7]"

theorem active_section_dot_witness:
  "page_handleScroll 1000 (demo_rects 6000) 0 = 6 \<and> filter id (pagination_dots 6) = []"
proof -
  have "page_handleScroll 1000 (demo_rects 6000) 0 = 6 \<and>
      length (filter id (pagination_dots 6)) = (if (6::nat) = length scroll_sections - 1 then 0 else 1)"
  proof (rule active_section_dot)
    show "\<forall>j < length (demo_rects 6000). rect_top (demo_rects 6000 ! j) \<le> rect_bottom (demo_rects 6000 ! j)"
      by (simp add: demo_rects_def)
    show "\<forall>j k. j < k \<and> k < length (demo_rects 6000) \<longrightarrow> rect_bottom (demo_rects 6000 ! j) \<le> rect_top (demo_rects 6000 ! k)"
    proof (intro allI impI)
      fix j k assume jk: "j < k \<and> k < length (demo_rects 6000)"
      then have "of_nat (j + 1) \<le> (of_nat k :: rat)" unfolding of_nat_le_iff by simp
      then have "of_nat (j + 1) * 1000 \<le> (of_nat k * 1000 :: rat)" by simp
      with jk show "rect_bottom (demo_rects 6000 ! j) \<le> rect_top (demo_rects 6000 ! k)"
        by (simp add: demo_rects_def)
    qed
  qed (simp_all add: demo_rects_def scroll_sections_def upt_rec)
  then show ?thesis by (simp add: scroll_sections_def)
qed

text \<open>Every link of the navigation leads to a section of the page, and the mobile menu offers the same links.\<close>

lemma nav_links_resolve:
  "(label, href) \<in> set nav_links \<Longrightarrow> \<exists>i. href = CHR ''#'' # i \<and> Some i \<in> set scroll_sections"
  "mobileMenuOpen s \<Longrightarrow> mobile_links s = nav_links"
  by (auto simp: nav_links_def scroll_sections_def mobile_links_def)

text \<open>The notice of a second copy is cleared by the timer of the first.\<close>

lemma early_notice_end:
  "let s = hero_copied (Inr ()) (hero_copied (Inr ()) \<lparr>copied = False, copy_timers = 0\<rparr>) in
     copied s \<and> \<not> copied (hero_timeout s) \<and> copy_timers (hero_timeout s) = 1"
  by (simp add: hero_copied_def hero_timeout_def)

text \<open>After the first frame, on a page scrolled to its middle.\<close>

theorem canvas_settles_witness:
  "\<not> rebuilds ((animate 1200 ^^ 85) (handleScroll 3000 1000 1000 (animate 1200 canvas_init)))"
proof -
  let ?s = "handleScroll 3000 1000 1000 (animate 1200 canvas_init)"
  have "canvas_reachable (animate 1200 canvas_init)"
    by (rule canvas_reachable.step[OF canvas_reachable.initial canvas_step.frame])
  then have r: "canvas_reachable ?s"
    by (rule canvas_reachable.step) (rule canvas_step.scroll; simp)
  have "lastComplexity (animate 1200 canvas_init) = 1"
    by (simp add: lastComplexity_animate animate_complexity_def rebuilds_def currentComplexity_def targetComplexity_def
        canvas_init_def applyComplexity_def)
  then have "lastComplexity ?s \<noteq> - 1" by (simp add: handleScroll_def)
  from canvas_settles[OF r _ this, of 85 1200] show ?thesis by (simp only: Let_def) blast
qed

end
