(* ===== verification/SitePages.thy ===== *)
theory SitePages
  imports SiteSections LandingPage
begin

text \<open>
  The front page put together, \<open>landing/app/page.tsx\<close>: what it renders, its structured data, and the
  effect that installs its listeners. The theorems are about the rendered page: that its links lead
  somewhere, that the animations find the elements they name, and that the lists by which \<open>LandingPage\<close> and
  \<open>InstallPage\<close> describe the sections, the navigation and the cards are those of the rendered page.
\<close>

section \<open>The page\<close>

definition seamClip :: string where
  "seamClip = ''polygon(0% 0%, 76% 0%, 75.5% 12%, 76.8% 24%, 74.2% 38%, 76.2% 52%, 73.8% 66%, 75.6% 82%, 72% 100%, 0% 100%)''"

definition seamClipSoft :: string where
  "seamClipSoft = ''polygon(0% 0%, 81% 0%, 80.5% 14%, 81.8% 28%, 79.2% 42%, 81.2% 56%, 78.8% 70%, 80.6% 86%, 77% 100%, 0% 100%)''"

definition seamClipMobile :: string where
  "seamClipMobile = ''polygon(0% 100%, 100% 100%, 100% 24%, 86% 23.5%, 72% 25.2%, 58% 23.8%, 44% 24.8%, 30% 23.2%, 16% 25.5%, 0% 28%)''"

definition seamClipSoftMobile :: string where
  "seamClipSoftMobile = ''polygon(0% 100%, 100% 100%, 100% 19%, 86% 18.5%, 72% 20.2%, 58% 18.8%, 44% 19.8%, 30% 18.2%, 16% 20.5%, 0% 23%)''"

definition structuredData :: js_lit where
  "structuredData =
    LObj [(''@context'', LStr ''https://schema.org''), (''@graph'', LArr [LObj [(''@type'', LStr ''SoftwareApplication''),
     (''name'', LStr ''Xenage''), (''applicationCategory'', LStr ''DeveloperApplication''),
     (''operatingSystem'', LStr ''Linux, macOS, Windows''), (''url'', LStr ''https://xenage.dev/''),
     (''description'', LStr ''Xenage is an agent orchestration platform to run, control, and observe AI agents across clusters.''),
     (''brand'', LObj [(''@type'', LStr ''Brand''), (''name'', LStr ''Xenage'')]),
     (''sameAs'', LArr [LStr ''https://github.com/xenage'', LStr ''https://docs.xenage.dev''])], LObj [(''@type'', LStr ''Organization''),
     (''name'', LStr ''Xenage''), (''url'', LStr ''https://xenage.dev/''), (''logo'', LStr ''https://xenage.dev/xenage.png''),
     (''sameAs'', LArr [LStr ''https://github.com/xenage'', LStr ''https://docs.xenage.dev''])], LObj [(''@type'', LStr ''WebSite''),
     (''name'', LStr ''Xenage''), (''url'', LStr ''https://xenage.dev/'')]])]"

definition Home :: "bool \<Rightarrow> string option \<Rightarrow> bool \<Rightarrow> bool \<Rightarrow> int \<Rightarrow> nat \<Rightarrow> bool \<Rightarrow> markup" where
  "Home is_copied recommended_id scrolled menu_open year active_section hero_copied_now =
    Element ''div'' [(''className'', AttrText ''page-wrapper'')]
     [Element ''script'' [(''type'', AttrText ''application/ld+json''),
          (''dangerouslySetInnerHTML'', AttrCode ''JSON.stringify(structuredData)'')] [],
      Navigation scrolled menu_open,
      Element ''div'' [(''className'', AttrText ''desktop-shell theme-light'')]
       [Element ''div'' [(''className'', AttrText ''canvas-layer desktop-canvas'')]
         [Element ''div'' [(''className'', AttrText ''canvas-wall''), (''style'', AttrStyle [(''clipPath'', LStr seamClip)])] [],
          Element ''div'' [(''className'', AttrText ''canvas-wall-highlight''),
               (''style'', AttrStyle [(''clipPath'', LStr seamClipSoft)])] [],
          Element ''HeroCanvas'' [(''activeSection'', AttrNum (of_nat active_section))] []],
        Element ''div'' [(''className'', AttrText ''canvas-layer mobile-canvas'')]
         [Element ''div'' [(''className'', AttrText ''canvas-wall-mobile''),
              (''style'', AttrStyle [(''clipPath'', LStr seamClipMobile)])] [],
          Element ''div'' [(''className'', AttrText ''canvas-wall-highlight-mobile''),
               (''style'', AttrStyle [(''clipPath'', LStr seamClipSoftMobile)])] [],
          Element ''HeroCanvas'' [(''activeSection'', AttrNum (of_nat active_section))] []],
        Element ''main'' [(''className'', AttrText ''content-wrapper'')]
         [HeroSection hero_copied_now,
          ProblemsSection,
          InstallSection_page is_copied recommended_id,
          FeaturesSection,
          ScaleSection,
          GuiSection,
          CtaSection]],
      Element ''div'' [(''className'', AttrText ''footer-wrapper'')]
       [Footer year],
      StyleSheet]"

definition metadata :: js_lit where
  "metadata =
    LObj [(''metadataBase'', LStr ''https://xenage.dev''),
     (''title'', LObj [(''default'', LStr (''Xenage '' @
     [CHR 0xE2] @ [CHR 0x80] @ [CHR 0x94] @ '' Agent Orchestration Platform'')), (''template'', LStr ''%s | Xenage'')]),
     (''description'', LStr ''Run, control, and observe AI agents across clusters. Xenage is the orchestration platform inspired by Kubernetes and Lens, built specifically for agent workloads.''),
     (''keywords'', LArr [LStr ''agent orchestration platform'', LStr ''ai agent infrastructure'', LStr ''ai agent control plane'', LStr ''agent cluster management'', LStr ''multi-agent operations'', LStr ''xenage'']),
     (''alternates'', LObj [(''canonical'', LStr ''/'')]), (''openGraph'', LObj [(''type'', LStr ''website''),
     (''url'', LStr ''https://xenage.dev/''), (''siteName'', LStr ''Xenage''),
     (''title'', LStr (''Xenage '' @ [CHR 0xE2] @ [CHR 0x80] @ [CHR 0x94] @ '' Agent Orchestration Platform'')),
     (''description'', LStr ''Run, control, and observe AI agents across clusters. Built for modern agent teams.''),
     (''images'', LArr [LObj [(''url'', LStr ''/xenage.png''), (''width'', LNum 911), (''height'', LNum 356),
     (''alt'', LStr ''Xenage platform'')]])]), (''twitter'', LObj [(''card'', LStr ''summary_large_image''),
     (''title'', LStr (''Xenage '' @ [CHR 0xE2] @ [CHR 0x80] @ [CHR 0x94] @ '' Agent Orchestration Platform'')),
     (''description'', LStr ''Run, control, and observe AI agents across clusters with Xenage.''),
     (''images'', LArr [LStr ''/xenage.png''])]), (''robots'', LObj [(''index'', LBool True), (''follow'', LBool True),
     (''googleBot'', LObj [(''index'', LBool True), (''follow'', LBool True), (''max-image-preview'', LStr ''large''),
     (''max-snippet'', LNum (-1)), (''max-video-preview'', LNum (-1))])]), (''category'', LStr ''technology'')]"

section \<open>The effect of the page\<close>

text \<open>The window as the effect changes it: a listener is an event with the instance of the page and the name
  of the function; the fading sections are the animations of the context, with the instance that made them.\<close>

record page_window =
  scrollRestoration :: string
  listeners :: "(string \<times> nat \<times> string) list"
  scrollTop :: rat
  fading :: "(nat \<times> nat) list"

definition page_mount :: "nat \<Rightarrow> rat \<Rightarrow> page_window \<Rightarrow> page_window \<times> string" where
  "page_mount instance innerWidth w =
     (w\<lparr>scrollRestoration := ''manual'', scrollTop := 0,
        listeners := listeners w @ [(''pageshow'', instance, ''resetOnPageShow''), (''scroll'', instance, ''handleScroll'')],
        fading := fading w @ (if innerWidth \<le> 1024
          then map (\<lambda>i. (instance, i)) [0..<length scroll_sections] else [])\<rparr>,
      scrollRestoration w)"

definition resetOnPageShow :: "page_window \<Rightarrow> page_window" where
  "resetOnPageShow w = w\<lparr>scrollTop := 0\<rparr>"

definition page_unmount :: "nat \<Rightarrow> string \<Rightarrow> page_window \<Rightarrow> page_window" where
  "page_unmount instance prevScrollRestoration w =
     w\<lparr>listeners := filter (\<lambda>l. l \<noteq> (''pageshow'', instance, ''resetOnPageShow''))
         (filter (\<lambda>l. l \<noteq> (''scroll'', instance, ''handleScroll'')) (listeners w)),
       scrollRestoration := prevScrollRestoration,
       fading := filter (\<lambda>f. fst f \<noteq> instance) (fading w)\<rparr>"

section \<open>Links\<close>

definition page_ids :: "string list" where
  "page_ids = [''problems'', ''install'', ''features'', ''scale'', ''gui'']"

definition tree_ids :: "markup \<Rightarrow> string list" where
  "tree_ids m = ids_of (elements m)"

definition section_ok :: "markup \<Rightarrow> bool" where
  "section_ok m = list_all (link_ok page_ids) (elements m)"

lemma static_sections_ok:
  "section_ok ProblemsSection" "section_ok FeaturesSection" "section_ok ScaleSection" "section_ok GuiSection"
  "section_ok CtaSection"
  by code_simp+

lemma static_sections_ids:
  "tree_ids ProblemsSection = [''problems'']" "tree_ids FeaturesSection = [''features'']"
  "tree_ids ScaleSection = [''scale'']" "tree_ids GuiSection = [''gui'']"
  "tree_ids CtaSection = []"
  by code_simp+

lemma bool_sections:
  "section_ok (HeroSection True)" "section_ok (HeroSection False)" "section_ok (Navigation True True)"
  "section_ok (Navigation True False)" "section_ok (Navigation False True)" "section_ok (Navigation False False)"
  "section_ok (InstallSection_command True)" "section_ok (InstallSection_command False)" "section_ok InstallSection_more"
  "tree_ids (HeroSection True) = []" "tree_ids (HeroSection False) = []"
  "tree_ids (Navigation True True) = []" "tree_ids (Navigation True False) = []"
  "tree_ids (Navigation False True) = []" "tree_ids (Navigation False False) = []"
  "tree_ids (InstallSection_command True) = []" "tree_ids (InstallSection_command False) = []"
  "tree_ids InstallSection_more = []"
  by code_simp+

lemma state_sections_ok: "section_ok (HeroSection b)" "section_ok (Navigation b c)" "section_ok (InstallSection_command b)"
  using bool_sections by (cases b; cases c; simp)+

lemma state_sections_ids:
  "tree_ids (HeroSection b) = []" "tree_ids (Navigation b c) = []"
  "tree_ids (InstallSection_command b) = []"
  using bool_sections by (cases b; cases c; simp)+

lemma footer_ok: "section_ok (Footer year)" "tree_ids (Footer year) = []"
  by code_simp+

lemma cards_ok:
  "list_all (\<lambda>p. section_ok (InstallSection_card True p) \<and> section_ok (InstallSection_card False p)) platforms"
  "list_all (\<lambda>p. tree_ids (InstallSection_card True p) = [] \<and> tree_ids (InstallSection_card False p) = []) platforms"
  by code_simp+

lemma section_ok_Element:
  "section_ok (Element t as cs) = (link_ok page_ids (Element t as cs) \<and> list_all section_ok cs)"
  by (auto simp: section_ok_def list_all_iff)

lemma ids_of_append [simp]: "ids_of (a @ b) = ids_of a @ ids_of b"
  by (induction a) (auto simp: ids_of_def map_filter_simps split: option.splits)

lemma tree_ids_concat: "ids_of (concat (map elements cs)) = concat (map tree_ids cs)"
  by (induction cs) (simp_all add: tree_ids_def ids_of_def[of "[]"] map_filter_simps)

lemma tree_ids_Element: "tree_ids (Element t as cs) =
    (case text_attr ''id'' (Element t as cs) of None \<Rightarrow> [] | Some i \<Rightarrow> [i]) @ concat (map tree_ids cs)"
  using tree_ids_concat[of cs]
  by (simp add: tree_ids_def ids_of_def map_filter_simps split: option.splits)

lemma leaf_trees [simp]:
  "tree_ids (Chars s) = []" "tree_ids StyleSheet = []" "section_ok (Chars s)" "section_ok StyleSheet"
  by (simp_all add: tree_ids_def section_ok_def ids_of_def map_filter_simps)

lemmas tree_simps = section_ok_Element tree_ids_Element link_ok_def

lemma install_cards_ok: "section_ok (InstallSection_cards r)" "tree_ids (InstallSection_cards r) = []"
proof -
  have "section_ok (InstallSection_card b p) \<and> tree_ids (InstallSection_card b p) = []" if "p \<in> set platforms" for b p
    using cards_ok that by (cases b) (auto simp: list_all_iff)
  then show "section_ok (InstallSection_cards r)" "tree_ids (InstallSection_cards r) = []"
    by (auto simp: InstallSection_cards_def tree_simps list_all_iff Let_def)
qed

lemma install_page_ok: "section_ok (InstallSection_page b r)" "tree_ids (InstallSection_page b r) = [''install'']"
  using state_sections_ok(3)[of b] state_sections_ids(3)[of b] install_cards_ok[of r] bool_sections(9,18)
  by (simp_all add: InstallSection_page_def tree_simps)

text \<open>C38: every link of the page leads somewhere: whatever was copied, whichever platform is recommended, with
  the mobile menu open or closed, each link is to an element of the page that exists, to another site
  (which is opened in a new tab that learns no referrer), or to a path of the site, and no two elements
  of the page have the same id.\<close>

theorem page_links_resolve:
  "let page = elements (Home b r scrolled menu year active hero) in
     list_all (link_ok (ids_of page)) page \<and> distinct (ids_of page)"
proof -
  have "tree_ids (Home b r scrolled menu year active hero) = page_ids"
    by (simp add: Home_def tree_ids_Element static_sections_ids state_sections_ids footer_ok install_page_ok page_ids_def)
  then have ids: "ids_of (elements (Home b r scrolled menu year active hero)) = page_ids" by (simp add: tree_ids_def)
  have "section_ok (Home b r scrolled menu year active hero)"
    by (simp add: Home_def tree_simps static_sections_ok state_sections_ok footer_ok install_page_ok)
  moreover have "distinct page_ids" by (simp add: page_ids_def)
  ultimately show ?thesis by (simp only: ids Let_def section_ok_def)
qed

section \<open>What is rendered, and how the other theories describe it\<close>

definition collect :: "(markup \<Rightarrow> 'a list) \<Rightarrow> markup \<Rightarrow> 'a list" where
  "collect f m = concat (map f (elements m))"

lemma collect_Element: "collect f (Element t as cs) = f (Element t as cs) @ concat (map (collect f) cs)"
  by (induction cs) (simp_all add: collect_def)

lemma collect_leaf [simp]: "collect f (Chars s) = []" "collect f StyleSheet = []"
  by (simp_all add: collect_def)

definition section_id :: "markup \<Rightarrow> string option list" where
  "section_id m = (if has_class ''scroll-section'' m then [text_attr ''id'' m] else [])"

definition page_link :: "markup \<Rightarrow> (string \<times> string) list" where
  "page_link m = (case text_attr ''href'' m of Some h \<Rightarrow> if starts_with h ''#'' then [(text_content m, h)] else [] | None \<Rightarrow> [])"

definition card_view :: "markup \<Rightarrow> platform_card list" where
  "card_view m = (if has_class ''platform-card'' m then
     [\<lparr>card_id = nullish (text_attr ''key'' m) [], card_href = nullish (text_attr ''href'' m) [],
       card_recommended = (''Your platform'' \<in> set (map text_content (elements m)))\<rparr>] else [])"

lemma sections_rendered:
  "collect section_id ProblemsSection = [Some ''problems'']" "collect section_id FeaturesSection = [Some ''features'']"
  "collect section_id ScaleSection = [Some ''scale'']" "collect section_id GuiSection = [Some ''gui'']"
  "collect section_id CtaSection = [None]" "collect section_id (HeroSection True) = [None]"
  "collect section_id (HeroSection False) = [None]" "collect section_id (Navigation True True) = []"
  "collect section_id (Navigation True False) = []" "collect section_id (Navigation False True) = []"
  "collect section_id (Navigation False False) = []" "collect section_id (Footer year) = []"
  "collect section_id (InstallSection_command True) = []" "collect section_id (InstallSection_command False) = []"
  "collect section_id InstallSection_more = []"
  "list_all (\<lambda>p. collect section_id (InstallSection_card True p) = [] \<and> collect section_id (InstallSection_card False p) = []) platforms"
  by code_simp+

lemma state_sections_rendered:
  "collect section_id (HeroSection b) = [None]" "collect section_id (Navigation b c) = []"
  "collect section_id (InstallSection_command b) = []"
  using sections_rendered by (cases b; cases c; simp)+

lemma nav_links_rendered:
  "collect page_link (Navigation True True) = nav_links @ nav_links" "collect page_link (Navigation True False) = nav_links"
  "collect page_link (Navigation False True) = nav_links @ nav_links" "collect page_link (Navigation False False) = nav_links"
  by code_simp+

lemma cards_rendered:
  "list_all (\<lambda>p. collect card_view (InstallSection_card True p) =
       [\<lparr>card_id = platform_id p, card_href = download_url p, card_recommended = True\<rparr>] \<and>
     collect card_view (InstallSection_card False p) =
       [\<lparr>card_id = platform_id p, card_href = download_url p, card_recommended = False\<rparr>]) platforms"
  "collect card_view (InstallSection_command True) = []" "collect card_view (InstallSection_command False) = []"
  "collect card_view InstallSection_more = []"
  by code_simp+

lemma install_cards_rendered:
  "collect card_view (InstallSection_cards r) = map (\<lambda>p. \<lparr>card_id = platform_id p, card_href = download_url p,
     card_recommended = (r = Some (platform_id p))\<rparr>) platforms"
  "collect section_id (InstallSection_cards r) = []"
proof -
  have one: "collect card_view (InstallSection_card b p) = [\<lparr>card_id = platform_id p, card_href = download_url p, card_recommended = b\<rparr>]"
    "collect section_id (InstallSection_card b p) = []" if "p \<in> set platforms" for b p
    using cards_rendered(1) sections_rendered(16) that by (cases b; force simp: list_all_iff)+
  have m: "concat (map (\<lambda>p. collect card_view (InstallSection_card (r = Some (platform_id p)) p)) ps) =
      map (\<lambda>p. \<lparr>card_id = platform_id p, card_href = download_url p, card_recommended = (r = Some (platform_id p))\<rparr>) ps"
    "concat (map (\<lambda>p. collect section_id (InstallSection_card (r = Some (platform_id p)) p)) ps) = []"
    if "set ps \<subseteq> set platforms" for ps
    using that by (induction ps) (simp_all add: one)
  from m[of platforms] show "collect card_view (InstallSection_cards r) = map (\<lambda>p. \<lparr>card_id = platform_id p, card_href = download_url p,
     card_recommended = (r = Some (platform_id p))\<rparr>) platforms" "collect section_id (InstallSection_cards r) = []"
    by (simp_all add: InstallSection_cards_def collect_Element Let_def comp_def card_view_def[of "Element _ _ _"]
        section_id_def has_class_def)
qed

text \<open>The short descriptions are of the rendered page: the sections the scroll handler counts are the
  elements of class \<open>scroll-section\<close> in the order of the document, with their ids; the links of the
  navigation are those rendered, once for the bar and once more for the open menu; and the download
  cards are those of the download section, with the mark at the recommended one.\<close>

theorem page_rendering:
  "collect section_id (Home b r scrolled menu year active hero) = scroll_sections \<and>
   collect page_link (Navigation (isScrolled s) (mobileMenuOpen s)) = nav_links @ mobile_links s \<and>
   collect card_view (InstallSection_page b (recommendedPlatform i)) = InstallSection i"
proof (intro conjI)
  have "collect section_id (InstallSection_page b r) = [Some ''install'']"
    by (simp add: InstallSection_page_def collect_Element sections_rendered state_sections_rendered install_cards_rendered
        section_id_def has_class_def)
  then show "collect section_id (Home b r scrolled menu year active hero) = scroll_sections"
    by (simp add: Home_def collect_Element sections_rendered state_sections_rendered section_id_def has_class_def
        scroll_sections_def)
  show "collect page_link (Navigation (isScrolled s) (mobileMenuOpen s)) = nav_links @ mobile_links s"
    using nav_links_rendered by (cases "isScrolled s"; cases "mobileMenuOpen s") (simp_all add: mobile_links_def)
  have "collect card_view (InstallSection_command b) = []" using cards_rendered by (cases b) simp_all
  then show "collect card_view (InstallSection_page b (recommendedPlatform i)) = InstallSection i"
    by (simp add: InstallSection_page_def collect_Element install_cards_rendered cards_rendered InstallSection_def
        card_view_def has_class_def)
qed

section \<open>Animations, hovering and the listeners\<close>

text \<open>Every entrance animation names elements that its section renders, and starts at one that it
  renders.\<close>

theorem animations_find_targets:
  "list_all (animation_ok (elements (HeroSection hero))) HeroSection_animations \<and>
   list_all (animation_ok (elements ProblemsSection)) ProblemsSection_animations \<and>
   list_all (animation_ok (elements (InstallSection_page b r))) InstallSection_animations \<and>
   list_all (animation_ok (elements FeaturesSection)) FeaturesSection_animations \<and>
   list_all (animation_ok (elements ScaleSection)) ScaleSection_animations \<and>
   list_all (animation_ok (elements GuiSection)) GuiSection_animations \<and>
   list_all (animation_ok (elements CtaSection)) CtaSection_animations"
proof -
  have "list_all (animation_ok (elements (HeroSection True))) HeroSection_animations"
    "list_all (animation_ok (elements (HeroSection False))) HeroSection_animations" by code_simp+
  then have h: "list_all (animation_ok (elements (HeroSection hero))) HeroSection_animations" by (cases hero) simp_all
  have s: "list_all (animation_ok (elements ProblemsSection)) ProblemsSection_animations"
    "list_all (animation_ok (elements FeaturesSection)) FeaturesSection_animations"
    "list_all (animation_ok (elements ScaleSection)) ScaleSection_animations"
    "list_all (animation_ok (elements GuiSection)) GuiSection_animations"
    "list_all (animation_ok (elements CtaSection)) CtaSection_animations" by code_simp+
  have "list_all (animation_ok (elements (InstallSection_page b r))) InstallSection_animations"
    by (simp add: InstallSection_page_def InstallSection_cards_def InstallSection_card_def platforms_def
        InstallSection_animations_def animation_ok_def trigger_of_def matches_def has_class_def starts_with_def Let_def)
  with h s show ?thesis by blast
qed

text \<open>Leaving a card takes back what entering it set: the same properties, and the colour of the border it is
  drawn with.\<close>

fun assigned :: "string \<Rightarrow> markup \<Rightarrow> (string \<times> js_lit) list" where
  "assigned k (Element t as cs) = (case map_of as k of Some (AttrAssign ps) \<Rightarrow> ps | _ \<Rightarrow> [])"
| "assigned k m = []"

fun style_of :: "string \<Rightarrow> markup \<Rightarrow> js_lit option" where
  "style_of k (Element t as cs) = (case map_of as ''style'' of Some (AttrStyle ps) \<Rightarrow> map_of ps k | _ \<Rightarrow> None)"
| "style_of k m = None"

lemma hover_restores:
  "map fst (assigned ''onMouseEnter'' (InstallSection_card b p)) = map fst (assigned ''onMouseLeave'' (InstallSection_card b p))"
  "\<exists>colour. map_of (assigned ''onMouseLeave'' (InstallSection_card b p)) ''borderColor'' = Some (LStr colour) \<and>
     style_of ''border'' (InstallSection_card b p) = Some (LStr (''1px solid '' @ colour))"
  by (cases b; simp add: InstallSection_card_def)+

text \<open>The page leaves the window as it found it: after it is mounted, scrolled and shown again any number of times
  and unmounted, its listeners and animations are gone, those of others are still there, and the browser
  restores the scroll position as before.\<close>

theorem page_cleans_up:
  assumes "\<forall>l \<in> set (listeners w). fst (snd l) \<noteq> instance" and "\<forall>f \<in> set (fading w). fst f \<noteq> instance"
    and "page_mount instance innerWidth w = (w1, prev)"
  shows "page_unmount instance prev ((resetOnPageShow ^^ n) w1) = w\<lparr>scrollTop := 0\<rparr>"
proof -
  have w1: "w1 = fst (page_mount instance innerWidth w)" "prev = scrollRestoration w"
    using assms(3) by (auto simp: page_mount_def)
  have "scrollTop w1 = 0" using w1 by (simp add: page_mount_def)
  then have same: "(resetOnPageShow ^^ n) w1 = w1"
    by (induction n) (simp_all add: resetOnPageShow_def)
  have l: "filter (\<lambda>l. l \<noteq> (''pageshow'', instance, ''resetOnPageShow''))
      (filter (\<lambda>l. l \<noteq> (''scroll'', instance, ''handleScroll'')) (listeners w)) = listeners w"
    using assms(1) by (auto simp: filter_id_conv)
  have f: "filter (\<lambda>f. fst f \<noteq> instance) (fading w) = fading w" using assms(2) by (auto simp: filter_id_conv)
  show ?thesis
    unfolding same using l f by (simp add: w1 page_unmount_def page_mount_def filter_empty_conv del: filter_filter)
qed

theorem page_cleans_up_witness:
  "let w = \<lparr>scrollRestoration = ''auto'', listeners = [(''scroll'', 1, ''other'')], scrollTop = 700, fading = []\<rparr>;
       (w1, prev) = page_mount 2 390 w
   in page_unmount 2 prev ((resetOnPageShow ^^ 3) w1) = w\<lparr>scrollTop := 0\<rparr>"
  unfolding Let_def prod.case_eq_if
  by (rule page_cleans_up[where innerWidth = 390]) simp_all

text \<open>The page never shows the section of the packages.\<close>

lemma packages_not_rendered:
  "text_attr ''id'' (PackagesSection None) = Some ''packages'' \<and>
   ''packages'' \<notin> set (ids_of (elements (Home b r scrolled menu year active hero)))"
proof -
  have "tree_ids (Home b r scrolled menu year active hero) = page_ids"
    by (simp add: Home_def tree_ids_Element static_sections_ids state_sections_ids footer_ok install_page_ok page_ids_def)
  then have "''packages'' \<notin> set (tree_ids (Home b r scrolled menu year active hero))" by (simp add: page_ids_def)
  then show ?thesis by (simp add: tree_ids_def PackagesSection_def)
qed

text \<open>The button of the mobile menu has neither a text nor a label, and the links of the open menu do not
  close it.\<close>

lemma menu_button_unnamed:
  "text_content (Navigation_menu_button b) = [] \<and> text_attr ''aria-label'' (Navigation_menu_button b) = None \<and>
   text_attr ''title'' (Navigation_menu_button b) = None"
  by (cases b) (simp_all add: Navigation_menu_button_def)

fun handlers :: "markup \<Rightarrow> string list" where
  "handlers (Element t as cs) = List.map_filter (\<lambda>(k, v). case v of AttrCode c \<Rightarrow> Some k | _ \<Rightarrow> None) as @ concat (map handlers cs)"
| "handlers m = []"

lemma mobile_menu_stays_open: "handlers Navigation_mobile = []"
  by code_simp

section \<open>Addresses\<close>

definition sitemap :: "string \<Rightarrow> js_lit" where
  "sitemap now = LArr [LObj [(''url'', LStr ''https://xenage.dev/''), (''lastModified'', LStr now),
     (''changeFrequency'', LStr ''weekly''), (''priority'', LNum 1)]]"

definition robots :: js_lit where
  "robots = LObj [(''rules'', LObj [(''userAgent'', LStr ''*''), (''allow'', LStr ''/'')]),
     (''sitemap'', LStr ''https://xenage.dev/sitemap.xml''), (''host'', LStr ''https://xenage.dev'')]"

text \<open>A value inside a value: a key of an object or a position of an array.\<close>

fun lit_at :: "(string + nat) list \<Rightarrow> js_lit \<Rightarrow> js_lit option" where
  "lit_at [] v = Some v"
| "lit_at (Inl k # p) (LObj ps) = (case map_of ps k of Some v \<Rightarrow> lit_at p v | None \<Rightarrow> None)"
| "lit_at (Inr i # p) (LArr vs) = (if i < length vs then lit_at p (vs ! i) else None)"
| "lit_at p v = None"

text \<open>The site has one address: the structured data, the card for social networks and the site map name the
  same URL, and the rules for robots the host that the metadata is relative to.\<close>

lemma one_address:
  "lit_at [Inl ''@graph'', Inr 0, Inl ''url''] structuredData = lit_at [Inr 0, Inl ''url''] (sitemap now)"
  "lit_at [Inl ''@graph'', Inr 1, Inl ''url''] structuredData = lit_at [Inr 0, Inl ''url''] (sitemap now)"
  "lit_at [Inl ''@graph'', Inr 2, Inl ''url''] structuredData = lit_at [Inr 0, Inl ''url''] (sitemap now)"
  "lit_at [Inl ''openGraph'', Inl ''url''] metadata = lit_at [Inr 0, Inl ''url''] (sitemap now)"
  "lit_at [Inl ''host''] robots = lit_at [Inl ''metadataBase''] metadata"
  by (simp_all add: structuredData_def metadata_def sitemap_def robots_def)

end
