(* ===== verification/ReleaseScripts.thy ===== *)
theory ReleaseScripts
  imports Prelude "HOL-Library.Product_Lexorder"
begin

text \<open>
  The scripts that prepare a release, \<open>.github/scripts/prepare-xenage-gui-version.mjs\<close>,
  \<open>prepare-xenage-standalone-version.mjs\<close> and \<open>generate-xenage-release-notes.mjs\<close>, and
  \<open>apps/xenage-gui/scripts/run-export-structures.mjs\<close>: version parsing, release modes, the release
  notes, and the attempts to run the generator. The environment and the results of the commands
  (\<open>git\<close>, reading a file, spawning a process) are arguments. Version components are natural
  numbers, as \<open>parseInt\<close> reads them below 2 to the 53.
\<close>

definition line_end :: "char \<Rightarrow> bool" where
  "line_end c = (c = newline \<or> c = carriage)"

section \<open>Versions\<close>

record semver =
  major :: nat
  minor :: nat
  patch :: nat

text \<open>\<open>(\d+)\<close> followed by a dot.\<close>

definition digits_dot :: "string \<Rightarrow> (string \<times> string) option" where
  "digits_dot s = (let d = takeWhile is_digit s; r = dropWhile is_digit s in
     if d = [] \<or> r = [] \<or> hd r \<noteq> CHR ''.'' then None else Some (d, tl r))"

definition match_semver :: "string \<Rightarrow> (string \<times> string \<times> string) option" where
  "match_semver version =
     (case digits_dot version of None \<Rightarrow> None
      | Some (a, r1) \<Rightarrow> (case digits_dot r1 of None \<Rightarrow> None
        | Some (b, r2) \<Rightarrow>
            let c = takeWhile is_digit r2; r = dropWhile is_digit r2 in
            if c \<noteq> [] \<and> (r = [] \<or> (hd r = CHR ''-'' \<or> hd r = CHR ''+'') \<and> list_all (\<lambda>x. \<not> line_end x) (tl r))
            then Some (a, b, c) else None))"

definition parseSemver :: "string \<Rightarrow> js_error + semver" where
  "parseSemver version =
     (case match_semver version of
       None \<Rightarrow> Inl (ErrorObject (''Unsupported version format: '' @ version))
     | Some (a, b, c) \<Rightarrow> Inr \<lparr>major = read_nat a, minor = read_nat b, patch = read_nat c\<rparr>)"

definition match_four_part :: "string \<Rightarrow> (string \<times> string \<times> string \<times> string) option" where
  "match_four_part s =
     (case digits_dot s of None \<Rightarrow> None
      | Some (a, r1) \<Rightarrow> (case digits_dot r1 of None \<Rightarrow> None
        | Some (b, r2) \<Rightarrow> (case digits_dot r2 of None \<Rightarrow> None
          | Some (c, d) \<Rightarrow> if d \<noteq> [] \<and> list_all is_digit d then Some (a, b, c, d) else None)))"

definition strip_v :: "string \<Rightarrow> string" where
  "strip_v s = (case s of c # r \<Rightarrow> if c = CHR ''v'' \<or> c = CHR ''V'' then r else s | [] \<Rightarrow> [])"

definition dotted :: "string list \<Rightarrow> string" where
  "dotted parts = join_with ''.'' parts"

definition normalizeTagVersion :: "string \<Rightarrow> js_error + string" where
  "normalizeTagVersion tagName =
     (let normalized = strip_v tagName in
      case match_four_part normalized of
        Some (a, b, c, d) \<Rightarrow>
          if read_nat d \<noteq> 0
          then Inl (ErrorObject (''Unsupported 4-part tag version '' @ normalized @
            ''. Only *.0 is allowed; use a semver tag like v'' @ dotted [a, b, c] @ ''.''))
          else Inr (dotted [a, b, c])
      | None \<Rightarrow> (case parseSemver normalized of Inl e \<Rightarrow> Inl e | Inr _ \<Rightarrow> Inr normalized))"

definition nextPatchCiVersion :: "string \<Rightarrow> string \<Rightarrow> js_error + string" where
  "nextPatchCiVersion version ciRunNumber =
     (case parseSemver version of
       Inl e \<Rightarrow> Inl e
     | Inr parsed \<Rightarrow> Inr (dotted [show_nat (major parsed), show_nat (minor parsed), show_nat (patch parsed + 1)] @
         ''-'' @ ciRunNumber))"

section \<open>The release\<close>

record github_env =
  GITHUB_REF_NAME :: "string option"
  GITHUB_REF_TYPE :: "string option"
  GITHUB_REF :: "string option"
  GITHUB_RUN_NUMBER :: "string option"

definition refName :: "github_env \<Rightarrow> string" where
  "refName env = nullish (GITHUB_REF_NAME env) []"

definition refType :: "github_env \<Rightarrow> string" where
  "refType env = nullish (GITHUB_REF_TYPE env)
     (if (case GITHUB_REF env of Some r \<Rightarrow> starts_with r ''refs/tags/'' | None \<Rightarrow> False) then ''tag'' else ''branch'')"

definition runNumber :: "github_env \<Rightarrow> string" where
  "runNumber env = nullish (GITHUB_RUN_NUMBER env) ''0''"

record release_meta =
  releaseMode :: string
  releaseVersion :: string
  releaseTag :: string
  releaseName :: string
  prerelease :: bool

text \<open>The GUI reads the version of the main branch for a development build, if it can.\<close>

definition readBaseVersion :: "github_env \<Rightarrow> js_error + string \<Rightarrow> js_error + string \<Rightarrow> js_error + string" where
  "readBaseVersion env checkedOut mainBranch =
     (if refType env = ''tag'' \<or> refName env \<noteq> ''dev'' then checkedOut
      else case mainBranch of Inr v \<Rightarrow> Inr v | Inl _ \<Rightarrow> checkedOut)"

definition release_of ::
  "github_env \<Rightarrow> string \<Rightarrow> string \<Rightarrow> string \<Rightarrow> string \<Rightarrow> string \<Rightarrow> js_error + release_meta" where
  "release_of env stablePrefix stableName devTag devName baseVersion =
     (if refType env = ''tag'' then
        (case normalizeTagVersion (refName env) of
          Inl e \<Rightarrow> Inl e
        | Inr v \<Rightarrow> Inr \<lparr>releaseMode = ''tag'', releaseVersion = v, releaseTag = refName env,
            releaseName = ''Xenage '' @ refName env, prerelease = False\<rparr>)
      else if refName env = ''dev'' then
        (case nextPatchCiVersion baseVersion (runNumber env) of
          Inl e \<Rightarrow> Inl e
        | Inr v \<Rightarrow> Inr \<lparr>releaseMode = ''dev'', releaseVersion = v, releaseTag = devTag, releaseName = devName, prerelease = True\<rparr>)
      else if refName env = ''main'' then
        (case nextPatchCiVersion baseVersion (runNumber env) of
          Inl e \<Rightarrow> Inl e
        | Inr v \<Rightarrow> Inr \<lparr>releaseMode = ''nightly'', releaseVersion = v, releaseTag = ''nightly'',
            releaseName = ''Xenage Nightly'', prerelease = True\<rparr>)
      else Inr \<lparr>releaseMode = ''stable'', releaseVersion = baseVersion, releaseTag = stablePrefix @ baseVersion,
        releaseName = stableName @ baseVersion, prerelease = False\<rparr>)"

definition gui_release :: "github_env \<Rightarrow> js_error + string \<Rightarrow> js_error + string \<Rightarrow> js_error + release_meta" where
  "gui_release env checkedOut mainBranch =
     (case readBaseVersion env checkedOut mainBranch of
       Inl e \<Rightarrow> Inl e
     | Inr baseVersion \<Rightarrow> release_of env ''xenage-gui-v'' ''Xenage GUI v'' ''xenage-gui-dev'' ''Xenage GUI Development'' baseVersion)"

text \<open>\<open>/^version\s*=\s*"([^"]+)"$/m\<close>, at one position and then at the first line that matches.\<close>

definition match_project_version :: "string \<Rightarrow> string option" where
  "match_project_version s =
     (if \<not> starts_with s ''version'' then None
      else let r1 = dropWhile is_js_space (drop 7 s) in
        if r1 = [] \<or> hd r1 \<noteq> CHR ''='' then None
        else let r2 = dropWhile is_js_space (tl r1) in
          if r2 = [] \<or> hd r2 \<noteq> CHR 0x22 then None
          else let v = takeWhile (\<lambda>c. c \<noteq> CHR 0x22) (tl r2); r3 = dropWhile (\<lambda>c. c \<noteq> CHR 0x22) (tl r2) in
            if v \<noteq> [] \<and> r3 \<noteq> [] \<and> (tl r3 = [] \<or> line_end (hd (tl r3))) then Some v else None)"

fun scan_project_version :: "bool \<Rightarrow> string \<Rightarrow> string option" where
  "scan_project_version line_start [] = None"
| "scan_project_version line_start (c # s) =
     (case (if line_start then match_project_version (c # s) else None) of
       Some v \<Rightarrow> Some v | None \<Rightarrow> scan_project_version (line_end c) s)"

definition readProjectVersion :: "string \<Rightarrow> js_error + string" where
  "readProjectVersion pyproject =
     (case scan_project_version True pyproject of
       None \<Rightarrow> Inl (ErrorObject ''Failed to parse project version from pyproject.toml'')
     | Some v \<Rightarrow> Inr v)"

definition standalone_release :: "github_env \<Rightarrow> string \<Rightarrow> js_error + release_meta" where
  "standalone_release env pyproject =
     (case readProjectVersion pyproject of
       Inl e \<Rightarrow> Inl e
     | Inr baseVersion \<Rightarrow> release_of env ''xenage-standalone-v'' ''Xenage Standalone v'' ''xenage-standalone-dev''
         ''Xenage Standalone Development'' baseVersion)"

definition output_lines :: "release_meta \<Rightarrow> string list" where
  "output_lines r = [''release_mode='' @ releaseMode r, ''release_version='' @ releaseVersion r, ''release_tag='' @ releaseTag r,
     ''release_name='' @ releaseName r, ''release_prerelease='' @ (if prerelease r then ''true'' else ''false'')]"

section \<open>The version in the Cargo manifest\<close>

text \<open>The line \<open>version = "..."\<close> at one position, with what follows it.\<close>

definition match_cargo_version :: "string \<Rightarrow> (string \<times> string) option" where
  "match_cargo_version s =
     (let l = takeWhile (\<lambda>c. \<not> line_end c) s; prefix = ''version = '' @ [CHR 0x22] in
      if starts_with l prefix \<and> length prefix < length l \<and> last l = CHR 0x22
      then Some (l, drop (length l) s) else None)"

fun scan_cargo_version :: "bool \<Rightarrow> string \<Rightarrow> string \<Rightarrow> (string \<times> string \<times> string) option" where
  "scan_cargo_version line_start before [] = None"
| "scan_cargo_version line_start before (c # s) =
     (case (if line_start then match_cargo_version (c # s) else None) of
       Some (matched, rest) \<Rightarrow> Some (before, matched, rest)
     | None \<Rightarrow> scan_cargo_version (line_end c) (before @ [c]) s)"

text \<open>The dollar patterns of a replacement text, for an expression without groups.\<close>

fun expand_replacement :: "string \<Rightarrow> string \<Rightarrow> string \<Rightarrow> string \<Rightarrow> string" where
  "expand_replacement before matched rest [] = []"
| "expand_replacement before matched rest [d] = [d]"
| "expand_replacement before matched rest (d # c # s) =
     (if d \<noteq> CHR ''$'' then d # expand_replacement before matched rest (c # s)
      else if c = CHR ''$'' then CHR ''$'' # expand_replacement before matched rest s
      else if c = CHR ''&'' then matched @ expand_replacement before matched rest s
      else if c = CHR 0x60 then before @ expand_replacement before matched rest s
      else if c = CHR 0x27 then rest @ expand_replacement before matched rest s
      else CHR ''$'' # expand_replacement before matched rest (c # s))"

definition replaceCargoVersion :: "string \<Rightarrow> string \<Rightarrow> string" where
  "replaceCargoVersion content version =
     (case scan_cargo_version True [] content of
       None \<Rightarrow> content
     | Some (before, matched, rest) \<Rightarrow>
         before @ expand_replacement before matched rest (''version = '' @ [CHR 0x22] @ version @ [CHR 0x22]) @ rest)"

section \<open>The release notes\<close>

definition rolling_tags :: "string list" where
  "rolling_tags = [''nightly'', ''xenage-gui-dev'', ''xenage-standalone-dev'']"

definition non_blank_lines :: "string \<Rightarrow> string list" where
  "non_blank_lines raw = filter (\<lambda>l. l \<noteq> []) (map trim (split_on newline raw))"

text \<open>\<open>safeSh\<close>: the trimmed output of a command, or the fallback where it fails.\<close>

definition safeSh :: "js_error + string \<Rightarrow> string \<Rightarrow> string" where
  "safeSh result fallback = (case result of Inr out \<Rightarrow> trim out | Inl _ \<Rightarrow> fallback)"

definition previousStableTag :: "js_error + string \<Rightarrow> string \<Rightarrow> string option" where
  "previousStableTag git_tags currentTag =
     (case filter (\<lambda>tag. tag \<notin> set rolling_tags) (filter (\<lambda>tag. tag \<noteq> currentTag) (non_blank_lines (safeSh git_tags []))) of
       [] \<Rightarrow> None | tag # _ \<Rightarrow> Some tag)"

definition log_range :: "string option \<Rightarrow> string \<Rightarrow> string" where
  "log_range baseRef headRef = (case baseRef of Some b \<Rightarrow> b @ ''..'' @ headRef | None \<Rightarrow> headRef)"

definition collectCommitSubjects :: "(string \<Rightarrow> js_error + string) \<Rightarrow> string option \<Rightarrow> string \<Rightarrow> string list" where
  "collectCommitSubjects git_log baseRef headRef = non_blank_lines (safeSh (git_log (log_range baseRef headRef)) [])"

definition is_word :: "char \<Rightarrow> bool" where
  "is_word c = (let n = of_char c :: nat in is_digit c \<or> 65 \<le> n \<and> n \<le> 90 \<or> 97 \<le> n \<and> n \<le> 122 \<or> n = 95)"

text \<open>\<open>\([^)]+\)\<close> and \<open>\[[^\]]+\]\<close>: the rest after a bracket that is closed and not empty.\<close>

definition skip_group :: "char \<Rightarrow> char \<Rightarrow> string \<Rightarrow> string option" where
  "skip_group open_c close_c s =
     (if s = [] \<or> hd s \<noteq> open_c then None
      else let inner = takeWhile (\<lambda>c. c \<noteq> close_c) (tl s); r = dropWhile (\<lambda>c. c \<noteq> close_c) (tl s) in
        if inner = [] \<or> r = [] then None else Some (tl r))"

text \<open>\<open>/^\w+(\([^)]+\))?!?:\s*/\<close>, the type of a conventional commit.\<close>

definition strip_type :: "string \<Rightarrow> string" where
  "strip_type s =
     (let w = takeWhile is_word s; r = dropWhile is_word s;
          r1 = nullish (skip_group CHR ''('' CHR '')'' r) r;
          r2 = (if r1 \<noteq> [] \<and> hd r1 = CHR ''!'' then tl r1 else r1) in
      if w \<noteq> [] \<and> r2 \<noteq> [] \<and> hd r2 = CHR '':'' then dropWhile is_js_space (tl r2) else s)"

definition strip_bracket :: "string \<Rightarrow> string" where
  "strip_bracket s = (case skip_group CHR ''['' CHR '']'' s of Some r \<Rightarrow> dropWhile is_js_space r | None \<Rightarrow> s)"

text \<open>\<open>replace(/\s+/g, ' ')\<close>\<close>

fun squeeze :: "string \<Rightarrow> string" where
  "squeeze [] = []"
| "squeeze (c # s) = (if is_js_space c then
     (if s \<noteq> [] \<and> is_js_space (hd s) then squeeze s else CHR '' '' # squeeze s) else c # squeeze s)"

definition toUserFacing :: "string \<Rightarrow> string" where
  "toUserFacing subject = trim (squeeze (strip_bracket (strip_type subject)))"

definition highlightsFromSubjects :: "string list \<Rightarrow> string list" where
  "highlightsFromSubjects subjects =
     (let lines = take 5 (filter (\<lambda>l. length l \<ge> 10) (filter (\<lambda>l. l \<noteq> []) (map toUserFacing subjects))) in
      if length lines \<ge> 2 then map (\<lambda>l. ''- '' @ l) lines
      else [''- Improved overall product stability and reliability.'',
            ''- Updated installation and update delivery paths for end users.'',
            ''- Refined CLI and GUI release experience across supported platforms.''])"

text \<open>\<open>/\bbreaking\b/\<close> on a lower-case text, \<open>before\<close> telling whether a word character precedes.\<close>

fun has_word :: "string \<Rightarrow> bool \<Rightarrow> string \<Rightarrow> bool" where
  "has_word w before [] = False"
| "has_word w before (c # s) =
     (\<not> before \<and> starts_with (c # s) w \<and> (let r = drop (length w) (c # s) in r = [] \<or> \<not> is_word (hd r))
      \<or> has_word w (is_word c) s)"

definition is_breaking :: "string \<Rightarrow> bool" where
  "is_breaking subject = (let l = to_lower subject in
     str_includes l ''breaking change'' \<or> str_includes l ''!:'' \<or> has_word ''breaking'' False l)"

definition detectBreakingChanges :: "string list \<Rightarrow> string list" where
  "detectBreakingChanges subjects = filter is_breaking subjects"

definition github :: "string \<Rightarrow> string \<Rightarrow> string" where
  "github repo path = ''https://github.com/'' @ repo @ path"

definition compareUrl :: "string \<Rightarrow> string \<Rightarrow> string option \<Rightarrow> string" where
  "compareUrl repo tag prevTag = (case prevTag of
     Some p \<Rightarrow> github repo (''/compare/'' @ p @ ''...'' @ tag) | None \<Rightarrow> github repo (''/commits/'' @ tag))"

definition tag_notes :: "(string \<Rightarrow> js_error + string) \<Rightarrow> js_error + string \<Rightarrow> string \<Rightarrow> string \<Rightarrow> string \<Rightarrow> string list" where
  "tag_notes git_log git_tags repo tag name =
     (let prevTag = previousStableTag git_tags tag;
          subjects = collectCommitSubjects git_log prevTag tag;
          breakingChanges = detectBreakingChanges subjects in
      [''# '' @ name, [], ''## Highlights''] @ highlightsFromSubjects subjects @ [[], ''## Breaking changes''] @
      (if breakingChanges \<noteq> [] then map (\<lambda>l. ''- '' @ toUserFacing l) (take 10 breakingChanges)
       else [''- None identified in this release.'']) @
      [[], ''## Migration / Upgrade steps'', ''1. Back up your current configuration and runtime data.'',
       ''2. Install the release artifacts that match your OS and CPU architecture.'',
       ''3. Restart Xenage components and verify cluster health after upgrade.'', [],
       ''## Full technical change list'', ''- Diff: '' @ compareUrl repo tag prevTag,
       ''- Changelog: '' @ github repo ''/releases'',
       ''- PRs: '' @ github repo ''/pulls?q=is%3Apr+is%3Amerged+base%3Amain+sort%3Aupdated-desc'', []])"

definition nightly_notes :: "string \<Rightarrow> string \<Rightarrow> string list" where
  "nightly_notes repo name =
     [''# '' @ name, [],
      ''Nightly build from `main`. This release is continuously updated and can include unfinished changes.'', [],
      ''## Full technical change list'', ''- Commits: '' @ github repo ''/commits/main'', ''- Releases: '' @ github repo ''/releases'', []]"

definition release_notes ::
  "(string \<Rightarrow> js_error + string) \<Rightarrow> js_error + string \<Rightarrow> string \<Rightarrow> release_meta \<Rightarrow> string" where
  "release_notes git_log git_tags repo r = join_with [newline]
     (if releaseMode r = ''tag'' then tag_notes git_log git_tags repo (releaseTag r) (releaseName r)
      else nightly_notes repo (releaseName r))"

section \<open>Running the generator\<close>

datatype spawn_result = Exited "int option" | NotFound | SpawnError string

record attempt =
  attempt_cmd :: string
  attempt_args :: "string list"

definition attempts :: "string \<Rightarrow> string \<Rightarrow> string \<Rightarrow> (string \<Rightarrow> bool) \<Rightarrow> attempt list" where
  "attempts venvUnix venvWindows scriptPath exists_file =
     (if exists_file venvUnix then [\<lparr>attempt_cmd = venvUnix, attempt_args = [scriptPath]\<rparr>] else []) @
     (if exists_file venvWindows then [\<lparr>attempt_cmd = venvWindows, attempt_args = [scriptPath]\<rparr>] else []) @
     [\<lparr>attempt_cmd = ''python'', attempt_args = [scriptPath]\<rparr>, \<lparr>attempt_cmd = ''py'', attempt_args = [''-3'', scriptPath]\<rparr>]"

definition exit_text :: "int option \<Rightarrow> string" where
  "exit_text status = (case status of Some n \<Rightarrow> show_int n | None \<Rightarrow> ''null'')"

definition failure_text :: "attempt \<Rightarrow> spawn_result \<Rightarrow> string" where
  "failure_text a r =
     (let line = attempt_cmd a @ '' '' @ join_with '' '' (attempt_args a) in
      case r of SpawnError m \<Rightarrow> line @ '': '' @ m | Exited status \<Rightarrow> line @ '' exited with code '' @ exit_text status | NotFound \<Rightarrow> line)"

text \<open>The loop: the attempts made, and \<open>None\<close> for success or the text printed before exit code 1.\<close>

fun run_attempts :: "(attempt \<Rightarrow> spawn_result) \<Rightarrow> attempt list \<Rightarrow> string option \<Rightarrow> attempt list \<times> string option" where
  "run_attempts spawn [] lastError = ([], Some (nullish lastError ''Failed to execute scripts/export_structures.py''))"
| "run_attempts spawn (a # rest) lastError =
     (let r = spawn a in
      if r = Exited (Some 0) then ([a], None)
      else let (made, result) = run_attempts spawn rest (if r = NotFound then lastError else Some (failure_text a r))
        in (a # made, result))"

section \<open>Versions: correctness\<close>

lemma not_digit_punct [simp]: "\<not> is_digit CHR ''.''" "\<not> is_digit CHR ''-''" "\<not> is_digit CHR ''+''"
  by (simp_all add: is_digit_def)

lemma takeWhile_digits [simp]:
  "list_all is_digit d \<Longrightarrow> takeWhile is_digit (d @ CHR ''.'' # r) = d"
  "list_all is_digit d \<Longrightarrow> dropWhile is_digit (d @ CHR ''.'' # r) = CHR ''.'' # r"
  by (simp_all add: list_all_iff takeWhile_append dropWhile_append)

lemma show_nat_all_digits [simp]: "list_all is_digit (show_nat n)"
  by (simp add: list_all_iff show_nat_digits)

lemma digits_dot_append: "list_all is_digit d \<Longrightarrow> d \<noteq> [] \<Longrightarrow> digits_dot (d @ CHR ''.'' # r) = Some (d, r)"
  by (simp add: digits_dot_def Let_def)

lemma digits_dot_SomeD:
  assumes "digits_dot s = Some (d, r)"
  shows "s = d @ CHR ''.'' # r \<and> d \<noteq> [] \<and> list_all is_digit d"
proof -
  have d: "d = takeWhile is_digit s" "d \<noteq> []" "dropWhile is_digit s = CHR ''.'' # r"
    using assms by (cases "dropWhile is_digit s"; auto simp: digits_dot_def Let_def split: if_splits)+
  then have "s = d @ CHR ''.'' # r" by (metis takeWhile_dropWhile_id)
  moreover have "list_all is_digit d" using d(1) by (auto simp: list_all_iff dest: set_takeWhileD)
  ultimately show ?thesis using d(2) by blast
qed

lemma digits_dot_digits: "list_all is_digit d \<Longrightarrow> digits_dot d = None"
  by (simp add: digits_dot_def Let_def list_all_iff takeWhile_eq_all_conv[THEN iffD2] dropWhile_eq_Nil_conv[THEN iffD2])

text \<open>What follows the third number.\<close>

definition suffix_ok :: "string \<Rightarrow> bool" where
  "suffix_ok r = (r = [] \<or> (hd r = CHR ''-'' \<or> hd r = CHR ''+'') \<and> list_all (\<lambda>x. \<not> line_end x) (tl r))"

definition core :: "string \<Rightarrow> string \<Rightarrow> string \<Rightarrow> string" where
  "core a b c = a @ CHR ''.'' # b @ CHR ''.'' # c"

lemma dotted_core: "dotted [a, b, c] = core a b c"
  by (simp add: dotted_def core_def)

lemma suffix_not_digit: "suffix_ok r \<Longrightarrow> r = [] \<or> \<not> is_digit (hd r)"
  by (auto simp: suffix_ok_def)

lemma digits_suffix:
  assumes "list_all is_digit c" and "suffix_ok r"
  shows "takeWhile is_digit (c @ r) = c" and "dropWhile is_digit (c @ r) = r"
proof -
  have "takeWhile is_digit r = []" "dropWhile is_digit r = r"
    using suffix_not_digit[OF assms(2)] by (cases r; simp)+
  then show "takeWhile is_digit (c @ r) = c" "dropWhile is_digit (c @ r) = r"
    using assms(1) by (simp_all add: list_all_iff takeWhile_append dropWhile_append)
qed

lemma match_semver_iff:
  "match_semver v = Some (a, b, c) \<longleftrightarrow>
     a \<noteq> [] \<and> b \<noteq> [] \<and> c \<noteq> [] \<and> list_all is_digit a \<and> list_all is_digit b \<and> list_all is_digit c \<and>
     (\<exists>r. v = core a b c @ r \<and> suffix_ok r)"
proof
  assume "match_semver v = Some (a, b, c)"
  then obtain r1 r2 where d: "digits_dot v = Some (a, r1)" "digits_dot r1 = Some (b, r2)"
    and c: "c = takeWhile is_digit r2" "c \<noteq> []" "suffix_ok (dropWhile is_digit r2)"
    by (auto simp: match_semver_def Let_def suffix_ok_def split: option.splits if_splits)
  have "list_all is_digit c" using c(1) by (auto simp: list_all_iff dest: set_takeWhileD)
  moreover have "v = core a b c @ dropWhile is_digit r2"
    using digits_dot_SomeD[OF d(1)] digits_dot_SomeD[OF d(2)] c(1) by (simp add: core_def)
  ultimately show "a \<noteq> [] \<and> b \<noteq> [] \<and> c \<noteq> [] \<and> list_all is_digit a \<and> list_all is_digit b \<and> list_all is_digit c \<and>
      (\<exists>r. v = core a b c @ r \<and> suffix_ok r)"
    using digits_dot_SomeD[OF d(1)] digits_dot_SomeD[OF d(2)] c(2,3) by blast
next
  assume "a \<noteq> [] \<and> b \<noteq> [] \<and> c \<noteq> [] \<and> list_all is_digit a \<and> list_all is_digit b \<and> list_all is_digit c \<and>
      (\<exists>r. v = core a b c @ r \<and> suffix_ok r)"
  then obtain r where abc: "a \<noteq> []" "b \<noteq> []" "c \<noteq> []" "list_all is_digit a" "list_all is_digit b" "list_all is_digit c"
    and v: "v = core a b c @ r" and ok: "suffix_ok r" by blast
  show "match_semver v = Some (a, b, c)"
    unfolding match_semver_def v core_def
    using abc ok[unfolded suffix_ok_def] by (simp add: digits_dot_append digits_suffix[OF abc(6) ok] Let_def del: dropWhile_eq_Nil_conv)
qed

lemma match_four_part_core:
  "a \<noteq> [] \<Longrightarrow> b \<noteq> [] \<Longrightarrow> list_all is_digit a \<Longrightarrow> list_all is_digit b \<Longrightarrow> list_all is_digit c \<Longrightarrow>
     match_four_part (core a b c) = None"
  by (simp add: match_four_part_def core_def digits_dot_append digits_dot_digits)

lemma strip_v_core: "a \<noteq> [] \<Longrightarrow> list_all is_digit a \<Longrightarrow> strip_v (a @ r) = a @ r"
  by (cases a) (auto simp: strip_v_def is_digit_def)

lemma strip_v_v [simp]: "strip_v (CHR ''v'' # s) = s"
  by (simp add: strip_v_def)

text \<open>A tag names one version: whatever a tag is read as is a version of three numbers and an optional
  suffix; that version, with or without the letter in front, is read as itself.\<close>

theorem normalizeTagVersion_stable:
  assumes "normalizeTagVersion tag = Inr v"
  shows "normalizeTagVersion v = Inr v \<and> normalizeTagVersion (''v'' @ v) = Inr v \<and> (\<exists>p. parseSemver v = Inr p)"
proof -
  obtain a b c r where v: "v = core a b c @ r" and abc: "match_semver v = Some (a, b, c)" and four: "match_four_part v = None"
  proof (cases "match_four_part (strip_v tag)")
    case None
    then have n: "v = strip_v tag" "\<exists>p. parseSemver v = Inr p"
      using assms by (simp_all add: normalizeTagVersion_def Let_def split: sum.splits)
    from n(2) obtain a b c where abc: "match_semver v = Some (a, b, c)"
      by (auto simp: parseSemver_def split: option.splits)
    from match_semver_iff[THEN iffD1, OF abc] obtain r where "v = core a b c @ r" by blast
    moreover have "match_four_part v = None" using None n(1) by simp
    ultimately show ?thesis using that abc by blast
  next
    case (Some q)
    obtain a b c d where q: "q = (a, b, c, d)" by (cases q)
    from Some q obtain r1 r2 where d: "digits_dot (strip_v tag) = Some (a, r1)" "digits_dot r1 = Some (b, r2)" "digits_dot r2 = Some (c, d)"
      by (auto simp: match_four_part_def split: option.splits if_splits)
    note parts = digits_dot_SomeD[OF d(1)] digits_dot_SomeD[OF d(2)] digits_dot_SomeD[OF d(3)]
    have v: "v = core a b c"
      using assms Some q by (auto simp: normalizeTagVersion_def Let_def dotted_core split: if_splits)
    moreover have "match_semver (core a b c) = Some (a, b, c)"
      unfolding match_semver_iff using parts by (intro conjI exI[of _ "[]"]) (simp_all add: suffix_ok_def)
    moreover have "match_four_part (core a b c) = None" using parts by (intro match_four_part_core) simp_all
    ultimately show ?thesis using that[of a b c "[]"] by simp
  qed
  have p: "\<exists>p. parseSemver v = Inr p" using abc by (simp add: parseSemver_def)
  have "a \<noteq> []" "list_all is_digit a" using match_semver_iff[THEN iffD1, OF abc] by simp_all
  then have "strip_v v = v" unfolding v core_def by (simp add: strip_v_core)
  then show ?thesis using four p by (auto simp: normalizeTagVersion_def Let_def)
qed

theorem normalizeTagVersion_stable_witness:
  "normalizeTagVersion ''V1.20.3.0'' = Inr ''1.20.3'' \<and> normalizeTagVersion ''1.20.3'' = Inr ''1.20.3''"
proof -
  have t: "normalizeTagVersion ''V1.20.3.0'' = Inr ''1.20.3''" by code_simp
  with normalizeTagVersion_stable[OF t] show ?thesis by simp
qed

text \<open>
  The precedence of versions (semver.org, section 11) for those with at most a numeric pre-release: by
  the three numbers, then a pre-release before the release it leads to, then by its number.
\<close>

datatype precedence = Precedence nat nat nat "nat option"

fun precedence_key :: "precedence \<Rightarrow> nat \<times> nat \<times> nat \<times> nat \<times> nat" where
  "precedence_key (Precedence a b c None) = (a, b, c, 1, 0)"
| "precedence_key (Precedence a b c (Some n)) = (a, b, c, 0, n)"

lemma precedence_key_inject: "precedence_key x = precedence_key y \<Longrightarrow> x = y"
  by (cases x rule: precedence_key.cases; cases y rule: precedence_key.cases) auto

instantiation precedence :: linorder
begin

definition less_eq_precedence :: "precedence \<Rightarrow> precedence \<Rightarrow> bool" where
  "less_eq_precedence x y = (precedence_key x \<le> precedence_key y)"

definition less_precedence :: "precedence \<Rightarrow> precedence \<Rightarrow> bool" where
  "less_precedence x y = (precedence_key x < precedence_key y)"

instance
  by standard (auto simp: less_eq_precedence_def less_precedence_def dest: precedence_key_inject)

end

definition suffix_of :: "string \<Rightarrow> string" where
  "suffix_of v = dropWhile is_digit (tl (dropWhile is_digit (tl (dropWhile is_digit v))))"

definition precedence_of :: "string \<Rightarrow> precedence option" where
  "precedence_of v =
     (case match_semver v of None \<Rightarrow> None
      | Some (a, b, c) \<Rightarrow>
          let r = suffix_of v in
          if r = [] then Some (Precedence (read_nat a) (read_nat b) (read_nat c) None)
          else if hd r = CHR ''-'' \<and> tl r \<noteq> [] \<and> list_all is_digit (tl r)
          then Some (Precedence (read_nat a) (read_nat b) (read_nat c) (Some (read_nat (tl r)))) else None)"

lemma suffix_of_core:
  assumes "list_all is_digit a" "list_all is_digit b" "list_all is_digit c" "suffix_ok r"
  shows "suffix_of (core a b c @ r) = r"
  using assms digits_suffix(2)[of c r] by (simp add: suffix_of_def core_def)

lemma digit_not_line_end: "is_digit x \<Longrightarrow> \<not> line_end x"
  by (auto simp: is_digit_def line_end_def newline_def carriage_def)

lemma nextPatchCiVersion_precedence:
  assumes "match_semver base = Some (a, b, c)"
  shows "\<exists>ci. nextPatchCiVersion base (show_nat n) = Inr ci \<and>
    precedence_of ci = Some (Precedence (read_nat a) (read_nat b) (read_nat c + 1) (Some n))"
proof -
  let ?r = "CHR ''-'' # show_nat n"
  let ?ci = "core (show_nat (read_nat a)) (show_nat (read_nat b)) (show_nat (Suc (read_nat c))) @ ?r"
  have ok: "suffix_ok ?r" by (auto simp: suffix_ok_def list_all_iff dest: show_nat_digits digit_not_line_end)
  have m: "match_semver ?ci = Some (show_nat (read_nat a), show_nat (read_nat b), show_nat (Suc (read_nat c)))"
    unfolding match_semver_iff using ok by auto
  have s: "suffix_of ?ci = ?r" by (rule suffix_of_core[OF _ _ _ ok]) simp_all
  have "precedence_of ?ci = Some (Precedence (read_nat a) (read_nat b) (read_nat c + 1) (Some n))"
    unfolding precedence_of_def m s by simp
  moreover have "nextPatchCiVersion base (show_nat n) = Inr ?ci"
    using assms by (simp add: nextPatchCiVersion_def parseSemver_def dotted_core)
  ultimately show ?thesis by blast
qed

text \<open>C39: continuous builds are updates, and the next release is one too: the version of a build from a
  development branch is newer than the version it is built on and than every earlier run on it, and
  older than the next patch release, whatever suffix the base version has.\<close>

theorem ci_version_between:
  assumes "precedence_of base = Some (Precedence a b c s)" and "m < n"
  shows "\<exists>older ci po pn. nextPatchCiVersion base (show_nat m) = Inr older \<and> nextPatchCiVersion base (show_nat n) = Inr ci \<and>
    precedence_of older = Some po \<and> precedence_of ci = Some pn \<and>
    Precedence a b c s < po \<and> po < pn \<and> pn < Precedence a b (c + 1) None"
proof -
  from assms(1) obtain x y z where m: "match_semver base = Some (x, y, z)" "a = read_nat x" "b = read_nat y" "c = read_nat z"
    by (auto simp: precedence_of_def Let_def split: option.splits if_splits)
  have "Precedence a b c s < Precedence a b (c + 1) (Some m)" by (cases s) (simp_all add: less_precedence_def)
  moreover have "Precedence a b (c + 1) (Some m) < Precedence a b (c + 1) (Some n)"
    using assms(2) by (simp add: less_precedence_def)
  moreover have "Precedence a b (c + 1) (Some n) < Precedence a b (c + 1) None" by (simp add: less_precedence_def)
  ultimately show ?thesis
    using nextPatchCiVersion_precedence[OF m(1), of m] nextPatchCiVersion_precedence[OF m(1), of n] m(2-4) by metis
qed

theorem ci_version_between_witness:
  "\<exists>p q. precedence_of ''0.4.2'' = Some p \<and> precedence_of ''0.4.3-18'' = Some q \<and> p < q"
proof -
  have base: "precedence_of ''0.4.2'' = Some (Precedence 0 4 2 None)" by code_simp
  have run: "show_nat 18 = ''18''" by code_simp
  have ci: "nextPatchCiVersion ''0.4.2'' ''18'' = Inr ''0.4.3-18''" by code_simp
  from ci_version_between[OF base, of 17 18] run ci base show ?thesis by fastforce
qed

section \<open>The release: correctness\<close>

text \<open>A pre-release is published under one of the rolling tags, and a rolling tag is never the base of
  the change list of a release.\<close>

lemma prerelease_tag_rolls:
  assumes "release_of env sp sn devTag devName base = Inr r" and "prerelease r" and "devTag \<in> set rolling_tags"
  shows "releaseTag r \<in> set rolling_tags"
  using assms by (auto simp: release_of_def rolling_tags_def split: if_splits sum.splits)

lemma previousStableTag_sound:
  assumes "previousStableTag git_tags tag = Some p"
  shows "p \<noteq> tag \<and> p \<notin> set rolling_tags \<and> p \<noteq> [] \<and> p \<in> set (map trim (split_on newline (safeSh git_tags [])))"
proof -
  obtain ts where "filter (\<lambda>t. t \<notin> set rolling_tags) (filter (\<lambda>t. t \<noteq> tag) (non_blank_lines (safeSh git_tags []))) = p # ts"
    using assms unfolding previousStableTag_def by (auto split: list.splits simp del: filter_filter)
  from arg_cong[OF this, of "\<lambda>l. p \<in> set l"] show ?thesis by (simp add: non_blank_lines_def)
qed

text \<open>A build of a branch other than the two that roll, started by hand, is a stable release of the base
  version, and its notes are those of a nightly build.\<close>

lemma other_branch_is_stable:
  assumes "refType env = ''branch''" and "refName env \<noteq> ''dev''" and "refName env \<noteq> ''main''"
  shows "\<exists>r. release_of env sp sn devTag devName base = Inr r \<and> releaseMode r = ''stable'' \<and> \<not> prerelease r \<and>
    releaseVersion r = base \<and> release_notes git_log git_tags repo r = join_with [newline] (nightly_notes repo (sn @ base))"
  using assms by (simp add: release_of_def release_notes_def)

text \<open>The highlights are two to five lines, each a list item.\<close>

lemma highlights_bounds:
  "let h = highlightsFromSubjects subjects in
     2 \<le> length h \<and> length h \<le> 5 \<and> list_all (\<lambda>l. starts_with l ''- '') h"
  by (simp add: highlightsFromSubjects_def Let_def list_all_iff starts_with_def)

lemma squeeze_spaces: "c \<in> set (squeeze s) \<Longrightarrow> is_js_space c \<Longrightarrow> c = CHR '' ''"
  by (induction s rule: squeeze.induct) (auto split: if_splits)

section \<open>Running the generator: correctness\<close>

text \<open>The attempts are made in order up to the first that exits with 0; the script fails, with exit code
  1, exactly when none of them does, and then all were made.\<close>

lemma run_attempts_spec:
  assumes "run_attempts spawn as lastError = (made, result)"
  shows "(result = None \<longleftrightarrow> (\<exists>a \<in> set as. spawn a = Exited (Some 0))) \<and>
    (result = None \<longrightarrow> (\<exists>before a after. as = before @ a # after \<and> made = before @ [a] \<and> spawn a = Exited (Some 0) \<and>
       (\<forall>b \<in> set before. spawn b \<noteq> Exited (Some 0)))) \<and>
    (result \<noteq> None \<longrightarrow> made = as)"
  using assms
proof (induction as arbitrary: lastError made result)
  case Nil
  then show ?case by auto
next
  case (Cons a as)
  show ?case
  proof (cases "spawn a = Exited (Some 0)")
    case True
    then show ?thesis using Cons.prems by (auto simp: Let_def intro: exI[of _ "[]"])
  next
    case False
    obtain made' where r: "run_attempts spawn as (if spawn a = NotFound then lastError else Some (failure_text a (spawn a))) = (made', result)"
      and m: "made = a # made'"
      using Cons.prems False by (auto simp: Let_def split: prod.splits)
    note ih = Cons.IH[OF r]
    show ?thesis
    proof (cases "result = None")
      case True
      with ih obtain before x after where x: "as = before @ x # after" "made' = before @ [x]" "spawn x = Exited (Some 0)"
        "\<forall>b \<in> set before. spawn b \<noteq> Exited (Some 0)" by blast
      show ?thesis using True x False m by (intro conjI impI exI[of _ "a # before"] exI[of _ x] exI[of _ after]) auto
    next
      case no: False
      then show ?thesis using ih False m by auto
    qed
  qed
qed

end
