(* ===== verification/RbacServer.thy ===== *)
theory RbacServer
  imports EventServer Schema "HOL-Library.Char_ord" "HOL-Library.List_Lexorder"
begin

text \<open>
  The access rights of the control plane: the state manager
  (\<open>src/xenage/cluster/rbac_state_manager.py\<close>, \<open>rbac_authorization.py\<close>, \<open>rbac_mutations.py\<close>) and the
  requests that apply and list resources (\<open>control_plane_api/urls_logic.py\<close>), in Python. The
  conversions between JSON values and structures are msgspec's and a parameter (\<open>msgspec_codec\<close>), and so is the text
  \<open>str\<close> makes of a list or a dictionary. An error is the text of the exception; a state that
  is returned is the one after the request, and a request that fails leaves it as it was.
\<close>

section \<open>The state\<close>

record rbac_meta =
  om_name :: string
  om_labels :: "string js_obj"
  om_annotations :: "string js_obj"
  om_uid :: "string option"
  om_generation :: int
  om_createdAt :: "string option"

record service_account =
  sa_apiVersion :: string
  sa_metadata :: rbac_meta
  sa_engine :: string
  sa_publicKey :: string
  sa_enabled :: bool

record policy_rule =
  rule_apiGroups :: "string list"
  rule_namespaces :: "string list"
  rule_resources :: "string list"
  rule_verbs :: "string list"

record rbac_role =
  role_apiVersion :: string
  role_metadata :: rbac_meta
  role_rules :: "policy_rule list"

text \<open>The kind of a subject and of a role reference is a literal with one value.\<close>

record role_binding =
  rb_apiVersion :: string
  rb_metadata :: rbac_meta
  rb_subjects :: "string list"
  rb_roleApiGroup :: string
  rb_roleName :: string

record rbac_store =
  rbac_version :: int
  serviceAccounts :: "service_account list"
  rbac_roles :: "rbac_role list"
  roleBindings :: "role_binding list"

abbreviation account_name :: "service_account \<Rightarrow> string" where
  "account_name a \<equiv> om_name (sa_metadata a)"

abbreviation role_name :: "rbac_role \<Rightarrow> string" where
  "role_name r \<equiv> om_name (role_metadata r)"

abbreviation binding_name :: "role_binding \<Rightarrow> string" where
  "binding_name b \<equiv> om_name (rb_metadata b)"

section \<open>Authorisation\<close>

definition match_value :: "string list \<Rightarrow> string \<Rightarrow> bool" where
  "match_value values expected = list_ex (\<lambda>v. v = ''*'' \<or> v = expected) values"

definition role_allows :: "rbac_role \<Rightarrow> string \<Rightarrow> string \<Rightarrow> string \<Rightarrow> bool" where
  "role_allows role verb resource namespace =
     list_ex (\<lambda>rule.
       let namespaces = (if rule_namespaces rule \<noteq> [] then rule_namespaces rule else [''*'']) in
       match_value (rule_verbs rule) verb \<and> match_value (rule_resources rule) resource \<and> match_value namespaces namespace)
     (role_rules role)"

definition find_service_account :: "string \<Rightarrow> rbac_store \<Rightarrow> service_account option" where
  "find_service_account name st = List.find (\<lambda>item. account_name item = name) (serviceAccounts st)"

definition find_role :: "string \<Rightarrow> rbac_store \<Rightarrow> rbac_role option" where
  "find_role name st = List.find (\<lambda>item. role_name item = name) (rbac_roles st)"

text \<open>A later role replaces an earlier one of the same name.\<close>

definition role_index :: "rbac_store \<Rightarrow> rbac_role js_obj" where
  "role_index st = fold (\<lambda>r. obj_set (role_name r) r) (rbac_roles st) []"

definition bindings_for_subject :: "string \<Rightarrow> rbac_store \<Rightarrow> role_binding list" where
  "bindings_for_subject name st =
     concat (map (\<lambda>b. map (\<lambda>_. b) (filter (\<lambda>subject. subject = name) (rb_subjects b))) (roleBindings st))"

definition allows_with_bindings :: "role_binding list \<Rightarrow> string \<Rightarrow> string \<Rightarrow> string \<Rightarrow> rbac_store \<Rightarrow> bool" where
  "allows_with_bindings bindings verb resource namespace st =
     list_ex (\<lambda>binding. case obj_get (role_index st) (rb_roleName binding) of
       None \<Rightarrow> False | Some role \<Rightarrow> role_allows role verb resource namespace) bindings"

definition can_i :: "string \<Rightarrow> string \<Rightarrow> string \<Rightarrow> string \<Rightarrow> string \<Rightarrow> rbac_store \<Rightarrow> bool" where
  "can_i requester public_key verb resource namespace st =
     (case find_service_account requester st of
       None \<Rightarrow> False
     | Some account \<Rightarrow>
         if \<not> sa_enabled account then False
         else if sa_publicKey account \<noteq> public_key then False
         else allows_with_bindings (bindings_for_subject (account_name account) st) verb resource namespace st)"

definition verify_service_account :: "string \<Rightarrow> string \<Rightarrow> rbac_store \<Rightarrow> string + service_account" where
  "verify_service_account requester public_key st =
     (case find_service_account requester st of
       None \<Rightarrow> Inl ''unknown service account''
     | Some account \<Rightarrow>
         if \<not> sa_enabled account then Inl ''service account is disabled''
         else if sa_publicKey account \<noteq> public_key then Inl ''request signer public key does not match service account key''
         else Inr account)"

definition authorize :: "string \<Rightarrow> string \<Rightarrow> string \<Rightarrow> string \<Rightarrow> string \<Rightarrow> rbac_store \<Rightarrow> string + bool" where
  "authorize requester public_key verb resource namespace st =
     map_sum id (\<lambda>account. allows_with_bindings (bindings_for_subject (account_name account) st) verb resource namespace st)
       (verify_service_account requester public_key st)"

definition describe_auth_subject :: "string \<Rightarrow> string \<Rightarrow> rbac_store \<Rightarrow> string" where
  "describe_auth_subject requester public_key st =
     (case find_service_account requester st of
       None \<Rightarrow> ''rbac=none subject='' @ requester
     | Some account \<Rightarrow>
         let key_match = (sa_publicKey account = public_key);
             binding_refs = map (\<lambda>b. binding_name b @ ''->'' @ rb_roleName b) (bindings_for_subject requester st);
             refs = (if binding_refs \<noteq> [] then join_with '','' binding_refs else ''-'');
             bool_text = (\<lambda>b. if b then ''True'' else ''False'') in
         ''rbac=service_account subject='' @ requester @ '' enabled='' @ bool_text (sa_enabled account) @
           '' key_match='' @ bool_text key_match @ '' bindings='' @ refs)"

text \<open>The two ways to ask agree: one answers with an error where the other refuses.\<close>

lemma can_i_authorize: "can_i u k verb resource namespace st \<longleftrightarrow> authorize u k verb resource namespace st = Inr True"
  by (auto simp: can_i_def authorize_def verify_service_account_def split: option.splits)

section \<open>Changing the state\<close>

definition replace_state :: "rbac_store \<Rightarrow> rbac_store \<Rightarrow> string + rbac_store" where
  "replace_state next current =
     (if rbac_version next < rbac_version current then Inl ''rbac state version regressed'' else Inr next)"

text \<open>The common part of the three loops that replace or append an item.\<close>

definition replaced_or_appended :: "('a \<Rightarrow> string) \<Rightarrow> 'a \<Rightarrow> 'a list \<Rightarrow> 'a list" where
  "replaced_or_appended key x ys =
     (let replaced = list_ex (\<lambda>y. key y = key x) ys; items = map (\<lambda>y. if key y = key x then x else y) ys in
      if replaced then items else items @ [x])"

definition put_service_account :: "service_account \<Rightarrow> rbac_store \<Rightarrow> rbac_store" where
  "put_service_account account st = st\<lparr>rbac_version := rbac_version st + 1,
     serviceAccounts := sort_key account_name (replaced_or_appended account_name account (serviceAccounts st))\<rparr>"

definition upsert_service_account :: "rbac_store \<Rightarrow> service_account \<Rightarrow> string + rbac_store" where
  "upsert_service_account st account =
     (if list_ex (\<lambda>item. account_name item = account_name account \<and> sa_publicKey item \<noteq> sa_publicKey account) (serviceAccounts st)
      then Inl ''service account publicKey is immutable''
      else Inr (put_service_account account st))"

definition upsert_role :: "rbac_store \<Rightarrow> rbac_role \<Rightarrow> rbac_store" where
  "upsert_role st role = st\<lparr>rbac_version := rbac_version st + 1,
     rbac_roles := sort_key role_name (replaced_or_appended role_name role (rbac_roles st))\<rparr>"

definition upsert_role_binding :: "rbac_store \<Rightarrow> role_binding \<Rightarrow> rbac_store" where
  "upsert_role_binding st binding = st\<lparr>rbac_version := rbac_version st + 1,
     roleBindings := sort_key binding_name (replaced_or_appended binding_name binding (roleBindings st))\<rparr>"

definition delete_service_account :: "rbac_store \<Rightarrow> string \<Rightarrow> rbac_store" where
  "delete_service_account st service_account_name =
     (let service_accounts = filter (\<lambda>item. account_name item \<noteq> service_account_name) (serviceAccounts st);
          role_bindings = filter (\<lambda>b. list_all (\<lambda>subject. subject \<noteq> service_account_name) (rb_subjects b)) (roleBindings st);
          changed = (length service_accounts \<noteq> length (serviceAccounts st) \<or> length role_bindings \<noteq> length (roleBindings st)) in
      if \<not> changed then st
      else st\<lparr>rbac_version := rbac_version st + 1, serviceAccounts := sort_key account_name service_accounts,
             roleBindings := sort_key binding_name role_bindings\<rparr>)"

definition delete_role :: "rbac_store \<Rightarrow> string \<Rightarrow> rbac_store" where
  "delete_role st name =
     (let roles = filter (\<lambda>item. role_name item \<noteq> name) (rbac_roles st);
          role_bindings = filter (\<lambda>b. rb_roleName b \<noteq> name) (roleBindings st);
          changed = (length roles \<noteq> length (rbac_roles st) \<or> length role_bindings \<noteq> length (roleBindings st)) in
      if \<not> changed then st
      else st\<lparr>rbac_version := rbac_version st + 1, rbac_roles := sort_key role_name roles,
             roleBindings := sort_key binding_name role_bindings\<rparr>)"

definition delete_role_binding :: "rbac_store \<Rightarrow> string \<Rightarrow> rbac_store" where
  "delete_role_binding st name =
     (let role_bindings = filter (\<lambda>item. binding_name item \<noteq> name) (roleBindings st) in
      if length role_bindings = length (roleBindings st) then st
      else st\<lparr>rbac_version := rbac_version st + 1, roleBindings := sort_key binding_name role_bindings\<rparr>)"

section \<open>Manifests\<close>

text \<open>\<open>str(value)\<close> of a JSON value; \<open>repr\<close> is the text of a list or a dictionary.\<close>

fun py_str :: "(js_value \<Rightarrow> string) \<Rightarrow> js_value \<Rightarrow> string" where
  "py_str repr (Str s) = s"
| "py_str repr (Num i) = show_int i"
| "py_str repr (Bool b) = (if b then ''True'' else ''False'')"
| "py_str repr Null = ''None''"
| "py_str repr Undefined = []"
| "py_str repr v = repr v"

definition is_py_space :: "char \<Rightarrow> bool" where
  "is_py_space c = (of_char c \<in> {9, 10, 11, 12, 13, 28, 29, 30, 31, 32, 133, 160 :: nat})"

definition py_strip :: "string \<Rightarrow> string" where
  "py_strip s = rev (dropWhile is_py_space (rev (dropWhile is_py_space s)))"

text \<open>\<open>str(d.get(k, ""))\<close>\<close>

definition text_of :: "(js_value \<Rightarrow> string) \<Rightarrow> js_value js_obj \<Rightarrow> string \<Rightarrow> string" where
  "text_of repr d k = (case obj_get d k of None \<Rightarrow> [] | Some v \<Rightarrow> py_str repr v)"

definition as_dict :: "js_value option \<Rightarrow> js_value js_obj option" where
  "as_dict v = (case v of Some (Obj d) \<Rightarrow> Some d | _ \<Rightarrow> None)"

definition delete_action_name :: "(js_value \<Rightarrow> string) \<Rightarrow> js_value js_obj \<Rightarrow> string + string option" where
  "delete_action_name repr manifest =
     (case as_dict (obj_get manifest ''metadata'') of
       None \<Rightarrow> Inr None
     | Some metadata \<Rightarrow>
         (case as_dict (obj_get metadata ''annotations'') of
           None \<Rightarrow> Inr None
         | Some annotations \<Rightarrow>
             (let action = to_lower (py_strip (text_of repr annotations ''xenage.io/action'')) in
              if action \<noteq> ''delete'' then Inr None
              else let name = py_strip (text_of repr metadata ''name'') in
                if name = [] then Inl ''metadata.name is required for delete action'' else Inr (Some name))))"

definition ensure_cluster_wide_manifest :: "js_value js_obj \<Rightarrow> string option" where
  "ensure_cluster_wide_manifest manifest =
     (case as_dict (obj_get manifest ''metadata'') of
       None \<Rightarrow> None
     | Some metadata \<Rightarrow>
         if obj_get metadata ''namespace'' \<noteq> None
         then Some ''metadata.namespace is not supported for RBAC resources; use role.rules[].namespaces scope'' else None)"

record msgspec_codec =
  convert_account :: "js_value js_obj \<Rightarrow> string + service_account"
  convert_role :: "js_value js_obj \<Rightarrow> string + rbac_role"
  convert_binding :: "js_value js_obj \<Rightarrow> string + role_binding"
  account_builtins :: "service_account \<Rightarrow> js_value"
  role_builtins :: "rbac_role \<Rightarrow> js_value"
  binding_builtins :: "role_binding \<Rightarrow> js_value"

record apply_result =
  ar_kind :: string
  ar_name :: string
  ar_namespace :: string
  ar_status :: string

definition ACCOUNT_API :: string where "ACCOUNT_API = ''xenage.dev/v1''"
definition RBAC_API :: string where "RBAC_API = ''rbac.authorization.xenage.dev/v1''"

definition stored :: "rbac_store \<Rightarrow> string \<Rightarrow> string \<Rightarrow> string \<Rightarrow> rbac_store \<Rightarrow> string + apply_result \<times> rbac_store" where
  "stored next kind name status current =
     map_sum id (Pair \<lparr>ar_kind = kind, ar_name = name, ar_namespace = ''cluster'', ar_status = status\<rparr>) (replace_state next current)"

definition apply_delete :: "string \<Rightarrow> string \<Rightarrow> string \<Rightarrow> rbac_store \<Rightarrow> string + apply_result \<times> rbac_store" where
  "apply_delete api_version kind name st =
     (if api_version = ACCOUNT_API \<and> kind = ''ServiceAccount''
      then stored (delete_service_account st name) kind name ''deleted'' st
      else if api_version = RBAC_API \<and> kind = ''Role'' then stored (delete_role st name) kind name ''deleted'' st
      else if api_version = RBAC_API \<and> kind = ''RoleBinding'' then stored (delete_role_binding st name) kind name ''deleted'' st
      else Inl ''unsupported resource apiVersion/kind'')"

definition apply_resource ::
  "msgspec_codec \<Rightarrow> string \<Rightarrow> string \<Rightarrow> js_value js_obj \<Rightarrow> rbac_store \<Rightarrow> string + apply_result \<times> rbac_store" where
  "apply_resource codec api_version kind manifest st =
     (if api_version = ACCOUNT_API \<and> kind = ''ServiceAccount'' then
        (case convert_account codec manifest of
          Inl e \<Rightarrow> Inl e
        | Inr account \<Rightarrow>
            (case upsert_service_account st account of
              Inl e \<Rightarrow> Inl e
            | Inr next \<Rightarrow> stored next ''ServiceAccount'' (account_name account) ''applied'' st))
      else if api_version = RBAC_API \<and> kind = ''Role'' then
        (case convert_role codec manifest of
          Inl e \<Rightarrow> Inl e
        | Inr role \<Rightarrow> stored (upsert_role st role) ''Role'' (role_name role) ''applied'' st)
      else if api_version = RBAC_API \<and> kind = ''RoleBinding'' then
        (case convert_binding codec manifest of
          Inl e \<Rightarrow> Inl e
        | Inr binding \<Rightarrow>
            if find_role (rb_roleName binding) st = None then Inl ''roleRef points to missing role''
            else stored (upsert_role_binding st binding) ''RoleBinding'' (binding_name binding) ''applied'' st)
      else Inl ''unsupported resource apiVersion/kind'')"

definition apply_manifest ::
  "(js_value \<Rightarrow> string) \<Rightarrow> msgspec_codec \<Rightarrow> js_value js_obj \<Rightarrow> rbac_store \<Rightarrow> string + apply_result \<times> rbac_store" where
  "apply_manifest repr codec manifest st =
     (let api_version = text_of repr manifest ''apiVersion''; kind = text_of repr manifest ''kind'' in
      case ensure_cluster_wide_manifest manifest of
        Some e \<Rightarrow> Inl e
      | None \<Rightarrow>
          (case delete_action_name repr manifest of
            Inl e \<Rightarrow> Inl e
          | Inr (Some name) \<Rightarrow> apply_delete api_version kind name st
          | Inr None \<Rightarrow> apply_resource codec api_version kind manifest st))"

definition list_resources :: "msgspec_codec \<Rightarrow> string \<Rightarrow> rbac_store \<Rightarrow> string + js_value list" where
  "list_resources codec resource st =
     (if resource = ''serviceaccounts'' then Inr (map (account_builtins codec) (serviceAccounts st))
      else if resource = ''roles'' then Inr (map (role_builtins codec) (rbac_roles st))
      else if resource = ''rolebindings'' then Inr (map (binding_builtins codec) (roleBindings st))
      else Inl ''unsupported resource type'')"

section \<open>Requests\<close>

text \<open>\<open>auth\<close> is the node id and the key of the verified signature of a request.\<close>

definition resource_kind_to_name :: "string \<Rightarrow> string + string" where
  "resource_kind_to_name kind =
     (if kind = ''ServiceAccount'' then Inr ''serviceaccounts''
      else if kind = ''Role'' then Inr ''roles''
      else if kind = ''RoleBinding'' then Inr ''rolebindings''
      else Inl ''unsupported resource kind'')"

definition authorize_apply ::
  "(js_value \<Rightarrow> string) \<Rightarrow> string \<times> string \<Rightarrow> js_value js_obj \<Rightarrow> rbac_store \<Rightarrow> string option" where
  "authorize_apply repr auth manifest st =
     (case resource_kind_to_name (text_of repr manifest ''kind'') of
       Inl e \<Rightarrow> Some e
     | Inr resource \<Rightarrow>
         if can_i (fst auth) (snd auth) ''apply'' resource ''cluster'' st then None else Some ''user is not authorized'')"

text \<open>The state of a control plane as these requests see it: the access rights and the synchronised log.\<close>

definition handle_resources_apply ::
  "(js_value \<Rightarrow> string) \<Rightarrow> msgspec_codec \<Rightarrow> js_value \<Rightarrow> string \<times> string \<Rightarrow> rbac_store \<times> sync_event list \<Rightarrow>
   string + apply_result \<times> rbac_store \<times> sync_event list" where
  "handle_resources_apply repr codec body auth state =
     (case body of
       Obj manifest \<Rightarrow>
         (case authorize_apply repr auth manifest (fst state) of
           Some e \<Rightarrow> Inl e
         | None \<Rightarrow>
             (case apply_manifest repr codec manifest (fst state) of
               Inl e \<Rightarrow> Inl e
             | Inr (result, st) \<Rightarrow>
                 map_sum id (\<lambda>current. (result, st, current)) (record_event (OtherSyncEvent ''rbac_state.apply'') (snd state))))
     | _ \<Rightarrow> Inl ''Expected `object`'')"

definition handle_resources_list ::
  "msgspec_codec \<Rightarrow> string \<Rightarrow> string \<times> string \<Rightarrow> rbac_store \<Rightarrow> string + js_value" where
  "handle_resources_list codec path auth st =
     (let base_path = takeWhile (\<lambda>c. c \<noteq> CHR ''?'') path;
          resource = (if starts_with base_path ''/v1/resources/'' then drop 14 base_path else base_path) in
      if can_i (fst auth) (snd auth) ''list'' resource ''cluster'' st
      then map_sum id (\<lambda>items. Obj [(''items'', Arr items)]) (list_resources codec resource st)
      else Inl ''user is not authorized'')"

section \<open>The administrator\<close>

definition fresh_meta :: "string \<Rightarrow> rbac_meta" where
  "fresh_meta name = \<lparr>om_name = name, om_labels = [], om_annotations = [], om_uid = None, om_generation = 1, om_createdAt = None\<rparr>"

definition admin_role :: rbac_role where
  "admin_role = \<lparr>role_apiVersion = RBAC_API, role_metadata = fresh_meta ''admin'',
     role_rules = [\<lparr>rule_apiGroups = [''*''], rule_namespaces = [''*''], rule_resources = [''*''], rule_verbs = [''*'']\<rparr>]\<rparr>"

definition ensure_admin_bundle :: "string \<Rightarrow> string \<Rightarrow> string \<Rightarrow> rbac_store \<Rightarrow> string + rbac_store" where
  "ensure_admin_bundle requester public_key engine st =
     (let account = \<lparr>sa_apiVersion = ACCOUNT_API, sa_metadata = fresh_meta requester, sa_engine = engine,
                     sa_publicKey = public_key, sa_enabled = True\<rparr>;
          binding = \<lparr>rb_apiVersion = RBAC_API, rb_metadata = fresh_meta (''admin-binding-'' @ requester),
                     rb_subjects = [requester], rb_roleApiGroup = ''rbac.authorization.xenage.dev'', rb_roleName = ''admin''\<rparr> in
      case upsert_service_account st account of
        Inl e \<Rightarrow> Inl e
      | Inr next_state \<Rightarrow> replace_state (upsert_role_binding (upsert_role next_state admin_role) binding) st)"

definition ensure_admin_user :: "string \<Rightarrow> string \<Rightarrow> string \<Rightarrow> bool \<Rightarrow> rbac_store \<Rightarrow> string + UserRecord \<times> rbac_store" where
  "ensure_admin_user requester public_key engine read_only st =
     (let user_record = (\<lambda>a. \<lparr>user_id = account_name a, user_public_key = sa_publicKey a, user_enabled = sa_enabled a\<rparr>) in
      case find_service_account requester st of
        Some existing \<Rightarrow>
          if sa_publicKey existing \<noteq> public_key then Inl ''existing admin user has different public key''
          else if \<not> sa_enabled existing then Inl ''admin user is disabled''
          else Inr (user_record existing, st)
      | None \<Rightarrow>
          if read_only then Inl ''admin user not found and running in read-only mode''
          else (case ensure_admin_bundle requester public_key engine st of
            Inl e \<Rightarrow> Inl e
          | Inr st' \<Rightarrow> (case find_service_account requester st' of
              None \<Rightarrow> Inl ''failed to create admin user''
            | Some created \<Rightarrow> Inr (user_record created, st'))))"

section \<open>Collections by name\<close>

text \<open>The three lists have one contract: items sorted by name, each name once. It is stated once, for the
  operations that put an item in and take one out.\<close>

definition names_ok :: "('a \<Rightarrow> string) \<Rightarrow> 'a list \<Rightarrow> bool" where
  "names_ok key xs = (sorted (map key xs) \<and> distinct (map key xs))"

lemma names_ok_Nil [simp]: "names_ok key []"
  by (simp add: names_ok_def)

lemma names_ok_filter: "names_ok key xs \<Longrightarrow> names_ok key (filter P xs)"
  by (simp add: names_ok_def sorted_filter distinct_map_filter)

lemma sort_names_ok: "names_ok key xs \<Longrightarrow> sort_key key xs = xs"
  by (simp add: names_ok_def sort_key_id_if_sorted)

lemma filter_same_length: "length (filter P xs) = length xs \<Longrightarrow> filter P xs = xs"
  by (metis filter_id_conv length_filter_less less_irrefl)

lemma map_replaced: "map key (map (\<lambda>y. if key y = key x then x else y) xs) = map key xs"
  by (induction xs) auto

lemma names_ok_put:
  assumes "names_ok key xs"
  shows "names_ok key (sort_key key (replaced_or_appended key x xs))"
proof -
  have "distinct (map key (replaced_or_appended key x xs))"
    using assms by (auto simp: replaced_or_appended_def names_ok_def map_replaced list_ex_iff Let_def simp del: map_map)
  then have "distinct (map key (sort_key key (replaced_or_appended key x xs)))"
    by (metis distinct_map distinct_sort set_sort)
  then show ?thesis by (simp add: names_ok_def)
qed

lemma set_put [simp]:
  "set (replaced_or_appended key x xs) = insert x {y \<in> set xs. key y \<noteq> key x}"
  by (auto simp: replaced_or_appended_def list_ex_iff Let_def)

lemma find_names_ok:
  assumes "names_ok key xs"
  shows "List.find (\<lambda>y. key y = n) xs = Some x \<longleftrightarrow> x \<in> set xs \<and> key x = n"
proof -
  have "inj_on key (set xs)" using assms by (simp add: names_ok_def distinct_map)
  then show ?thesis
    by (cases "List.find (\<lambda>y. key y = n) xs") (auto simp: find_None_iff inj_on_def dest: find_SomeD)
qed

definition find_named :: "('a \<Rightarrow> string) \<Rightarrow> string \<Rightarrow> 'a list \<Rightarrow> 'a option" where
  "find_named key n xs = List.find (\<lambda>y. key y = n) xs"

locale named_collection =
  fixes key :: "'a \<Rightarrow> string"
    and items :: "'s \<Rightarrow> 'a list"
    and put :: "'a \<Rightarrow> 's \<Rightarrow> 's"
    and take_out :: "string \<Rightarrow> 's \<Rightarrow> 's"
  assumes items_put: "items (put x s) = sort_key key (replaced_or_appended key x (items s))"
    and items_take_out: "names_ok key (items s) \<Longrightarrow> items (take_out n s) = filter (\<lambda>y. key y \<noteq> n) (items s)"
begin

lemma put_ok: "names_ok key (items s) \<Longrightarrow> names_ok key (items (put x s))"
  by (simp add: items_put names_ok_put)

lemma take_out_ok: "names_ok key (items s) \<Longrightarrow> names_ok key (items (take_out n s))"
  by (simp add: items_take_out names_ok_filter)

lemma lookup_iff: "names_ok key (items s) \<Longrightarrow> find_named key n (items s) = Some x \<longleftrightarrow> x \<in> set (items s) \<and> key x = n"
  by (simp add: find_named_def find_names_ok)

lemma lookup_put:
  assumes "names_ok key (items s)"
  shows "find_named key n (items (put x s)) = (if n = key x then Some x else find_named key n (items s))"
proof -
  have "find_named key n (items (put x s)) = Some y \<longleftrightarrow> (if n = key x then Some x else find_named key n (items s)) = Some y" for y
    using assms lookup_iff[OF put_ok[OF assms]] lookup_iff[OF assms] by (auto simp: items_put)
  then show ?thesis by (metis option.exhaust)
qed

lemma lookup_take_out:
  assumes "names_ok key (items s)"
  shows "find_named key n (items (take_out m s)) = (if n = m then None else find_named key n (items s))"
proof -
  have "find_named key n (items (take_out m s)) = Some y \<longleftrightarrow> (if n = m then None else find_named key n (items s)) = Some y" for y
    using assms lookup_iff[OF take_out_ok[OF assms]] lookup_iff[OF assms] by (auto simp: items_take_out)
  then show ?thesis by (metis option.exhaust)
qed

lemma in_take_out: "names_ok key (items s) \<Longrightarrow> x \<in> set (items (take_out m s)) \<longleftrightarrow> x \<in> set (items s) \<and> key x \<noteq> m"
  by (auto simp: items_take_out)

lemma in_put: "x \<in> set (items (put y s)) \<longleftrightarrow> x = y \<or> x \<in> set (items s) \<and> key x \<noteq> key y"
  by (auto simp: items_put)

end

text \<open>The lists of the state, filtered and sorted again, are the filtered ones.\<close>

lemma sort_filtered: "names_ok key xs \<Longrightarrow> sort_key key (filter P xs) = filter P xs"
  by (simp add: sort_names_ok names_ok_filter)

lemma accounts_deleted:
  assumes "names_ok account_name (serviceAccounts st)"
  shows "serviceAccounts (delete_service_account st n) = filter (\<lambda>a. account_name a \<noteq> n) (serviceAccounts st)"
  using assms by (auto simp: delete_service_account_def Let_def sort_filtered filter_same_length)

lemma delete_service_account_lists:
  assumes "names_ok binding_name (roleBindings st)"
  shows "roleBindings (delete_service_account st n) = filter (\<lambda>b. n \<notin> set (rb_subjects b)) (roleBindings st)"
    "rbac_roles (delete_service_account st n) = rbac_roles st"
proof -
  have p: "(\<lambda>b. list_all (\<lambda>subject. subject \<noteq> n) (rb_subjects b)) = (\<lambda>b. n \<notin> set (rb_subjects b))"
    by (auto simp: list_all_iff)
  show "roleBindings (delete_service_account st n) = filter (\<lambda>b. n \<notin> set (rb_subjects b)) (roleBindings st)"
    "rbac_roles (delete_service_account st n) = rbac_roles st"
    using assms by (auto simp: delete_service_account_def p Let_def sort_filtered filter_same_length)
qed

lemma roles_deleted:
  assumes "names_ok role_name (rbac_roles st)"
  shows "rbac_roles (delete_role st n) = filter (\<lambda>r. role_name r \<noteq> n) (rbac_roles st)"
  using assms by (auto simp: delete_role_def Let_def sort_filtered filter_same_length)

lemma delete_role_lists:
  assumes "names_ok binding_name (roleBindings st)"
  shows "roleBindings (delete_role st n) = filter (\<lambda>b. rb_roleName b \<noteq> n) (roleBindings st)"
    "serviceAccounts (delete_role st n) = serviceAccounts st"
  using assms by (auto simp: delete_role_def Let_def sort_filtered filter_same_length)

lemma delete_role_binding_lists:
  assumes "names_ok binding_name (roleBindings st)"
  shows "roleBindings (delete_role_binding st n) = filter (\<lambda>b. binding_name b \<noteq> n) (roleBindings st)"
    "rbac_roles (delete_role_binding st n) = rbac_roles st" "serviceAccounts (delete_role_binding st n) = serviceAccounts st"
  using assms by (auto simp: delete_role_binding_def Let_def sort_filtered filter_same_length)

interpretation accounts: named_collection account_name serviceAccounts put_service_account
  "\<lambda>n st. delete_service_account st n"
  by unfold_locales (simp_all add: put_service_account_def accounts_deleted)

interpretation roles: named_collection role_name rbac_roles "\<lambda>r st. upsert_role st r" "\<lambda>n st. delete_role st n"
  by unfold_locales (simp_all add: upsert_role_def roles_deleted)

interpretation bindings: named_collection binding_name roleBindings "\<lambda>b st. upsert_role_binding st b"
  "\<lambda>n st. delete_role_binding st n"
  by unfold_locales (simp_all add: upsert_role_binding_def delete_role_binding_lists)

section \<open>The invariant\<close>

definition rbac_ok :: "rbac_store \<Rightarrow> bool" where
  "rbac_ok st =
     (names_ok account_name (serviceAccounts st) \<and> names_ok role_name (rbac_roles st) \<and>
      names_ok binding_name (roleBindings st) \<and>
      list_all (\<lambda>b. rb_roleName b \<in> set (map role_name (rbac_roles st))) (roleBindings st))"

definition empty_rbac :: rbac_store where
  "empty_rbac = \<lparr>rbac_version = 0, serviceAccounts = [], rbac_roles = [], roleBindings = []\<rparr>"

text \<open>What changes the rights a control plane keeps: a manifest that is applied, and the bundle of an administrator.\<close>

inductive rbac_step :: "(js_value \<Rightarrow> string) \<Rightarrow> msgspec_codec \<Rightarrow> rbac_store \<Rightarrow> rbac_store \<Rightarrow> bool" for repr codec where
  step_apply: "apply_manifest repr codec manifest st = Inr (result, st') \<Longrightarrow> rbac_step repr codec st st'"
| step_admin: "ensure_admin_bundle requester public_key engine st = Inr st' \<Longrightarrow> rbac_step repr codec st st'"

lemma rbac_okD:
  assumes "rbac_ok st"
  shows "names_ok account_name (serviceAccounts st)" "names_ok role_name (rbac_roles st)"
    "names_ok binding_name (roleBindings st)"
    "\<And>b. b \<in> set (roleBindings st) \<Longrightarrow> rb_roleName b \<in> role_name ` set (rbac_roles st)"
  using assms by (auto simp: rbac_ok_def list_all_iff)

lemma rbac_okI:
  "names_ok account_name (serviceAccounts st) \<Longrightarrow> names_ok role_name (rbac_roles st) \<Longrightarrow>
   names_ok binding_name (roleBindings st) \<Longrightarrow>
   (\<And>b. b \<in> set (roleBindings st) \<Longrightarrow> rb_roleName b \<in> role_name ` set (rbac_roles st)) \<Longrightarrow> rbac_ok st"
  by (auto simp: rbac_ok_def list_all_iff)

lemma put_lists [simp]:
  "rbac_roles (put_service_account a st) = rbac_roles st" "roleBindings (put_service_account a st) = roleBindings st"
  "serviceAccounts (upsert_role st r) = serviceAccounts st" "roleBindings (upsert_role st r) = roleBindings st"
  "serviceAccounts (upsert_role_binding st b) = serviceAccounts st" "rbac_roles (upsert_role_binding st b) = rbac_roles st"
  by (simp_all add: put_service_account_def upsert_role_def upsert_role_binding_def)

lemma versions_grow:
  "rbac_version (put_service_account a st) = rbac_version st + 1" "rbac_version (upsert_role st r) = rbac_version st + 1"
  "rbac_version (upsert_role_binding st b) = rbac_version st + 1"
  "rbac_version st \<le> rbac_version (delete_service_account st n)" "rbac_version st \<le> rbac_version (delete_role st n)"
  "rbac_version st \<le> rbac_version (delete_role_binding st n)"
  by (simp_all add: put_service_account_def upsert_role_def upsert_role_binding_def delete_service_account_def
      delete_role_def delete_role_binding_def Let_def)

lemma rbac_ok_put_account: "rbac_ok st \<Longrightarrow> rbac_ok (put_service_account a st)"
  by (rule rbac_okI) (auto dest: rbac_okD intro: accounts.put_ok)

lemma rbac_ok_put_role: "rbac_ok st \<Longrightarrow> rbac_ok (upsert_role st r)"
proof (rule rbac_okI)
  fix b assume ok: "rbac_ok st" and "b \<in> set (roleBindings (upsert_role st r))"
  then obtain q where "q \<in> set (rbac_roles st)" "role_name q = rb_roleName b" by (auto dest!: rbac_okD(4))
  then show "rb_roleName b \<in> role_name ` set (rbac_roles (upsert_role st r))"
    by (cases "role_name q = role_name r") (auto simp: roles.in_put image_iff intro: bexI[of _ r] bexI[of _ q])
qed (auto dest: rbac_okD intro: roles.put_ok)

lemma rbac_ok_put_binding:
  assumes "rbac_ok st" "find_role (rb_roleName b) st \<noteq> None"
  shows "rbac_ok (upsert_role_binding st b)"
proof (rule rbac_okI)
  fix c assume "c \<in> set (roleBindings (upsert_role_binding st b))"
  then show "rb_roleName c \<in> role_name ` set (rbac_roles (upsert_role_binding st b))"
    using assms by (auto simp: bindings.in_put find_role_def find_None_iff intro: rev_image_eqI dest: rbac_okD(4))
qed (use assms in \<open>auto dest: rbac_okD intro: bindings.put_ok\<close>)

lemma rbac_ok_delete_account: "rbac_ok st \<Longrightarrow> rbac_ok (delete_service_account st n)"
  by (rule rbac_okI) (auto simp: accounts_deleted delete_service_account_lists rbac_okD(1-3) names_ok_filter dest: rbac_okD(4))

lemma rbac_ok_delete_role: "rbac_ok st \<Longrightarrow> rbac_ok (delete_role st n)"
  by (rule rbac_okI) (auto simp: roles_deleted delete_role_lists rbac_okD(1-3) names_ok_filter image_iff dest!: rbac_okD(4))

lemma rbac_ok_delete_binding: "rbac_ok st \<Longrightarrow> rbac_ok (delete_role_binding st n)"
  by (rule rbac_okI) (auto simp: delete_role_binding_lists rbac_okD(1-3) names_ok_filter dest: rbac_okD(4))

lemmas rbac_ok_intros = rbac_ok_put_account rbac_ok_put_role rbac_ok_put_binding rbac_ok_delete_account
  rbac_ok_delete_role rbac_ok_delete_binding

lemma upsert_account_Inr:
  "upsert_service_account st a = Inr st' \<longleftrightarrow> st' = put_service_account a st \<and>
     (\<forall>x \<in> set (serviceAccounts st). account_name x = account_name a \<longrightarrow> sa_publicKey x = sa_publicKey a)"
  by (auto simp: upsert_service_account_def list_ex_iff)

lemma stored_Inr [simp]:
  "stored next kind name status current = Inr (r, st') \<longleftrightarrow>
     rbac_version current \<le> rbac_version next \<and> st' = next \<and> r = \<lparr>ar_kind = kind, ar_name = name, ar_namespace = ''cluster'', ar_status = status\<rparr>"
  by (auto simp: stored_def replace_state_def)

lemma apply_delete_cases:
  assumes "apply_delete api kind name st = Inr (r, st')"
  obtains "kind = ''ServiceAccount''" "st' = delete_service_account st name"
  | "kind = ''Role''" "st' = delete_role st name"
  | "kind = ''RoleBinding''" "st' = delete_role_binding st name"
  using assms by (auto simp: apply_delete_def split: if_splits)

lemma apply_resource_cases:
  assumes "apply_resource codec api kind manifest st = Inr (r, st')"
  obtains a where "kind = ''ServiceAccount''" "convert_account codec manifest = Inr a" "upsert_service_account st a = Inr st'"
  | q where "kind = ''Role''" "convert_role codec manifest = Inr q" "st' = upsert_role st q"
  | b where "kind = ''RoleBinding''" "convert_binding codec manifest = Inr b" "find_role (rb_roleName b) st \<noteq> None"
      "st' = upsert_role_binding st b"
  using assms by (auto simp: apply_resource_def split: if_splits sum.splits)

lemma apply_manifest_cases:
  assumes "apply_manifest repr codec manifest st = Inr (r, st')"
  obtains n where "delete_action_name repr manifest = Inr (Some n)"
      "apply_delete (text_of repr manifest ''apiVersion'') (text_of repr manifest ''kind'') n st = Inr (r, st')"
  | "delete_action_name repr manifest = Inr None"
      "apply_resource codec (text_of repr manifest ''apiVersion'') (text_of repr manifest ''kind'') manifest st = Inr (r, st')"
  using assms by (auto simp: apply_manifest_def Let_def split: option.splits sum.splits)

lemma rbac_ok_apply:
  assumes "apply_manifest repr codec manifest st = Inr (r, st')" "rbac_ok st"
  shows "rbac_ok st'"
  using assms(1)
proof (cases rule: apply_manifest_cases)
  case (1 n)
  from 1(2) assms(2) show ?thesis by (cases rule: apply_delete_cases) (auto intro: rbac_ok_intros)
next
  case 2
  from 2(2) assms(2) show ?thesis
    by (cases rule: apply_resource_cases) (auto simp: upsert_account_Inr intro: rbac_ok_intros)
qed

lemma rbac_ok_admin:
  assumes "ensure_admin_bundle u k e st = Inr st'" "rbac_ok st"
  shows "rbac_ok st'"
proof -
  have "find_role ''admin'' (upsert_role x admin_role) \<noteq> None" for x
    by (auto simp: find_role_def find_None_iff roles.in_put admin_role_def fresh_meta_def)
  then show ?thesis using assms
    by (auto simp: ensure_admin_bundle_def Let_def replace_state_def upsert_account_Inr split: sum.splits if_splits
        intro!: rbac_ok_intros)
qed

text \<open>C14: the access rights stay well-formed: whatever is applied, deleted or set up, in whatever order, accounts, roles and
  bindings are sorted by name with each name once, and every binding names a role that exists.\<close>

theorem rbac_invariant:
  assumes "(rbac_step repr codec)\<^sup>*\<^sup>* empty_rbac st"
  shows "rbac_ok st"
  using assms
proof (induction rule: rtranclp_induct)
  case (step y z)
  from step(2,3) show ?case by cases (auto intro: rbac_ok_apply rbac_ok_admin)
qed (simp add: rbac_ok_def empty_rbac_def)

theorem rbac_invariant_witness:
  "\<exists>st. ensure_admin_bundle ''alice'' ''k'' ''gui/v1'' empty_rbac = Inr st \<and> rbac_ok st"
proof -
  obtain st where s: "ensure_admin_bundle ''alice'' ''k'' ''gui/v1'' empty_rbac = Inr st"
    by (simp add: ensure_admin_bundle_def upsert_service_account_def empty_rbac_def replace_state_def versions_grow Let_def)
  then have "(rbac_step show_any codec)\<^sup>*\<^sup>* empty_rbac st" for show_any codec
    by (blast intro: rbac_step.step_admin)
  from rbac_invariant[OF this] s show ?thesis by blast
qed

section \<open>Who may do what\<close>

text \<open>What the bindings mean, without the order in which they are searched.\<close>

definition permits :: "policy_rule \<Rightarrow> string \<Rightarrow> string \<Rightarrow> string \<Rightarrow> bool" where
  "permits rule verb resource namespace =
     ((''*'' \<in> set (rule_verbs rule) \<or> verb \<in> set (rule_verbs rule)) \<and>
      (''*'' \<in> set (rule_resources rule) \<or> resource \<in> set (rule_resources rule)) \<and>
      (rule_namespaces rule = [] \<or> ''*'' \<in> set (rule_namespaces rule) \<or> namespace \<in> set (rule_namespaces rule)))"

definition granted :: "string \<Rightarrow> string \<Rightarrow> string \<Rightarrow> string \<Rightarrow> string \<Rightarrow> rbac_store \<Rightarrow> bool" where
  "granted u k verb resource namespace st =
     ((\<exists>a \<in> set (serviceAccounts st). account_name a = u \<and> sa_enabled a \<and> sa_publicKey a = k) \<and>
      (\<exists>b \<in> set (roleBindings st). u \<in> set (rb_subjects b) \<and>
        (\<exists>r \<in> set (rbac_roles st). role_name r = rb_roleName b \<and>
          (\<exists>rule \<in> set (role_rules r). permits rule verb resource namespace))))"

lemma role_allows_iff: "role_allows r v x n \<longleftrightarrow> (\<exists>rule \<in> set (role_rules r). permits rule v x n)"
  by (auto simp: role_allows_def permits_def match_value_def list_ex_iff Let_def)

lemma role_index_get:
  assumes "names_ok role_name (rbac_roles st)"
  shows "obj_get (role_index st) n = Some r \<longleftrightarrow> r \<in> set (rbac_roles st) \<and> role_name r = n"
proof -
  have d: "distinct (map role_name (rbac_roles st))" using assms by (simp add: names_ok_def)
  have "obj_get (role_index st) n = (case List.find (\<lambda>x. role_name x = n) (rev (rbac_roles st)) of
      Some x \<Rightarrow> Some x | None \<Rightarrow> None)"
    unfolding role_index_def using obj.get_fold[of role_name "\<lambda>x. x" "rbac_roles st" "[]" n]
    by (simp split: option.split)
  moreover have "inj_on role_name (set (rbac_roles st))" using d by (simp add: distinct_map)
  ultimately show ?thesis
    by (auto simp: find_None_iff inj_on_def dest!: find_SomeD split: option.splits)
qed

lemma bindings_for_subject_set: "set (bindings_for_subject u st) = {b \<in> set (roleBindings st). u \<in> set (rb_subjects b)}"
  by (auto simp: bindings_for_subject_def)

lemma role_index_case:
  assumes "names_ok role_name (rbac_roles st)"
  shows "(case obj_get (role_index st) n of None \<Rightarrow> False | Some r \<Rightarrow> Q r) \<longleftrightarrow>
    (\<exists>r \<in> set (rbac_roles st). role_name r = n \<and> Q r)"
proof (cases "obj_get (role_index st) n")
  case None
  then have "\<forall>r \<in> set (rbac_roles st). role_name r \<noteq> n" using role_index_get[OF assms] by (metis option.distinct(1))
  with None show ?thesis by auto
next
  case (Some r)
  then have "r \<in> set (rbac_roles st)" "role_name r = n" using role_index_get[OF assms, of n r] by simp_all
  moreover have "q = r" if "q \<in> set (rbac_roles st)" "role_name q = n" for q
    using that Some role_index_get[OF assms, of n q] by simp
  ultimately have "(\<exists>r \<in> set (rbac_roles st). role_name r = n \<and> Q r) \<longleftrightarrow> Q r" by blast
  with Some show ?thesis by simp
qed

lemma can_i_granted:
  assumes "rbac_ok st"
  shows "can_i u k verb resource namespace st \<longleftrightarrow> granted u k verb resource namespace st"
proof -
  have acc: "find_service_account u st = Some a \<longleftrightarrow> a \<in> set (serviceAccounts st) \<and> account_name a = u" for a
    using rbac_okD(1)[OF assms] by (simp add: find_service_account_def find_names_ok)
  have al: "allows_with_bindings bs verb resource namespace st \<longleftrightarrow>
      (\<exists>b \<in> set bs. \<exists>r \<in> set (rbac_roles st). role_name r = rb_roleName b \<and> role_allows r verb resource namespace)" for bs
    by (simp add: allows_with_bindings_def list_ex_iff role_index_case[OF rbac_okD(2)[OF assms]])
  show ?thesis
  proof (cases "find_service_account u st")
    case None
    then have "\<forall>a \<in> set (serviceAccounts st). account_name a \<noteq> u" using acc by (metis option.distinct(1))
    with None show ?thesis by (auto simp: can_i_def granted_def)
  next
    case (Some a)
    then have a: "a \<in> set (serviceAccounts st)" "account_name a = u" using acc by auto
    moreover have "x = a" if "x \<in> set (serviceAccounts st)" "account_name x = u" for x
      using that Some acc[of x] by simp
    ultimately have "(\<exists>x \<in> set (serviceAccounts st). account_name x = u \<and> sa_enabled x \<and> sa_publicKey x = k)
        \<longleftrightarrow> sa_enabled a \<and> sa_publicKey a = k" by blast
    then have "granted u k verb resource namespace st \<longleftrightarrow> (sa_enabled a \<and> sa_publicKey a = k) \<and>
        allows_with_bindings (bindings_for_subject u st) verb resource namespace st"
      unfolding granted_def al bindings_for_subject_set role_allows_iff by blast
    with Some a(2) show ?thesis by (simp add: can_i_def)
  qed
qed

lemma ensure_admin_bundle_empty:
  "\<exists>st. ensure_admin_bundle u k e empty_rbac = Inr st \<and> rbac_ok st \<and> can_i u k v x n st"
proof -
  obtain st where s: "ensure_admin_bundle u k e empty_rbac = Inr st"
    by (simp add: ensure_admin_bundle_def upsert_service_account_def empty_rbac_def replace_state_def versions_grow Let_def)
  moreover have ok: "rbac_ok st" by (rule rbac_ok_admin[OF s]) (simp add: rbac_ok_def empty_rbac_def)
  moreover have "can_i u k v x n st"
    using s by (auto simp: ensure_admin_bundle_def upsert_service_account_def empty_rbac_def replace_state_def Let_def
        put_service_account_def upsert_role_def upsert_role_binding_def replaced_or_appended_def versions_grow can_i_def
        find_service_account_def fresh_meta_def bindings_for_subject_def allows_with_bindings_def role_index_def
        admin_role_def role_allows_def match_value_def obj_get_def)
  ultimately show ?thesis by blast
qed

text \<open>C15: the check of a request is the meaning of the rights: a request is allowed exactly if its signer is an enabled account with
  the key it was signed with and a binding of this account names a role one of whose rules covers the
  verb, the resource and the namespace.\<close>

theorem can_i_spec:
  assumes "rbac_ok st"
  shows "can_i u k verb resource namespace st \<longleftrightarrow> granted u k verb resource namespace st"
  by (rule can_i_granted[OF assms])

theorem can_i_spec_witness:
  "\<exists>st. ensure_admin_bundle ''alice'' ''k'' ''gui/v1'' empty_rbac = Inr st \<and> granted ''alice'' ''k'' ''list'' ''roles'' ''cluster'' st"
  using ensure_admin_bundle_empty[of "''alice''" "''k''" "''gui/v1''" "''list''" "''roles''" "''cluster''"] can_i_spec by blast

text \<open>Deleting takes the rights away: after the account, or the last role or binding that grants something, has been deleted,
  the request it granted is refused; deleting never grants anything.\<close>

lemma granted_delete_account:
  "rbac_ok st \<Longrightarrow> granted u k v x n (delete_service_account st m) \<longleftrightarrow> u \<noteq> m \<and> (
     (\<exists>a \<in> set (serviceAccounts st). account_name a = u \<and> sa_enabled a \<and> sa_publicKey a = k) \<and>
     (\<exists>b \<in> set (roleBindings st). u \<in> set (rb_subjects b) \<and> m \<notin> set (rb_subjects b) \<and>
        (\<exists>r \<in> set (rbac_roles st). role_name r = rb_roleName b \<and> (\<exists>rule \<in> set (role_rules r). permits rule v x n))))"
  by (auto simp: granted_def accounts_deleted delete_service_account_lists rbac_okD(1,3))

text \<open>Deleting an account takes along every binding it is a subject of, and with it the rights of all other subjects of that
  binding: a user whose only binding is shared with the deleted account loses every right.\<close>

lemma shared_binding_lost:
  assumes "rbac_ok st" "\<And>b. b \<in> set (roleBindings st) \<Longrightarrow> u \<in> set (rb_subjects b) \<Longrightarrow> m \<in> set (rb_subjects b)"
  shows "\<not> can_i u k v x n (delete_service_account st m)"
  using assms by (auto simp: can_i_granted[OF rbac_ok_delete_account] granted_delete_account)

text \<open>C16: deleting a resource never grants anything, and a deleted account is refused whatever it asks for.\<close>

theorem deleting_revokes:
  assumes "rbac_ok st" "delete_action_name repr manifest = Inr (Some m)"
    and "apply_manifest repr codec manifest st = Inr (r, st')"
  shows "(can_i u k v x n st' \<longrightarrow> can_i u k v x n st) \<and>
    (text_of repr manifest ''kind'' = ''ServiceAccount'' \<longrightarrow> \<not> can_i m k v x n st')"
proof -
  have ok: "rbac_ok st'" by (rule rbac_ok_apply[OF assms(3,1)])
  have del: "apply_delete (text_of repr manifest ''apiVersion'') (text_of repr manifest ''kind'') m st = Inr (r, st')"
    using assms(3) by (rule apply_manifest_cases) (use assms(2) in auto)
  have "(granted u k v x n st' \<longrightarrow> granted u k v x n st) \<and>
      (text_of repr manifest ''kind'' = ''ServiceAccount'' \<longrightarrow> \<not> granted m k v x n st')"
    using del
  proof (cases rule: apply_delete_cases)
    case 1
    then show ?thesis using assms(1) by (auto simp: granted_delete_account) (auto simp: granted_def)
  next
    case 2
    then show ?thesis using assms(1) by (auto simp: granted_def roles_deleted delete_role_lists rbac_okD(2,3))
  next
    case 3
    then show ?thesis using assms(1) by (auto simp: granted_def delete_role_binding_lists rbac_okD(3))
  qed
  then show ?thesis using can_i_granted[OF ok] can_i_granted[OF assms(1)] by simp
qed

definition demo_deletion :: "js_value js_obj" where
  "demo_deletion = [(''apiVersion'', Str ''xenage.dev/v1''), (''kind'', Str ''ServiceAccount''),
     (''metadata'', Obj [(''name'', Str ''alice''), (''annotations'', Obj [(''xenage.io/action'', Str ''delete'')])])]"

definition no_codec :: msgspec_codec where
  "no_codec = \<lparr>convert_account = (\<lambda>m. Inl []), convert_role = (\<lambda>m. Inl []), convert_binding = (\<lambda>m. Inl []),
     account_builtins = (\<lambda>a. Null), role_builtins = (\<lambda>r. Null), binding_builtins = (\<lambda>b. Null)\<rparr>"

theorem deleting_revokes_witness:
  "\<exists>st r st'. can_i ''alice'' ''k'' ''list'' ''roles'' ''cluster'' st \<and>
     apply_manifest (\<lambda>v. []) no_codec demo_deletion st = Inr (r, st') \<and>
     \<not> can_i ''alice'' ''k'' ''list'' ''roles'' ''cluster'' st'"
proof -
  obtain st where st: "rbac_ok st" "can_i ''alice'' ''k'' ''list'' ''roles'' ''cluster'' st"
    using ensure_admin_bundle_empty[of "''alice''" "''k''" "''gui/v1''" "''list''" "''roles''" "''cluster''"] by blast
  have d: "delete_action_name (\<lambda>v. []) demo_deletion = Inr (Some ''alice'')" by code_simp
  have t: "text_of (\<lambda>v. []) demo_deletion ''kind'' = ''ServiceAccount''"
    "text_of (\<lambda>v. []) demo_deletion ''apiVersion'' = ''xenage.dev/v1''" "ensure_cluster_wide_manifest demo_deletion = None"
    by code_simp+
  then have "\<exists>r. apply_manifest (\<lambda>v. []) no_codec demo_deletion st = Inr (r, delete_service_account st ''alice'')"
    by (simp add: apply_manifest_def d apply_delete_def ACCOUNT_API_def versions_grow)
  with deleting_revokes[OF st(1) d] t(1) st(2) show ?thesis by blast
qed

end
