(* ===== verification/RbacBackend.thy ===== *)
theory RbacBackend
  imports RbacServer Rbac ConnectionStore
begin

text \<open>
  The access rights between the GUI and the control plane: the commands of \<open>src-tauri/src/rbac_connection.rs\<close>
  (Rust), which the editor of \<open>Rbac\<close> calls, in front of the requests of \<open>RbacServer\<close>. Signed requests, the check
  of a pair of keys, and the conversion between YAML texts and values are parameters; the body of a request
  is the value it encodes. A map of serde\_json is an object whose order does not matter.
\<close>

section \<open>The configuration\<close>

record RbacConnectionConfig =
  rcfg_urls :: "string list"
  rcfg_user_id :: string
  rcfg_role :: string
  rcfg_public_key :: string
  rcfg_private_key :: string

definition rbac_parse_connection_yaml :: "string \<Rightarrow> string + RbacConnectionConfig" where
  "rbac_parse_connection_yaml config_yaml =
     (let s = read_lines config_yaml; fs = rd_fields s;
          urls = (if rd_urls s = [] then (case either_field fs ''controlPlaneUrl'' ''control_plane_url'' of
                    Some u \<Rightarrow> [u] | None \<Rightarrow> []) else rd_urls s) in
      if urls = [] then Inl ''missing controlPlaneUrls''
      else case either_field fs ''publicKey'' ''public_key'' of
        None \<Rightarrow> Inl ''missing publicKey''
      | Some public_key \<Rightarrow>
          (case either_field fs ''privateKey'' ''private_key'' of
            None \<Rightarrow> Inl ''missing privateKey''
          | Some private_key \<Rightarrow> Inr
              \<lparr>rcfg_urls = urls, rcfg_user_id = nullish (either_field fs ''id'' ''user_id'') ''admin'',
               rcfg_role = nullish (fs ''role'') ''admin'', rcfg_public_key = public_key, rcfg_private_key = private_key\<rparr>))"

definition without_cluster :: "GuiConnectionConfig \<Rightarrow> RbacConnectionConfig" where
  "without_cluster c = \<lparr>rcfg_urls = cfg_urls c, rcfg_user_id = cfg_user_id c, rcfg_role = cfg_role c,
     rcfg_public_key = cfg_public_key c, rcfg_private_key = cfg_private_key c\<rparr>"

text \<open>The parser exists twice in the backend; the copies agree.\<close>

lemma same_parser: "rbac_parse_connection_yaml y = map_sum id without_cluster (parse_gui_connection_yaml y)"
  by (simp add: rbac_parse_connection_yaml_def parse_gui_connection_yaml_def config_of_def without_cluster_def Let_def
      split: option.splits)

section \<open>The commands\<close>

record rbac_backend =
  signed_request :: "RbacConnectionConfig \<Rightarrow> string \<Rightarrow> string \<Rightarrow> string \<Rightarrow> js_value option \<Rightarrow> string + http_reply"
  decode_reply :: "string \<Rightarrow> string + js_value"
  check_keys :: "string \<Rightarrow> string \<Rightarrow> string + unit"
  to_yaml :: "js_value \<Rightarrow> string + string"
  from_yaml :: "string \<Rightarrow> string + js_value"
  status_text :: "http_reply \<Rightarrow> string"

definition rbac_config :: "rbac_backend \<Rightarrow> string \<Rightarrow> string + RbacConnectionConfig" where
  "rbac_config be config_yaml =
     (case rbac_parse_connection_yaml config_yaml of
       Inl e \<Rightarrow> Inl e
     | Inr config \<Rightarrow>
         if rcfg_role config \<noteq> ''admin'' then Inl ''only admin role is supported''
         else (case check_keys be (rcfg_private_key config) (rcfg_public_key config) of
           Inl e \<Rightarrow> Inl e | Inr _ \<Rightarrow> Inr config))"

definition rbac_rejected :: "rbac_backend \<Rightarrow> http_reply \<Rightarrow> string" where
  "rbac_rejected be r = reply_url r @ '': control-plane rejected request ('' @ status_text be r @ ''): '' @ reply_body r"

definition decoded :: "rbac_backend \<Rightarrow> http_reply \<Rightarrow> string + js_value" where
  "decoded be r = map_sum (\<lambda>e. ''invalid control-plane response: '' @ e) (\<lambda>v. v) (decode_reply be (reply_body r))"

text \<open>The loop both commands have: the URLs in turn, the errors collected, the first reply that is a success.\<close>

fun first_success ::
  "rbac_backend \<Rightarrow> RbacConnectionConfig \<Rightarrow> string \<Rightarrow> string \<Rightarrow> js_value option \<Rightarrow> string list \<Rightarrow> string list \<Rightarrow>
   string + js_value" where
  "first_success be config meth path body [] errors = Inl (join_with '' | '' errors)"
| "first_success be config meth path body (base # bases) errors =
     (case signed_request be config meth base path body of
       Inl e \<Rightarrow> first_success be config meth path body bases (errors @ [e])
     | Inr r \<Rightarrow> if is_success r then decoded be r
         else first_success be config meth path body bases (errors @ [rbac_rejected be r]))"

definition map_kind_to_resource :: "string \<Rightarrow> string + string \<times> string" where
  "map_kind_to_resource kind =
     (if kind = ''User'' then Inr (''serviceaccounts'', ''User'')
      else if kind = ''Role'' then Inr (''roles'', ''Role'')
      else if kind = ''RoleBinding'' then Inr (''rolebindings'', ''RoleBinding'')
      else Inl (''unsupported RBAC kind: '' @ kind))"

text \<open>\<open>Value::get\<close>, which finds nothing in a value that is no object.\<close>

definition value_get :: "js_value \<Rightarrow> string \<Rightarrow> js_value option" where
  "value_get v k = (case v of Obj ps \<Rightarrow> obj_get ps k | _ \<Rightarrow> None)"

definition item_name :: "js_value \<Rightarrow> string" where
  "item_name item =
     (case value_get item ''metadata'' of
       None \<Rightarrow> []
     | Some metadata \<Rightarrow> (case value_get metadata ''name'' of Some (Str n) \<Rightarrow> n | _ \<Rightarrow> []))"

fun resource_entries :: "rbac_backend \<Rightarrow> string \<Rightarrow> js_value list \<Rightarrow> string + RbacYamlResourceEntry list" where
  "resource_entries be kind [] = Inr []"
| "resource_entries be kind (item # items) =
     (case to_yaml be item of
       Inl e \<Rightarrow> Inl (''failed to build YAML from resource: '' @ e)
     | Inr yaml \<Rightarrow> map_sum id
         ((#) \<lparr>entry_kind = kind, entry_name = item_name item, entry_yaml = yaml, entry_manifest = item\<rparr>)
         (resource_entries be kind items))"

definition list_rbac_yaml_resources_from_yaml ::
  "rbac_backend \<Rightarrow> string \<Rightarrow> string \<Rightarrow> string + RbacYamlResourceEntry list" where
  "list_rbac_yaml_resources_from_yaml be config_yaml kind =
     (case rbac_config be config_yaml of
       Inl e \<Rightarrow> Inl e
     | Inr config \<Rightarrow>
         (case map_kind_to_resource kind of
           Inl e \<Rightarrow> Inl e
         | Inr (resource, listed_kind) \<Rightarrow>
             (case first_success be config ''GET'' (''/v1/resources/'' @ resource @ ''?namespace=cluster'') None
                 (rcfg_urls config) [] of
               Inl e \<Rightarrow> Inl e
             | Inr reply \<Rightarrow>
                 (case value_get reply ''items'' of
                   Some (Arr items) \<Rightarrow> map_sum id (sort_key entry_name) (resource_entries be listed_kind items)
                 | _ \<Rightarrow> Inr []))))"

definition object_at :: "js_value js_obj \<Rightarrow> string \<Rightarrow> js_value js_obj option" where
  "object_at ps k = (case obj_get ps k of None \<Rightarrow> Some [] | Some (Obj o1) \<Rightarrow> Some o1 | Some _ \<Rightarrow> None)"

definition mark_deleted :: "js_value js_obj \<Rightarrow> string + js_value js_obj" where
  "mark_deleted manifest =
     (case object_at manifest ''metadata'' of
       None \<Rightarrow> Inl ''manifest.metadata must be an object''
     | Some metadata \<Rightarrow>
         (case object_at metadata ''annotations'' of
           None \<Rightarrow> Inl ''manifest.metadata.annotations must be an object''
         | Some annotations \<Rightarrow> Inr (obj_set ''metadata'' (Obj (obj_set ''annotations''
             (Obj (obj_set ''xenage.io/action'' (Str ''delete'') annotations)) metadata)) manifest)))"

definition apply_rbac_yaml_resource_from_yaml :: "rbac_backend \<Rightarrow> string \<Rightarrow> string \<Rightarrow> bool \<Rightarrow> string + js_value" where
  "apply_rbac_yaml_resource_from_yaml be config_yaml manifest_yaml delete_mode =
     (case rbac_config be config_yaml of
       Inl e \<Rightarrow> Inl e
     | Inr config \<Rightarrow>
         (case from_yaml be manifest_yaml of
           Inl e \<Rightarrow> Inl (''invalid manifest YAML: '' @ e)
         | Inr (Obj manifest) \<Rightarrow>
             (case (if delete_mode then mark_deleted manifest else Inr manifest) of
               Inl e \<Rightarrow> Inl e
             | Inr body \<Rightarrow> first_success be config ''POST'' ''/v1/resources/apply'' (Some (Obj body)) (rcfg_urls config) [])
         | Inr _ \<Rightarrow> Inl ''manifest must be a YAML object''))"

section \<open>The control plane behind the commands\<close>

record control_plane =
  cp_repr :: "js_value \<Rightarrow> string"
  cp_codec :: msgspec_codec
  cp_rbac :: rbac_store
  cp_log :: "sync_event list"

text \<open>\<open>_handle\<close> of \<open>network/http_transport.py\<close>: a request that is handled is answered with 200 and the encoded
  result, an error of the handler with 401 or 500; a request may also not arrive, or not be verified.\<close>

definition plane_answers :: "rbac_backend \<Rightarrow> (string \<Rightarrow> control_plane) \<Rightarrow> bool" where
  "plane_answers be plane \<longleftrightarrow>
     (\<forall>config base body r. signed_request be config ''POST'' base ''/v1/resources/apply'' (Some body) = Inr r \<longrightarrow> is_success r \<longrightarrow>
        (\<exists>result. handle_resources_apply (cp_repr (plane base)) (cp_codec (plane base)) body
           (rcfg_user_id config, rcfg_public_key config) (cp_rbac (plane base), cp_log (plane base)) = Inr result)) \<and>
     (\<forall>config base path r. signed_request be config ''GET'' base path None = Inr r \<longrightarrow> is_success r \<longrightarrow>
        (\<exists>v. handle_resources_list (cp_codec (plane base)) path (rcfg_user_id config, rcfg_public_key config) (cp_rbac (plane base)) = Inr v \<and>
           decode_reply be (reply_body r) = Inr v))"

text \<open>What msgspec documents of encoding: the keys of an encoded structure are the names of its fields, class variables
  are not among them; a field that has its default may be left out, and a boolean that has its default is.\<close>

definition struct_keys :: "string list \<Rightarrow> js_value \<Rightarrow> bool" where
  "struct_keys names v = (case v of Obj ps \<Rightarrow> set (obj_keys ps) \<subseteq> set names | _ \<Rightarrow> False)"

definition encodes_fields :: "msgspec_codec \<Rightarrow> bool" where
  "encodes_fields codec \<longleftrightarrow>
     (\<forall>a. struct_keys [''apiVersion'', ''metadata'', ''spec''] (account_builtins codec a)) \<and>
     (\<forall>r. struct_keys [''apiVersion'', ''metadata'', ''rules''] (role_builtins codec r)) \<and>
     (\<forall>b. struct_keys [''apiVersion'', ''metadata'', ''subjects'', ''roleRef''] (binding_builtins codec b))"

lemma map_sum_Inr: "map_sum f g x = Inr y \<longleftrightarrow> (\<exists>z. x = Inr z \<and> y = g z)"
  by (cases x) auto

lemma first_success_Inr:
  assumes "first_success be config meth path body bases errors = Inr v"
  shows "\<exists>base r. signed_request be config meth base path body = Inr r \<and> is_success r \<and> decode_reply be (reply_body r) = Inr v"
  using assms
proof (induction bases arbitrary: errors)
  case (Cons base bases)
  then show ?case
    by (auto simp: decoded_def map_sum_Inr split: sum.splits if_splits)
qed simp

lemma resource_entries_Inr:
  "resource_entries be kind items = Inr es \<Longrightarrow>
     list_all2 (\<lambda>item e. to_yaml be item = Inr (entry_yaml e) \<and> entry_manifest e = item \<and> entry_name e = item_name item) items es"
  by (induction items arbitrary: es) (auto simp: map_sum_Inr split: sum.splits)

section \<open>A listed resource cannot be sent back\<close>

lemma list_all2_from: "list_all2 Q xs ys \<Longrightarrow> y \<in> set ys \<Longrightarrow> \<exists>x \<in> set xs. Q x y"
  by (induction rule: list_all2_induct) auto

lemma list_resources_no_kind:
  assumes "encodes_fields codec" "list_resources codec resource st = Inr items" "item \<in> set items"
  shows "\<exists>ps. item = Obj ps \<and> obj_get ps ''kind'' = None"
proof -
  have "struct_keys [''apiVersion'', ''metadata'', ''spec''] item \<or> struct_keys [''apiVersion'', ''metadata'', ''rules''] item \<or>
      struct_keys [''apiVersion'', ''metadata'', ''subjects'', ''roleRef''] item"
    using assms by (auto simp: list_resources_def encodes_fields_def split: if_splits)
  then obtain ps where "item = Obj ps" "''kind'' \<notin> set (obj_keys ps)"
    by (auto simp: struct_keys_def split: js_value.splits)
  then show ?thesis by (simp add: obj_get_None_iff)
qed

lemma handle_resources_list_path:
  assumes "handle_resources_list codec (''/v1/resources/'' @ resource @ ''?namespace=cluster'') auth st = Inr v"
    and "CHR ''?'' \<notin> set resource"
  shows "\<exists>items. list_resources codec resource st = Inr items \<and> v = Obj [(''items'', Arr items)]"
proof -
  have "takeWhile (\<lambda>c. c \<noteq> CHR ''?'') (resource @ ''?namespace=cluster'') = resource"
    using assms(2) by (auto simp: takeWhile_append)
  then show ?thesis using assms(1)
    by (auto simp: handle_resources_list_def starts_with_def map_sum_Inr split: if_splits)
qed

text \<open>A listing that succeeds is that of one of the control planes.\<close>

lemma listing_outcome:
  assumes "plane_answers be plane" "list_rbac_yaml_resources_from_yaml be y k = Inr es" "map_kind_to_resource k = Inr (resource, k')"
  shows "\<exists>base items es0. list_resources (cp_codec (plane base)) resource (cp_rbac (plane base)) = Inr items \<and>
    resource_entries be k' items = Inr es0 \<and> es = sort_key entry_name es0"
proof -
  obtain config where c: "rbac_config be y = Inr config"
    using assms(2) by (auto simp: list_rbac_yaml_resources_from_yaml_def split: sum.splits)
  with assms(2,3) obtain reply where
    f: "first_success be config ''GET'' (''/v1/resources/'' @ resource @ ''?namespace=cluster'') None (rcfg_urls config) [] = Inr reply"
    by (auto simp: list_rbac_yaml_resources_from_yaml_def split: sum.splits)
  then obtain base r where "signed_request be config ''GET'' base (''/v1/resources/'' @ resource @ ''?namespace=cluster'') None = Inr r"
      "is_success r" "decode_reply be (reply_body r) = Inr reply"
    using first_success_Inr[OF f] by blast
  then have h: "handle_resources_list (cp_codec (plane base)) (''/v1/resources/'' @ resource @ ''?namespace=cluster'')
      (rcfg_user_id config, rcfg_public_key config) (cp_rbac (plane base)) = Inr reply"
    using assms(1) unfolding plane_answers_def by fastforce
  have "CHR ''?'' \<notin> set resource" using assms(3) by (auto simp: map_kind_to_resource_def split: if_splits)
  then obtain items where l: "list_resources (cp_codec (plane base)) resource (cp_rbac (plane base)) = Inr items"
      "reply = Obj [(''items'', Arr items)]"
    using handle_resources_list_path[OF h] by blast
  then have "value_get reply ''items'' = Some (Arr items)" by (simp add: value_get_def obj_get_def)
  then have "map_sum id (sort_key entry_name) (resource_entries be k' items) = Inr es"
    using assms(2,3) c f by (simp add: list_rbac_yaml_resources_from_yaml_def)
  with l(1) show ?thesis by (auto simp: map_sum_Inr)
qed

lemma listed_entry:
  assumes "plane_answers be plane" "\<And>base. encodes_fields (cp_codec (plane base))"
    and "list_rbac_yaml_resources_from_yaml be y k = Inr es" "e \<in> set es"
  shows "\<exists>ps. to_yaml be (Obj ps) = Inr (entry_yaml e) \<and> obj_get ps ''kind'' = None"
proof -
  obtain resource k' where "map_kind_to_resource k = Inr (resource, k')"
    using assms(3) by (auto simp: list_rbac_yaml_resources_from_yaml_def split: sum.splits)
  from listing_outcome[OF assms(1,3) this] obtain base items es0 where
    l: "list_resources (cp_codec (plane base)) resource (cp_rbac (plane base)) = Inr items"
    and i: "resource_entries be k' items = Inr es0" "es = sort_key entry_name es0" by blast
  then obtain item where "item \<in> set items" "to_yaml be item = Inr (entry_yaml e)"
    using list_all2_from[OF resource_entries_Inr[OF i(1)], of e] assms(4) by auto
  then show ?thesis using list_resources_no_kind[OF assms(2) l] by blast
qed

lemma mark_deleted_kind: "mark_deleted ps = Inr qs \<Longrightarrow> obj_get qs ''kind'' = obj_get ps ''kind''"
  by (auto simp: mark_deleted_def split: option.splits)

lemma no_kind_rejected:
  assumes "plane_answers be plane" "obj_get ps ''kind'' = None"
  shows "\<exists>e. first_success be config ''POST'' ''/v1/resources/apply'' (Some (Obj ps)) bases errors = Inl e"
proof (cases "first_success be config ''POST'' ''/v1/resources/apply'' (Some (Obj ps)) bases errors")
  case (Inr v)
  then obtain base result where "handle_resources_apply (cp_repr (plane base)) (cp_codec (plane base)) (Obj ps)
      (rcfg_user_id config, rcfg_public_key config) (cp_rbac (plane base), cp_log (plane base)) = Inr result"
    using first_success_Inr[OF Inr] assms(1) unfolding plane_answers_def by blast
  then show ?thesis
    using assms(2) by (simp add: handle_resources_apply_def authorize_apply_def text_of_def resource_kind_to_name_def)
qed simp

text \<open>C17: what the GUI lists it cannot change: the backend turns each listed resource into a YAML text, and every attempt to
  apply one of these texts again, to change the resource or to delete it, is rejected, whoever signs it and
  whatever rights there are then: the kind of the resource is a class variable, which is not encoded, and the control plane
  refuses a manifest without a kind. The editor reports a failed deletion and keeps the resource.\<close>

theorem listed_resources_cannot_be_changed:
  assumes "plane_answers be plane" "\<And>base. encodes_fields (cp_codec (plane base))"
    and "plane_answers be' plane'" "\<And>v t. to_yaml be v = Inr t \<Longrightarrow> from_yaml be' t = Inr v"
    and "list_rbac_yaml_resources_from_yaml be y k = Inr es" "e \<in> set es"
  shows "\<exists>reason. apply_rbac_yaml_resource_from_yaml be' y' (entry_yaml e) delete_mode = Inl reason \<and>
    resources (handleDeleteSelected_end k c n
      (snd (delete_loop [ApplyRbacYamlResource y' (entry_yaml e) True] [Inl (OtherReason reason)]), listed) s) = resources s \<and>
    rbac_status (handleDeleteSelected_end k c n
      (snd (delete_loop [ApplyRbacYamlResource y' (entry_yaml e) True] [Inl (OtherReason reason)]), listed) s) =
      Some ''Failed to delete selected resources.''"
proof -
  obtain ps where ps: "from_yaml be' (entry_yaml e) = Inr (Obj ps)" "obj_get ps ''kind'' = None"
    using listed_entry[OF assms(1,2,5,6)] assms(4) by blast
  have "\<exists>reason. apply_rbac_yaml_resource_from_yaml be' y' (entry_yaml e) delete_mode = Inl reason"
  proof (cases "rbac_config be' y'")
    case (Inl x)
    then show ?thesis by (simp add: apply_rbac_yaml_resource_from_yaml_def)
  next
    case (Inr config)
    show ?thesis
    proof (cases "if delete_mode then mark_deleted ps else Inr ps")
      case (Inl x)
      with Inr ps show ?thesis by (simp add: apply_rbac_yaml_resource_from_yaml_def)
    next
      case body: (Inr qs)
      then have "obj_get qs ''kind'' = None" using ps(2) mark_deleted_kind by (auto split: if_splits)
      with Inr ps body no_kind_rejected[OF assms(3)] show ?thesis
        by (simp add: apply_rbac_yaml_resource_from_yaml_def)
    qed
  qed
  then obtain reason where "apply_rbac_yaml_resource_from_yaml be' y' (entry_yaml e) delete_mode = Inl reason" by blast
  then show ?thesis
    by (auto simp: delete_loop_def handleDeleteSelected_end_def delete_failed_def error_text_def)
qed

section \<open>What is listed\<close>

definition encodes_account :: "msgspec_codec \<Rightarrow> service_account \<Rightarrow> bool" where
  "encodes_account codec a =
     (case (as_dict (value_get (account_builtins codec a) ''metadata''), as_dict (value_get (account_builtins codec a) ''spec'')) of
       (Some m, Some sp) \<Rightarrow> obj_get m ''name'' = Some (Str (account_name a)) \<and> obj_get sp ''engine'' = Some (Str (sa_engine a)) \<and>
         obj_get sp ''publicKey'' = Some (Str (sa_publicKey a)) \<and>
         obj_get sp ''enabled'' = (if sa_enabled a then None else Some (Bool False))
     | _ \<Rightarrow> False)"

definition encodes_role :: "msgspec_codec \<Rightarrow> rbac_role \<Rightarrow> bool" where
  "encodes_role codec r =
     (case as_dict (value_get (role_builtins codec r) ''metadata'') of
       Some m \<Rightarrow> obj_get m ''name'' = Some (Str (role_name r)) \<and>
         (case value_get (role_builtins codec r) ''rules'' of
           None \<Rightarrow> role_rules r = [] | Some (Arr rs) \<Rightarrow> length rs = length (role_rules r) | _ \<Rightarrow> False)
     | _ \<Rightarrow> False)"

text \<open>The row of an account, as the editor shows it.\<close>

definition account_row :: "service_account \<Rightarrow> js_value" where
  "account_row a = Obj [(''name'', Str (account_name a)), (''engine'', Str (sa_engine a)), (''enabled'', Bool False),
     (''public_key'', Str (sa_publicKey a))]"

definition role_row :: "rbac_role \<Rightarrow> js_value" where
  "role_row r = Obj [(''name'', Str (role_name r)), (''rule_count'', Num (int (length (role_rules r))))]"

lemma as_dict_Some: "as_dict v = Some d \<longleftrightarrow> v = Some (Obj d)"
  by (auto simp: as_dict_def split: option.splits js_value.splits)

lemma value_get_toRecord: "value_get v k = Some x \<Longrightarrow> field (toRecord v) k = x"
  by (auto simp: value_get_def field_def split: js_value.splits)

lemma value_get_None: "value_get v k = None \<Longrightarrow> field (toRecord v) k = Undefined"
  by (auto simp: value_get_def field_def split: js_value.splits)

lemma account_entry:
  assumes "encodes_account codec a"
  shows "entry_manifest e = account_builtins codec a \<Longrightarrow> toUserRow e = account_row a" "item_name (account_builtins codec a) = account_name a"
proof -
  obtain m sp where m: "value_get (account_builtins codec a) ''metadata'' = Some (Obj m)" "value_get (account_builtins codec a) ''spec'' = Some (Obj sp)"
    and f: "obj_get m ''name'' = Some (Str (account_name a))" "obj_get sp ''engine'' = Some (Str (sa_engine a))"
      "obj_get sp ''publicKey'' = Some (Str (sa_publicKey a))" "obj_get sp ''enabled'' = (if sa_enabled a then None else Some (Bool False))"
    using assms(1) by (auto simp: encodes_account_def as_dict_Some split: option.splits)
  show "item_name (account_builtins codec a) = account_name a"
    using m f by (simp add: item_name_def value_get_def[of "Obj _"])
  show "toUserRow e = account_row a" if "entry_manifest e = account_builtins codec a"
    using f that value_get_toRecord[OF m(1)] value_get_toRecord[OF m(2)]
    by (simp add: toUserRow_def resource_name_def field_def[of m] field_def[of sp] or_else_def account_row_def Let_def)
qed

lemma role_entry:
  assumes "encodes_role codec r"
  shows "entry_manifest e = role_builtins codec r \<Longrightarrow> toRoleRow e = role_row r" "item_name (role_builtins codec r) = role_name r"
proof -
  obtain m where m: "value_get (role_builtins codec r) ''metadata'' = Some (Obj m)" "obj_get m ''name'' = Some (Str (role_name r))"
    using assms(1) by (auto simp: encodes_role_def as_dict_Some split: option.splits)
  have len: "length (toArray (field (toRecord (role_builtins codec r)) ''rules'')) = length (role_rules r)"
    using assms(1) m by (auto simp: encodes_role_def as_dict_def value_get_toRecord value_get_None split: option.splits js_value.splits)
  show "item_name (role_builtins codec r) = role_name r"
    using m by (simp add: item_name_def value_get_def[of "Obj _"])
  show "toRoleRow e = role_row r" if "entry_manifest e = role_builtins codec r"
    using m(2) that value_get_toRecord[OF m(1)] len
    by (simp add: toRoleRow_def resource_name_def field_def[of m] or_else_def role_row_def Let_def)
qed

lemma entries_rows:
  assumes "resource_entries be k (map enc xs) = Inr es"
    and "\<And>x e. x \<in> set xs \<Longrightarrow> entry_manifest e = enc x \<Longrightarrow> row e = shown x" "\<And>x. x \<in> set xs \<Longrightarrow> item_name (enc x) = key x"
  shows "map row es = map shown xs" "map entry_name es = map key xs"
proof -
  have "list_all2 (\<lambda>x e. entry_manifest e = enc x \<and> entry_name e = item_name (enc x)) xs es"
    using resource_entries_Inr[OF assms(1)] by (simp add: list_all2_map1 list_all2_conv_all_nth)
  then have "map row es = map shown xs \<and> map entry_name es = map key xs"
    using assms(2,3) by (induction rule: list_all2_induct) auto
  then show "map row es = map shown xs" "map entry_name es = map key xs" by simp_all
qed


section \<open>An example\<close>

definition encode_rule :: "policy_rule \<Rightarrow> js_value" where
  "encode_rule rule = Obj [(''apiGroups'', Arr (map Str (rule_apiGroups rule))), (''namespaces'', Arr (map Str (rule_namespaces rule))),
     (''resources'', Arr (map Str (rule_resources rule))), (''verbs'', Arr (map Str (rule_verbs rule)))]"

definition demo_codec :: msgspec_codec where
  "demo_codec = \<lparr>convert_account = (\<lambda>m. Inl []), convert_role = (\<lambda>m. Inl []), convert_binding = (\<lambda>m. Inl []),
     account_builtins = (\<lambda>a. Obj [(''metadata'', Obj [(''name'', Str (account_name a))]),
       (''spec'', Obj ([(''engine'', Str (sa_engine a)), (''publicKey'', Str (sa_publicKey a))] @
          (if sa_enabled a then [] else [(''enabled'', Bool False)])))]),
     role_builtins = (\<lambda>r. Obj [(''metadata'', Obj [(''name'', Str (role_name r))]), (''rules'', Arr (map encode_rule (role_rules r)))]),
     binding_builtins = (\<lambda>b. Obj [(''metadata'', Obj [(''name'', Str (binding_name b))]),
       (''roleRef'', Obj [(''apiGroup'', Str (rb_roleApiGroup b)), (''name'', Str (rb_roleName b))])])\<rparr>"

definition demo_rights :: rbac_store where
  "demo_rights = \<lparr>rbac_version = 3,
     serviceAccounts = [\<lparr>sa_apiVersion = ACCOUNT_API, sa_metadata = fresh_meta ''admin'', sa_engine = ''gui/v1'',
       sa_publicKey = ''REPLACE_WITH_GENERATED_PUBLIC_KEY'', sa_enabled = True\<rparr>],
     rbac_roles = [admin_role],
     roleBindings = [\<lparr>rb_apiVersion = RBAC_API, rb_metadata = fresh_meta ''admin-binding-admin'', rb_subjects = [''admin''],
       rb_roleApiGroup = ''rbac.authorization.xenage.dev'', rb_roleName = ''admin''\<rparr>]\<rparr>"

definition demo_plane :: control_plane where
  "demo_plane = \<lparr>cp_repr = (\<lambda>v. []), cp_codec = demo_codec, cp_rbac = demo_rights, cp_log = []\<rparr>"

definition demo_item :: js_value where
  "demo_item = Obj [(''metadata'', Obj [(''name'', Str ''admin'')]),
     (''spec'', Obj [(''engine'', Str ''gui/v1''), (''publicKey'', Str ''REPLACE_WITH_GENERATED_PUBLIC_KEY'')])]"

definition demo_reply :: "string + 'a \<Rightarrow> http_reply" where
  "demo_reply r = (case r of
     Inr v \<Rightarrow> \<lparr>reply_status = 200, reply_body = [], reply_url = []\<rparr>
   | Inl e \<Rightarrow> \<lparr>reply_status = 401, reply_body = e, reply_url = []\<rparr>)"

definition demo_backend :: rbac_backend where
  "demo_backend = \<lparr>signed_request = (\<lambda>config meth base path body.
       let auth = (rcfg_user_id config, rcfg_public_key config) in
       case body of
         None \<Rightarrow> if path = ''/v1/resources/serviceaccounts?namespace=cluster''
                 then Inr (demo_reply (handle_resources_list demo_codec path auth demo_rights)) else Inl ''unreachable''
       | Some b \<Rightarrow> Inr (demo_reply (handle_resources_apply (\<lambda>v. []) demo_codec b auth (demo_rights, [])))),
     decode_reply = (\<lambda>t. Inr (Obj [(''items'', Arr [demo_item])])),
     check_keys = (\<lambda>private_key public_key. Inr ()),
     to_yaml = (\<lambda>v. if v = demo_item then Inr ''admin'' else Inl []),
     from_yaml = (\<lambda>t. if t = ''admin'' then Inr demo_item else Inl []),
     status_text = (\<lambda>r. [])\<rparr>"

lemma demo_listing:
  "handle_resources_list demo_codec ''/v1/resources/serviceaccounts?namespace=cluster'' auth demo_rights = Inr v \<Longrightarrow>
     v = Obj [(''items'', Arr [demo_item])]"
  using handle_resources_list_path[of demo_codec "''serviceaccounts''" auth demo_rights v]
  by (auto simp: list_resources_def demo_rights_def demo_codec_def demo_item_def fresh_meta_def)

lemma demo_success: "is_success (demo_reply r) \<longleftrightarrow> (\<exists>v. r = Inr v)"
  by (cases r) (simp_all add: demo_reply_def is_success_def)

lemma demo_answers: "plane_answers demo_backend (\<lambda>base. demo_plane)"
  unfolding plane_answers_def
  by (auto simp: demo_backend_def demo_plane_def Let_def demo_success split: if_splits dest: demo_listing)

lemma demo_encodes:
  "encodes_fields demo_codec" "encodes_account demo_codec a" "encodes_role demo_codec r"
  by (simp_all add: encodes_fields_def struct_keys_def demo_codec_def obj_keys_def encodes_account_def encodes_role_def
      value_get_def as_dict_def obj_get_def)

lemma demo_listed: "\<exists>e. entry_yaml e = ''admin'' \<and> list_rbac_yaml_resources_from_yaml demo_backend DEFAULT_GUI_CONNECTION_YAML ''User'' = Inr [e]"
proof -
  have c: "rbac_config demo_backend DEFAULT_GUI_CONNECTION_YAML = Inr \<lparr>rcfg_urls = [''http://127.0.0.1:8734''], rcfg_user_id = ''admin'',
      rcfg_role = ''admin'', rcfg_public_key = ''REPLACE_WITH_GENERATED_PUBLIC_KEY'', rcfg_private_key = ''REPLACE_WITH_GENERATED_PRIVATE_KEY''\<rparr>"
    by (simp add: rbac_config_def same_parser default_yaml_parses without_cluster_def demo_backend_def)
  have "can_i ''admin'' ''REPLACE_WITH_GENERATED_PUBLIC_KEY'' ''list'' ''serviceaccounts'' ''cluster'' demo_rights"
    by code_simp
  then have "\<exists>v. handle_resources_list demo_codec ''/v1/resources/serviceaccounts?namespace=cluster''
      (''admin'', ''REPLACE_WITH_GENERATED_PUBLIC_KEY'') demo_rights = Inr v"
    by (simp add: handle_resources_list_def starts_with_def list_resources_def)
  then have "first_success demo_backend \<lparr>rcfg_urls = [''http://127.0.0.1:8734''], rcfg_user_id = ''admin'',
      rcfg_role = ''admin'', rcfg_public_key = ''REPLACE_WITH_GENERATED_PUBLIC_KEY'', rcfg_private_key = ''REPLACE_WITH_GENERATED_PRIVATE_KEY''\<rparr>
      ''GET'' ''/v1/resources/serviceaccounts?namespace=cluster'' None [''http://127.0.0.1:8734''] [] = Inr (Obj [(''items'', Arr [demo_item])])"
    by (auto simp: demo_backend_def decoded_def demo_success)
  moreover have "resource_entries demo_backend ''User'' [demo_item] = Inr [\<lparr>entry_kind = ''User'', entry_name = item_name demo_item,
      entry_yaml = ''admin'', entry_manifest = demo_item\<rparr>]"
    by (simp add: demo_backend_def)
  ultimately show ?thesis
    by (simp add: list_rbac_yaml_resources_from_yaml_def c map_kind_to_resource_def value_get_def obj_get_def
        del: first_success.simps resource_entries.simps)
qed

theorem listed_resources_cannot_be_changed_witness:
  "\<exists>reason. apply_rbac_yaml_resource_from_yaml demo_backend DEFAULT_GUI_CONNECTION_YAML ''admin'' True = Inl reason"
proof -
  obtain e where e: "entry_yaml e = ''admin''"
    "list_rbac_yaml_resources_from_yaml demo_backend DEFAULT_GUI_CONNECTION_YAML ''User'' = Inr [e]"
    using demo_listed by blast
  have "encodes_fields (cp_codec ((\<lambda>base. demo_plane) b))" for b :: string by (simp add: demo_plane_def demo_encodes)
  moreover have "to_yaml demo_backend v = Inr t \<Longrightarrow> from_yaml demo_backend t = Inr v" for v t
    by (auto simp: demo_backend_def split: if_splits)
  ultimately have "\<exists>reason. apply_rbac_yaml_resource_from_yaml demo_backend DEFAULT_GUI_CONNECTION_YAML (entry_yaml e) True = Inl reason"
    using listed_resources_cannot_be_changed[OF demo_answers _ demo_answers _ e(2), of e DEFAULT_GUI_CONNECTION_YAML True] by fastforce
  with e(1) show ?thesis by simp
qed


end
