(* ===== verification/SnapshotServer.thy ===== *)
theory SnapshotServer
  imports RbacServer AppSafety "HOL-Library.Product_Lexorder"
begin

text \<open>
  The other end of the snapshot requests: how a control plane tracks which nodes are in step
  (\<open>src/xenage/nodes/control_plane/main.py\<close>), and the snapshot it builds for the GUI
  (\<open>build_gui_snapshot\<close> in \<open>control_plane_api/urls_logic.py\<close>, \<open>handle_gui_cluster\<close> in \<open>views.py\<close>), in Python.
  The clock, the reachability of a node, the age of a time and the host of a URL are
  parameters. Dictionaries are lists of entries in insertion order.
\<close>

section \<open>The state of a group\<close>

datatype sync_phase = SyncUnknown | Syncing | Synced | SyncBroken

definition phase_text :: "sync_phase \<Rightarrow> string" where
  "phase_text p = (case p of SyncUnknown \<Rightarrow> ''unknown'' | Syncing \<Rightarrow> ''syncing'' | Synced \<Rightarrow> ''synced'' | SyncBroken \<Rightarrow> ''broken'')"

definition role_text :: "node_role \<Rightarrow> string" where
  "role_text r = (case r of ControlPlane \<Rightarrow> ''control-plane'' | RuntimeNode \<Rightarrow> ''runtime'')"

record node_record =
  nr_node_id :: string
  nr_role :: node_role
  nr_public_key :: string
  nr_endpoints :: "string list"

record sync_status =
  ss_node_id :: string
  ss_status :: sync_phase
  ss_reason :: string
  ss_updated_at :: string

record group_state =
  gs_group_id :: string
  gs_version :: int
  gs_leader_epoch :: int
  gs_leader_node_id :: string
  gs_leader_pubkey :: string
  gs_control_planes :: "node_record list"
  gs_runtimes :: "node_record list"
  gs_endpoints :: "(string \<times> string) list"
  gs_expires_at :: string
  gs_node_statuses :: "sync_status list"
  gs_leader_signature :: string

abbreviation known_nodes :: "group_state \<Rightarrow> node_record list" where
  "known_nodes st \<equiv> gs_control_planes st @ gs_runtimes st"

section \<open>Which nodes are in step\<close>

text \<open>What a node keeps of the group: its own id, the state it has adopted, the statuses it knows and, once it has
  given up, the reason.\<close>

record cp_node =
  own_id :: string
  cp_group :: "group_state option"
  sync_status_by_node :: "sync_status js_obj"
  broken_sync_reason :: string
  last_poll_success_by_node :: "string js_obj"
  cp_rights :: rbac_store
  cp_events :: "sync_event list"

definition upsert_sync_status :: "string \<Rightarrow> string \<Rightarrow> sync_phase \<Rightarrow> string \<Rightarrow> cp_node \<Rightarrow> cp_node" where
  "upsert_sync_status now node status reason n =
     n\<lparr>sync_status_by_node := obj_set node
         \<lparr>ss_node_id = node, ss_status = status, ss_reason = reason, ss_updated_at = now\<rparr> (sync_status_by_node n)\<rparr>"

definition set_local_sync_status :: "string \<Rightarrow> sync_phase \<Rightarrow> string \<Rightarrow> cp_node \<Rightarrow> cp_node" where
  "set_local_sync_status now status reason n =
     n\<lparr>sync_status_by_node := obj_set (own_id n)
         \<lparr>ss_node_id = own_id n, ss_status = status, ss_reason = reason, ss_updated_at = now\<rparr> (sync_status_by_node n)\<rparr>"

text \<open>The part of \<open>mark_broken\<close> that changes the node; it then publishes the status to the other nodes.\<close>

definition mark_broken :: "string \<Rightarrow> string \<Rightarrow> cp_node \<Rightarrow> cp_node" where
  "mark_broken now reason n =
     (if broken_sync_reason n \<noteq> [] then n
      else set_local_sync_status now SyncBroken reason (n\<lparr>broken_sync_reason := reason\<rparr>))"

definition is_leader :: "cp_node \<Rightarrow> bool" where
  "is_leader n = (case cp_group n of None \<Rightarrow> False | Some st \<Rightarrow> gs_leader_node_id st = own_id n)"

definition require_leader :: "cp_node \<Rightarrow> string + group_state" where
  "require_leader n =
     (case cp_group n of
       None \<Rightarrow> Inl ''group state is not initialized''
     | Some st \<Rightarrow> if gs_leader_node_id st \<noteq> own_id n then Inl ''node is not the active leader'' else Inr st)"

definition default_status :: "group_state \<Rightarrow> node_record \<Rightarrow> sync_status" where
  "default_status st node =
     \<lparr>ss_node_id = nr_node_id node,
      ss_status = (if nr_node_id node = gs_leader_node_id st \<and> nr_role node = ControlPlane then Synced else SyncUnknown),
      ss_reason = [], ss_updated_at = []\<rparr>"

definition add_default :: "group_state \<Rightarrow> node_record \<Rightarrow> sync_status js_obj \<Rightarrow> sync_status js_obj" where
  "add_default st node d = (if obj_get d (nr_node_id node) \<noteq> None then d else obj_set (nr_node_id node) (default_status st node) d)"

definition status_by_node :: "cp_node \<Rightarrow> group_state \<Rightarrow> sync_status js_obj" where
  "status_by_node n st =
     (let published = obj_build ss_node_id (\<lambda>item. item) (gs_node_statuses st);
          merged = (if is_leader n then fold (\<lambda>(k, v). obj_set k v) (sync_status_by_node n) published else published) in
      fold (add_default st) (known_nodes st) merged)"

definition state_with_sync_statuses :: "cp_node \<Rightarrow> group_state \<Rightarrow> group_state" where
  "state_with_sync_statuses n st = st\<lparr>gs_node_statuses := sort_key ss_node_id (map snd (status_by_node n st))\<rparr>"

section \<open>Health\<close>

record snapshot_env =
  env_now :: string
  env_heartbeat :: "string \<Rightarrow> bool"
  env_age_seconds :: "string \<Rightarrow> rat option"
  env_hostname :: "string \<Rightarrow> string option option"
  env_state_ttl :: int

text \<open>The first endpoint that answers; the time it did is remembered.\<close>

definition probe_node_health :: "snapshot_env \<Rightarrow> node_record \<Rightarrow> string js_obj \<Rightarrow> (string \<times> string) \<times> string js_obj" where
  "probe_node_health env node polls =
     (if list_ex (env_heartbeat env) (nr_endpoints node)
      then ((''ready'', env_now env), obj_set (nr_node_id node) (env_now env) polls)
      else ((''unavailable'', nullish (obj_get polls (nr_node_id node)) []), polls))"

definition runtime_poll_health :: "snapshot_env \<Rightarrow> node_record \<Rightarrow> string js_obj \<Rightarrow> string \<times> string" where
  "runtime_poll_health env node polls =
     (let last_poll_at = nullish (obj_get polls (nr_node_id node)) [] in
      if last_poll_at = [] then (''unavailable'', [])
      else case env_age_seconds env last_poll_at of
        None \<Rightarrow> (''unavailable'', last_poll_at)
      | Some age \<Rightarrow>
          (let age_seconds = max 0 age; threshold_seconds = max 5 (env_state_ttl env * 2) in
           if age_seconds \<le> of_int threshold_seconds then (''ready'', last_poll_at) else (''unavailable'', last_poll_at)))"

definition creation_step :: "EventLogEntry \<Rightarrow> string js_obj \<Rightarrow> string js_obj" where
  "creation_step entry created =
     (let node = (if event_action entry = ''cluster.bootstrap'' then nullish (obj_get (event_details entry) ''leader_node_id'') []
                  else if event_action entry = ''cluster.node.joined'' then nullish (obj_get (event_details entry) ''node_id'') []
                  else []) in
      if node \<noteq> [] \<and> obj_get created node = None then obj_set node (happened_at entry) created else created)"

definition node_creation_timestamps_from_events :: "group_state \<Rightarrow> EventLogEntry list \<Rightarrow> string js_obj" where
  "node_creation_timestamps_from_events st event_log =
     fold (\<lambda>node created. if obj_get created (nr_node_id node) = None then obj_set (nr_node_id node) [] created else created)
       (known_nodes st) (fold creation_step event_log [])"

section \<open>The snapshot\<close>

definition endpoint_hostname :: "snapshot_env \<Rightarrow> node_record \<Rightarrow> string" where
  "endpoint_hostname env node =
     (case nr_endpoints node of
       [] \<Rightarrow> ''-''
     | url # _ \<Rightarrow> (case env_hostname env url of Some (Some h) \<Rightarrow> str_or h (nr_node_id node) | _ \<Rightarrow> nr_node_id node))"

definition shown_status :: "group_state \<Rightarrow> node_record \<Rightarrow> sync_phase \<Rightarrow> string \<Rightarrow> string" where
  "shown_status st node sync health =
     (if nr_role node = ControlPlane then
        if sync = SyncBroken then ''broken''
        else if sync = Syncing then ''syncing''
        else if nr_node_id node = gs_leader_node_id st then (if health \<noteq> ''unavailable'' then ''leader'' else ''unavailable'')
        else if health = ''unavailable'' then ''unavailable''
        else if sync = Synced then ''synced''
        else ''unknown''
      else health)"

definition sync_of :: "sync_status list \<Rightarrow> string \<Rightarrow> sync_status" where
  "sync_of statuses node =
     (case obj_get (obj_build ss_node_id (\<lambda>item. item) statuses) node of
       Some s \<Rightarrow> s | None \<Rightarrow> \<lparr>ss_node_id = node, ss_status = SyncUnknown, ss_reason = [], ss_updated_at = []\<rparr>)"

text \<open>A text or a list that has its default, the empty one, is not encoded.\<close>

definition encoded :: "'a list \<Rightarrow> 'a list option" where
  "encoded xs = (if xs = [] then None else Some xs)"

definition config_row :: "string \<Rightarrow> string \<Rightarrow> GroupConfigKeyTableRow" where
  "config_row k v = \<lparr>config_key = k, config_value = v\<rparr>"

definition snapshot_row ::
  "group_state \<Rightarrow> string js_obj \<Rightarrow> snapshot_env \<Rightarrow> node_record \<Rightarrow> string \<times> string \<Rightarrow> GroupConfigKeyTableRow list \<times> ClusterNodeTableRow" where
  "snapshot_row st created env node health =
     (let created_at = nullish (obj_get created (nr_node_id node)) [];
          sync_state = sync_of (gs_node_statuses st) (nr_node_id node);
          status = shown_status st node (ss_status sync_state) (fst health);
          key = (\<lambda>k. ''node.'' @ nr_node_id node @ ''.'' @ k) in
      ([config_row (key ''status'') status,
        config_row (key ''sync_status'') (phase_text (ss_status sync_state)),
        config_row (key ''sync_reason'') (str_or (ss_reason sync_state) ''-''),
        config_row (key ''name'') (endpoint_hostname env node),
        config_row (key ''last_poll_at'') (str_or (snd health) ''-''),
        config_row (key ''age'') (str_or created_at ''-''),
        config_row (key ''version'') ''unknown''],
       \<lparr>node_id = nr_node_id node, node_role = nr_role node,
        node_leader = (nr_node_id node = gs_leader_node_id st \<and> nr_node_id node \<in> set (map nr_node_id (gs_control_planes st))),
        node_public_key = nr_public_key node, node_endpoints = encoded (nr_endpoints node), node_status = encoded status,
        node_name = encoded (endpoint_hostname env node), node_version = Some ''unknown'', node_age = encoded created_at,
        node_last_poll_at = encoded (snd health)\<rparr>))"

fun snapshot_rows ::
  "group_state \<Rightarrow> string js_obj \<Rightarrow> snapshot_env \<Rightarrow> node_record list \<Rightarrow> string js_obj \<Rightarrow>
   (GroupConfigKeyTableRow list \<times> ClusterNodeTableRow list) \<times> string js_obj" where
  "snapshot_rows st created env [] polls = (([], []), polls)"
| "snapshot_rows st created env (node # nodes) polls =
     (let (health, polls1) = (if nr_role node = RuntimeNode then (runtime_poll_health env node polls, polls)
                              else probe_node_health env node polls);
          (config, row) = snapshot_row st created env node health;
          ((configs, rows), polls2) = snapshot_rows st created env nodes polls1 in
      ((config @ configs, row # rows), polls2))"

definition users_from_rbac :: "rbac_store \<Rightarrow> UserRecord list" where
  "users_from_rbac st =
     map (\<lambda>a. \<lparr>user_id = account_name a, user_public_key = sa_publicKey a, user_enabled = sa_enabled a\<rparr>) (serviceAccounts st)"

definition group_rows :: "cp_node \<Rightarrow> group_state \<Rightarrow> GroupConfigKeyTableRow list" where
  "group_rows n st =
     (let local_sync = sync_of (gs_node_statuses st) (own_id n) in
      [config_row ''group_id'' (gs_group_id st),
       config_row ''version'' (show_int (gs_version st)),
       config_row ''leader_epoch'' (show_int (gs_leader_epoch st)),
       config_row ''leader_node_id'' (gs_leader_node_id st),
       config_row ''leader_pubkey'' (gs_leader_pubkey st),
       config_row ''expires_at'' (gs_expires_at st),
       config_row ''control_plane_count'' (show_int (int (length (gs_control_planes st)))),
       config_row ''runtime_count'' (show_int (int (length (gs_runtimes st)))),
       config_row ''endpoint_count'' (show_int (int (length (gs_endpoints st)))),
       config_row ''control_plane_event_id'' (show_int (get_last_event_id (cp_events n))),
       config_row ''control_plane_sync_status'' (phase_text (ss_status local_sync)),
       config_row ''control_plane_sync_reason'' (str_or (ss_reason local_sync) ''-'')])"

definition build_gui_snapshot :: "snapshot_env \<Rightarrow> cp_node \<Rightarrow> string + GuiClusterSnapshot \<times> cp_node" where
  "build_gui_snapshot env n =
     (case cp_group n of
       None \<Rightarrow> Inl ''group state is not initialized''
     | Some base_state \<Rightarrow>
         (let st = state_with_sync_statuses n base_state;
              created = node_creation_timestamps_from_events st (cluster_audit_events (cp_events n));
              ((status_rows, rows), polls) = snapshot_rows st created env (known_nodes st) (last_poll_success_by_node n) in
          Inr (\<lparr>group_id = gs_group_id st, state_version = gs_version st, leader_epoch = gs_leader_epoch st,
                snapshot_nodes = sort_key (\<lambda>item. (role_text (node_role item), node_id item)) rows,
                snapshot_group_config = group_rows n st @ status_rows,
                snapshot_users = users_from_rbac (cp_rights n)\<rparr>,
               n\<lparr>last_poll_success_by_node := polls\<rparr>)))"

section \<open>The request\<close>

definition verify_admin_user :: "string \<times> string \<Rightarrow> rbac_store \<Rightarrow> string option" where
  "verify_admin_user auth st =
     (case find_service_account (fst auth) st of
       None \<Rightarrow> Some ''unknown user id''
     | Some service_account \<Rightarrow>
         if \<not> sa_enabled service_account then Some ''user is disabled''
         else if sa_publicKey service_account \<noteq> snd auth then Some ''request signer public key does not match stored user key''
         else if \<not> can_i (fst auth) (snd auth) ''get'' ''nodes'' ''cluster'' st then Some ''user is not authorized'' else None)"

definition handle_gui_cluster :: "snapshot_env \<Rightarrow> string \<times> string \<Rightarrow> cp_node \<Rightarrow> string + GuiClusterSnapshot \<times> cp_node" where
  "handle_gui_cluster env auth n =
     (case require_leader n of
       Inl e \<Rightarrow> Inl e
     | Inr _ \<Rightarrow>
         (case verify_admin_user auth (cp_rights n) of
           Some e \<Rightarrow> Inl e
         | None \<Rightarrow>
             (case append_cluster_event (is_leader n) (env_now env) (own_id n) ''gui.cluster.snapshot.read''
                 [(''user_id'', fst auth)] (cp_events n) of
               Inl e \<Rightarrow> Inl e
             | Inr current \<Rightarrow> build_gui_snapshot env (n\<lparr>cp_events := current\<rparr>))))"

text \<open>\<open>handle_request\<close> for the path of the snapshot: a node that has given up answers nothing.\<close>

definition snapshot_request :: "snapshot_env \<Rightarrow> string \<times> string \<Rightarrow> cp_node \<Rightarrow> string + GuiClusterSnapshot \<times> cp_node" where
  "snapshot_request env auth n =
     (if broken_sync_reason n \<noteq> [] then Inl (''node is broken: '' @ broken_sync_reason n) else handle_gui_cluster env auth n)"

section \<open>Entries under their own names\<close>

definition keyed :: "sync_status js_obj \<Rightarrow> bool" where
  "keyed d = (obj_ok d \<and> (\<forall>(k, v) \<in> set d. ss_node_id v = k))"

lemma keyed_Nil [simp]: "keyed []"
  by (simp add: keyed_def)

lemma set_obj_set: "set (obj_set k v d) \<subseteq> insert (k, v) (set d)"
  by (induction d) auto

lemma keyed_set [simp]: "keyed d \<Longrightarrow> ss_node_id v = k \<Longrightarrow> keyed (obj_set k v d)"
  using set_obj_set[of k v d] by (auto simp: keyed_def)

lemma keyed_del [simp]: "keyed d \<Longrightarrow> keyed (obj_del k d)"
  by (auto simp: keyed_def) (auto simp: obj_del_def)

lemma keyed_get: "keyed d \<Longrightarrow> obj_get d k = Some v \<longleftrightarrow> (k, v) \<in> set d"
  by (auto simp: keyed_def obj_get_def obj_ok_def obj_keys_def)

lemma keyed_published: "keyed (obj_build ss_node_id (\<lambda>item. item) xs)"
proof -
  have "keyed d \<Longrightarrow> keyed (fold (\<lambda>item. obj_set (ss_node_id item) item) xs d)" for d
    by (induction xs arbitrary: d) auto
  then show ?thesis by (simp add: obj_build_def)
qed

lemma keyed_merged: "keyed e \<Longrightarrow> keyed d \<Longrightarrow> keyed (fold (\<lambda>(k, v). obj_set k v) e d)"
proof -
  assume "keyed e" "keyed d"
  then have "\<forall>(k, v) \<in> set e. ss_node_id v = k" "keyed d" by (auto simp: keyed_def)
  then show "keyed (fold (\<lambda>(k, v). obj_set k v) e d)"
    by (induction e arbitrary: d) auto
qed

lemma keyed_defaults: "keyed d \<Longrightarrow> keyed (fold (add_default st) nodes d)"
  by (induction nodes arbitrary: d) (auto simp: add_default_def default_status_def)

lemma merged_get:
  assumes "keyed e"
  shows "obj_get (fold (\<lambda>(k, v). obj_set k v) e d) k = (case obj_get e k of Some v \<Rightarrow> Some v | None \<Rightarrow> obj_get d k)"
proof -
  have "distinct (map fst e)" using assms by (simp add: keyed_def obj_ok_def obj_keys_def)
  then show ?thesis
  proof (induction e arbitrary: d)
    case (Cons p e)
    then have "obj_get e (fst p) = None" by (simp add: obj_get_None_iff obj_keys_def)
    moreover have "obj_get (p # e) k = (if k = fst p then Some (snd p) else obj_get e k)" by (simp add: obj_get_def)
    ultimately show ?case using Cons by (auto split: prod.splits option.splits)
  qed simp
qed

lemma defaults_get:
  "obj_get (fold (add_default st) nodes d) k =
     (case obj_get d k of Some v \<Rightarrow> Some v
      | None \<Rightarrow> map_option (default_status st) (List.find (\<lambda>node. nr_node_id node = k) nodes))"
  by (induction nodes arbitrary: d) (auto simp: add_default_def split: option.splits)

lemma keyed_status: "keyed (sync_status_by_node n) \<Longrightarrow> keyed (status_by_node n st)"
  by (auto simp: status_by_node_def Let_def intro!: keyed_defaults keyed_merged keyed_published)

text \<open>Sorting the statuses into a list and looking one up there gives the entry of the dictionary.\<close>

lemma sync_of_statuses:
  assumes "keyed d"
  shows "sync_of (sort_key ss_node_id (map snd d)) k =
    nullish (obj_get d k) \<lparr>ss_node_id = k, ss_status = SyncUnknown, ss_reason = [], ss_updated_at = []\<rparr>"
proof -
  let ?xs = "sort_key ss_node_id (map snd d)"
  have "map ss_node_id (map snd d) = map fst d" using assms by (auto simp: keyed_def)
  then have "distinct (map ss_node_id (map snd d))"
    using assms by (simp only: keyed_def obj_ok_def obj_keys_def)
  then have d: "distinct (map ss_node_id ?xs)" by (metis distinct_map distinct_sort set_sort)
  show ?thesis
  proof (cases "obj_get d k")
    case None
    then have "k \<notin> set (map fst d)" by (simp add: obj_get_None_iff obj_keys_def)
    then have "\<forall>x \<in> set ?xs. ss_node_id x \<noteq> k" using assms by (force simp: keyed_def)
    then have "obj_get (obj_build ss_node_id (\<lambda>item. item) ?xs) k = None" by (simp only: obj_get_build_None not_False_eq_True)
    with None show ?thesis by (simp add: sync_of_def del: obj_get_build_None)
  next
    case (Some v)
    then have m: "(k, v) \<in> set d" using keyed_get[OF assms] by simp
    then have "ss_node_id v = k" using assms by (auto simp: keyed_def)
    moreover have "v \<in> set ?xs" using m by (auto intro: image_eqI[of _ _ "(k, v)"])
    ultimately have "v \<in> set ?xs" "ss_node_id v = k" by simp_all
    then have "obj_get (obj_build ss_node_id (\<lambda>item. item) ?xs) k = Some v"
      using obj_get_build_distinct[OF d, of v "\<lambda>item. item"] by simp
    with Some show ?thesis by (simp add: sync_of_def)
  qed
qed

text \<open>What a leader says of itself is what it has noted last.\<close>

lemma status_by_node_known:
  assumes "keyed (sync_status_by_node n)" "is_leader n" "obj_get (sync_status_by_node n) k = Some s"
  shows "obj_get (status_by_node n st) k = Some s"
  using assms by (simp add: status_by_node_def Let_def defaults_get merged_get)

lemma sync_of_known:
  assumes "keyed (sync_status_by_node n)" "is_leader n" "obj_get (sync_status_by_node n) k = Some s"
  shows "sync_of (gs_node_statuses (state_with_sync_statuses n st)) k = s"
  using assms by (simp add: state_with_sync_statuses_def sync_of_statuses[OF keyed_status] status_by_node_known)

lemma snapshot_request_Inr:
  assumes "snapshot_request env auth n = Inr (snapshot, n')"
  obtains current where "broken_sync_reason n = []" "is_leader n" "verify_admin_user auth (cp_rights n) = None"
    "build_gui_snapshot env (n\<lparr>cp_events := current\<rparr>) = Inr (snapshot, n')"
  using assms
  by (auto simp: snapshot_request_def handle_gui_cluster_def require_leader_def is_leader_def split: if_splits option.splits sum.splits)

lemma sync_fields [simp]:
  "is_leader (n\<lparr>cp_events := l\<rparr>) = is_leader n" "status_by_node (n\<lparr>cp_events := l\<rparr>) st = status_by_node n st"
  "state_with_sync_statuses (n\<lparr>cp_events := l\<rparr>) st = state_with_sync_statuses n st"
  by (simp_all add: is_leader_def status_by_node_def state_with_sync_statuses_def Let_def cong: option.case_cong if_cong)

section \<open>The warning of the GUI\<close>

text \<open>What may happen to the notes of a control plane: it adopts another state of the group, is promoted, accepts a node
  (under any id), revokes one, is told by a node how far it is, follows the log of another control plane, gives up, answers
  a request for a snapshot, or something changes that the notes do not depend on. A node reports about itself what
  \<open>publish_sync_status\<close> sends before it has given up, which has no reason.\<close>

definition started_node :: "string \<Rightarrow> string \<Rightarrow> group_state option \<Rightarrow> rbac_store \<Rightarrow> sync_event list \<Rightarrow> cp_node" where
  "started_node now node g rights current = set_local_sync_status now Synced []
     \<lparr>own_id = node, cp_group = g, sync_status_by_node = [], broken_sync_reason = [], last_poll_success_by_node = [],
      cp_rights = rights, cp_events = current\<rparr>"

inductive sync_step :: "cp_node \<Rightarrow> cp_node \<Rightarrow> bool" where
  step_group: "sync_step n (n\<lparr>cp_group := g\<rparr>)"
| step_promoted: "sync_step n (upsert_sync_status now (own_id n) Synced [] n)"
| step_joined: "require_leader n = Inr st \<Longrightarrow> sync_step n (upsert_sync_status now node Syncing ''waiting for initial event sync'' n)"
| step_revoked: "require_leader n = Inr st \<Longrightarrow> node \<noteq> gs_leader_node_id st \<Longrightarrow>
    sync_step n (n\<lparr>sync_status_by_node := obj_del node (sync_status_by_node n)\<rparr>)"
| step_reported: "broken_sync_reason n = [] \<Longrightarrow> (node = own_id n \<Longrightarrow> reason = []) \<Longrightarrow>
    sync_step n (upsert_sync_status now node status reason n)"
| step_following: "status \<in> {Syncing, Synced} \<Longrightarrow> sync_step n (set_local_sync_status now status [] n)"
| step_gives_up: "reason \<noteq> [] \<Longrightarrow> sync_step n (mark_broken now reason n)"
| step_answers: "snapshot_request env auth n = Inr (snapshot, n') \<Longrightarrow> sync_step n n'"
| step_elsewhere: "sync_step n (n\<lparr>cp_rights := rights, cp_events := current, last_poll_success_by_node := polls\<rparr>)"

definition sync_ok :: "cp_node \<Rightarrow> bool" where
  "sync_ok n = (keyed (sync_status_by_node n) \<and>
     (\<exists>s. obj_get (sync_status_by_node n) (own_id n) = Some s \<and>
       (broken_sync_reason n = [] \<longrightarrow> ss_reason s \<in> {[], ''waiting for initial event sync''})))"

lemma build_gui_snapshot_node:
  "build_gui_snapshot env n = Inr (snapshot, n') \<Longrightarrow> \<exists>polls. n' = n\<lparr>last_poll_success_by_node := polls\<rparr>"
  by (auto simp: build_gui_snapshot_def Let_def split: option.splits prod.splits)

lemma sync_ok_started: "sync_ok (started_node now node g rights current)"
  by (simp add: sync_ok_def started_node_def set_local_sync_status_def keyed_def obj_get_def obj_ok_def obj_keys_def)

lemma sync_ok_step:
  assumes "sync_step n n'" "sync_ok n"
  shows "sync_ok n'"
  using assms
proof cases
  case (step_answers env auth snapshot)
  then show ?thesis
    using assms(2) by (auto elim!: snapshot_request_Inr dest!: build_gui_snapshot_node simp: sync_ok_def)
qed (auto simp: sync_ok_def upsert_sync_status_def set_local_sync_status_def mark_broken_def require_leader_def
    split: option.splits if_splits)

lemma sync_ok_reachable: "sync_step\<^sup>*\<^sup>* (started_node now node g rights current) n \<Longrightarrow> sync_ok n"
  by (induction rule: rtranclp_induct) (auto intro: sync_ok_started sync_ok_step)

lemma snapshot_inconsistency:
  assumes "sync_ok n" "snapshot_request env auth n = Inr (snapshot, n')"
  shows "inconsistency_of snapshot \<in> {None, Some ''waiting for initial event sync''}"
  using assms(2)
proof (rule snapshot_request_Inr)
  fix current
  assume b: "broken_sync_reason n = []" "is_leader n" "build_gui_snapshot env (n\<lparr>cp_events := current\<rparr>) = Inr (snapshot, n')"
  obtain s where s: "obj_get (sync_status_by_node n) (own_id n) = Some s" "keyed (sync_status_by_node n)"
      "ss_reason s \<in> {[], ''waiting for initial event sync''}"
    using assms(1) b(1) by (auto simp: sync_ok_def)
  have "config_entry ''control_plane_sync_reason'' snapshot = Some (str_or (ss_reason s) ''-'')"
    using b(3) sync_of_known[OF s(2) b(2) s(1)]
    by (auto simp: build_gui_snapshot_def Let_def config_entry_def group_rows_def config_row_def split: option.splits prod.splits)
  then show ?thesis using s(3) by (auto simp: inconsistency_of_def)
qed


lemma verify_admin_user_None: "verify_admin_user auth st = None \<longleftrightarrow> can_i (fst auth) (snd auth) ''get'' ''nodes'' ''cluster'' st"
  by (auto simp: verify_admin_user_def can_i_def split: option.splits)

definition demo_group :: group_state where
  "demo_group = \<lparr>gs_group_id = ''g'', gs_version = 1, gs_leader_epoch = 1, gs_leader_node_id = ''cp-1'', gs_leader_pubkey = ''pk'',
     gs_control_planes = [\<lparr>nr_node_id = ''cp-1'', nr_role = ControlPlane, nr_public_key = ''pk'', nr_endpoints = [''http://a'']\<rparr>],
     gs_runtimes = [\<lparr>nr_node_id = ''rt-1'', nr_role = RuntimeNode, nr_public_key = ''rk'', nr_endpoints = []\<rparr>],
     gs_endpoints = [(''cp-1'', ''http://a'')], gs_expires_at = ''later'', gs_node_statuses = [], gs_leader_signature = []\<rparr>"

definition demo_env :: snapshot_env where
  "demo_env = \<lparr>env_now = ''now'', env_heartbeat = (\<lambda>url. True), env_age_seconds = (\<lambda>t. Some 0), env_hostname = (\<lambda>url. Some None),
     env_state_ttl = 60\<rparr>"

text \<open>A leader that has not given up answers whoever may read the nodes.\<close>

lemma snapshot_answered:
  assumes "broken_sync_reason n = []" "cp_group n = Some st" "gs_leader_node_id st = own_id n"
    and "can_i (fst auth) (snd auth) ''get'' ''nodes'' ''cluster'' (cp_rights n)"
  shows "\<exists>snapshot n'. snapshot_request env auth n = Inr (snapshot, n')"
proof -
  have "\<exists>current. append_cluster_event True (env_now env) (own_id n) ''gui.cluster.snapshot.read'' [(''user_id'', fst auth)] (cp_events n) = Inr current"
    by (auto simp: append_cluster_event_def record_cluster_audit_event_def record_event_def append_event_def split: sum.splits)
  then obtain current where "append_cluster_event True (env_now env) (own_id n) ''gui.cluster.snapshot.read'' [(''user_id'', fst auth)]
      (cp_events n) = Inr current" by blast
  moreover have "require_leader n = Inr st" "is_leader n" using assms(2,3) by (simp_all add: require_leader_def is_leader_def)
  moreover have "verify_admin_user auth (cp_rights n) = None" using assms(4) by (simp add: verify_admin_user_None)
  ultimately have "snapshot_request env auth n = build_gui_snapshot env (n\<lparr>cp_events := current\<rparr>)"
    using assms(1) by (simp add: snapshot_request_def handle_gui_cluster_def)
  moreover have "\<exists>snapshot n'. build_gui_snapshot env (n\<lparr>cp_events := current\<rparr>) = Inr (snapshot, n')"
    using assms(2) by (simp add: build_gui_snapshot_def Let_def split: prod.split)
  ultimately show ?thesis by simp
qed

lemma demo_answer:
  assumes "can_i ''alice'' ''k'' ''get'' ''nodes'' ''cluster'' rights"
  shows "\<exists>snapshot n'. snapshot_request demo_env (''alice'', ''k'') (started_node ''now'' ''cp-1'' (Some demo_group) rights []) = Inr (snapshot, n')"
  by (rule snapshot_answered[where st = demo_group]) (use assms in \<open>simp_all add: started_node_def set_local_sync_status_def demo_group_def\<close>)


section \<open>The tables of the GUI\<close>

lemma snapshot_rows_all:
  assumes "snapshot_rows st created env nodes polls = ((configs, rows), polls')"
  shows "list_all2 (\<lambda>node row. \<exists>health. row = snd (snapshot_row st created env node health)) nodes rows"
  using assms
proof (induction nodes arbitrary: polls configs rows polls')
  case (Cons node nodes)
  obtain health polls1 where h: "(if nr_role node = RuntimeNode then (runtime_poll_health env node polls, polls)
      else probe_node_health env node polls) = (health, polls1)"
    by (metis prod.exhaust)
  obtain config row where c: "snapshot_row st created env node health = (config, row)" by (metis prod.exhaust)
  obtain configs1 rows1 polls2 where r: "snapshot_rows st created env nodes polls1 = ((configs1, rows1), polls2)"
    by (metis prod.exhaust)
  have "rows = row # rows1"
    using Cons.prems by (simp only: snapshot_rows.simps h c r Let_def prod.case prod.inject)
  moreover have "\<exists>health. row = snd (snapshot_row st created env node health)" using c by (metis snd_conv)
  ultimately show ?case using Cons.IH[OF r] by (simp only: list_all2_Cons simp_thms)
qed simp

lemma only_this: "distinct xs \<Longrightarrow> x \<in> set xs \<Longrightarrow> filter (\<lambda>y. y = x) xs = [x]"
  by (induction xs) (auto simp: filter_empty_conv)

lemma with_statuses [simp]:
  "gs_leader_node_id (state_with_sync_statuses n st) = gs_leader_node_id st"
  "gs_control_planes (state_with_sync_statuses n st) = gs_control_planes st"
  "gs_runtimes (state_with_sync_statuses n st) = gs_runtimes st"
  by (simp_all add: state_with_sync_statuses_def)

lemma nullish_encoded [simp]: "nullish (encoded xs) [] = xs"
  by (simp add: encoded_def)

lemma shown_broken: "nr_role node = ControlPlane \<Longrightarrow> encoded (shown_status st node sync health) = Some ''broken'' \<longleftrightarrow> sync = SyncBroken"
  by (auto simp: shown_status_def encoded_def)

definition row_of :: "group_state \<Rightarrow> node_record \<Rightarrow> ClusterNodeTableRow \<Rightarrow> bool" where
  "row_of st node row \<longleftrightarrow> node_id row = nr_node_id node \<and> node_role row = nr_role node \<and> nullish (node_endpoints row) [] = nr_endpoints node \<and>
     node_leader row = (nr_node_id node = gs_leader_node_id st \<and> nr_node_id node \<in> set (map nr_node_id (gs_control_planes st))) \<and>
     (nr_role node = ControlPlane \<longrightarrow>
        (node_status row = Some ''broken'' \<longleftrightarrow> ss_status (sync_of (gs_node_statuses st) (nr_node_id node)) = SyncBroken))"

lemma row_of_snapshot_row: "row_of st node (snd (snapshot_row st created env node health))"
  by (simp add: row_of_def snapshot_row_def Let_def shown_broken)

lemma snapshot_nodes_rows:
  assumes "build_gui_snapshot env n = Inr (snapshot, n')" "cp_group n = Some st"
  obtains rows where "list_all2 (row_of (state_with_sync_statuses n st)) (known_nodes st) rows"
    "snapshot_nodes snapshot = sort_key (\<lambda>item. (role_text (node_role item), node_id item)) rows"
proof -
  let ?st = "state_with_sync_statuses n st"
  obtain configs rows polls where r: "snapshot_rows ?st (node_creation_timestamps_from_events ?st (cluster_audit_events (cp_events n))) env
      (known_nodes ?st) (last_poll_success_by_node n) = ((configs, rows), polls)"
    by (metis prod.exhaust)
  have "list_all2 (row_of ?st) (known_nodes ?st) rows"
    by (rule list_all2_mono[OF snapshot_rows_all[OF r]]) (use row_of_snapshot_row in blast)
  then have "list_all2 (row_of ?st) (known_nodes st) rows" by simp
  moreover have "snapshot_nodes snapshot = sort_key (\<lambda>item. (role_text (node_role item), node_id item)) rows"
    using assms r by (auto simp: build_gui_snapshot_def Let_def)
  ultimately show ?thesis by (rule that)
qed

lemma rows_of_nodes:
  assumes "list_all2 (row_of st) nodes rows"
  shows "map node_id rows = map nr_node_id nodes"
    "map (\<lambda>r. (node_role r, nullish (node_endpoints r) [])) rows = map (\<lambda>n. (nr_role n, nr_endpoints n)) nodes"
    "\<forall>r \<in> set rows. \<exists>node. row_of st node r"
  using assms by (induction rule: list_all2_induct) (auto simp: row_of_def)

lemma row_ofD:
  assumes "row_of st node r"
  shows "node_leader r \<longleftrightarrow> node_id r = gs_leader_node_id st \<and> node_id r \<in> set (map nr_node_id (gs_control_planes st))"
    "node_role r = ControlPlane \<Longrightarrow>
       node_status r = Some ''broken'' \<longleftrightarrow> ss_status (sync_of (gs_node_statuses st) (node_id r)) = SyncBroken"
  using assms by (auto simp: row_of_def)

text \<open>C22: the table of nodes shows the group: every node of the group has one row, in the order of roles and ids, one row, that
  of the answering node, is marked as the leader, and a control plane is shown as broken exactly if it has told the
  leader so. The URLs the GUI learns from the table are those of the control planes.\<close>

theorem snapshot_shows_group:
  assumes "sync_step\<^sup>*\<^sup>* (started_node now node g rights current) n"
    and "snapshot_request env auth n = Inr (snapshot, n')" "cp_group n = Some st"
    and "distinct (map nr_node_id (known_nodes st))"
    and "\<forall>x \<in> set (gs_control_planes st). nr_role x = ControlPlane" "\<forall>x \<in> set (gs_runtimes st). nr_role x = RuntimeNode"
    and "gs_leader_node_id st \<in> set (map nr_node_id (gs_control_planes st))"
  shows "sorted (map (\<lambda>r. (role_text (node_role r), node_id r)) (snapshot_nodes snapshot)) \<and>
    mset (map node_id (snapshot_nodes snapshot)) = mset (map nr_node_id (known_nodes st)) \<and>
    map node_id (filter node_leader (snapshot_nodes snapshot)) = [own_id n] \<and>
    (\<forall>r \<in> set (snapshot_nodes snapshot). \<forall>s. node_role r = ControlPlane \<longrightarrow>
       obj_get (sync_status_by_node n) (node_id r) = Some s \<longrightarrow> (node_status r = Some ''broken'' \<longleftrightarrow> ss_status s = SyncBroken)) \<and>
    set (controlPlaneUrlsFromSnapshot snapshot) =
      normalizeUrl ` (\<Union>x \<in> set (gs_control_planes st). set (nr_endpoints x)) - {[]}"
proof -
  obtain events where b: "is_leader n" "build_gui_snapshot env (n\<lparr>cp_events := events\<rparr>) = Inr (snapshot, n')"
    using assms(2) by (rule snapshot_request_Inr) blast
  obtain rows where r: "list_all2 (row_of (state_with_sync_statuses n st)) (known_nodes st) rows"
    and s: "snapshot_nodes snapshot = sort_key (\<lambda>item. (role_text (node_role item), node_id item)) rows"
    using snapshot_nodes_rows[OF b(2), of st] assms(3) by auto
  note m = rows_of_nodes[OF r]
  have own: "gs_leader_node_id st = own_id n" using b(1) assms(3) by (simp add: is_leader_def)
  have perm: "mset (map node_id (snapshot_nodes snapshot)) = mset (map nr_node_id (known_nodes st))"
    using m(1) by (metis mset_map mset_sort s)
  have rows: "set (snapshot_nodes snapshot) = set rows" by (simp add: s)
  have lead: "node_leader x \<longleftrightarrow> node_id x = own_id n" if "x \<in> set rows" for x
  proof -
    obtain nd where "row_of (state_with_sync_statuses n st) nd x" using m(3) \<open>x \<in> set rows\<close> by blast
    from row_ofD(1)[OF this] show ?thesis using assms(7) own by auto
  qed
  have "filter node_leader (snapshot_nodes snapshot) = filter (\<lambda>x. node_id x = own_id n) (snapshot_nodes snapshot)"
    by (rule filter_cong) (use lead rows in auto)
  then have "map node_id (filter node_leader (snapshot_nodes snapshot)) = filter (\<lambda>i. i = own_id n) (map node_id (snapshot_nodes snapshot))"
    by (simp add: filter_map comp_def)
  moreover have "distinct (map node_id (snapshot_nodes snapshot))" "own_id n \<in> set (map node_id (snapshot_nodes snapshot))"
    using perm assms(4,7) own by (metis mset_eq_imp_distinct_iff, metis UnCI map_append mset_eq_setD set_append)
  ultimately have leader: "map node_id (filter node_leader (snapshot_nodes snapshot)) = [own_id n]" by (simp only: only_this)
  have keyed: "keyed (sync_status_by_node n)" using sync_ok_reachable[OF assms(1)] by (simp add: sync_ok_def)
  have broken: "node_status x = Some ''broken'' \<longleftrightarrow> ss_status y = SyncBroken"
    if "x \<in> set rows" "node_role x = ControlPlane" "obj_get (sync_status_by_node n) (node_id x) = Some y" for x y
  proof -
    obtain nd where "row_of (state_with_sync_statuses n st) nd x" using m(3) \<open>x \<in> set rows\<close> by blast
    from row_ofD(2)[OF this that(2)] show ?thesis using sync_of_known[OF keyed b(1) that(3), of st] by simp
  qed
  have "(\<Union>x \<in> {x \<in> set rows. node_role x = ControlPlane}. set (nullish (node_endpoints x) [])) =
      (\<Union>p \<in> {p \<in> set (map (\<lambda>r. (node_role r, nullish (node_endpoints r) [])) rows). fst p = ControlPlane}. set (snd p))" by auto
  also have "\<dots> = (\<Union>x \<in> set (gs_control_planes st). set (nr_endpoints x))"
    unfolding m(2) using assms(5,6) by auto
  finally have "set (controlPlaneUrlsFromSnapshot snapshot) = normalizeUrl ` (\<Union>x \<in> set (gs_control_planes st). set (nr_endpoints x)) - {[]}"
    using uniqueUrlsLoop_spec[of _ "[]"] rows by (auto simp: controlPlaneUrlsFromSnapshot_def uniqueControlPlaneUrls_def)
  with perm leader broken rows show ?thesis by (simp add: s sorted_sort_key)
qed

theorem snapshot_shows_group_witness:
  "\<exists>rights snapshot n'. snapshot_request demo_env (''alice'', ''k'') (started_node ''now'' ''cp-1'' (Some demo_group) rights []) =
       Inr (snapshot, n') \<and>
     map node_id (filter node_leader (snapshot_nodes snapshot)) = [''cp-1''] \<and> set (controlPlaneUrlsFromSnapshot snapshot) = {''http://a''}"
proof -
  obtain rights where "can_i ''alice'' ''k'' ''get'' ''nodes'' ''cluster'' rights"
    using ensure_admin_bundle_empty[of "''alice''" "''k''" "''gui/v1''" "''get''" "''nodes''" "''cluster''"] by blast
  from demo_answer[OF this] obtain snapshot n' where
    r: "snapshot_request demo_env (''alice'', ''k'') (started_node ''now'' ''cp-1'' (Some demo_group) rights []) = Inr (snapshot, n')"
    by blast
  have g: "cp_group (started_node ''now'' ''cp-1'' (Some demo_group) rights []) = Some demo_group"
    "own_id (started_node ''now'' ''cp-1'' (Some demo_group) rights []) = ''cp-1''"
    by (simp_all add: started_node_def set_local_sync_status_def)
  have u: "normalizeUrl ''http://a'' = ''http://a''" by code_simp
  have d: "distinct (map nr_node_id (known_nodes demo_group))" "\<forall>x \<in> set (gs_control_planes demo_group). nr_role x = ControlPlane"
    "\<forall>x \<in> set (gs_runtimes demo_group). nr_role x = RuntimeNode"
    "gs_leader_node_id demo_group \<in> set (map nr_node_id (gs_control_planes demo_group))"
    by (simp_all add: demo_group_def)
  have e: "(\<Union>x \<in> set (gs_control_planes demo_group). set (nr_endpoints x)) = {''http://a''}" by (simp add: demo_group_def)
  note t = snapshot_shows_group[OF rtranclp.rtrancl_refl r g(1) d, unfolded g(2) e, THEN conjunct2, THEN conjunct2]
  have "set (controlPlaneUrlsFromSnapshot snapshot) = {''http://a''}"
    using t[THEN conjunct2, THEN conjunct2] u by simp
  with r t[THEN conjunct1] show ?thesis by (intro exI conjI)
qed

end
