(* ===== verification/TabControls.thy ===== *)
theory TabControls
  imports Application
begin

text \<open>
  The controls of the tabs as the user operates them, with the mouse and with the keyboard:
  \<open>modules/tabs/SortableTab.tsx\<close>, \<open>modules/app/components/HorizontalSortableTab.tsx\<close>, the resize handle of
  \<open>HorizontalSubWindow.tsx\<close> and \<open>components/Icon.tsx\<close>. An event is dispatched along the elements from its target to
  the root; a handler changes the state, and may prevent the default action and stop the event.
  The default action of the Enter key and of the space bar on a button is a click on it. Whether a key pressed in an
  element inside a button also activates that button depends on the browser and is a parameter.
\<close>

section \<open>Events\<close>

datatype dom_event = MouseClick | PointerDown | KeyDown string

record 's dom_element =
  el_tag :: string
  el_disabled :: bool
  el_handler :: "dom_event \<Rightarrow> 's \<Rightarrow> 's \<times> bool \<times> bool"

text \<open>The state afterwards, and whether the default action has been prevented.\<close>

fun dispatch :: "dom_event \<Rightarrow> 's dom_element list \<Rightarrow> 's \<Rightarrow> 's \<times> bool" where
  "dispatch e [] s = (s, False)"
| "dispatch e (x # xs) s =
     (let (s1, prevented, stopped) = el_handler x e s in
      if stopped then (s1, prevented)
      else let (s2, later) = dispatch e xs s1 in (s2, prevented \<or> later))"

definition is_button :: "'s dom_element \<Rightarrow> bool" where
  "is_button x = (el_tag x = ''button'' \<and> \<not> el_disabled x)"

definition user_click :: "'s dom_element list \<Rightarrow> 's \<Rightarrow> 's" where
  "user_click path s =
     (case path of [] \<Rightarrow> s | x # _ \<Rightarrow> if el_disabled x then s else fst (dispatch MouseClick path s))"

definition activated :: "bool \<Rightarrow> 's dom_element list \<Rightarrow> 's dom_element list" where
  "activated nested path =
     (case path of [] \<Rightarrow> []
      | x # _ \<Rightarrow> if is_button x then path else if nested then dropWhile (\<lambda>y. \<not> is_button y) path else [])"

definition press_key :: "bool \<Rightarrow> string \<Rightarrow> 's dom_element list \<Rightarrow> 's \<Rightarrow> 's" where
  "press_key nested key path s =
     (let (s1, prevented) = dispatch (KeyDown key) path s in
      if prevented \<or> key \<notin> {''Enter'', '' ''} then s1 else fst (dispatch MouseClick (activated nested path) s1))"

section \<open>A tab of the workspace\<close>

definition no_handler :: "dom_event \<Rightarrow> 's \<Rightarrow> 's \<times> bool \<times> bool" where
  "no_handler e s = (s, False, False)"

definition tab_root :: "OpenTab \<Rightarrow> 'a tab_state_scheme dom_element" where
  "tab_root tab = \<lparr>el_tag = ''div'', el_disabled = False, el_handler = (\<lambda>e s. case e of
      MouseClick \<Rightarrow> (activateTab (tab_id tab) (tab_cluster tab) s, False, False)
    | KeyDown key \<Rightarrow> if key = ''Enter'' then (activateTab (tab_id tab) (tab_cluster tab) s, True, False) else (s, False, False)
    | PointerDown \<Rightarrow> (s, False, False))\<rparr>"

definition tab_close_button :: "bool \<Rightarrow> OpenTab \<Rightarrow> 'a tab_state_scheme dom_element" where
  "tab_close_button closable tab = \<lparr>el_tag = ''button'', el_disabled = \<not> closable, el_handler = (\<lambda>e s. case e of
      MouseClick \<Rightarrow> (if closable then closeTab (tab_id tab) s else s, True, True)
    | KeyDown key \<Rightarrow> (s, False, False)
    | PointerDown \<Rightarrow> (s, False, True))\<rparr>"

definition tab_actions :: "'s dom_element" where
  "tab_actions = \<lparr>el_tag = ''div'', el_disabled = False, el_handler = no_handler\<rparr>"

text \<open>The elements from the target to the root of the tab.\<close>

definition on_tab :: "OpenTab \<Rightarrow> 'a tab_state_scheme dom_element list" where
  "on_tab tab = [tab_root tab]"

definition on_tab_close :: "bool \<Rightarrow> OpenTab \<Rightarrow> 'a tab_state_scheme dom_element list" where
  "on_tab_close closable tab = [tab_close_button closable tab, tab_actions, tab_root tab]"

record tab_markup =
  tm_role :: string
  tm_tabIndex :: int
  tm_selected :: bool
  tm_tab_id :: string
  tm_icon :: string
  tm_text :: "string \<times> string option"
  tm_close_label :: "string \<times> string \<times> string option"
  tm_close_disabled :: bool

definition SortableTab :: "SortableTab_view \<Rightarrow> tab_markup" where
  "SortableTab v = \<lparr>tm_role = ''tab'', tm_tabIndex = 0, tm_selected = st_active v, tm_tab_id = st_id v, tm_icon = st_icon v,
     tm_text = st_title v, tm_close_label = (''Close '', st_title v), tm_close_disabled = (\<not> st_closable v)\<rparr>"

section \<open>A tab of the sub-window\<close>

definition sub_tab_root :: "string \<Rightarrow> app_state dom_element" where
  "sub_tab_root tabId = \<lparr>el_tag = ''button'', el_disabled = False, el_handler = (\<lambda>e s. case e of
      MouseClick \<Rightarrow> (s\<lparr>activeHorizontalTabId := tabId\<rparr>, False, False)
    | _ \<Rightarrow> (s, False, False))\<rparr>"

definition sub_tab_close :: "string \<Rightarrow> app_state dom_element" where
  "sub_tab_close tabId = \<lparr>el_tag = ''span'', el_disabled = False, el_handler = (\<lambda>e s. case e of
      MouseClick \<Rightarrow> (closeHorizontalTab tabId s, True, True)
    | KeyDown key \<Rightarrow> (s, False, False)
    | PointerDown \<Rightarrow> (s, False, True))\<rparr>"

definition on_sub_tab :: "string \<Rightarrow> app_state dom_element list" where
  "on_sub_tab tabId = [sub_tab_root tabId]"

definition on_sub_tab_close :: "string \<Rightarrow> app_state dom_element list" where
  "on_sub_tab_close tabId = [sub_tab_close tabId, sub_tab_root tabId]"

section \<open>Icons\<close>

record icon_markup =
  icon_name :: string
  icon_size :: int
  icon_strokeWidth :: rat
  icon_class :: string
  icon_hidden :: bool

definition Icon :: "string \<Rightarrow> icon_markup option" where
  "Icon name = (if name \<in> set icons
     then Some \<lparr>icon_name = name, icon_size = 16, icon_strokeWidth = 3 / 2, icon_class = ''ui-icon'', icon_hidden = True\<rparr> else None)"

section \<open>The height of the sub-window\<close>

record sub_resize =
  sr_height :: int
  sr_start :: "(int \<times> int) option"
  sr_body_class :: bool

definition sub_resize_init :: sub_resize where
  "sub_resize_init = \<lparr>sr_height = DEFAULT_HEIGHT_PX, sr_start = None, sr_body_class = False\<rparr>"

datatype resize_event = HandleDown int | WindowMove int int | WindowUp

text \<open>The inner height of the window may differ at every move.\<close>

fun sub_resize_step :: "resize_event \<Rightarrow> sub_resize \<Rightarrow> sub_resize" where
  "sub_resize_step (HandleDown clientY) r = r\<lparr>sr_start := Some (sr_height r, clientY), sr_body_class := True\<rparr>"
| "sub_resize_step (WindowMove innerHeight clientY) r =
     (case sr_start r of
       None \<Rightarrow> r
     | Some (startHeight, startY) \<Rightarrow> r\<lparr>sr_height := subwindow_height innerHeight startHeight startY clientY\<rparr>)"
| "sub_resize_step WindowUp r = r\<lparr>sr_start := None, sr_body_class := False\<rparr>"

section \<open>What the controls do\<close>

text \<open>With the mouse every control does what it says, and nothing else: a click on a tab activates it, a click on its
  close control closes it without activating it first, and a disabled close button does nothing.\<close>

lemma clicks:
  "user_click (on_tab tab) s = activateTab (tab_id tab) (tab_cluster tab) s"
  "user_click (on_tab_close True tab) s = closeTab (tab_id tab) s"
  "user_click (on_tab_close False tab) s = s"
  "user_click (on_sub_tab i) t = t\<lparr>activeHorizontalTabId := i\<rparr>"
  "user_click (on_sub_tab_close i) t = closeHorizontalTab i t"
  by (simp_all add: user_click_def on_tab_def on_tab_close_def on_sub_tab_def on_sub_tab_close_def tab_root_def
      tab_close_button_def sub_tab_root_def sub_tab_close_def)

lemma keys:
  "press_key nested ''Enter'' (on_tab tab) s = activateTab (tab_id tab) (tab_cluster tab) s"
  "press_key nested ''Enter'' (on_tab_close True tab) s = activateTab (tab_id tab) (tab_cluster tab) s"
  "press_key nested '' '' (on_tab_close True tab) s = closeTab (tab_id tab) s"
  "press_key nested ''Enter'' (on_sub_tab i) t = t\<lparr>activeHorizontalTabId := i\<rparr>"
  "press_key nested key (on_sub_tab_close i) t = (if nested \<and> key \<in> {''Enter'', '' ''} then t\<lparr>activeHorizontalTabId := i\<rparr> else t)"
  by (simp_all add: press_key_def activated_def is_button_def on_tab_def on_tab_close_def on_sub_tab_def on_sub_tab_close_def
      tab_root_def tab_close_button_def tab_actions_def no_handler_def sub_tab_root_def sub_tab_close_def)

text \<open>C33: the close controls and the keyboard. A click on the control of a tab closes that tab and does nothing else, and so does
  the space bar, but the Enter key does not: it reaches the tab around the control, which takes it for itself, prevents the
  click and becomes active. The control in the sub-window can be focused but has no handler for
  keys: no key closes a tab there, at most the tab around it becomes active.\<close>

theorem close_controls:
  "user_click (on_tab_close closable tab) s = (if closable then closeTab (tab_id tab) s else s) \<and>
   press_key nested '' '' (on_tab_close True tab) s = closeTab (tab_id tab) s \<and>
   press_key nested ''Enter'' (on_tab_close True tab) s = activateTab (tab_id tab) (tab_cluster tab) s \<and>
   user_click (on_sub_tab_close i) t = closeHorizontalTab i t \<and>
   horizontalTabs (press_key nested key (on_sub_tab_close i) t) = horizontalTabs t"
  by (cases closable) (simp_all add: clicks keys)

lemma tab_icons_drawn: "Icon (st_icon (header_tab M s tab)) \<noteq> None" "Icon ''close'' \<noteq> None"
  using every_kind_has_icon[of "[]" M s tab] by (simp_all add: Icon_def) (simp add: icons_def)

section \<open>What the resize handle does\<close>

definition move_limit :: "resize_event list \<Rightarrow> int" where
  "move_limit es = foldr (\<lambda>e m. case e of WindowMove innerHeight _ \<Rightarrow> max (max_height innerHeight) m | _ \<Rightarrow> m) es DEFAULT_HEIGHT_PX"

lemma subwindow_height_bounds: "MIN_HEIGHT_PX \<le> subwindow_height w h y y'" "subwindow_height w h y y' \<le> max_height w"
  by (simp_all add: subwindow_height_def max_height_def)

lemma move_limit_Cons: "move_limit es \<le> move_limit (e # es)" "move_limit (WindowMove w y # es) \<ge> max_height w" "DEFAULT_HEIGHT_PX \<le> move_limit es"
  by (auto simp: move_limit_def split: resize_event.split) (induction es; auto split: resize_event.split)

lemma height_bounds:
  assumes "MIN_HEIGHT_PX \<le> sr_height r" "sr_height r \<le> m" "DEFAULT_HEIGHT_PX \<le> m"
  shows "MIN_HEIGHT_PX \<le> sr_height (fold sub_resize_step es r) \<and> sr_height (fold sub_resize_step es r) \<le> max m (move_limit es)"
  using assms
proof (induction es arbitrary: r m)
  case (Cons e es)
  define m' where "m' = (case e of WindowMove w _ \<Rightarrow> max m (max_height w) | _ \<Rightarrow> m)"
  have "MIN_HEIGHT_PX \<le> sr_height (sub_resize_step e r)" "sr_height (sub_resize_step e r) \<le> m'" "DEFAULT_HEIGHT_PX \<le> m'"
    using Cons.prems by (cases e; simp add: m'_def subwindow_height_bounds le_max_iff_disj split: option.split)+
  from Cons.IH[OF this] have "MIN_HEIGHT_PX \<le> sr_height (fold sub_resize_step (e # es) r) \<and>
      sr_height (fold sub_resize_step (e # es) r) \<le> max m' (move_limit es)" by simp
  moreover have "max m' (move_limit es) \<le> max m (move_limit (e # es))"
    by (cases e) (auto simp: m'_def move_limit_def)
  ultimately show ?case by linarith
qed simp

lemma moves_height: "sr_start r = Some p \<Longrightarrow> \<exists>h. fold sub_resize_step (map (WindowMove w) ys) r = r\<lparr>sr_height := h\<rparr>"
proof (induction ys arbitrary: r)
  case Nil
  show ?case by (intro exI[of _ "sr_height r"]) simp
next
  case (Cons y ys)
  obtain h where h: "sub_resize_step (WindowMove w y) r = r\<lparr>sr_height := h\<rparr>" using Cons.prems by (cases p) simp
  from Cons.IH[of "r\<lparr>sr_height := h\<rparr>"] Cons.prems h show ?case by auto
qed

text \<open>However the handle is dragged, in windows of whatever heights, the sub-window stays at least 180 pixels high and at most
  as high as it started or as four fifths of the tallest window it was dragged in; and a drag that returns to
  where it began, in a window tall enough, restores the height.\<close>

theorem subwindow_height_bounded:
  "MIN_HEIGHT_PX \<le> sr_height (fold sub_resize_step es sub_resize_init) \<and>
   sr_height (fold sub_resize_step es sub_resize_init) \<le> move_limit es \<and>
   (sr_height (fold sub_resize_step es sub_resize_init) \<le> max_height w \<longrightarrow>
      fold sub_resize_step ([HandleDown y] @ map (WindowMove w) (ys @ [y]) @ [WindowUp]) (fold sub_resize_step es sub_resize_init) =
      (fold sub_resize_step es sub_resize_init)\<lparr>sr_start := None, sr_body_class := False\<rparr>)"
proof -
  let ?r = "fold sub_resize_step es sub_resize_init"
  have b: "MIN_HEIGHT_PX \<le> sr_height ?r" "sr_height ?r \<le> move_limit es"
    using height_bounds[of sub_resize_init DEFAULT_HEIGHT_PX es] move_limit_Cons(3)[of es]
    by (auto simp: sub_resize_init_def DEFAULT_HEIGHT_PX_def MIN_HEIGHT_PX_def)
  obtain h' where
    "fold sub_resize_step (map (WindowMove w) ys) (?r\<lparr>sr_start := Some (sr_height ?r, y), sr_body_class := True\<rparr>) =
      ?r\<lparr>sr_start := Some (sr_height ?r, y), sr_body_class := True, sr_height := h'\<rparr>"
    using moves_height[of "?r\<lparr>sr_start := Some (sr_height ?r, y), sr_body_class := True\<rparr>" "(sr_height ?r, y)" w ys] by auto
  with b show ?thesis by (auto simp: subwindow_height_def)
qed

theorem subwindow_height_bounded_witness:
  "sr_height (fold sub_resize_step [] sub_resize_init) = 280 \<and>
   fold sub_resize_step ([HandleDown 500] @ map (WindowMove 1000) ([100] @ [500]) @ [WindowUp]) (fold sub_resize_step [] sub_resize_init) =
     sub_resize_init"
proof -
  have h: "sr_height (fold sub_resize_step [] sub_resize_init) = 280" by (simp add: sub_resize_init_def DEFAULT_HEIGHT_PX_def)
  have "sr_height (fold sub_resize_step [] sub_resize_init) \<le> max_height 1000" unfolding h by (simp add: max_height_def MIN_HEIGHT_PX_def)
  with subwindow_height_bounded[of "[]" 1000 500 "[100]"] h show ?thesis by (simp add: sub_resize_init_def)
qed

end
