(* ===== verification/CanvasMount.thy ===== *)
theory CanvasMount
  imports SiteMarkup LandingPage
begin

text \<open>
  The life of the canvas of the web site, \<open>landing/app/components/HeroCanvas.tsx\<close>: the listeners and the objects on the
  graphics card that its effect creates, the clean-up when it unmounts, the size of the drawing, and what it renders. What
  \<open>three.js\<close> draws is not modelled. The meshes behind the refs are those the effect has created: nothing
  else writes the refs.
\<close>

section \<open>What the browser holds for the canvas\<close>

datatype listener_target = OnContainer | OnWindow

text \<open>A listener is its target, its event and its handler; removing one that is not registered does nothing.\<close>

type_synonym listener = "listener_target \<times> string \<times> string"

datatype gpu_object =
    MobiusGeometry | MobiusMaterial | KnotGeometry | KnotMaterial | ParticleGeometry | ParticleMaterial | Renderer

record canvas_env =
  cv_listeners :: "listener list"
  cv_gpu :: "gpu_object list"
  cv_frames :: "nat list"
  cv_next_frame :: nat
  cv_size :: "rat \<times> rat"
  cv_aspect :: rat
  cv_pixel_ratio :: rat

definition addEventListener :: "listener \<Rightarrow> canvas_env \<Rightarrow> canvas_env" where
  "addEventListener l e = (if l \<in> set (cv_listeners e) then e else e\<lparr>cv_listeners := cv_listeners e @ [l]\<rparr>)"

definition removeEventListener :: "listener \<Rightarrow> canvas_env \<Rightarrow> canvas_env" where
  "removeEventListener l e = e\<lparr>cv_listeners := removeAll l (cv_listeners e)\<rparr>"

definition canvas_dispose :: "gpu_object \<Rightarrow> canvas_env \<Rightarrow> canvas_env" where
  "canvas_dispose x e = e\<lparr>cv_gpu := removeAll x (cv_gpu e)\<rparr>"

definition create :: "gpu_object \<Rightarrow> canvas_env \<Rightarrow> canvas_env" where
  "create x e = e\<lparr>cv_gpu := cv_gpu e @ [x]\<rparr>"

text \<open>\<open>requestAnimationFrame\<close>: the callback waits under a fresh id.\<close>

definition request_frame :: "canvas_env \<Rightarrow> nat \<times> canvas_env" where
  "request_frame e = (cv_next_frame e, e\<lparr>cv_frames := cv_frames e @ [cv_next_frame e], cv_next_frame := cv_next_frame e + 1\<rparr>)"

definition cancel_frame :: "nat \<Rightarrow> canvas_env \<Rightarrow> canvas_env" where
  "cancel_frame i e = e\<lparr>cv_frames := removeAll i (cv_frames e)\<rparr>"

section \<open>The effect\<close>

text \<open>\<open>Math.min(window.devicePixelRatio, 2)\<close>; the drawing has the size of its container.\<close>

definition set_renderer_size :: "rat \<Rightarrow> rat \<Rightarrow> canvas_env \<Rightarrow> canvas_env" where
  "set_renderer_size width height e = e\<lparr>cv_size := (width, height), cv_aspect := width / height\<rparr>"

definition canvas_setup :: "rat \<Rightarrow> rat \<Rightarrow> rat \<Rightarrow> canvas_env \<Rightarrow> canvas_env" where
  "canvas_setup width height devicePixelRatio e =
     (let e1 = create Renderer e;
          e2 = (set_renderer_size width height e1)\<lparr>cv_pixel_ratio := min devicePixelRatio 2\<rparr> in
      fold create [MobiusGeometry, MobiusMaterial, KnotGeometry, KnotMaterial, ParticleGeometry, ParticleMaterial] e2)"

definition canvas_listeners :: "listener list" where
  "canvas_listeners =
     [(OnContainer, ''pointerdown'', ''handlePointerDown''), (OnWindow, ''pointermove'', ''handlePointerMove''),
      (OnWindow, ''pointerup'', ''handlePointerUp''), (OnContainer, ''wheel'', ''handleWheel''),
      (OnWindow, ''mousemove'', ''handleMouseMove''), (OnWindow, ''scroll'', ''handleScroll''), (OnWindow, ''resize'', ''handleResize'')]"

text \<open>A frame runs: it leaves the queue and the next one, whose id the effect remembers, is requested first.\<close>

definition run_frame :: "nat \<Rightarrow> canvas_env \<Rightarrow> nat \<times> canvas_env" where
  "run_frame i e = request_frame (cancel_frame i e)"

text \<open>Mounting: nothing without the elements; otherwise the environment and the id of the first frame.\<close>

definition canvas_mount :: "bool \<Rightarrow> rat \<Rightarrow> rat \<Rightarrow> rat \<Rightarrow> canvas_env \<Rightarrow> nat option \<times> canvas_env" where
  "canvas_mount refs width height devicePixelRatio e =
     (if \<not> refs then (None, e)
      else let (i, e1) = request_frame (fold addEventListener canvas_listeners (canvas_setup width height devicePixelRatio e)) in (Some i, e1))"

definition removed_listeners :: "listener list" where
  "removed_listeners =
     [(OnContainer, ''pointerdown'', ''handlePointerDown''), (OnWindow, ''pointermove'', ''handlePointerMove''),
      (OnWindow, ''pointerup'', ''handlePointerUp''), (OnContainer, ''wheel'', ''handleWheel''),
      (OnWindow, ''mousemove'', ''handleMouseMove''), (OnWindow, ''scroll'', ''handleScroll''), (OnWindow, ''resize'', ''handleResize'')]"

definition canvas_cleanup :: "nat \<Rightarrow> canvas_env \<Rightarrow> canvas_env" where
  "canvas_cleanup animationId e =
     fold canvas_dispose [MobiusGeometry, MobiusMaterial, KnotGeometry, KnotMaterial, ParticleGeometry, ParticleMaterial, Renderer]
       (fold removeEventListener removed_listeners (cancel_frame animationId e))"

section \<open>What it renders\<close>

definition pagination_dot :: "bool \<Rightarrow> markup" where
  "pagination_dot active = Element ''div'' [(''style'', AttrStyle
     [(''width'', LStr (if active then ''10px'' else ''6px'')), (''height'', LStr (if active then ''10px'' else ''6px'')),
      (''borderRadius'', LStr ''50%''), (''background'', LStr (if active then ''#4f8eff'' else ''rgba(79,142,255,0.28)'')),
      (''transition'', LStr ''all 0.35s cubic-bezier(0.16, 1, 0.3, 1)'')])] []"

definition HeroCanvas :: "nat \<Rightarrow> markup" where
  "HeroCanvas activeSection =
     Element ''div'' [(''ref'', AttrCode ''containerRef''),
       (''style'', AttrStyle [(''width'', LStr ''100%''), (''height'', LStr ''100%''), (''cursor'', LStr ''grab'')])]
      [Element ''canvas'' [(''ref'', AttrCode ''canvasRef''), (''style'', AttrStyle [(''width'', LStr ''100%''), (''height'', LStr ''100%'')])] [],
       Element ''div'' [(''style'', AttrStyle [(''position'', LStr ''absolute''), (''inset'', LNum 0), (''pointerEvents'', LStr ''none''),
         (''background'', LStr (''radial-gradient(circle at 74% 14%, rgba(136, 197, 255, 0.18), transparent 42%), '' @
            ''radial-gradient(circle at 64% 78%, rgba(155, 164, 255, 0.16), transparent 48%)''))])] [],
       Element ''div'' [(''className'', AttrText ''pagination-dots''),
         (''style'', AttrStyle [(''position'', LStr ''absolute''), (''right'', LStr ''1.2rem''), (''top'', LStr ''50%''),
            (''transform'', LStr ''translateY(-50%)''), (''display'', LStr ''flex''), (''flexDirection'', LStr ''column''),
            (''gap'', LStr ''10px''), (''pointerEvents'', LStr ''none'')])]
        (map (\<lambda>i. pagination_dot (activeSection = i)) [0, 1, 2, 3, 4, 5]),
       StyleSheet]"

lemma dots_rendered: "map (\<lambda>i. pagination_dot (activeSection = i)) [0, 1, 2, 3, 4, 5] = map pagination_dot (pagination_dots activeSection)"
  by (simp add: pagination_dots_def)

section \<open>Nothing is left behind\<close>

definition hero_step :: "nat \<times> canvas_env \<Rightarrow> nat \<times> canvas_env" where
  "hero_step p = run_frame (fst p) (snd p)"

lemma create_fields [simp]:
  "cv_gpu (fold create xs e) = cv_gpu e @ xs" "cv_listeners (fold create xs e) = cv_listeners e" "cv_frames (fold create xs e) = cv_frames e"
  "cv_next_frame (fold create xs e) = cv_next_frame e"
  by (induction xs arbitrary: e) (simp_all add: create_def)

lemma setup_fields:
  "cv_gpu (canvas_setup w h d e) = cv_gpu e @ [Renderer, MobiusGeometry, MobiusMaterial, KnotGeometry, KnotMaterial, ParticleGeometry, ParticleMaterial]"
  "cv_listeners (canvas_setup w h d e) = cv_listeners e" "cv_frames (canvas_setup w h d e) = cv_frames e"
  "cv_next_frame (canvas_setup w h d e) = cv_next_frame e"
  by (simp_all add: canvas_setup_def set_renderer_size_def Let_def create_def del: fold.simps)

lemma add_fields:
  "set ls \<inter> set (cv_listeners e) = {} \<Longrightarrow> distinct ls \<Longrightarrow> cv_listeners (fold addEventListener ls e) = cv_listeners e @ ls"
  "cv_gpu (fold addEventListener ls e) = cv_gpu e" "cv_frames (fold addEventListener ls e) = cv_frames e"
  "cv_next_frame (fold addEventListener ls e) = cv_next_frame e"
  by (induction ls arbitrary: e) (auto simp: addEventListener_def)

lemma remove_fields:
  "cv_listeners (fold removeEventListener ls e) = filter (\<lambda>l. l \<notin> set ls) (cv_listeners e)"
  "cv_gpu (fold removeEventListener ls e) = cv_gpu e" "cv_frames (fold removeEventListener ls e) = cv_frames e"
  by (induction ls arbitrary: e) (auto simp: removeEventListener_def removeAll_filter_not_eq intro!: filter_cong)

lemma dispose_fields:
  "cv_gpu (fold canvas_dispose xs e) = filter (\<lambda>x. x \<notin> set xs) (cv_gpu e)" "cv_listeners (fold canvas_dispose xs e) = cv_listeners e"
  "cv_frames (fold canvas_dispose xs e) = cv_frames e"
  by (induction xs arbitrary: e) (auto simp: canvas_dispose_def removeAll_filter_not_eq intro!: filter_cong)

text \<open>After any number of frames the effect still remembers the one frame that waits.\<close>

lemma frames_waiting:
  assumes "i \<notin> set fs" "cv_frames e = fs @ [i]" "i < cv_next_frame e" "\<forall>f \<in> set fs. f < cv_next_frame e"
  shows "\<exists>j e'. (hero_step ^^ k) (i, e) = (j, e') \<and> j \<notin> set fs \<and> cv_frames e' = fs @ [j] \<and> j < cv_next_frame e' \<and>
    (\<forall>f \<in> set fs. f < cv_next_frame e') \<and> cv_listeners e' = cv_listeners e \<and> cv_gpu e' = cv_gpu e"
proof (induction k)
  case (Suc k)
  then obtain j e' where s: "(hero_step ^^ k) (i, e) = (j, e')" "j \<notin> set fs" "cv_frames e' = fs @ [j]" "j < cv_next_frame e'"
      "\<forall>f \<in> set fs. f < cv_next_frame e'" "cv_listeners e' = cv_listeners e" "cv_gpu e' = cv_gpu e" by blast
  then have "(hero_step ^^ Suc k) (i, e) = (cv_next_frame e', e'\<lparr>cv_frames := fs @ [cv_next_frame e'], cv_next_frame := cv_next_frame e' + 1\<rparr>)"
    by (simp add: hero_step_def run_frame_def cancel_frame_def request_frame_def)
  with s show ?case by auto
qed (use assms in auto)

text \<open>Unmounting leaves nothing behind: however many frames have been drawn, the clean-up removes every listener, cancels the
  waiting frame and frees every object on the graphics card that mounting has created, and nothing of
  anybody else.\<close>

theorem canvas_unmount_clean:
  assumes "set canvas_listeners \<inter> set (cv_listeners e) = {}" "cv_gpu e = []" "\<forall>f \<in> set (cv_frames e). f < cv_next_frame e"
    and "canvas_mount True w h d e = (Some i, e1)" "(hero_step ^^ k) (i, e1) = (j, e2)"
  shows "cv_listeners (canvas_cleanup j e2) = cv_listeners e \<and> cv_frames (canvas_cleanup j e2) = cv_frames e \<and>
    cv_gpu (canvas_cleanup j e2) = []"
proof -
  have d: "distinct canvas_listeners" "removed_listeners = canvas_listeners" by (simp_all add: canvas_listeners_def removed_listeners_def)
  have m: "i = cv_next_frame e" "cv_frames e1 = cv_frames e @ [i]" "cv_next_frame e1 = Suc (cv_next_frame e)"
    "cv_listeners e1 = cv_listeners e @ canvas_listeners"
    "cv_gpu e1 = [Renderer, MobiusGeometry, MobiusMaterial, KnotGeometry, KnotMaterial, ParticleGeometry, ParticleMaterial]"
    using assms(1,2,4) d(1) by (auto simp: canvas_mount_def request_frame_def Let_def setup_fields add_fields)
  have "i \<notin> set (cv_frames e)" "\<forall>f \<in> set (cv_frames e). f < cv_next_frame e1" "i < cv_next_frame e1"
    using assms(3) m(1,3) by auto
  from frames_waiting[OF this(1) m(2) this(3,2), of k] obtain
    "j \<notin> set (cv_frames e)" "cv_frames e2 = cv_frames e @ [j]" "cv_listeners e2 = cv_listeners e1" "cv_gpu e2 = cv_gpu e1"
    using assms(5) by auto
  moreover have "filter (\<lambda>l. l \<notin> set canvas_listeners) (cv_listeners e) = cv_listeners e"
    using assms(1) by (auto simp: filter_id_conv)
  ultimately show ?thesis
    using m d(2) by (auto simp: canvas_cleanup_def dispose_fields remove_fields cancel_frame_def removeAll_filter_not_eq
        filter_id_conv simp del: fold.simps)
qed

definition demo_browser :: canvas_env where
  "demo_browser = \<lparr>cv_listeners = [(OnWindow, ''scroll'', ''onScroll'')], cv_gpu = [], cv_frames = [3], cv_next_frame = 4,
     cv_size = (300, 150), cv_aspect = 2, cv_pixel_ratio = 1\<rparr>"

theorem canvas_unmount_clean_witness:
  "\<exists>i e1. canvas_mount True 800 600 3 demo_browser = (Some i, e1) \<and>
     cv_listeners (canvas_cleanup (fst ((hero_step ^^ 2) (i, e1))) (snd ((hero_step ^^ 2) (i, e1)))) = [(OnWindow, ''scroll'', ''onScroll'')]"
proof -
  obtain i e1 where m: "canvas_mount True 800 600 3 demo_browser = (Some i, e1)"
    by (auto simp: canvas_mount_def request_frame_def Let_def)
  obtain j e2 where s: "(hero_step ^^ 2) (i, e1) = (j, e2)" by (metis prod.exhaust)
  have "set canvas_listeners \<inter> set (cv_listeners demo_browser) = {}" "cv_gpu demo_browser = []"
    "\<forall>f \<in> set (cv_frames demo_browser). f < cv_next_frame demo_browser"
    by (simp_all add: canvas_listeners_def demo_browser_def)
  from canvas_unmount_clean[OF this m s] m s show ?thesis by (auto simp: demo_browser_def)
qed

end
