(* ===== verification/Spec2Isabelle.thy ===== *)
theory Spec2Isabelle
  imports Ordering EventPaging EventView ConnectionStore DetachedWindows SchemaGenerator SitePages ReleaseScripts RbacBackend SnapshotServer TabControls CanvasMount
begin

text \<open>
  A verification development for the TypeScript of Xenage: the desktop GUI under
  \<open>src/apps/xenage-gui/src\<close>, the installer and the web site under
  \<open>src/landing\<close>, and the release scripts under \<open>src/.github/scripts\<close>; and for the code on the
  other side of the interfaces the GUI depends on most: the Python of the control plane that keeps
  the audit log and the access rights and builds the snapshots, the Rust of the backend that fetches the
  pages of the log, stores the connections, carries the access rights and opens the
  windows of detached tabs, and the Python that generates the schema of the tables.

  \<^bold>\<open>The program.\<close> The GUI is a React application in a Tauri window. The component \<open>App\<close> composes
  hooks, each with its own state: the stored cluster connections, the workspace tabs, the cluster
  data (snapshots and pages of the audit log) with an indicator of pending fetches, the maintenance
  settings, a view model derived from all of them, and effects for timers and the keyboard. It
  renders a sidebar, a tab bar, the content of the active tab (tables driven by a generated schema,
  an editor of access rights, settings, a setup guide) and a sub-window with a console and YAML
  editors. The backend is reached by asynchronous commands. The web site redirects installers to
  release assets; the scripts give each release its version, its mode and its notes. A generator turns the
  data structures of the control plane into the schema compiled into the GUI.

  \<^bold>\<open>Modelling.\<close> A component's React state and refs are a record; the hooks that \<open>App\<close> composes extend
  one record after the other (\<open>conn_state\<close>, \<open>tab_state\<close>, \<open>fetch_state\<close>, \<open>data_state\<close>,
  \<open>app_state\<close>), so that each hook's operations act on the whole state and touch their part. A
  callback is a function on it. An asynchronous callback is split at its awaits: a part before
  (\<open>_begin\<close>), which also tells the command it issues, and a continuation (\<open>_end\<close>), a function of
  how the command settled, a value of \<open>js_error + result\<close>. Since other operations run in between,
  properties about concurrency quantify over what happens there, or use a step relation
  (\<open>fetch_step\<close>, \<open>tab_step\<close>, \<open>sub_step\<close>, and \<open>app_step\<close> over the whole window) whose steps
  start and settle requests in any order; the requests in flight are a multiset. Stale closures are explicit arguments (the list of tabs a
  callback captured, the id an updater reads). Exceptions and early returns are branches of a sum or
  an option. Plain objects used as dictionaries are association lists in insertion order
  (\<open>js_obj\<close>), JSON values the datatype \<open>js_value\<close>. Numbers that are counts, positions or sequence
  numbers are \<open>int\<close> or \<open>nat\<close>; numbers read from text are rounded to double precision as
  exact rationals with the infinities and NaN beside them (\<open>js_number\<close>). Strings are lists of
  characters of one byte. A rendered view of the GUI is a record of what it shows and which controls are
  enabled; layout and styles are left out. The sections of the web site, which are mostly text, are trees
  of elements (\<open>markup\<close>) with their attributes, inline styles, handlers and animations.

  \<^bold>\<open>Parameters.\<close> What is not modelled is an argument: the answers of the backend (where it is not
  modelled here), the outcomes of its file operations, SHA-256, the fields msgspec reports of a structure and its
  conversions between structures and JSON (of which \<open>encodes_fields\<close>, \<open>encodes_account\<close> and
  \<open>encodes_role\<close> state what it documents: class variables are not encoded, defaults are left out), the
  conversion between YAML and values, signed requests (\<open>plane_answers\<close> states that a success is the answer of a
  control plane), the clock and the reachability of nodes,
  \<open>Date.parse\<close>, \<open>Intl\<close> collation and formatting, \<open>new URL\<close>, \<open>fetch\<close>, the document, and
  \<open>arrayMove\<close> of dnd-kit, of which the properties assume only that it permutes its list
  (\<open>permutes_elements\<close>). The runtime's sort is stable insertion; it agrees with every correct
  stable sort where the comparison is consistent, which the properties about sorting establish, and
  \<open>mixed_column_cycle\<close> shows a column where it is not.

  \<^bold>\<open>Theories.\<close>
  \<^item> \<open>Prelude\<close>: strings, searching lists, results and dictionaries, with their simplification rules.
  \<^item> \<open>Dictionary\<close>, \<open>Ordering\<close>, \<open>TabStrip\<close>: the interfaces the components share, as locales with
    their interpretations: dictionaries (\<open>obj\<close>), consistent comparators and stable sorting
    (\<open>key_cmp\<close>, \<open>blank_last\<close>), strips of tabs (\<open>tabs\<close>, \<open>subs\<close>).
  \<^item> \<open>AppUtils\<close> (\<open>modules/app/utils.ts\<close>, \<open>constants.ts\<close>): relative times, merging control-plane
    URLs, the scan of a connection YAML for its user, argument lists.
  \<^item> \<open>ApiTypes\<close>, \<open>Connections\<close> (\<open>useClusterConnections.ts\<close>): the data and the stored connections:
    loading, connecting, editing, deleting, sharing.
  \<^item> \<open>ConnectionYaml\<close> and \<open>ConnectionStore\<close> (\<open>src-tauri/src/cluster_connection.rs\<close>): the text of a
    connection, parsed and dumped, merging URLs, and the store of connections and preferences with its
    invariant. The locale \<open>connection_backend\<close> states what the GUI relies on; the interpretation
    \<open>gui\<close> discharges it for the store, and the lemmas about connecting and deleting run both sides together.
  \<^item> \<open>Shortcuts\<close> (\<open>keyboardShortcuts.ts\<close>, \<open>dragDetach.ts\<close>), \<open>TabManager\<close> (\<open>useTabManager.ts\<close>),
    \<open>WindowState\<close> (\<open>windowState.ts\<close>): the tabs: opening, closing, dragging, detaching into a
    window and reading the tab back from the URL of that window. \<open>DetachedWindows\<close>
    (\<open>src-tauri/src/main.rs\<close>) has the labels, titles and queries of these windows and the way of a
    sub-window tab into its own window.
  \<^item> \<open>FetchIndicator\<close> (\<open>useDataFetchIndicator.ts\<close>), \<open>ClusterData\<close> (\<open>useClusterData.ts\<close>),
    \<open>FetchSystem\<close>: fetching: the counter and its contract (locale \<open>fetch_indicator\<close>), merging
    pages into the event cache, all interleavings of requests, and that they drain.
  \<^item> \<open>EventServer\<close> (\<open>control_plane_event_manager.py\<close>, \<open>state_logic.py\<close>, \<open>urls_logic.py\<close>,
    \<open>views.py\<close>, and \<open>src-tauri/src/cluster_connection.rs\<close>): the synchronised log, its audit
    entries, pages by binary search, and the fetch of a page over the URLs of a cluster with its
    fallback for old servers. \<open>EventPaging\<close> joins it with the cache: growing log, newest and older
    pages and failures in any order refine an interval of sequence numbers.
  \<^item> \<open>RbacServer\<close> (\<open>rbac_state_manager.py\<close>, \<open>rbac_authorization.py\<close>, \<open>rbac_mutations.py\<close>, and the requests for
    resources in \<open>urls_logic.py\<close>): accounts, roles and bindings, how they change and what they
    permit; the locale \<open>named_collection\<close> is the contract of the three lists. \<open>RbacBackend\<close>
    (\<open>src-tauri/src/rbac_connection.rs\<close>) joins it with the editor of the GUI.
  \<^item> \<open>SnapshotServer\<close> (\<open>nodes/control_plane/main.py\<close>, \<open>urls_logic.py\<close>, \<open>views.py\<close>): which nodes a control plane holds
    to be in step, and the snapshot the tables and the warning of the GUI are drawn from.
  \<^item> \<open>Schema\<close> (\<open>schemaAdapter.ts\<close>, \<open>types/controlPlane.ts\<close>), \<open>DataTable\<close> (\<open>SchemaDataTable.tsx\<close>),
    \<open>ResourceTables\<close> (\<open>EventTable.tsx\<close>, \<open>NodeTable.tsx\<close>, \<open>GroupConfigTable.tsx\<close>), \<open>Manifest\<close>
    (\<open>controlPlaneSchema.ts\<close>): tables: reading values along paths, sorting, filtering, selecting
    ranges, resizing, and the generated schema value for value. \<open>SchemaGenerator\<close>
    (\<open>src/structures\<close>, Python) has the structures and the generator, which gives exactly this schema;
    \<open>ManifestCopy\<close> (\<open>src/scripts/apps\<close>) is an older output of it, compared with the new one.
  \<^item> \<open>Maintenance\<close> (\<open>logger.ts\<close>, \<open>update.ts\<close>, \<open>standalone.ts\<close>, \<open>useMaintenanceSettings.ts\<close>): log
    levels (an instance of \<open>linorder\<close>), updates and node services; the locales \<open>busy_flag\<close> and
    \<open>busy_handler\<close> state that a handler gives its flag back, and are interpreted on all seven
    handlers and on the two of the RBAC editor.
  \<^item> \<open>ViewModel\<close> (\<open>useAppViewModel.ts\<close>), \<open>Views\<close> (\<open>modules/app/components\<close>, \<open>Icon.tsx\<close>), \<open>Rbac\<close>
    (\<open>RbacYamlEditor.tsx\<close>), \<open>AgentConsole\<close> (\<open>AgentConsole.tsx\<close>): what is shown.
  \<^item> \<open>AppShell\<close> (\<open>App.tsx\<close>, \<open>useAppEffects.ts\<close>, \<open>HorizontalSubWindow.tsx\<close>) and \<open>AppSafety\<close>: the
    composition and the properties that span components. \<open>Application\<close> adds what the window
    renders and one step relation of all handlers, effects, timers and settling requests. \<open>EventView\<close>
    adds the event table with its detail pane and the scroll listener that asks for more events.
    \<open>TabControls\<close> (\<open>SortableTab.tsx\<close>, \<open>HorizontalSortableTab.tsx\<close>, \<open>Icon.tsx\<close>) has the controls of the tabs under mouse
    and keyboard, with events that bubble, and the handle that resizes the sub-window.
  \<^item> \<open>InstallResolver\<close> (\<open>landing/app/api/install\<close>, \<open>landing/proxy.ts\<close>), \<open>InstallPage\<close>
    (\<open>InstallSection.tsx\<close>): the redirect of the installer and the download cards that lead to it.
    \<open>LandingPage\<close> (\<open>page.tsx\<close>, \<open>HeroCanvas.tsx\<close>, \<open>Navigation.tsx\<close>, \<open>HeroSection.tsx\<close>): the
    active section, the ribbon and its animation, the navigation and the copy button; \<open>CanvasMount\<close> has the
    listeners and graphics objects of the canvas from mounting to unmounting. \<open>SiteMarkup\<close>,
    \<open>SiteSections\<close> and \<open>SitePages\<close> (the components of \<open>landing/app\<close>, \<open>layout.tsx\<close>, \<open>sitemap.ts\<close>,
    \<open>robots.ts\<close>): what each section renders, its animations, the effects of the page, and its metadata.
  \<^item> \<open>ReleaseScripts\<close> (\<open>.github/scripts/*.mjs\<close>, \<open>run-export-structures.mjs\<close>): versions, release
    modes, manifests, notes; the precedence of versions is an instance of \<open>linorder\<close>.

  \<^bold>\<open>What is shown.\<close> Invariants under every interleaving (tabs, sub-window, fetch counter, event requests, and all of
  them together for the whole window);
  functional correctness of the operations on every branch (closing, opening, merging pages, sorting,
  range selection, deleting resources, connecting, loading, deleting), connecting and deleting together
  with the store of the backend; an invariant of that store; the check of a request against the meaning of the access
  rights, their invariant, and that deleting only takes rights away; the snapshot shows the group; the generated schema is
  the one compiled in; refinement of the
  event cache and the server's log together to an interval, and of the page as it is rendered to the
  lists the other theories work with; termination and liveness (requests
  drain, scrolling reaches the first event, the animation comes to rest); equivalence of the server's
  binary search with the page it means; round trips (detached tabs of both kinds, connection texts, argument lists, the YAML scan); bounds;
  safety of the installer's redirect; every link of the page leads somewhere. Some theorems state where the code falls short of what it means to do: the numbers of
  console lines, the hole a refresh can leave in the log, the page that revives a forgotten cluster,
  the tab that is active without being open, the deletion that reaches another cluster, the dot no
  section lights, the listed resources that cannot be changed, the column that calls every account disabled, the
  warning that never appears, the close button the Enter key does not press; others of this
  kind stand beside them without being listed.

  \<^bold>\<open>Bounds.\<close> Every loop of the source is a structural recursion here, but for the
  binary search of the server (\<open>bisect\<close>), whose termination is proved with the width of its range
  as the measure, and the stripping of item marks (\<open>trim_items\<close>), which shortens its text. Fuel
  has only the sample value of a structure (\<open>sample_value\<close>): structures may mention each
  other; \<open>generated_manifest\<close> holds for every fuel, none at all included.

  \<^bold>\<open>Not modelled.\<close> The rest of the Tauri backend (Rust: signing, the transport of snapshots, updates and
  node services), which is glue around libraries, and of the control plane (Python: signatures, the synchronisation of
  control planes, failover, joining), which the GUI reaches only through what is modelled; of a join, a promotion
  and a synchronisation, \<open>SnapshotServer\<close> has what they note about the nodes. The style sheets
  embedded in the sections of the web site and what three.js draws; the wrapper around CodeMirror; the pixels to which DOM
  elements scroll; tests and build configuration. What is left of the TypeScript is imports, declarations of
  properties and embedded style sheets.

  \<^bold>\<open>Extensions.\<close> The invariant that every request in flight belongs to a stored cluster or was overtaken by its deletion;
  concurrent loads of connections; the synchronisation of control planes as a protocol; the UTF-16
  reading of strings beyond one byte.
\<close>

end
